(* ===== verification/Go_Prelude.thy ===== *)
theory Go_Prelude
  imports Main "HOL-Library.Word"
begin

section \<open>Go handlers as programs with early returns, panics and a call trace\<close>

text \<open>
  The shared layer of the development. A Go function of the repository that talks to a
  service is a state-passing program \<open>('s, 'r, 'a) go\<close>: it ends in a value of type \<open>'a\<close>
  (execution goes on), in \<open>Return r\<close> (a \<open>return\<close> statement of the enclosing handler) or in
  \<open>Panic\<close> (a run-time panic: a nil pointer is dereferenced or an index is out of range).
  The state \<open>('w, 'o) rst\<close> of a handler holds the API object it works on (\<open>obj\<close>), the
  world outside the program (\<open>world\<close>, an arbitrary type: Kubernetes and Cloud Director are
  parameters of the model) and the list of the calls made so far with the error each of
  them reported (\<open>trace\<close>).

  Reasoning is by weakest preconditions: \<open>wp m Q E s\<close> says that \<open>m\<close>, started in \<open>s\<close>, ends
  normally in a state satisfying \<open>Q\<close> or leaves the handler in a state satisfying \<open>E\<close>. The
  rules are collected in \<open>wp\<close>. The second half holds the frame relation that every
  operation of the controllers satisfies and the generic lemmas on lists and machine integers.
\<close>

named_theorems wp \<open>weakest-precondition equations of the program combinators\<close>

subsection \<open>Programs\<close>

datatype go_panic = NilDereference | IndexOutOfRange

datatype 'r exit = Return (the_return: 'r) | Panic go_panic

type_synonym ('s, 'r, 'a) go = "'s \<Rightarrow> ('r exit + 'a) \<times> 's"

definition go_return :: "'a \<Rightarrow> ('s, 'r, 'a) go" where
  "go_return x = (\<lambda>s. (Inr x, s))"

definition go_exit :: "'r \<Rightarrow> ('s, 'r, 'a) go" where
  "go_exit r = (\<lambda>s. (Inl (Return r), s))"

definition panic :: "go_panic \<Rightarrow> ('s, 'r, 'a) go" where
  "panic p = (\<lambda>s. (Inl (Panic p), s))"

definition go_bind :: "('s, 'r, 'a) go \<Rightarrow> ('a \<Rightarrow> ('s, 'r, 'b) go) \<Rightarrow> ('s, 'r, 'b) go" where
  "go_bind m f = (\<lambda>s. case m s of
     (Inl e, s') \<Rightarrow> (Inl e, s')
   | (Inr x, s') \<Rightarrow> f x s')"

definition deref :: "'a option \<Rightarrow> ('s, 'r, 'a) go" where
  \<comment> \<open>a field of a pointer is read: a nil pointer panics\<close>
  "deref p = (case p of None \<Rightarrow> panic NilDereference | Some x \<Rightarrow> go_return x)"

definition go_index0 :: "'a list \<Rightarrow> ('s, 'r, 'a) go" where
  \<comment> \<open>\<open>xs[0]\<close>\<close>
  "go_index0 xs = (case xs of [] \<Rightarrow> panic IndexOutOfRange | x # _ \<Rightarrow> go_return x)"

definition lift_panic :: "go_panic + 'a \<Rightarrow> ('s, 'r, 'a) go" where
  "lift_panic v = (case v of Inl p \<Rightarrow> panic p | Inr x \<Rightarrow> go_return x)"

definition finish :: "('s, 'r, 'r) go \<Rightarrow> 's \<Rightarrow> 'r exit \<times> 's" where
  \<comment> \<open>the handler as its caller sees it: falling off the last statement is a return\<close>
  "finish m s = (case m s of (Inl e, s') \<Rightarrow> (e, s') | (Inr r, s') \<Rightarrow> (Return r, s'))"

subsection \<open>Errors, calls and the state of a handler\<close>

text \<open>
  A Go error value: one the repository makes with \<^verbatim>\<open>errors.New\<close>, or one of another
  package, told apart by a tag besides its message.
\<close>

datatype goerror = ErrorString string | ExternalError nat string

fun errError :: "goerror \<Rightarrow> string" where
  \<comment> \<open>the method \<^verbatim>\<open>Error()\<close>\<close>
  "errError (ErrorString m) = m"
| "errError (ExternalError _ m) = m"

record ('w, 'o, 'c) rst =
  obj :: 'o
  world :: 'w
  trace :: "('c \<times> goerror option) list"

definition call :: "'c \<Rightarrow> ('w \<Rightarrow> ('a \<times> goerror option) \<times> 'w)
    \<Rightarrow> (('w, 'o, 'c) rst, 'r, 'a \<times> goerror option) go" where
  \<comment> \<open>a call that returns a value and an error\<close>
  "call c f = (\<lambda>s. case f (world s) of
     (r, w') \<Rightarrow> (Inr r, s\<lparr>world := w', trace := trace s @ [(c, snd r)]\<rparr>))"

definition call_err :: "'c \<Rightarrow> ('w \<Rightarrow> goerror option \<times> 'w)
    \<Rightarrow> (('w, 'o, 'c) rst, 'r, goerror option) go" where
  \<comment> \<open>a call that returns an error only\<close>
  "call_err c f = (\<lambda>s. case f (world s) of
     (e, w') \<Rightarrow> (Inr e, s\<lparr>world := w', trace := trace s @ [(c, e)]\<rparr>))"

definition call_get :: "'c \<Rightarrow> ('w \<Rightarrow> (goerror + 'a) \<times> 'w)
    \<Rightarrow> (('w, 'o, 'c) rst, 'r, goerror + 'a) go" where
  \<comment> \<open>\<open>r.Get(ctx, key, &x)\<close>: the object, or an error\<close>
  "call_get c f = (\<lambda>s. case f (world s) of
     (r, w') \<Rightarrow> (Inr r, s\<lparr>world := w',
        trace := trace s @ [(c, case r of Inl e \<Rightarrow> Some e | Inr _ \<Rightarrow> None)]\<rparr>))"

definition call_panic :: "'c \<Rightarrow> ('w \<Rightarrow> (go_panic + 'a \<times> goerror option) \<times> 'w)
    \<Rightarrow> (('w, 'o, 'c) rst, 'r, 'a \<times> goerror option) go" where
  \<comment> \<open>a call of another component of the repository, whose panic is the caller's\<close>
  "call_panic c f = (\<lambda>s. case f (world s) of
     (Inl p, w') \<Rightarrow> (Inl (Panic p), s\<lparr>world := w'\<rparr>)
   | (Inr r, w') \<Rightarrow> (Inr r, s\<lparr>world := w', trace := trace s @ [(c, snd r)]\<rparr>))"

definition get_obj :: "(('w, 'o, 'c) rst, 'r, 'o) go" where
  "get_obj = (\<lambda>s. (Inr (obj s), s))"

definition modify_obj :: "('o \<Rightarrow> 'o) \<Rightarrow> (('w, 'o, 'c) rst, 'r, unit) go" where
  "modify_obj f = (\<lambda>s. (Inr (), s\<lparr>obj := f (obj s)\<rparr>))"

lemma go_bind_assoc: "go_bind (go_bind m f) g = go_bind m (\<lambda>x. go_bind (f x) g)"
  by (auto simp: go_bind_def fun_eq_iff split: prod.splits sum.splits)

lemma go_bind_return [simp]: "go_bind (go_return x) f = f x" "go_bind m go_return = m"
  by (auto simp: go_bind_def go_return_def fun_eq_iff split: prod.splits sum.splits)

subsection \<open>Weakest preconditions\<close>

definition wp :: "('s, 'r, 'a) go \<Rightarrow> ('a \<Rightarrow> 's \<Rightarrow> bool) \<Rightarrow> ('r exit \<Rightarrow> 's \<Rightarrow> bool) \<Rightarrow> 's \<Rightarrow> bool" where
  "wp m Q E s = (case m s of (Inl e, s') \<Rightarrow> E e s' | (Inr x, s') \<Rightarrow> Q x s')"

lemma wp_return [wp]: "wp (go_return x) Q E s = Q x s"
  by (simp add: wp_def go_return_def)

lemma wp_exit [wp]: "wp (go_exit r) Q E s = E (Return r) s"
  by (simp add: wp_def go_exit_def)

lemma wp_panic [wp]: "wp (panic p) Q E s = E (Panic p) s"
  by (simp add: wp_def panic_def)

lemma wp_bind [wp]: "wp (go_bind m f) Q E s = wp m (\<lambda>x. wp (f x) Q E) E s"
  by (simp add: wp_def go_bind_def split: prod.splits sum.splits)

lemma wp_deref [wp]:
  "wp (deref p) Q E s = (case p of None \<Rightarrow> E (Panic NilDereference) s | Some x \<Rightarrow> Q x s)"
  by (simp add: deref_def wp split: option.splits)

lemma wp_index0 [wp]:
  "wp (go_index0 xs) Q E s = (case xs of [] \<Rightarrow> E (Panic IndexOutOfRange) s | x # _ \<Rightarrow> Q x s)"
  by (simp add: go_index0_def wp split: list.splits)

lemma wp_lift_panic [wp]:
  "wp (lift_panic v) Q E s = (case v of Inl p \<Rightarrow> E (Panic p) s | Inr x \<Rightarrow> Q x s)"
  by (simp add: lift_panic_def wp split: sum.splits)

lemma wp_get_obj [wp]: "wp get_obj Q E s = Q (obj s) s"
  by (simp add: wp_def get_obj_def)

lemma wp_modify_obj [wp]: "wp (modify_obj f) Q E s = Q () (s\<lparr>obj := f (obj s)\<rparr>)"
  by (simp add: wp_def modify_obj_def)

lemma wp_call [wp]:
  "wp (call c f) Q E s = (\<forall>x e w'. f (world s) = ((x, e), w') \<longrightarrow>
     Q (x, e) (s\<lparr>world := w', trace := trace s @ [(c, e)]\<rparr>))"
  by (cases "f (world s)") (auto simp: wp_def call_def)

lemma wp_call_err [wp]:
  "wp (call_err c f) Q E s = (\<forall>e w'. f (world s) = (e, w') \<longrightarrow>
     Q e (s\<lparr>world := w', trace := trace s @ [(c, e)]\<rparr>))"
  by (cases "f (world s)") (auto simp: wp_def call_err_def)

lemma wp_call_get [wp]:
  "wp (call_get c f) Q E s \<longleftrightarrow>
     (\<forall>e w'. f (world s) = (Inl e, w') \<longrightarrow>
        Q (Inl e) (s\<lparr>world := w', trace := trace s @ [(c, Some e)]\<rparr>)) \<and>
     (\<forall>x w'. f (world s) = (Inr x, w') \<longrightarrow>
        Q (Inr x) (s\<lparr>world := w', trace := trace s @ [(c, None)]\<rparr>))"
  by (cases "f (world s)"; cases "fst (f (world s))") (auto simp: wp_def call_get_def)

lemma wp_call_panic [wp]:
  "wp (call_panic c f) Q E s \<longleftrightarrow>
     (\<forall>p w'. f (world s) = (Inl p, w') \<longrightarrow> E (Panic p) (s\<lparr>world := w'\<rparr>)) \<and>
     (\<forall>x e w'. f (world s) = (Inr (x, e), w') \<longrightarrow>
        Q (x, e) (s\<lparr>world := w', trace := trace s @ [(c, e)]\<rparr>))"
  by (cases "f (world s)"; cases "fst (f (world s))") (auto simp: wp_def call_panic_def)

lemma wp_if [wp]: "wp (if b then m else n) Q E s = (if b then wp m Q E s else wp n Q E s)"
  by simp

lemma wp_case_option [wp]:
  "wp (case p of None \<Rightarrow> m | Some x \<Rightarrow> f x) Q E s =
     (case p of None \<Rightarrow> wp m Q E s | Some x \<Rightarrow> wp (f x) Q E s)"
  by (simp split: option.splits)

lemma wp_case_sum [wp]:
  "wp (case v of Inl x \<Rightarrow> f x | Inr y \<Rightarrow> g y) Q E s =
     (case v of Inl x \<Rightarrow> wp (f x) Q E s | Inr y \<Rightarrow> wp (g y) Q E s)"
  by (simp split: sum.splits)

lemma wp_case_prod [wp]:
  "wp (case v of (x, y) \<Rightarrow> f x y) Q E s = (case v of (x, y) \<Rightarrow> wp (f x y) Q E s)"
  by (simp split: prod.splits)

lemma wp_let [wp]: "wp (let x = v in f x) Q E s = (let x = v in wp (f x) Q E s)"
  by (simp add: Let_def)

text \<open>A proved triple is used at a larger program through monotonicity.\<close>

lemma wp_mono:
  assumes "wp m Q E s"
    and "\<And>x s'. Q x s' \<Longrightarrow> Q' x s'"
    and "\<And>e s'. E e s' \<Longrightarrow> E' e s'"
  shows "wp m Q' E' s"
  using assms by (auto simp: wp_def split: prod.splits sum.splits)

lemma wp_conj:
  "wp m Q E s \<Longrightarrow> wp m Q' E' s \<Longrightarrow>
    wp m (\<lambda>x s'. Q x s' \<and> Q' x s') (\<lambda>e s'. E e s' \<and> E' e s') s"
  by (auto simp: wp_def split: prod.splits sum.splits)

lemma wp_finish:
  assumes "wp m (\<lambda>r. E (Return r)) E s"
  shows "finish m s = (e, s') \<Longrightarrow> E e s'"
  using assms by (auto simp: wp_def finish_def split: prod.splits sum.splits)

lemma finish_wp: "finish m s = (e, s') \<longleftrightarrow>
    wp m (\<lambda>r t. e = Return r \<and> s' = t) (\<lambda>x t. e = x \<and> s' = t) s"
  by (auto simp: wp_def finish_def split: prod.splits sum.splits)

subsection \<open>Traces\<close>

text \<open>
  \<open>extends C s s'\<close>: the handler went from \<open>s\<close> to \<open>s'\<close> by calls of the class \<open>C\<close> only. Calls
  are never taken back, so the trace grows at its end.
\<close>

definition extends :: "('c \<Rightarrow> bool) \<Rightarrow> ('w, 'o, 'c) rst \<Rightarrow> ('w, 'o, 'c) rst \<Rightarrow> bool" where
  "extends C s s' \<longleftrightarrow> (\<exists>evs. trace s' = trace s @ evs \<and> (\<forall>ev \<in> set evs. C (fst ev)))"

lemma extends_refl [simp]: "extends C s s"
  by (simp add: extends_def)

lemma extends_trans [trans]: "extends C s t \<Longrightarrow> extends C t u \<Longrightarrow> extends C s u"
  unfolding extends_def by fastforce

lemma extends_mono: "extends C s t \<Longrightarrow> (\<And>c. C c \<Longrightarrow> D c) \<Longrightarrow> extends D s t"
  unfolding extends_def by blast

lemma extends_trace: "extends C s s' \<Longrightarrow> trace s @ xs = trace t \<Longrightarrow>
    (\<And>ev. ev \<in> set xs \<Longrightarrow> C (fst ev)) \<Longrightarrow> extends C s t"
  unfolding extends_def by metis

lemma extends_set: "extends C s s' \<Longrightarrow> ev \<in> set (trace s') \<Longrightarrow> ev \<in> set (trace s) \<or> C (fst ev)"
  unfolding extends_def by auto

lemma extends_keeps: "extends C s s' \<Longrightarrow> ev \<in> set (trace s) \<Longrightarrow> ev \<in> set (trace s')"
  unfolding extends_def by auto

lemma extends_step [simp]:
  "extends C s (t\<lparr>world := w, trace := trace t @ evs\<rparr>) \<longleftrightarrow>
     extends C s (t\<lparr>trace := trace t @ evs\<rparr>)"
  by (simp add: extends_def)

lemma extends_snoc:
  "extends C s t \<Longrightarrow> C c \<Longrightarrow> extends C s (t\<lparr>world := w, trace := trace t @ [(c, e)]\<rparr>)"
  unfolding extends_def by auto

lemma extends_world [simp]: "extends C s (t\<lparr>world := w\<rparr>) = extends C s t"
  by (simp add: extends_def)

lemma extends_obj [simp]: "extends C s (t\<lparr>obj := ob\<rparr>) = extends C s t"
  by (simp add: extends_def)

end
