(* ===== verification/Api_V1alpha1.thy ===== *)
theory Api_V1alpha1
  imports Go_Prelude
begin

section \<open>The API types (src/api/v1alpha1)\<close>

text \<open>
  The custom resources of the provider and the parts of the Kubernetes and Cluster API
  types they embed: a Go struct is a record with the source's field names (prefixed, as
  field names are constants), a pointer is an option, \<^verbatim>\<open>int64\<close> and \<^verbatim>\<open>int\<close> are 64-bit words read
  as two's complement, \<^verbatim>\<open>int32\<close> is a 32-bit word. The condition types and reasons of
  \<^verbatim>\<open>condition_consts.go\<close> are the strings of the source.

  Both resources implement the Cluster API interface \<^verbatim>\<open>conditions.Setter\<close>: the locale
  \<open>conditions_object\<close> states what that interface promises, the lemmas every client of it
  uses are proved there once, and both implementations are interpretations of it.
\<close>

type_synonym int64 = "64 word"
type_synonym int32 = "32 word"

subsection \<open>Kubernetes and Cluster API data\<close>

record NamespacedName =
  nnName :: string
  nnNamespace :: string

record ObjectMeta =
  metaName :: string
  metaNamespace :: string
  metaUID :: string
  metaLabels :: "(string \<times> string) list"
  metaFinalizers :: "string list"
  metaDeletionTimestamp :: "int option"

type_synonym ConditionType = string

record Condition =
  condType :: ConditionType
  condStatus :: string
  condSeverity :: string
  condReason :: string
  condMessage :: string

type_synonym Conditions = "Condition list"

record APIEndpoint =
  endpointHost :: string
  endpointPort :: int32

record MachineAddress =
  addressType :: string
  addressAddress :: string

text \<open>The parts of \<^verbatim>\<open>clusterv1.Machine\<close> and \<^verbatim>\<open>clusterv1.Cluster\<close> the controllers read.\<close>

record Machine =
  machineMeta :: ObjectMeta
  machineDataSecretName :: "string option"

record ObjectReference =
  refName :: string

record Cluster =
  clusterMeta :: ObjectMeta
  clusterInfrastructureRef :: "ObjectReference option"
  clusterControlPlaneRef :: "ObjectReference option"
  clusterInfrastructureReady :: bool
  clusterConditions :: Conditions

record Secret =
  secretName :: string
  secretNamespace :: string
  secretData :: "string \<rightharpoonup> string"

subsection \<open>CloudDirectorTenantCluster\<close>

record CloudDirectorTenantIdentityRef =
  identityKind :: string
  identityName :: string

record CloudDirectorReference =
  cdrID :: string
  cdrName :: string

record CloudDirectorTenantClusterSpec =
  csControlPlaneEndpoint :: APIEndpoint
  csOrganization :: string
  csVirtualDataCenter :: string
  csEdgeGateway :: string
  csNetwork :: string
  csServiceEngineGroup :: string
  csIdentityRef :: "CloudDirectorTenantIdentityRef option"
  csUseUIDForNames :: bool

record CloudDirectorTenantClusterStatus =
  ctReady :: bool
  ctVirtualService :: "CloudDirectorReference option"
  ctVApp :: "CloudDirectorReference option"
  ctIPSet :: "CloudDirectorReference option"
  ctPool :: "CloudDirectorReference option"
  ctConditions :: Conditions

record CloudDirectorTenantCluster =
  tcMeta :: ObjectMeta
  tcSpec :: CloudDirectorTenantClusterSpec
  tcStatus :: CloudDirectorTenantClusterStatus

definition tc_GetConditions :: "CloudDirectorTenantCluster \<Rightarrow> Conditions" where
  "tc_GetConditions c = ctConditions (tcStatus c)"

definition tc_SetConditions :: "Conditions \<Rightarrow> CloudDirectorTenantCluster \<Rightarrow> CloudDirectorTenantCluster" where
  "tc_SetConditions cs c = c\<lparr>tcStatus := (tcStatus c)\<lparr>ctConditions := cs\<rparr>\<rparr>"

subsection \<open>CloudDirectorTenantMachine\<close>

record AdditionalDisk =
  adName :: string
  adSizeMiB :: int64

record CloudDirectorTenantMachineSpec =
  msProviderID :: string
  msCatalog :: string
  msTemplate :: string
  msNetworkAdapterType :: string
  msMemoryResourceMiB :: int64
  msNumCPUs :: int64
  msDiskResourceMiB :: int64
  msAdditionalDisks :: "AdditionalDisk list"

record CloudDirectorTenantMachineStatus =
  mtReady :: bool
  mtAddresses :: "MachineAddress list"
  mtConditions :: Conditions

record CloudDirectorTenantMachine =
  tmMeta :: ObjectMeta
  tmSpec :: CloudDirectorTenantMachineSpec
  tmStatus :: CloudDirectorTenantMachineStatus

definition tm_GetConditions :: "CloudDirectorTenantMachine \<Rightarrow> Conditions" where
  "tm_GetConditions m = mtConditions (tmStatus m)"

definition tm_SetConditions :: "Conditions \<Rightarrow> CloudDirectorTenantMachine \<Rightarrow> CloudDirectorTenantMachine" where
  "tm_SetConditions cs m = m\<lparr>tmStatus := (tmStatus m)\<lparr>mtConditions := cs\<rparr>\<rparr>"

subsection \<open>Condition types and reasons\<close>

definition VirtualServiceReadyCondition :: ConditionType where
  "VirtualServiceReadyCondition = ''VirtualServiceReady''"
definition VirtualServiceCreateFailedReason :: string where
  "VirtualServiceCreateFailedReason = ''VirtualServiceCreateFailed''"
definition PoolReadyCondition :: ConditionType where
  "PoolReadyCondition = ''PoolReady''"
definition IPSetReadyCondition :: ConditionType where
  "IPSetReadyCondition = ''IPSetReady''"
definition VAppReadyCondition :: ConditionType where
  "VAppReadyCondition = ''VAppReady''"
definition VAppCreateFailedReason :: string where
  "VAppCreateFailedReason = ''VAppCreateFailed''"
definition ExternalIPAddressReady :: ConditionType where
  "ExternalIPAddressReady = ''ExternalIPAddressReady''"
definition ExternalIPAddressGetUnusedFailedReason :: string where
  "ExternalIPAddressGetUnusedFailedReason = ''ExternalIPAddressGetUnusedFailed''"
definition VirtualMachineReadyCondition :: ConditionType where
  "VirtualMachineReadyCondition = ''VirtualMachineReady''"
definition WaitingForClusterInfrastructureReason :: string where
  "WaitingForClusterInfrastructureReason = ''WaitingForClusterInfrastructure''"
definition WaitingForBootstrapDataReason :: string where
  "WaitingForBootstrapDataReason = ''WaitingForBootstrapData''"
definition CatalogNotFoundReason :: string where
  "CatalogNotFoundReason = ''CatalogNotFound''"
definition TemplateNotFoundReason :: string where
  "TemplateNotFoundReason = ''TemplateNotFound''"
definition CloudDirectorErrorReason :: string where
  "CloudDirectorErrorReason = ''CloudDirectorError''"
definition AddVirtualMachineErrorReason :: string where
  "AddVirtualMachineErrorReason = ''AddVirtualMachineError''"
definition UpdateVirtualMachineSpecSectionErrorReason :: string where
  "UpdateVirtualMachineSpecSectionErrorReason = ''UpdateVirtualMachineSpecSectionError''"
definition VirtualMachinePowerOnErrorReason :: string where
  "VirtualMachinePowerOnErrorReason = ''VirtualMachinePowerOnError''"
definition LoadBalancerMemberCondition :: ConditionType where
  "LoadBalancerMemberCondition = ''LoadBalancerMember''"

subsection \<open>The interface of an object with conditions\<close>

locale conditions_object =
  fixes GetConditions :: "'o \<Rightarrow> Conditions"
    and SetConditions :: "Conditions \<Rightarrow> 'o \<Rightarrow> 'o"
  assumes get_set: "GetConditions (SetConditions cs x) = cs"
    and set_set: "SetConditions cs (SetConditions ds x) = SetConditions cs x"
    and set_get: "SetConditions (GetConditions x) x = x"
begin

lemma update_update:
  "SetConditions (g (GetConditions (SetConditions (f (GetConditions x)) x)))
     (SetConditions (f (GetConditions x)) x) = SetConditions (g (f (GetConditions x))) x"
  by (simp add: get_set set_set)

lemma set_inject: "SetConditions cs x = SetConditions ds x \<longleftrightarrow> cs = ds"
  by (metis get_set)

lemma same_up_to_conditions:
  "(\<exists>cs. y = SetConditions cs x) \<longleftrightarrow> SetConditions (GetConditions x) y = x"
  by (metis set_get set_set)

lemma same_up_to_conditions_trans:
  "SetConditions (GetConditions x) y = x \<Longrightarrow> SetConditions (GetConditions y) z = y \<Longrightarrow>
    SetConditions (GetConditions x) z = x"
  by (metis set_set set_get)

end

interpretation tc: conditions_object tc_GetConditions tc_SetConditions
  by unfold_locales (simp_all add: tc_GetConditions_def tc_SetConditions_def)

interpretation tm: conditions_object tm_GetConditions tm_SetConditions
  by unfold_locales (simp_all add: tm_GetConditions_def tm_SetConditions_def)

lemma tc_SetConditions_fields [simp]:
  "tcMeta (tc_SetConditions cs c) = tcMeta c"
  "tcSpec (tc_SetConditions cs c) = tcSpec c"
  "ctReady (tcStatus (tc_SetConditions cs c)) = ctReady (tcStatus c)"
  "ctVirtualService (tcStatus (tc_SetConditions cs c)) = ctVirtualService (tcStatus c)"
  "ctVApp (tcStatus (tc_SetConditions cs c)) = ctVApp (tcStatus c)"
  "ctIPSet (tcStatus (tc_SetConditions cs c)) = ctIPSet (tcStatus c)"
  "ctPool (tcStatus (tc_SetConditions cs c)) = ctPool (tcStatus c)"
  by (simp_all add: tc_SetConditions_def)

lemma tm_SetConditions_fields [simp]:
  "tmMeta (tm_SetConditions cs m) = tmMeta m"
  "tmSpec (tm_SetConditions cs m) = tmSpec m"
  "mtReady (tmStatus (tm_SetConditions cs m)) = mtReady (tmStatus m)"
  "mtAddresses (tmStatus (tm_SetConditions cs m)) = mtAddresses (tmStatus m)"
  by (simp_all add: tm_SetConditions_def)

end
