(* ===== verification/Go_Std.thy ===== *)
theory Go_Std
  imports Go_Prelude "HOL-Library.Char_ord" "HOL-Library.List_Lexorder"
    "HOL-Library.Product_Lexorder"
begin

unbundle bit_operations_syntax

section \<open>The parts of Go's standard library that the repository uses\<close>

text \<open>
  Executable models of the standard-library functions the controllers call: decimal
  printing (\<^verbatim>\<open>text/template\<close> on integers), \<^verbatim>\<open>base64.StdEncoding.EncodeToString\<close>,
  \<^verbatim>\<open>slices.ContainsFunc\<close> and \<^verbatim>\<open>slices.DeleteFunc\<close>, \<^verbatim>\<open>hash/fnv.New32\<close>, the package
  \<^verbatim>\<open>net/netip\<close> (\<^verbatim>\<open>ParseAddr\<close>, \<^verbatim>\<open>Addr.Compare\<close>, \<^verbatim>\<open>Addr.String\<close>) and
  \<^verbatim>\<open>Regexp.ReplaceAllString\<close> for the one expression the cluster controller compiles.
  A byte is a \<open>char\<close>, so a Go string and a byte slice are both a \<open>string\<close>.

  The lemmas: decimal printing is injective and parses back, base64 decodes to what was
  encoded, \<^verbatim>\<open>Addr.Compare\<close> is the order of a \<open>linorder\<close> instance of \<open>addr\<close>, and printing an
  IPv4 address and parsing the text gives the address back.
\<close>

subsection \<open>Decimal printing\<close>

definition digit_char :: "nat \<Rightarrow> char" where
  "digit_char d = ''0123456789'' ! d"

fun dec :: "nat \<Rightarrow> string" where
  "dec n = (if n < 10 then [digit_char n] else dec (n div 10) @ [digit_char (n mod 10)])"

declare dec.simps [simp del]

definition itoa :: "int \<Rightarrow> string" where
  "itoa i = (if i < 0 then ''-'' @ dec (nat (- i)) else dec (nat i))"

definition is_digit :: "char \<Rightarrow> bool" where
  "is_digit c \<longleftrightarrow> 48 \<le> (of_char c :: nat) \<and> (of_char c :: nat) \<le> 57"

definition digit_val :: "char \<Rightarrow> nat" where
  "digit_val c = of_char c - 48"

definition dec_val :: "string \<Rightarrow> nat" where
  "dec_val s = foldl (\<lambda>a c. a * 10 + digit_val c) 0 s"

subsection \<open>slices\<close>

definition slices_ContainsFunc :: "'a list \<Rightarrow> ('a \<Rightarrow> bool) \<Rightarrow> bool" where
  "slices_ContainsFunc xs p = list_ex p xs"

definition slices_DeleteFunc :: "'a list \<Rightarrow> ('a \<Rightarrow> bool) \<Rightarrow> 'a list" where
  "slices_DeleteFunc xs p = filter (\<lambda>x. \<not> p x) xs"

subsection \<open>base64.StdEncoding\<close>

definition b64_alphabet :: string where
  "b64_alphabet = ''ABCDEFGHIJKLMNOPQRSTUVWXYZabcdefghijklmnopqrstuvwxyz0123456789+/''"

definition b64_char :: "nat \<Rightarrow> char" where
  "b64_char n = b64_alphabet ! (n mod 64)"

fun b64_encode :: "string \<Rightarrow> string" where
  "b64_encode [] = []"
| "b64_encode [a] =
     (let n = of_char a * 16 in [b64_char (n div 64), b64_char n, CHR ''='', CHR ''=''])"
| "b64_encode [a, b] =
     (let n = (of_char a * 256 + of_char b) * 4
      in [b64_char (n div 4096), b64_char (n div 64), b64_char n, CHR ''=''])"
| "b64_encode (a # b # c # rest) =
     (let n = (of_char a * 256 + of_char b) * 256 + of_char c
      in b64_char (n div 262144) # b64_char (n div 4096) # b64_char (n div 64) # b64_char n
         # b64_encode rest)"

text \<open>A reference decoder (what the guest does with the value), to state the round trip.\<close>

fun b64_index :: "string \<Rightarrow> char \<Rightarrow> nat" where
  "b64_index [] c = 0"
| "b64_index (x # xs) c = (if x = c then 0 else Suc (b64_index xs c))"

definition b64_val :: "char \<Rightarrow> nat" where
  "b64_val c = b64_index b64_alphabet c"

fun b64_decode :: "string \<Rightarrow> string" where
  "b64_decode (a # b # c # d # rest) =
     (if c = CHR ''='' then [char_of ((b64_val a * 64 + b64_val b) div 16)]
      else if d = CHR ''='' then
        (let n = ((b64_val a * 64 + b64_val b) * 64 + b64_val c) div 4
         in [char_of (n div 256), char_of (n mod 256)])
      else
        (let n = ((b64_val a * 64 + b64_val b) * 64 + b64_val c) * 64 + b64_val d
         in char_of (n div 65536) # char_of (n div 256 mod 256) # char_of (n mod 256)
            # b64_decode rest))"
| "b64_decode xs = []"

subsection \<open>hash/fnv: the 32-bit FNV-1 hash\<close>

definition fnv_offset32 :: "32 word" where
  "fnv_offset32 = 2166136261"

definition fnv_prime32 :: "32 word" where
  "fnv_prime32 = 16777619"

fun fnv_Write :: "32 word \<Rightarrow> string \<Rightarrow> 32 word" where
  "fnv_Write h [] = h"
| "fnv_Write h (c # cs) = fnv_Write ((h * fnv_prime32) XOR of_char c) cs"

subsection \<open>net/netip\<close>

text \<open>The zero value, an IPv4 address, or an IPv6 address with its zone (\<open>''''\<close>: none).\<close>

datatype addr = AddrZero | Addr4 "32 word" | Addr6 "128 word" string

definition horner256 :: "nat list \<Rightarrow> nat" where
  "horner256 bs = foldl (\<lambda>acc b. acc * 256 + b) 0 bs"

fun parseIPv4Fields :: "string \<Rightarrow> bool \<Rightarrow> nat \<Rightarrow> nat \<Rightarrow> nat list \<Rightarrow> goerror + nat list" where
  \<comment> \<open>the flag: at the first character, or right after a dot\<close>
  "parseIPv4Fields [] _ val _ fs =
     (if length fs < 3 then Inl (ErrorString ''IPv4 address too short'') else Inr (fs @ [val]))"
| "parseIPv4Fields (c # cs) after_dot val digLen fs =
     (if is_digit c then
        if digLen = 1 \<and> val = 0 then Inl (ErrorString ''IPv4 field has octet with leading zero'')
        else if val * 10 + digit_val c > 255 then Inl (ErrorString ''IPv4 field has value >255'')
        else parseIPv4Fields cs False (val * 10 + digit_val c) (Suc digLen) fs
      else if c = CHR ''.'' then
        if after_dot \<or> cs = [] then Inl (ErrorString ''IPv4 field must have at least one digit'')
        else if length fs = 3 then Inl (ErrorString ''IPv4 address too long'')
        else parseIPv4Fields cs True 0 0 (fs @ [val])
      else Inl (ErrorString ''unexpected character''))"

definition parseIPv4 :: "string \<Rightarrow> goerror + addr" where
  "parseIPv4 s = (case parseIPv4Fields s True 0 0 [] of
     Inl e \<Rightarrow> Inl e | Inr fs \<Rightarrow> Inr (Addr4 (of_nat (horner256 fs))))"

definition hex_val :: "char \<Rightarrow> nat option" where
  "hex_val c = (let n = of_char c in
     if 48 \<le> n \<and> n \<le> 57 then Some (n - 48)
     else if 97 \<le> n \<and> n \<le> 102 then Some (n - 87)
     else if 65 \<le> n \<and> n \<le> 70 then Some (n - 55) else None)"

fun hex_run :: "string \<Rightarrow> nat \<Rightarrow> nat \<Rightarrow> goerror + nat \<times> nat \<times> string" where
  "hex_run [] off acc = Inr (acc, off, [])"
| "hex_run (c # cs) off acc = (case hex_val c of
     None \<Rightarrow> Inr (acc, off, c # cs)
   | Some d \<Rightarrow>
       if off > 3 then Inl (ErrorString ''each group must have 4 or less digits'')
       else if acc * 16 + d > 65535 then Inl (ErrorString ''IPv6 field has value >=2^16'')
       else hex_run cs (Suc off) (acc * 16 + d))"

fun parseIPv6_loop :: "nat \<Rightarrow> string \<Rightarrow> nat option \<Rightarrow> nat list
    \<Rightarrow> goerror + string \<times> nat option \<times> nat list" where
  \<comment> \<open>the first argument: how many 16-bit groups still fit; the bytes read so far come last\<close>
  "parseIPv6_loop 0 s ellipsis ip = Inr (s, ellipsis, ip)"
| "parseIPv6_loop (Suc k) s ellipsis ip = (case hex_run s 0 0 of
     Inl e \<Rightarrow> Inl e
   | Inr (acc, off, rest) \<Rightarrow>
       if off = 0 then
         Inl (ErrorString ''each colon-separated field must have at least one digit'')
       else if take 1 rest = ''.'' then
         if ellipsis = None \<and> length ip \<noteq> 12 then Inl (ErrorString
           ''embedded IPv4 address must replace the final 2 fields of the address'')
         else if length ip + 4 > 16 then Inl (ErrorString
           ''too many hex fields to fit an embedded IPv4 at the end of the address'')
         else (case parseIPv4Fields s True 0 0 [] of
             Inl e \<Rightarrow> Inl e | Inr fs \<Rightarrow> Inr ([], ellipsis, ip @ fs))
       else
         (let ip' = ip @ [acc div 256, acc mod 256] in
          case rest of
            [] \<Rightarrow> Inr ([], ellipsis, ip')
          | c # s' \<Rightarrow>
              if c \<noteq> CHR '':'' then Inl (ErrorString ''unexpected character, want colon'')
              else (case s' of
                [] \<Rightarrow> Inl (ErrorString ''colon must be followed by more characters'')
              | d # s'' \<Rightarrow>
                  if d = CHR '':'' then
                    if ellipsis \<noteq> None then Inl (ErrorString ''multiple :: in address'')
                    else if s'' = [] then Inr ([], Some (length ip'), ip')
                    else parseIPv6_loop k s'' (Some (length ip')) ip'
                  else parseIPv6_loop k (d # s'') ellipsis ip')))"

definition expand_ellipsis :: "nat option \<Rightarrow> nat list \<Rightarrow> goerror + nat list" where
  "expand_ellipsis ellipsis ip =
     (if length ip < 16 then
        (case ellipsis of
           None \<Rightarrow> Inl (ErrorString ''address string too short'')
         | Some e \<Rightarrow> Inr (take e ip @ replicate (16 - length ip) 0 @ drop e ip))
      else if ellipsis \<noteq> None then
        Inl (ErrorString ''the :: must expand to at least one field of zeros'')
      else Inr ip)"

definition parseIPv6 :: "string \<Rightarrow> goerror + addr" where
  "parseIPv6 inp =
     (let s = takeWhile (\<lambda>c. c \<noteq> CHR ''%'') inp;
          zone = drop (Suc (length s)) inp
      in if CHR ''%'' \<in> set inp \<and> zone = [] then
           Inl (ErrorString ''zone must be a non-empty string'')
         else if s = ''::'' then Inr (Addr6 0 zone)
         else (case (if take 2 s = ''::'' then parseIPv6_loop 8 (drop 2 s) (Some 0) []
                     else parseIPv6_loop 8 s None []) of
             Inl e \<Rightarrow> Inl e
           | Inr (rest, ellipsis, ip) \<Rightarrow>
               if rest \<noteq> [] then Inl (ErrorString ''trailing garbage after address'')
               else (case expand_ellipsis ellipsis ip of
                   Inl e \<Rightarrow> Inl e
                 | Inr bs \<Rightarrow> Inr (Addr6 (of_nat (horner256 bs)) zone))))"

fun ParseAddr_scan :: "string \<Rightarrow> string \<Rightarrow> goerror + addr" where
  "ParseAddr_scan inp [] = Inl (ErrorString ''unable to parse IP'')"
| "ParseAddr_scan inp (c # cs) =
     (if c = CHR ''.'' then parseIPv4 inp
      else if c = CHR '':'' then parseIPv6 inp
      else if c = CHR ''%'' then Inl (ErrorString ''missing IPv6 address'')
      else ParseAddr_scan inp cs)"

definition ParseAddr :: "string \<Rightarrow> goerror + addr" where
  "ParseAddr s = ParseAddr_scan s s"

fun addr_BitLen :: "addr \<Rightarrow> nat" where
  "addr_BitLen AddrZero = 0"
| "addr_BitLen (Addr4 _) = 32"
| "addr_BitLen (Addr6 _ _) = 128"

fun addr_bits :: "addr \<Rightarrow> nat" where
  "addr_bits AddrZero = 0"
| "addr_bits (Addr4 w) = unat w"
| "addr_bits (Addr6 w _) = unat w"

fun addr_Zone :: "addr \<Rightarrow> string" where
  "addr_Zone (Addr6 _ z) = z"
| "addr_Zone _ = []"

definition addr_key :: "addr \<Rightarrow> nat \<times> nat \<times> string" where
  "addr_key a = (addr_BitLen a, addr_bits a, addr_Zone a)"

definition addr_Compare :: "addr \<Rightarrow> addr \<Rightarrow> int" where
  "addr_Compare a b =
     (if addr_BitLen a < addr_BitLen b then - 1
      else if addr_BitLen a > addr_BitLen b then 1
      else if addr_bits a < addr_bits b then - 1
      else if addr_bits a > addr_bits b then 1
      else if addr_Zone a < addr_Zone b then - 1
      else if addr_Zone a > addr_Zone b then 1
      else 0)"

fun intercalate :: "string \<Rightarrow> string list \<Rightarrow> string" where
  "intercalate sep [] = []"
| "intercalate sep [x] = x"
| "intercalate sep (x # y # ys) = x @ sep @ intercalate sep (y # ys)"

definition octets4 :: "32 word \<Rightarrow> nat list" where
  "octets4 w = (let n = unat w in
     [n div 16777216, n div 65536 mod 256, n div 256 mod 256, n mod 256])"

definition addr_string4 :: "32 word \<Rightarrow> string" where
  "addr_string4 w = intercalate ''.'' (map dec (octets4 w))"

definition hex_char :: "nat \<Rightarrow> char" where
  "hex_char d = ''0123456789abcdef'' ! d"

fun hexstr :: "nat \<Rightarrow> string" where
  "hexstr n = (if n < 16 then [hex_char n] else hexstr (n div 16) @ [hex_char (n mod 16)])"

declare hexstr.simps [simp del]

definition groups6 :: "128 word \<Rightarrow> nat list" where
  "groups6 w = map (\<lambda>i. unat w div 65536 ^ (7 - i) mod 65536) [0..<8]"

definition zero_run :: "nat list \<Rightarrow> nat \<times> nat" where
  \<comment> \<open>start and end of the first longest run of two or more zero groups; (255, 255): none\<close>
  "zero_run gs = foldl (\<lambda>(zs, ze) i.
      let j = i + length (takeWhile (\<lambda>g. g = 0) (drop i gs))
      in if 2 \<le> j - i \<and> ze - zs < j - i then (i, j) else (zs, ze)) (255, 255) [0..<8]"

definition addr_string6 :: "128 word \<Rightarrow> string" where
  "addr_string6 w = (case zero_run (groups6 w) of (zs, ze) \<Rightarrow>
     if zs = 255 then intercalate '':'' (map hexstr (groups6 w))
     else intercalate '':'' (map hexstr (take zs (groups6 w))) @ ''::'' @
       intercalate '':'' (map hexstr (drop ze (groups6 w))))"

fun addr_String :: "addr \<Rightarrow> string" where
  "addr_String AddrZero = ''invalid IP''"
| "addr_String (Addr4 w) = addr_string4 w"
| "addr_String (Addr6 w z) =
     (if unat w div 2 ^ 32 = 65535 then ''::ffff:'' @ addr_string4 (of_nat (unat w mod 2 ^ 32))
      else addr_string6 w) @ (if z = [] then [] else ''%'' @ z)"

subsection \<open>regexp: ReplaceAllString for the request-id expression\<close>

text \<open>
  The expression \<^verbatim>\<open>\[\s[a-z0-9-].+\s\]\<close>: a bracket, a blank, a letter, digit or dash, one or
  more characters other than a newline (as many as possible), a blank and a bracket.
\<close>

definition re_space :: "char \<Rightarrow> bool" where
  "re_space c \<longleftrightarrow> (of_char c :: nat) \<in> {9, 10, 12, 13, 32}"

definition re_class :: "char \<Rightarrow> bool" where
  "re_class c \<longleftrightarrow> (let n = of_char c :: nat in
     97 \<le> n \<and> n \<le> 122 \<or> 48 \<le> n \<and> n \<le> 57 \<or> n = 45)"

fun re_tail :: "bool \<Rightarrow> string \<Rightarrow> string option" where
  \<comment> \<open>what is left after the longest match of the part from \<^verbatim>\<open>.+\<close> on; the flag: \<^verbatim>\<open>.\<close> has matched once\<close>
  "re_tail some [] = None"
| "re_tail some (c # cs) =
     (case (if (of_char c :: nat) = 10 then None else re_tail True cs) of
        Some rest \<Rightarrow> Some rest
      | None \<Rightarrow> if some \<and> re_space c \<and> take 1 cs = '']'' then Some (drop 1 cs) else None)"

definition re_match :: "string \<Rightarrow> string option" where
  "re_match s = (case s of
     a # b # c # rest \<Rightarrow>
       if a = CHR ''['' \<and> re_space b \<and> re_class c then re_tail False rest else None
   | _ \<Rightarrow> None)"

lemma re_tail_shorter: "re_tail some s = Some rest \<Longrightarrow> length rest < length s"
  by (induction some s rule: re_tail.induct)
    (auto split: if_splits option.splits simp: less_Suc_eq_le less_imp_le)

lemma re_match_shorter: "re_match s = Some rest \<Longrightarrow> length rest < length s"
  by (auto simp: re_match_def split: list.splits if_splits dest!: re_tail_shorter)

function re_ReplaceAll :: "string \<Rightarrow> string" where
  "re_ReplaceAll [] = []"
| "re_ReplaceAll (c # cs) = (case re_match (c # cs) of
     Some rest \<Rightarrow> ''[]'' @ re_ReplaceAll rest
   | None \<Rightarrow> c # re_ReplaceAll cs)"
  by pat_completeness auto
termination
  by (relation "measure length") (auto dest: re_match_shorter)

subsection \<open>Lemmas\<close>

subsubsection \<open>Decimal printing parses back\<close>

lemma less_10_cases: "(d :: nat) < 10 \<Longrightarrow> d \<in> {0, 1, 2, 3, 4, 5, 6, 7, 8, 9}"
  by auto

lemma digit_char_val [simp]: "d < 10 \<Longrightarrow> digit_val (digit_char d) = d"
  by (drule less_10_cases) (auto simp: digit_val_def digit_char_def)

lemma digit_char_digit [simp]: "d < 10 \<Longrightarrow> is_digit (digit_char d)"
  by (drule less_10_cases) (auto simp: is_digit_def digit_char_def)

lemma dec_not_Nil [simp]: "dec n \<noteq> []"
  by (subst dec.simps) simp

lemma dec_digits: "c \<in> set (dec n) \<Longrightarrow> is_digit c"
proof (induction n rule: dec.induct)
  case (1 n)
  then show ?case by (cases "n < 10") (auto simp: dec.simps [of n])
qed

lemma dec_val_dec [simp]: "dec_val (dec n) = n"
proof (induction n rule: dec.induct)
  case (1 n)
  then show ?case by (cases "n < 10") (auto simp: dec.simps [of n] dec_val_def)
qed

lemma dec_inject [simp]: "dec m = dec n \<longleftrightarrow> m = n"
  by (metis dec_val_dec)

lemma is_digit_not [simp]: "\<not> is_digit (CHR ''.'')" "\<not> is_digit (CHR '':'')" "\<not> is_digit (CHR ''%'')" "\<not> is_digit (CHR ''-'')"
  by (simp_all add: is_digit_def)

subsubsection \<open>base64 decodes to what was encoded\<close>

lemma div_split: "(m :: nat) div (b * a) * a + m div b mod a = m div b"
  by (simp add: div_mult2_eq)

lemma b64_val_all: "list_all (\<lambda>n. b64_val (b64_char n) = n \<and> b64_char n \<noteq> CHR ''='') [0..<64]"
  by (simp add: upt_rec b64_val_def b64_char_def b64_alphabet_def)

lemma b64_char_mod [simp]: "b64_char (n mod 64) = b64_char n"
  by (simp add: b64_char_def)

lemma b64_val_char [simp]: "b64_val (b64_char n) = n mod 64"
proof -
  have "b64_val (b64_char (n mod 64)) = n mod 64"
    using b64_val_all unfolding list_all_iff
    by (metis atLeast_upt lessThan_iff mod_less_divisor zero_less_numeral)
  then show ?thesis by simp
qed

lemma b64_char_pad [simp]: "b64_char n \<noteq> CHR ''=''"
proof -
  have "b64_char (n mod 64) \<noteq> CHR ''=''"
    using b64_val_all unfolding list_all_iff
    by (metis atLeast_upt lessThan_iff mod_less_divisor zero_less_numeral)
  then show ?thesis by simp
qed

lemma of_char_less [simp]: "of_char c < (256 :: nat)"
  by (metis of_char_mod_256 mod_less_divisor zero_less_numeral)

lemma low_byte: "(c :: nat) < 256 \<Longrightarrow> (x * 256 + c) div 256 = x \<and> (x * 256 + c) mod 256 = c"
  by simp

lemma char_of_low_byte: "m mod 256 = of_char c \<Longrightarrow> char_of (m :: nat) = c"
  by (rule of_char_eqI [where 'a = nat]) (simp only: of_char_of)

lemma two_bytes_less: "(a :: nat) < 256 \<Longrightarrow> b < 256 \<Longrightarrow> (a * 256 + b) * 4 < 262144"
  by arith

lemma b64_decode_group:
  "b64_decode (b64_char p # b64_char q # b64_char r # b64_char t # rest) =
     (let n = ((p mod 64 * 64 + q mod 64) * 64 + r mod 64) * 64 + t mod 64
      in char_of (n div 65536) # char_of (n div 256 mod 256) # char_of (n mod 256)
         # b64_decode rest)"
  by (simp only: b64_decode.simps b64_char_pad b64_val_char if_False)

lemma b64_decode_encode: "b64_decode (b64_encode xs) = xs"
proof (induction xs rule: b64_encode.induct)
  case (2 a)
  define n where "n = (of_char a :: nat) * 16"
  have "n div 64 < 64"
    using of_char_less [of a] unfolding n_def by (intro less_mult_imp_div_less) linarith
  then have "n div 64 mod 64 * 64 + n mod 64 = n" by simp
  moreover have "n div 16 = of_char a" by (simp add: n_def)
  ultimately show ?case by (simp add: Let_def n_def [symmetric])
next
  case (3 a b)
  define m where "m = (of_char a :: nat) * 256 + of_char b"
  define n where "n = m * 4"
  have n: "n < 262144"
    unfolding n_def m_def by (rule two_bytes_less) simp_all
  then have "n div 4096 < 64" by simp
  then have "n div 4096 mod 64 * 64 + n div 64 mod 64 = n div 64"
    using div_split [of n 64 64] by simp
  then have "((n div 4096 mod 64 * 64 + n div 64 mod 64) * 64 + n mod 64) div 4 = n div 4"
    by (simp only: div_mult_mod_eq)
  moreover have "n div 4 = m" by (simp add: n_def)
  moreover have "m div 256 = of_char a" "m mod 256 = of_char b"
    using of_char_less [of a] of_char_less [of b] by (simp_all add: m_def)
  ultimately show ?case by (simp add: char_of_low_byte Let_def m_def [symmetric] n_def [symmetric])
next
  case (4 a b c rest)
  define m where "m = ((of_char a :: nat) * 256 + of_char b) * 256 + of_char c"
  have m: "m div 256 = of_char a * 256 + of_char b" "m mod 256 = of_char c"
    unfolding m_def by (simp_all only: low_byte [OF of_char_less])
  then have d: "m div 256 mod 256 = of_char b" "m div 65536 = of_char a"
    using div_mult2_eq [of m 256 256] by (simp_all add: low_byte)
  have "m div 262144 = of_char a div 4"
    using div_mult2_eq [of m 65536 4] by (simp add: d)
  also have "\<dots> < 64" by (intro less_mult_imp_div_less) simp
  finally have "m div 262144 < 64" .
  then have "(m div 262144 mod 64 * 64 + m div 4096 mod 64) * 64 + m div 64 mod 64 = m div 64"
    using div_split [of m 4096 64] div_split [of m 64 64] by simp
  then have "((m div 262144 mod 64 * 64 + m div 4096 mod 64) * 64 + m div 64 mod 64) * 64 + m mod 64 = m"
    by (simp only: div_mult_mod_eq)
  then have "b64_decode (b64_encode (a # b # c # rest)) =
      char_of (m div 65536) # char_of (m div 256 mod 256) # char_of (m mod 256) # rest"
    by (simp only: b64_encode.simps Let_def b64_decode_group m_def [symmetric] 4)
  also have "\<dots> = a # b # c # rest"
    by (simp only: d m(2) char_of_char)
  finally show ?case .
qed simp_all

lemma fnv_Write_append: "fnv_Write h (xs @ ys) = fnv_Write (fnv_Write h xs) ys"
  by (induction h xs rule: fnv_Write.induct) simp_all

subsubsection \<open>Compare is a linear order of the addresses\<close>

lemma addr_key_inject [simp]: "addr_key a = addr_key b \<longleftrightarrow> a = b"
  by (cases a; cases b) (auto simp: addr_key_def word_unat_eq_iff)

instantiation addr :: linorder
begin

definition less_eq_addr :: "addr \<Rightarrow> addr \<Rightarrow> bool" where
  "less_eq_addr a b \<longleftrightarrow> addr_key a \<le> addr_key b"

definition less_addr :: "addr \<Rightarrow> addr \<Rightarrow> bool" where
  "less_addr a b \<longleftrightarrow> addr_key a < addr_key b"

instance
  by standard (auto simp: less_eq_addr_def less_addr_def less_le)

end

lemma addr_Compare_less: "addr_Compare a b = - 1 \<longleftrightarrow> a < b"
  by (auto simp: addr_Compare_def less_addr_def addr_key_def less_prod_def')

lemma addr_Compare_greater: "addr_Compare a b = 1 \<longleftrightarrow> b < a"
  by (auto simp: addr_Compare_def less_addr_def addr_key_def less_prod_def')

lemma addr_Compare_eq: "addr_Compare a b = 0 \<longleftrightarrow> a = b"
  by (cases a; cases b) (auto simp: addr_Compare_def word_unat_eq_iff)

subsubsection \<open>An IPv4 address parses back from its text\<close>

lemma parse_octet:
  assumes "n < 256"
  shows "parseIPv4Fields (dec n @ cs) True 0 0 fs = parseIPv4Fields cs False n (length (dec n)) fs"
proof -
  consider "n < 10" | "10 \<le> n" "n < 100" | "100 \<le> n" by linarith
  then show ?thesis
  proof cases
    case 1
    then show ?thesis by (simp add: dec.simps [of n])
  next
    case 2
    then have d: "dec n = [digit_char (n div 10), digit_char (n mod 10)]"
      by (simp add: dec.simps [of n] dec.simps [of "n div 10"])
    from 2 have "0 < n div 10" "n div 10 < 10" "n div 10 * 10 + n mod 10 = n" by simp_all
    with 2 show ?thesis by (auto simp: d simp del: div_greater_zero_iff)
  next
    case 3
    then have d: "dec n = [digit_char (n div 100), digit_char (n div 10 mod 10), digit_char (n mod 10)]"
    proof -
      have "n div 10 div 10 = n div 100" "n div 100 < 10" "10 \<le> n div 10"
        using 3 assms by (simp_all add: div_mult2_eq [symmetric])
      with 3 show ?thesis
        by (simp add: dec.simps [of n] dec.simps [of "n div 10"] dec.simps [of "n div 100"])
    qed
    have s: "n div 100 * 10 + n div 10 mod 10 = n div 10" "n div 10 * 10 + n mod 10 = n"
      using div_split [of n 10 10] by simp_all
    from 3 assms have "0 < n div 100" "n div 100 < 10" "n div 10 < 256" by simp_all
    with s assms show ?thesis by (simp add: d del: div_greater_zero_iff)
  qed
qed

lemma horner_octets4: "horner256 (octets4 w) = unat w"
  using div_split [of "unat w" 65536 256] div_split [of "unat w" 256 256]
  by (simp add: horner256_def octets4_def Let_def)

lemma octets4_less: "n \<in> set (octets4 w) \<Longrightarrow> n < 256"
proof -
  have "unat w < 2 ^ 32" using unsigned_less [of w] by simp
  then show "n \<in> set (octets4 w) \<Longrightarrow> n < 256" by (auto simp: octets4_def Let_def)
qed

lemma ParseAddr_scan_digits:
  "list_all is_digit xs \<Longrightarrow> ParseAddr_scan inp (xs @ CHR ''.'' # ys) = parseIPv4 inp"
proof (induction xs)
  case (Cons x xs)
  then have "x \<noteq> CHR ''.''" "x \<noteq> CHR '':''" "x \<noteq> CHR ''%''" by (metis is_digit_not list.pred_inject(2))+
  with Cons show ?case by simp
qed simp

lemma addr_string4_eq: "octets4 w = [a, b, c, d] \<Longrightarrow>
   addr_string4 w = dec a @ ''.'' @ dec b @ ''.'' @ dec c @ ''.'' @ dec d"
  by (simp add: addr_string4_def)

lemma ParseAddr_String4: "ParseAddr (addr_String (Addr4 w)) = Inr (Addr4 w)"
proof -
  obtain a b c d where o: "octets4 w = [a, b, c, d]" by (simp add: octets4_def Let_def)
  have lt: "a < 256" "b < 256" "c < 256" "d < 256" using octets4_less [of _ w] by (auto simp: o)
  have f: "parseIPv4Fields (addr_string4 w) True 0 0 [] = Inr [a, b, c, d]"
    using lt parse_octet [of d "[]"] by (simp add: addr_string4_eq [OF o] parse_octet)
  then have "parseIPv4 (addr_string4 w) = Inr (Addr4 (of_nat (unat w)))"
    by (simp add: parseIPv4_def horner_octets4 [symmetric] o)
  moreover have "ParseAddr (addr_string4 w) = parseIPv4 (addr_string4 w)"
    unfolding ParseAddr_def by (subst (2) addr_string4_eq [OF o]) (simp add: ParseAddr_scan_digits list_all_iff dec_digits)
  ultimately show ?thesis by simp
qed


lemmas parseIPv6_loop_numeral = parseIPv6_loop.simps(2) [of "pred_numeral k" for k, folded numeral_eq_Suc]

lemma replicate_num: "replicate (numeral k) x = x # replicate (pred_numeral k) x"
  by (simp add: numeral_eq_Suc)

lemmas parse_eval = ParseAddr_def parseIPv4_def parseIPv6_def hex_val_def horner256_def
  expand_ellipsis_def is_digit_def digit_val_def replicate_num parseIPv6_loop_numeral

lemmas regexp_eval = re_match_def re_space_def re_class_def

lemma intercalate_nonempty: "sep \<noteq> [] \<Longrightarrow> intercalate sep (x # y # ys) \<noteq> []"
  by simp

lemma addr_string4_nonempty: "addr_string4 w \<noteq> []"
  by (simp add: addr_string4_def octets4_def Let_def)

lemma addr_string6_nonempty: "addr_string6 w \<noteq> []"
  by (simp add: addr_string6_def groups6_def upt_rec split: prod.splits)

lemma addr_String_nonempty: "addr_String a \<noteq> ''''"
  by (cases a) (simp_all add: addr_string4_nonempty addr_string6_nonempty)

end
