(* ===== verification/External_Deps.thy ===== *)
theory External_Deps
  imports Api_V1alpha1 Go_Std
begin

section \<open>The services and libraries the controllers call\<close>

text \<open>
  Cloud Director (through govcd), Kubernetes and the Cluster API helper packages are not
  part of the repository: they are parameters of the model. The record \<open>lib\<close> holds the pure
  library functions (\<^verbatim>\<open>govcd.ContainsNotFound\<close>, \<^verbatim>\<open>conditions.MarkFalse\<close>,
  \<^verbatim>\<open>controllerutil.AddFinalizer\<close>, ...), the records \<open>kube\<close>, \<open>vcd\<close>, \<open>vapp\<close> and \<open>vmapi\<close> the calls of the
  services, each a function from its arguments and the world to its Go results and the new
  world. Nothing is assumed of them here. A \<^verbatim>\<open>(*T, error)\<close> result is the Go pair, pointer
  and error both present; a receiver that is a pointer is passed as an option, so that the
  model does not decide what a method does on a nil receiver.

  What the theorems rely on is stated by name: \<open>not_found_lawful\<close>, \<open>finalizers_lawful\<close> and
  \<open>conditions_lawful\<close>, \<open>aggregate_lawful\<close> are the documented behaviour of the library functions.

  Only the fields the repository reads or writes are kept of a third-party struct.
\<close>

subsection \<open>Data of the Cloud Director API\<close>

record OpenApiReference =
  oaName :: string
  oaID :: string

record VCDClient =
  vcdHREF :: string
  vcdToken :: string

record Org =
  orgID :: string

record Vdc =
  vdcID :: string

record NsxtEdgeGateway =
  gwName :: string
  gwID :: string

record NsxtFirewallGroup =
  fgID :: string
  fgName :: string
  fgTypeValue :: string
  fgOwnerRef :: "OpenApiReference option"
  fgIpAddresses :: "string list"

record NsxtAlbPool =
  poolID :: string
  poolName :: string
  poolDefaultPort :: "int64 option"
  poolGatewayRef :: OpenApiReference
  poolMemberGroupRef :: "OpenApiReference option"
  poolHealthMonitors :: "string list"

record NsxtAlbVirtualServicePort =
  vspPortStart :: "int64 option"
  vspTcpUdpProfile :: "string option"

record NsxtAlbVirtualService =
  vsID :: string
  vsName :: string
  vsEnabled :: "bool option"
  vsGatewayRef :: OpenApiReference
  vsLoadBalancerPoolRef :: OpenApiReference
  vsServiceEngineGroupRef :: OpenApiReference
  vsVirtualIpAddress :: string
  vsServicePorts :: "NsxtAlbVirtualServicePort list"
  vsApplicationProfile :: string

record ServiceEngineGroupAssignment =
  segRef :: "OpenApiReference option"

record VApp =
  vappID :: string
  vappName :: string

record Task =
  taskID :: string

record OrgVDCNetwork =
  ovnName :: string

record Catalog =
  catalogName :: string

record VAppTemplate =
  vatName :: string

record IPRange =
  irStartAddress :: string
  irEndAddress :: string

record IPScope =
  isGateway :: string
  isDNS1 :: string
  isSubnetPrefixLength :: string
  isIPRanges :: "IPRange list option"

record NetworkConfiguration =
  ncfIPScopes :: "IPScope list option"

record VAppNetwork =
  vanConfiguration :: "NetworkConfiguration option"

record NetworkConnection =
  ncNetwork :: string
  ncNetworkConnectionIndex :: int64
  ncIsConnected :: bool
  ncIPAddress :: string
  ncMACAddress :: string
  ncIPAddressAllocationMode :: string
  ncNetworkAdapterType :: string

text \<open>A nil slice (\<open>None\<close>) is told apart from an empty one, as the machine controller does.\<close>

record NetworkConnectionSection =
  ncsNetworkConnection :: "NetworkConnection list option"

record GuestCustomizationSection =
  gcsEnabled :: "bool option"
  gcsComputerName :: string

record Property =
  propType :: string
  propKey :: string
  propLabel :: string
  propDefaultValue :: string

record ProductSection =
  psProperty :: "Property list"

record ProductSectionList =
  pslProductSection :: "ProductSection option"

record DiskSettings =
  dsDiskId :: string
  dsSizeMb :: int64
  dsUnitNumber :: int64
  dsBusNumber :: int64
  dsAdapterType :: string
  dsThinProvisioned :: "bool option"

record DiskSection =
  dsecDiskSettings :: "DiskSettings list"

record VmSpecSection =
  vssMemoryResourceMb :: "int64 option"
  vssNumCpus :: "int64 option"
  vssDiskSection :: "DiskSection option"

record Vm =
  vmID :: string
  vmName :: string
  vmVmSpecSection :: "VmSpecSection option"

subsection \<open>The calls\<close>

datatype (plugins only: code size) call =
    KGetTenantMachine NamespacedName
  | KGetTenantCluster NamespacedName
  | KGetSecret NamespacedName
  | KGetOwnerMachine
  | KGetOwnerCluster
  | KGetClusterFromMetadata
  | KListMachines
  | KNewHelper
  | KPatch
  | GetVCDClientCall
  | GetOrgByName "VCDClient option" string
  | GetVDCByName "Org option" string
  | GetEdgeGateway "Org option" string string
  | GetUnusedExternalIPAddresses "NsxtEdgeGateway option"
  | GetFirewallGroupByName "Vdc option" string
  | GetFirewallGroupById "Vdc option" string
  | CreateFirewallGroup NsxtFirewallGroup
  | UpdateFirewallGroup NsxtFirewallGroup
  | DeleteFirewallGroup NsxtFirewallGroup
  | GetAlbPoolByName string string
  | GetAlbPoolById string
  | CreateAlbPool NsxtAlbPool
  | DeleteAlbPool "NsxtAlbPool option"
  | GetVirtualServiceByName string string
  | GetVirtualServiceById string
  | CreateVirtualService NsxtAlbVirtualService
  | DeleteVirtualService "NsxtAlbVirtualService option"
  | GetServiceEngineGroupAssignment string string
  | GetVAppByName string
  | GetVAppById "Vdc option" string
  | CreateRawVApp string string
  | GetOrgVdcNetworkByName string
  | AddOrgNetwork "VApp option"
  | PowerOnVApp "VApp option"
  | GetVAppStatus VApp
  | UndeployVApp VApp
  | DeleteVApp VApp
  | WaitTaskCompletion "Task option"
  | GetCatalogByName "Org option" string
  | GetVMByName "VApp option" string
  | GetVAppTemplateByName "Catalog option" string
  | AddNewVM "VApp option" string VAppTemplate NetworkConnectionSection
  | GetVappNetworkByName "VApp option" string
  | GetNetworkConnectionSection Vm
  | GetGuestCustomizationSection Vm
  | SetGuestCustomizationSection Vm GuestCustomizationSection
  | GetProductSectionList Vm
  | SetProductSectionList Vm ProductSectionList
  | UpdateVmSpecSection Vm VmSpecSection
  | PowerOnVM Vm
  | DeleteVM "Vm option"

definition vcd_call :: "call \<Rightarrow> bool" where
  \<comment> \<open>the call goes to Cloud Director\<close>
  "vcd_call c = (case c of
     KGetTenantMachine _ \<Rightarrow> False | KGetTenantCluster _ \<Rightarrow> False | KGetSecret _ \<Rightarrow> False
   | KGetOwnerMachine \<Rightarrow> False | KGetOwnerCluster \<Rightarrow> False | KGetClusterFromMetadata \<Rightarrow> False
   | KListMachines \<Rightarrow> False | KNewHelper \<Rightarrow> False | KPatch \<Rightarrow> False | GetVCDClientCall \<Rightarrow> False
   | _ \<Rightarrow> True)"

definition creates :: "call \<Rightarrow> bool" where
  \<comment> \<open>the call makes a new Cloud Director resource\<close>
  "creates c = (case c of
     CreateFirewallGroup _ \<Rightarrow> True | CreateAlbPool _ \<Rightarrow> True | CreateVirtualService _ \<Rightarrow> True
   | CreateRawVApp _ _ \<Rightarrow> True | AddNewVM _ _ _ _ \<Rightarrow> True | _ \<Rightarrow> False)"

definition deletes :: "call \<Rightarrow> bool" where
  "deletes c = (case c of
     DeleteFirewallGroup _ \<Rightarrow> True | DeleteAlbPool _ \<Rightarrow> True | DeleteVirtualService _ \<Rightarrow> True
   | UndeployVApp _ \<Rightarrow> True | DeleteVApp _ \<Rightarrow> True | DeleteVM _ \<Rightarrow> True | _ \<Rightarrow> False)"

definition configures :: "call \<Rightarrow> bool" where
  \<comment> \<open>the call changes an existing Cloud Director resource\<close>
  "configures c = (case c of
     UpdateFirewallGroup _ \<Rightarrow> True | AddOrgNetwork _ \<Rightarrow> True | PowerOnVApp _ \<Rightarrow> True
   | SetGuestCustomizationSection _ _ \<Rightarrow> True | SetProductSectionList _ _ \<Rightarrow> True
   | UpdateVmSpecSection _ _ \<Rightarrow> True | PowerOnVM _ \<Rightarrow> True | _ \<Rightarrow> False)"

definition mutates :: "call \<Rightarrow> bool" where
  "mutates c \<longleftrightarrow> creates c \<or> deletes c \<or> configures c"

lemmas call_classes = mutates_def vcd_call_def creates_def deletes_def configures_def

lemma kube_calls [simp]:
  "\<not> vcd_call (KGetTenantMachine r)" "\<not> vcd_call (KGetTenantCluster r)" "\<not> vcd_call (KGetSecret r)"
  "\<not> vcd_call KGetOwnerMachine" "\<not> vcd_call KGetOwnerCluster" "\<not> vcd_call KGetClusterFromMetadata"
  "\<not> vcd_call KListMachines" "\<not> vcd_call KNewHelper" "\<not> vcd_call KPatch" "\<not> vcd_call GetVCDClientCall"
  by (simp_all add: vcd_call_def)

lemma not_vcd_call_creates: "\<not> vcd_call c \<Longrightarrow> \<not> mutates c"
  by (cases c) (simp_all add: call_classes)

subsection \<open>The library functions and the services\<close>

record lib =
  ContainsNotFound :: "goerror option \<Rightarrow> bool"
  ClientIgnoreNotFound :: "goerror option \<Rightarrow> goerror option"
  AddFinalizer :: "string list \<Rightarrow> string \<Rightarrow> string list \<times> bool"
  RemoveFinalizer :: "string list \<Rightarrow> string \<Rightarrow> string list \<times> bool"
  TimeIsZero :: "int option \<Rightarrow> bool"
  MarkTrue :: "Conditions \<Rightarrow> ConditionType \<Rightarrow> Conditions"
  MarkFalse :: "Conditions \<Rightarrow> ConditionType \<Rightarrow> string \<Rightarrow> string \<Rightarrow> string \<Rightarrow> Conditions"
  IsTrue :: "Conditions \<Rightarrow> ConditionType \<Rightarrow> bool"
  SetSummary :: "Conditions \<Rightarrow> ConditionType list \<Rightarrow> Conditions"
  IsControlPlaneMachine :: "Machine \<Rightarrow> bool"
  NewAggregate :: "goerror option list \<Rightarrow> goerror option"

type_synonym ('a, 'w) reply = "'w \<Rightarrow> ('a \<times> goerror option) \<times> 'w"

record ('w, 'h) kube =
  k_GetTenantMachine :: "NamespacedName \<Rightarrow> 'w \<Rightarrow> (goerror + CloudDirectorTenantMachine) \<times> 'w"
  k_GetTenantCluster :: "NamespacedName \<Rightarrow> 'w \<Rightarrow> (goerror + CloudDirectorTenantCluster) \<times> 'w"
  k_GetSecret :: "NamespacedName \<Rightarrow> 'w \<Rightarrow> (goerror + Secret) \<times> 'w"
  k_GetOwnerMachine :: "ObjectMeta \<Rightarrow> (Machine option, 'w) reply"
  k_GetOwnerCluster :: "ObjectMeta \<Rightarrow> (Cluster option, 'w) reply"
  k_GetClusterFromMetadata :: "ObjectMeta \<Rightarrow> (Cluster option, 'w) reply"
  k_GetFilteredMachinesForCluster :: "Cluster option \<Rightarrow> (Machine list, 'w) reply"
  k_NewHelperMachine :: "CloudDirectorTenantMachine \<Rightarrow> ('h option, 'w) reply"
  k_NewHelperCluster :: "CloudDirectorTenantCluster \<Rightarrow> ('h option, 'w) reply"
  k_PatchMachine :: "'h option \<Rightarrow> CloudDirectorTenantMachine \<Rightarrow> ConditionType list
      \<Rightarrow> 'w \<Rightarrow> goerror option \<times> 'w"
  k_PatchCluster :: "'h option \<Rightarrow> CloudDirectorTenantCluster \<Rightarrow> ConditionType list
      \<Rightarrow> 'w \<Rightarrow> goerror option \<times> 'w"

record 'w vcd =
  v_GetOrgByName :: "VCDClient option \<Rightarrow> string \<Rightarrow> (Org option, 'w) reply"
  v_GetVDCByName :: "Org option \<Rightarrow> string \<Rightarrow> bool \<Rightarrow> (Vdc option, 'w) reply"
  v_GetEdgeGateway :: "Org option \<Rightarrow> string \<Rightarrow> string \<Rightarrow> (NsxtEdgeGateway option, 'w) reply"
  v_GetUnusedExternalIPAddresses :: "NsxtEdgeGateway option \<Rightarrow> (addr list, 'w) reply"
  v_GetFirewallGroupByName :: "Vdc option \<Rightarrow> string \<Rightarrow> string \<Rightarrow> (NsxtFirewallGroup option, 'w) reply"
  v_GetFirewallGroupById :: "Vdc option \<Rightarrow> string \<Rightarrow> (NsxtFirewallGroup option, 'w) reply"
  v_CreateFirewallGroup :: "Vdc option \<Rightarrow> NsxtFirewallGroup \<Rightarrow> (NsxtFirewallGroup option, 'w) reply"
  v_UpdateFirewallGroup :: "NsxtFirewallGroup \<Rightarrow> (NsxtFirewallGroup option, 'w) reply"
  v_DeleteFirewallGroup :: "NsxtFirewallGroup \<Rightarrow> 'w \<Rightarrow> goerror option \<times> 'w"
  v_GetAlbPoolByName :: "VCDClient option \<Rightarrow> string \<Rightarrow> string \<Rightarrow> (NsxtAlbPool option, 'w) reply"
  v_GetAlbPoolById :: "VCDClient option \<Rightarrow> string \<Rightarrow> (NsxtAlbPool option, 'w) reply"
  v_CreateAlbPool :: "VCDClient option \<Rightarrow> NsxtAlbPool \<Rightarrow> (NsxtAlbPool option, 'w) reply"
  v_DeleteAlbPool :: "NsxtAlbPool option \<Rightarrow> 'w \<Rightarrow> goerror option \<times> 'w"
  v_GetVirtualServiceByName :: "VCDClient option \<Rightarrow> string \<Rightarrow> string \<Rightarrow> (NsxtAlbVirtualService option, 'w) reply"
  v_GetVirtualServiceById :: "VCDClient option \<Rightarrow> string \<Rightarrow> (NsxtAlbVirtualService option, 'w) reply"
  v_CreateVirtualService :: "VCDClient option \<Rightarrow> NsxtAlbVirtualService \<Rightarrow> (NsxtAlbVirtualService option, 'w) reply"
  v_DeleteVirtualService :: "NsxtAlbVirtualService option \<Rightarrow> 'w \<Rightarrow> goerror option \<times> 'w"
  v_GetServiceEngineGroupAssignment :: "VCDClient option \<Rightarrow> string \<Rightarrow> string \<Rightarrow> (ServiceEngineGroupAssignment option, 'w) reply"

record 'w vapp =
  a_GetVAppByName :: "Vdc option \<Rightarrow> string \<Rightarrow> bool \<Rightarrow> (VApp option, 'w) reply"
  a_GetVAppById :: "Vdc option \<Rightarrow> string \<Rightarrow> bool \<Rightarrow> (VApp option, 'w) reply"
  a_CreateRawVApp :: "Vdc option \<Rightarrow> string \<Rightarrow> string \<Rightarrow> (VApp option, 'w) reply"
  a_GetOrgVdcNetworkByName :: "Vdc option \<Rightarrow> string \<Rightarrow> bool \<Rightarrow> (OrgVDCNetwork option, 'w) reply"
  a_AddOrgNetwork :: "VApp option \<Rightarrow> OrgVDCNetwork \<Rightarrow> bool \<Rightarrow> (unit, 'w) reply"
  a_PowerOn :: "VApp option \<Rightarrow> (Task option, 'w) reply"
  a_GetStatus :: "VApp \<Rightarrow> (string, 'w) reply"
  a_Undeploy :: "VApp \<Rightarrow> (Task option, 'w) reply"
  a_Delete :: "VApp \<Rightarrow> (Task option, 'w) reply"
  a_WaitTaskCompletion :: "Task option \<Rightarrow> 'w \<Rightarrow> goerror option \<times> 'w"

record 'w vmapi =
  m_GetCatalogByName :: "Org option \<Rightarrow> string \<Rightarrow> bool \<Rightarrow> (Catalog option, 'w) reply"
  m_GetVMByName :: "VApp option \<Rightarrow> string \<Rightarrow> bool \<Rightarrow> (Vm option, 'w) reply"
  m_GetVAppTemplateByName :: "Catalog option \<Rightarrow> string \<Rightarrow> (VAppTemplate option, 'w) reply"
  m_AddNewVM :: "VApp option \<Rightarrow> string \<Rightarrow> VAppTemplate \<Rightarrow> NetworkConnectionSection \<Rightarrow> bool
      \<Rightarrow> (Task option, 'w) reply"
  m_GetVappNetworkByName :: "VApp option \<Rightarrow> string \<Rightarrow> bool \<Rightarrow> (VAppNetwork option, 'w) reply"
  m_GetNetworkConnectionSection :: "Vm \<Rightarrow> (NetworkConnectionSection option, 'w) reply"
  m_GetGuestCustomizationSection :: "Vm \<Rightarrow> (GuestCustomizationSection option, 'w) reply"
  m_SetGuestCustomizationSection :: "Vm \<Rightarrow> GuestCustomizationSection
      \<Rightarrow> (GuestCustomizationSection option, 'w) reply"
  m_GetProductSectionList :: "Vm \<Rightarrow> (ProductSectionList option, 'w) reply"
  m_SetProductSectionList :: "Vm \<Rightarrow> ProductSectionList \<Rightarrow> (ProductSectionList option, 'w) reply"
  m_UpdateVmSpecSection :: "Vm \<Rightarrow> VmSpecSection \<Rightarrow> string \<Rightarrow> (Vm option, 'w) reply"
  m_PowerOn :: "Vm \<Rightarrow> (Task option, 'w) reply"
  m_Delete :: "Vm option \<Rightarrow> 'w \<Rightarrow> goerror option \<times> 'w"

text \<open>
  What a reconciler is given: the libraries, the Kubernetes client, Cloud Director and the
  client cache (the interface \<^verbatim>\<open>clientcache.ClientCache\<close>, whose implementation is a theory
  of its own).
\<close>

record ('w, 'h) env =
  envLib :: lib
  envKube :: "('w, 'h) kube"
  envVcd :: "'w vcd"
  envVapp :: "'w vapp"
  envVm :: "'w vmapi"
  envGetVCDClient :: "CloudDirectorTenantCluster \<Rightarrow> 'w
      \<Rightarrow> (go_panic + VCDClient option \<times> goerror option) \<times> 'w"

subsection \<open>The result of a reconciliation\<close>

text \<open>\<^verbatim>\<open>time.Duration\<close> counts nanoseconds.\<close>

definition time_Second :: int where
  "time_Second = 1000000000"

definition time_Minute :: int where
  "time_Minute = 60 * time_Second"

record Result =
  RequeueAfter :: int

type_synonym reconcile_result = "Result \<times> goerror option"

definition done_result :: Result where
  \<comment> \<open>\<^verbatim>\<open>ctrl.Result{}\<close>\<close>
  "done_result = \<lparr>RequeueAfter = 0\<rparr>"

definition requeue_minute :: Result where
  \<comment> \<open>\<^verbatim>\<open>ctrl.Result{RequeueAfter: time.Minute}\<close>\<close>
  "requeue_minute = \<lparr>RequeueAfter = time_Minute\<rparr>"

subsection \<open>Documented behaviour of the library functions\<close>

definition not_found_lawful :: "lib \<Rightarrow> bool" where
  \<comment> \<open>no error is not a not-found error\<close>
  "not_found_lawful L \<longleftrightarrow> \<not> ContainsNotFound L None"

definition finalizers_lawful :: "lib \<Rightarrow> bool" where
  \<comment> \<open>\<^verbatim>\<open>AddFinalizer\<close> reports whether the list changed, \<^verbatim>\<open>RemoveFinalizer\<close> removes every occurrence\<close>
  "finalizers_lawful L \<longleftrightarrow>
     (\<forall>fs f. f \<in> set (fst (AddFinalizer L fs f)) \<and>
        (f \<in> set fs \<longrightarrow> AddFinalizer L fs f = (fs, False)) \<and>
        (f \<notin> set fs \<longrightarrow> snd (AddFinalizer L fs f)) \<and>
        f \<notin> set (fst (RemoveFinalizer L fs f)))"

definition aggregate_lawful :: "lib \<Rightarrow> bool" where
  \<comment> \<open>the aggregate of errors is nil only when all of them are\<close>
  "aggregate_lawful L \<longleftrightarrow> (\<forall>errs e. e \<in> set errs \<longrightarrow> e \<noteq> None \<longrightarrow> NewAggregate L errs \<noteq> None)"

definition cond_of :: "Conditions \<Rightarrow> ConditionType \<Rightarrow> Condition option" where
  "cond_of cs t = find (\<lambda>c. condType c = t) cs"

definition conditions_lawful :: "lib \<Rightarrow> bool" where
  \<comment> \<open>marking sets the condition of that type and leaves the other types alone\<close>
  "conditions_lawful L \<longleftrightarrow>
     (\<forall>cs t t' r sev m. map_option condStatus (cond_of (MarkTrue L cs t) t) = Some ''True'' \<and>
        cond_of (MarkFalse L cs t r sev m) t = Some \<lparr>condType = t, condStatus = ''False'',
          condSeverity = sev, condReason = r, condMessage = m\<rparr> \<and>
        (t' \<noteq> t \<longrightarrow> cond_of (MarkTrue L cs t) t' = cond_of cs t' \<and>
          cond_of (MarkFalse L cs t r sev m) t' = cond_of cs t'))"

end
