(* ===== verification/Vcd_Util.thy ===== *)
theory Vcd_Util
  imports External_Deps
begin

section \<open>Not-found errors of Cloud Director (src/util/vcdutil)\<close>

text \<open>
  The one helper of the package. Its lemmas say what the pair of tests the controllers
  make after a lookup (\<^verbatim>\<open>IgnoreNotFound(err) != nil\<close>, then \<^verbatim>\<open>ContainsNotFound(err)\<close>) decides.
\<close>

definition IgnoreNotFound :: "lib \<Rightarrow> goerror option \<Rightarrow> goerror option" where
  "IgnoreNotFound L err = (if ContainsNotFound L err then None else err)"

lemma IgnoreNotFound_None:
  "IgnoreNotFound L err = None \<longleftrightarrow> err = None \<or> ContainsNotFound L err"
  by (auto simp: IgnoreNotFound_def)

lemma IgnoreNotFound_Some:
  "IgnoreNotFound L err = Some e \<longleftrightarrow> err = Some e \<and> \<not> ContainsNotFound L err"
  by (auto simp: IgnoreNotFound_def)

lemmas IgnoreNotFound_cases = IgnoreNotFound_None IgnoreNotFound_Some

end
