(* ===== verification/Reconcile_Common.thy ===== *)
theory Reconcile_Common
  imports Vcd_Util
begin

section \<open>What the two reconcilers share\<close>

text \<open>
  Both \<^verbatim>\<open>Reconcile\<close> methods read their object, make a patch helper and defer the patch: the
  object is written back on every path that got that far, also when the body panics. The
  construction is \<open>deferred_patch\<close>; what it needs from the patch function of a resource is
  the locale \<open>patch_function\<close>, and its lemmas hold for both controllers by interpretation.
\<close>

type_synonym ('w, 'o) cstate = "('w, 'o, call) rst"
type_synonym ('w, 'o, 'a) handler = "(('w, 'o) cstate, reconcile_result, 'a) go"

definition deferred_patch :: "lib \<Rightarrow> (('w, 'o) cstate \<Rightarrow> goerror option \<times> ('w, 'o) cstate)
    \<Rightarrow> ('w, 'o, reconcile_result) handler \<Rightarrow> ('w, 'o, reconcile_result) handler" where
  "deferred_patch L patch body = (\<lambda>s.
     case finish body s of (e, s1) \<Rightarrow>
     case patch s1 of (err, s2) \<Rightarrow>
       (case e of
          Panic p \<Rightarrow> (Inl (Panic p), s2)
        | Return (result, reterr) \<Rightarrow>
            if err \<noteq> None then (Inr (done_result, NewAggregate L [reterr, err]), s2)
            else (Inr (result, reterr), s2)))"

lemma wp_deferred_patch:
  "wp (deferred_patch L patch body) Q E s \<longleftrightarrow>
     wp body (\<lambda>r s1. \<forall>err s2. patch s1 = (err, s2) \<longrightarrow>
          Q (if err \<noteq> None then (done_result, NewAggregate L [snd r, err]) else r) s2)
       (\<lambda>e s1. \<forall>err s2. patch s1 = (err, s2) \<longrightarrow>
          (case e of Panic p \<Rightarrow> E (Panic p) s2
           | Return r \<Rightarrow> Q (if err \<noteq> None then (done_result, NewAggregate L [snd r, err]) else r) s2)) s"
  by (auto simp: wp_def deferred_patch_def finish_def split: prod.splits sum.splits exit.splits)

text \<open>The equations that run a program on concrete input.\<close>

lemmas run_eval = finish_def deferred_patch_def go_bind_def go_return_def go_exit_def panic_def
  deref_def go_index0_def lift_panic_def call_def call_err_def call_get_def call_panic_def
  get_obj_def modify_obj_def

subsection \<open>Programs that leave the object alone up to its conditions\<close>

text \<open>
  \<open>quiet S C m\<close>: on every path, in every environment, \<open>m\<close> makes calls of the class \<open>C\<close> only and
  changes nothing of the object but its conditions. \<open>emits T m\<close>: the calls \<open>m\<close> makes form a
  list with the property \<open>T\<close>.
\<close>

definition quiet :: "(Conditions \<Rightarrow> 'o \<Rightarrow> 'o) \<Rightarrow> (call \<Rightarrow> bool) \<Rightarrow> ('w, 'o, 'a) handler \<Rightarrow> bool" where
  "quiet S C m \<longleftrightarrow> (\<forall>s. wp m (\<lambda>_ s'. extends C s s' \<and> (\<exists>cs. obj s' = S cs (obj s)))
     (\<lambda>_ s'. extends C s s' \<and> (\<exists>cs. obj s' = S cs (obj s))) s)"

definition emits :: "((call \<times> goerror option) list \<Rightarrow> bool) \<Rightarrow> ('w, 'o, 'a) handler \<Rightarrow> bool" where
  "emits T m \<longleftrightarrow> (\<forall>s. wp m (\<lambda>_ s'. \<exists>evs. trace s' = trace s @ evs \<and> T evs)
     (\<lambda>_ s'. \<exists>evs. trace s' = trace s @ evs \<and> T evs) s)"

lemma quietD: "quiet S C m \<Longrightarrow> wp m (\<lambda>_ s'. extends C s s' \<and> (\<exists>cs. obj s' = S cs (obj s)))
     (\<lambda>_ s'. extends C s s' \<and> (\<exists>cs. obj s' = S cs (obj s))) s"
  by (simp add: quiet_def)

lemma emitsD: "emits T m \<Longrightarrow> wp m (\<lambda>_ s'. \<exists>evs. trace s' = trace s @ evs \<and> T evs)
     (\<lambda>_ s'. \<exists>evs. trace s' = trace s @ evs \<and> T evs) s"
  by (simp add: emits_def)

lemma quiet_mono: "quiet S C m \<Longrightarrow> (\<And>c. C c \<Longrightarrow> D c) \<Longrightarrow> quiet S D m"
  unfolding quiet_def by (blast intro: wp_mono extends_mono)

lemma quiet_emits:
  assumes "quiet S C m" and "\<And>evs. list_all (\<lambda>ev. C (fst ev)) evs \<Longrightarrow> T evs"
  shows "emits T m"
  unfolding emits_def
  by (intro allI, rule wp_mono [OF quietD [OF assms(1)]])
    (auto simp: extends_def list_all_iff intro!: assms(2))

lemma emits_mono: "emits T m \<Longrightarrow> (\<And>evs. T evs \<Longrightarrow> U evs) \<Longrightarrow> emits U m"
  unfolding emits_def by (blast intro: wp_mono)

text \<open>A fact about the result of the first program may be used where the second is considered.\<close>

lemma emits_bind_fact:
  fixes m :: "('w, 'o, 'a) handler"
  assumes "emits T m" and "\<And>s. wp m (\<lambda>x _. P x) (\<lambda>_ _. True) s" and "\<And>x. P x \<Longrightarrow> emits U (f x)"
    and "\<And>xs. T xs \<Longrightarrow> V xs" and "\<And>xs ys. T xs \<Longrightarrow> U ys \<Longrightarrow> V (xs @ ys)"
  shows "emits V (go_bind m f)"
  unfolding emits_def wp_bind
proof (intro allI, rule wp_mono [OF wp_conj [OF emitsD [OF assms(1)] assms(2)]])
  fix s s1 :: "('w, 'o) cstate" and x
  assume *: "(\<exists>evs. trace s1 = trace s @ evs \<and> T evs) \<and> P x"
  then obtain xs where xs: "trace s1 = trace s @ xs" "T xs" by blast
  show "wp (f x) (\<lambda>_ s'. \<exists>evs. trace s' = trace s @ evs \<and> V evs)
      (\<lambda>_ s'. \<exists>evs. trace s' = trace s @ evs \<and> V evs) s1"
    by (rule wp_mono [OF emitsD [OF assms(3)]]) (use * in \<open>auto simp: xs(1) intro: assms(5) [OF xs(2)]\<close>)
qed (auto intro: assms(4))

lemma emits_bind:
  assumes "emits T m" and "\<And>x. emits U (f x)" and "\<And>xs. T xs \<Longrightarrow> V xs" and "\<And>xs ys. T xs \<Longrightarrow> U ys \<Longrightarrow> V (xs @ ys)"
  shows "emits V (go_bind m f)"
  by (rule emits_bind_fact [where P = "\<lambda>_. True" and T = T and U = U])
    (use assms in \<open>simp_all add: wp_def split: prod.split sum.split\<close>)

text \<open>The rules for the combinators, proved once for every resource with conditions.\<close>

context conditions_object
begin

lemma same_refl: "\<exists>cs. x = SetConditions cs x"
  by (metis set_get)

lemma quiet_return: "quiet SetConditions C (go_return x)"
  by (simp add: quiet_def wp same_refl)

lemma quiet_exit: "quiet SetConditions C (go_exit r)"
  by (simp add: quiet_def wp same_refl)

lemma quiet_panic: "quiet SetConditions C (panic p)"
  by (simp add: quiet_def wp same_refl)

lemma quiet_deref: "quiet SetConditions C (deref p)"
  by (simp add: quiet_def wp same_refl split: option.splits)

lemma quiet_index0: "quiet SetConditions C (go_index0 xs)"
  by (simp add: quiet_def wp same_refl split: list.splits)

lemma quiet_lift_panic: "quiet SetConditions C (lift_panic v)"
  by (simp add: quiet_def wp same_refl split: sum.splits)

lemma quiet_get_obj: "quiet SetConditions C get_obj"
  by (simp add: quiet_def wp same_refl)

lemma quiet_mark: "quiet SetConditions C (modify_obj (\<lambda>c. SetConditions (g c) c))"
  by (auto simp: quiet_def wp)

lemma quiet_call: "C c \<Longrightarrow> quiet SetConditions C (call c f)"
  by (auto simp: quiet_def wp same_refl extends_def)

lemma quiet_call_err: "C c \<Longrightarrow> quiet SetConditions C (call_err c f)"
  by (auto simp: quiet_def wp same_refl extends_def)

lemma quiet_call_get: "C c \<Longrightarrow> quiet SetConditions C (call_get c f)"
  by (auto simp: quiet_def wp same_refl extends_def)

lemma quiet_call_panic: "C c \<Longrightarrow> quiet SetConditions C (call_panic c f)"
  by (auto simp: quiet_def wp same_refl extends_def)

lemma quiet_bind:
  fixes m :: "('w, 'o, 'a) handler"
  assumes "quiet SetConditions C m" and "\<And>x. quiet SetConditions C (f x)"
  shows "quiet SetConditions C (go_bind m f)"
  unfolding quiet_def wp_bind
proof (intro allI, rule wp_mono [OF quietD [OF assms(1)]])
  fix s s1 :: "('w, 'o) cstate" and x
  assume *: "extends C s s1 \<and> (\<exists>cs. obj s1 = SetConditions cs (obj s))"
  show "wp (f x) (\<lambda>_ s'. extends C s s' \<and> (\<exists>cs. obj s' = SetConditions cs (obj s)))
      (\<lambda>_ s'. extends C s s' \<and> (\<exists>cs. obj s' = SetConditions cs (obj s))) s1"
    by (rule wp_mono [OF quietD [OF assms(2)]])
      (use * in \<open>auto simp: set_set intro: extends_trans\<close>)
qed auto

lemma quiet_if: "quiet SetConditions C m \<Longrightarrow> quiet SetConditions C n \<Longrightarrow>
    quiet SetConditions C (if b then m else n)"
  by simp

lemma quiet_option: "quiet SetConditions C m \<Longrightarrow> (\<And>x. quiet SetConditions C (f x)) \<Longrightarrow>
    quiet SetConditions C (case p of None \<Rightarrow> m | Some x \<Rightarrow> f x)"
  by (simp split: option.splits)

lemma quiet_sum: "(\<And>x. quiet SetConditions C (f x)) \<Longrightarrow> (\<And>x. quiet SetConditions C (g x)) \<Longrightarrow>
    quiet SetConditions C (case v of Inl x \<Rightarrow> f x | Inr x \<Rightarrow> g x)"
  by (simp split: sum.splits)

lemma quiet_prod: "(\<And>x y. quiet SetConditions C (f x y)) \<Longrightarrow>
    quiet SetConditions C (case v of (x, y) \<Rightarrow> f x y)"
  by (simp split: prod.splits)

lemma quiet_let: "(\<And>x. quiet SetConditions C (f x)) \<Longrightarrow> quiet SetConditions C (let x = v in f x)"
  by (simp add: Let_def)

lemmas quiet_rules = quiet_return quiet_exit quiet_panic quiet_deref quiet_index0
  quiet_lift_panic quiet_get_obj quiet_mark quiet_call quiet_call_err quiet_call_get
  quiet_call_panic quiet_bind quiet_if quiet_option quiet_sum quiet_prod quiet_let

end

subsection \<open>Invariants of the object\<close>

text \<open>\<open>keeps P m\<close>: where the object satisfies \<open>P\<close>, it satisfies \<open>P\<close> after \<open>m\<close>, on every path.\<close>

definition keeps :: "('o \<Rightarrow> bool) \<Rightarrow> ('w, 'o, 'a) handler \<Rightarrow> bool" where
  "keeps P m \<longleftrightarrow> (\<forall>s. P (obj s) \<longrightarrow> wp m (\<lambda>_ s'. P (obj s')) (\<lambda>_ s'. P (obj s')) s)"

lemma keepsD: "keeps P m \<Longrightarrow> P (obj s) \<Longrightarrow> wp m (\<lambda>_ s'. P (obj s')) (\<lambda>_ s'. P (obj s')) s"
  by (simp add: keeps_def)

lemma keeps_finish: "keeps P m \<Longrightarrow> P (obj s) \<Longrightarrow> finish m s = (e, s') \<Longrightarrow> P (obj s')"
  by (drule (1) keepsD) (erule wp_finish)

lemma quiet_keeps: "quiet S C m \<Longrightarrow> (\<And>x cs. P x \<Longrightarrow> P (S cs x)) \<Longrightarrow> keeps P m"
  unfolding keeps_def by (intro allI impI, rule wp_mono, erule quietD) auto

lemma keeps_modify: "(\<And>x. P x \<Longrightarrow> P (f x)) \<Longrightarrow> keeps P (modify_obj f)"
  by (simp add: keeps_def wp)

lemma keeps_bind: "keeps P m \<Longrightarrow> (\<And>x. keeps P (f x)) \<Longrightarrow> keeps P (go_bind m f)"
  unfolding keeps_def wp_bind by (blast intro: wp_mono)

lemma keeps_get_obj: "(\<And>x. P x \<Longrightarrow> keeps P (f x)) \<Longrightarrow> keeps P (go_bind get_obj f)"
  by (simp add: keeps_def wp)

lemma keeps_basic:
  "keeps P (go_return x)" "keeps P (go_exit r)" "keeps P (panic p)" "keeps P (deref q)"
  "keeps P (go_index0 xs)" "keeps P (lift_panic v)" "keeps P (call c f)" "keeps P (call_err c g)"
  "keeps P (call_get c h)" "keeps P (call_panic c k)"
  by (simp_all add: keeps_def wp split: option.splits list.splits sum.splits)

lemma keeps_if: "(b \<Longrightarrow> keeps P m) \<Longrightarrow> (\<not> b \<Longrightarrow> keeps P n) \<Longrightarrow> keeps P (if b then m else n)"
  by simp

lemma keeps_option: "keeps P m \<Longrightarrow> (\<And>x. keeps P (f x)) \<Longrightarrow> keeps P (case p of None \<Rightarrow> m | Some x \<Rightarrow> f x)"
  by (simp split: option.splits)

lemma keeps_sum: "(\<And>x. keeps P (f x)) \<Longrightarrow> (\<And>x. keeps P (g x)) \<Longrightarrow> keeps P (case v of Inl x \<Rightarrow> f x | Inr x \<Rightarrow> g x)"
  by (simp split: sum.splits)

lemma keeps_prod: "(\<And>x y. keeps P (f x y)) \<Longrightarrow> keeps P (case v of (x, y) \<Rightarrow> f x y)"
  by (simp split: prod.splits)

lemma keeps_let: "(\<And>x. keeps P (f x)) \<Longrightarrow> keeps P (let x = v in f x)"
  by (simp add: Let_def)

lemmas keeps_rules = keeps_get_obj keeps_bind keeps_basic keeps_if keeps_option keeps_sum keeps_prod keeps_let

subsection \<open>Lookup before creation\<close>

text \<open>
  The lookup whose answer decides whether a resource is created: same place, same name.
\<close>

definition lookup_for :: "call \<Rightarrow> call \<Rightarrow> bool" where
  "lookup_for d c = (case c of
     CreateFirewallGroup g \<Rightarrow> (\<exists>v. d = GetFirewallGroupByName v (fgName g))
   | CreateAlbPool p \<Rightarrow> d = GetAlbPoolByName (oaID (poolGatewayRef p)) (poolName p)
   | CreateVirtualService v \<Rightarrow> d = GetVirtualServiceByName (oaID (vsGatewayRef v)) (vsName v)
   | CreateRawVApp n _ \<Rightarrow> d = GetVAppByName n
   | AddNewVM a n _ _ \<Rightarrow> d = GetVMByName a n
   | _ \<Rightarrow> False)"

definition create_guarded :: "lib \<Rightarrow> (call \<times> goerror option) list \<Rightarrow> bool" where
  \<comment> \<open>every creation comes after a lookup of that name answered not-found\<close>
  "create_guarded L evs \<longleftrightarrow> (\<forall>pre c e post. evs = pre @ (c, e) # post \<longrightarrow> creates c \<longrightarrow>
     (\<exists>d ed. (d, ed) \<in> set pre \<and> lookup_for d c \<and> ContainsNotFound L ed))"

lemma create_guarded_none: "list_all (\<lambda>ev. \<not> creates (fst ev)) evs \<Longrightarrow> create_guarded L evs"
  by (auto simp: create_guarded_def)

lemma create_guardedD:
  "create_guarded L (pre @ (c, e) # post) \<Longrightarrow> creates c \<Longrightarrow>
    \<exists>d ed. (d, ed) \<in> set pre \<and> lookup_for d c \<and> ContainsNotFound L ed"
  unfolding create_guarded_def by (drule spec [of _ pre]) simp

lemma create_guarded_append:
  assumes "create_guarded L xs" and "create_guarded L ys"
  shows "create_guarded L (xs @ ys)"
  unfolding create_guarded_def
proof (intro allI impI)
  fix pre c e post
  assume eq: "xs @ ys = pre @ (c, e) # post" and "creates c"
  from eq consider us where "xs = pre @ (c, e) # us" | us where "pre = xs @ us" "ys = us @ (c, e) # post"
    by (auto simp: append_eq_append_conv2 append_eq_Cons_conv)
  then show "\<exists>d ed. (d, ed) \<in> set pre \<and> lookup_for d c \<and> ContainsNotFound L ed"
  proof cases
    case 1
    with assms(1) \<open>creates c\<close> show ?thesis by (simp add: create_guardedD)
  next
    case 2
    then have "\<exists>d ed. (d, ed) \<in> set us \<and> lookup_for d c \<and> ContainsNotFound L ed"
      using assms(2) \<open>creates c\<close> by (simp add: create_guardedD)
    with 2 show ?thesis by auto
  qed
qed

lemma create_guarded_snoc:
  "create_guarded L xs \<Longrightarrow> (creates c \<Longrightarrow> \<exists>d ed. (d, ed) \<in> set xs \<and> lookup_for d c \<and> ContainsNotFound L ed) \<Longrightarrow>
    create_guarded L (xs @ [(c, e)])"
  by (auto simp: create_guarded_def append_eq_append_conv2 append_eq_Cons_conv Cons_eq_append_conv) blast+

lemma create_guarded_Nil [simp]: "create_guarded L []"
  by (simp add: create_guarded_def)

text \<open>An executable form, which the simplifier runs on the calls of one stage.\<close>

fun guarded_from :: "lib \<Rightarrow> (call \<times> goerror option) list \<Rightarrow> (call \<times> goerror option) list \<Rightarrow> bool" where
  "guarded_from L seen [] = True"
| "guarded_from L seen (ev # evs) =
     ((creates (fst ev) \<longrightarrow> list_ex (\<lambda>d. lookup_for (fst d) (fst ev) \<and> ContainsNotFound L (snd d)) seen)
      \<and> guarded_from L (seen @ [ev]) evs)"

lemma guarded_from_guarded: "guarded_from L seen evs \<Longrightarrow> create_guarded L seen \<Longrightarrow> create_guarded L (seen @ evs)"
proof (induction evs arbitrary: seen)
  case (Cons ev evs)
  then have "create_guarded L (seen @ [(fst ev, snd ev)])"
    by (intro create_guarded_snoc) (simp, clarsimp simp: list_ex_iff, blast)
  with Cons.IH [of "seen @ [ev]"] Cons.prems show ?case by simp
qed simp

lemma create_guardedI: "guarded_from L [] evs \<Longrightarrow> create_guarded L evs"
  using guarded_from_guarded [of L "[]" evs] by simp

lemma emits_guarded_bind:
  "emits (create_guarded L) m \<Longrightarrow> (\<And>x. emits (create_guarded L) (f x)) \<Longrightarrow>
    emits (create_guarded L) (go_bind m f)"
  by (rule emits_bind [where T = "create_guarded L" and U = "create_guarded L"])
    (auto intro: create_guarded_append)

lemma emits_return: "T [] \<Longrightarrow> emits T (go_return x)"
  by (simp add: emits_def wp)

lemma emits_exit: "T [] \<Longrightarrow> emits T (go_exit r)"
  by (simp add: emits_def wp)

lemma emits_deref: "T [] \<Longrightarrow> emits T (deref p)"
  by (simp add: emits_def wp split: option.splits)

lemma emits_index0: "T [] \<Longrightarrow> emits T (go_index0 xs)"
  by (simp add: emits_def wp split: list.splits)

lemma emits_get_obj: "T [] \<Longrightarrow> emits T get_obj"
  by (simp add: emits_def wp)

lemma emits_modify: "T [] \<Longrightarrow> emits T (modify_obj f)"
  by (simp add: emits_def wp)

lemma emits_call: "(\<And>e. T [(c, e)]) \<Longrightarrow> emits T (call c f)"
  by (auto simp: emits_def wp)

lemma emits_call_err: "(\<And>e. T [(c, e)]) \<Longrightarrow> emits T (call_err c f)"
  by (auto simp: emits_def wp)

lemma emits_call_panic: "T [] \<Longrightarrow> (\<And>e. T [(c, e)]) \<Longrightarrow> emits T (call_panic c f)"
  by (auto simp: emits_def wp)

lemma emits_call_get: "(\<And>e. T [(c, e)]) \<Longrightarrow> emits T (call_get c f)"
  by (auto simp: emits_def wp)

lemma emits_lift_panic: "T [] \<Longrightarrow> emits T (lift_panic v)"
  by (simp add: emits_def wp split: sum.splits)

lemma emits_sum: "(\<And>x. emits T (f x)) \<Longrightarrow> (\<And>x. emits T (g x)) \<Longrightarrow> emits T (case v of Inl x \<Rightarrow> f x | Inr x \<Rightarrow> g x)"
  by (simp split: sum.splits)

lemma emits_if: "emits T m \<Longrightarrow> emits T n \<Longrightarrow> emits T (if b then m else n)"
  by simp

lemma emits_option: "emits T m \<Longrightarrow> (\<And>x. emits T (f x)) \<Longrightarrow> emits T (case p of None \<Rightarrow> m | Some x \<Rightarrow> f x)"
  by (simp split: option.splits)

lemma emits_prod: "(\<And>x y. emits T (f x y)) \<Longrightarrow> emits T (case v of (x, y) \<Rightarrow> f x y)"
  by (simp split: prod.splits)

lemma emits_let: "(\<And>x. emits T (f x)) \<Longrightarrow> emits T (let x = v in f x)"
  by (simp add: Let_def)

lemmas emits_rules = emits_return emits_exit emits_deref emits_index0 emits_get_obj emits_modify emits_call
  emits_call_err emits_call_get emits_call_panic emits_lift_panic emits_if emits_option emits_sum emits_prod emits_let

lemma emits_all_bind:
  "emits (list_all P) m \<Longrightarrow> (\<And>x. emits (list_all P) (f x)) \<Longrightarrow> emits (list_all P) (go_bind m f)"
  by (erule emits_bind) auto

lemma quiet_emits_all:
  "quiet S C m \<Longrightarrow> (\<And>c. C c \<Longrightarrow> P c) \<Longrightarrow> emits (list_all (\<lambda>ev. P (fst ev))) m"
  by (erule quiet_emits) (auto simp: list_all_iff)

lemma emits_finish: "emits T m \<Longrightarrow> finish m s = (e, s') \<Longrightarrow> \<exists>evs. trace s' = trace s @ evs \<and> T evs"
  using wp_finish [OF emitsD] by blast

lemma quiet_guarded: "quiet S (\<lambda>c. \<not> creates c) m \<Longrightarrow> emits (create_guarded L) m"
  by (erule quiet_emits) (rule create_guarded_none)

subsection \<open>Deleted resources and the order of calls\<close>

definition gone :: "lib \<Rightarrow> call \<Rightarrow> ('h \<Rightarrow> call) \<Rightarrow> (call \<times> goerror option) list \<Rightarrow> bool" where
  \<comment> \<open>the lookup was answered not-found, or a deletion was accepted after it\<close>
  "gone L get del evs \<longleftrightarrow> (\<exists>err. (get, err) \<in> set evs \<and>
     (ContainsNotFound L err \<or> err = None \<and> (\<exists>h. (del h, None) \<in> set evs)))"

lemma gone_mono: "gone L g d xs \<Longrightarrow> set xs \<subseteq> set ys \<Longrightarrow> gone L g d ys"
  unfolding gone_def by blast

text \<open>\<open>precedes A B evs\<close>: the first event of the class \<open>B\<close>, if there is one, comes after one of the class \<open>A\<close>.\<close>

definition precedes :: "('e \<Rightarrow> bool) \<Rightarrow> ('e \<Rightarrow> bool) \<Rightarrow> 'e list \<Rightarrow> bool" where
  "precedes A B evs \<longleftrightarrow> (list_ex B evs \<longrightarrow> list_ex A (takeWhile (\<lambda>ev. \<not> B ev) evs))"

lemma precedes_none: "list_all (\<lambda>ev. \<not> B ev) xs \<Longrightarrow> precedes A B xs"
  by (auto simp: precedes_def list_all_iff list_ex_iff)

lemma precedes_append: "list_all (\<lambda>ev. \<not> B ev) xs \<Longrightarrow> precedes A B ys \<Longrightarrow> precedes A B (xs @ ys)"
  by (auto simp: precedes_def list_all_iff list_ex_iff takeWhile_append2)

lemma precedes_first: "list_all (\<lambda>ev. \<not> B ev) xs \<Longrightarrow> list_ex A xs \<Longrightarrow> precedes A B (xs @ ys)"
  by (auto simp: precedes_def list_all_iff list_ex_iff takeWhile_append2)

lemma precedes_snoc: "precedes A B xs \<Longrightarrow> \<not> B ev \<Longrightarrow> precedes A B (xs @ [ev])"
  by (cases "list_ex B xs") (auto simp: precedes_def takeWhile_append1 list_ex_iff)

lemma precedesD:
  assumes "precedes A B (pre @ ev # post)" and "B ev"
  shows "\<exists>a \<in> set pre. A a"
proof -
  have "set (takeWhile (\<lambda>ev. \<not> B ev) (pre @ ev # post)) \<subseteq> set pre"
    using assms(2) by (induction pre) auto
  with assms show ?thesis by (auto simp: precedes_def list_ex_iff)
qed

subsection \<open>The deferred patch\<close>

text \<open>
  The patch function of a resource: one \<^verbatim>\<open>Patch\<close> call, which changes nothing of the object
  but its conditions.
\<close>

definition patched_last :: "lib \<Rightarrow> (call \<times> goerror option) list \<Rightarrow> reconcile_result exit
    \<Rightarrow> (call \<times> goerror option) list \<Rightarrow> bool" where
  \<comment> \<open>exactly one patch, at the end; its error is reported and clears the requeue time\<close>
  "patched_last L tr e tr' \<longleftrightarrow> (\<exists>evs err. tr' = tr @ evs @ [(KPatch, err)] \<and> KPatch \<notin> fst ` set evs \<and>
     (\<forall>result reterr. e = Return (result, reterr) \<and> err \<noteq> None \<longrightarrow>
       result = done_result \<and> (\<exists>body_err. reterr = NewAggregate L [body_err, err])))"

lemma patched_lastI:
  "tr' = tr @ evs @ [(KPatch, err)] \<and> KPatch \<notin> fst ` set evs \<Longrightarrow>
    (\<And>result reterr. e = Return (result, reterr) \<Longrightarrow> err \<noteq> None \<Longrightarrow>
       result = done_result \<and> (\<exists>body_err. reterr = NewAggregate L [body_err, err])) \<Longrightarrow>
    patched_last L tr e tr'"
  unfolding patched_last_def by blast

locale patch_function = conditions_object GetConditions SetConditions
  for GetConditions :: "'o \<Rightarrow> Conditions" and SetConditions :: "Conditions \<Rightarrow> 'o \<Rightarrow> 'o" +
  fixes patch :: "('w, 'o) cstate \<Rightarrow> goerror option \<times> ('w, 'o) cstate"
  assumes patch_calls: "patch s = (err, s') \<Longrightarrow> trace s' = trace s @ [(KPatch, err)]"
    and patch_obj: "patch s = (err, s') \<Longrightarrow> \<exists>cs. obj s' = SetConditions cs (obj s)"
begin

text \<open>Every path through the deferred patch ends with exactly one patch after the body's calls.\<close>

lemma deferred_patch_last:
  assumes "emits (list_all (\<lambda>ev. fst ev \<noteq> KPatch)) body"
    and "trace s = tr @ xs" and "KPatch \<notin> fst ` set xs"
  shows "wp (deferred_patch L patch body)
    (\<lambda>r s'. patched_last L tr (Return r) (trace s')) (\<lambda>e s'. patched_last L tr e (trace s')) s"
proof -
  have *: "trace s2 = tr @ (xs @ evs) @ [(KPatch, err)] \<and> KPatch \<notin> fst ` set (xs @ evs)"
    if "trace s1 = trace s @ evs" "list_all (\<lambda>ev. fst ev \<noteq> KPatch) evs" "patch s1 = (err, s2)" for s1 s2 err evs
    using that(2) assms(3) by (auto simp: patch_calls [OF that(3)] that(1) assms(2) list_all_iff)
  show ?thesis
    unfolding wp_deferred_patch
    by (rule wp_mono [OF emitsD [OF assms(1)]])
      (auto split: exit.splits dest!: * intro!: patched_lastI)
qed

text \<open>What the body guarantees of the object up to its conditions, the reconciler guarantees.\<close>

lemma deferred_patch_keeps:
  assumes "keeps P body" and "\<And>x cs. P x \<Longrightarrow> P (SetConditions cs x)"
  shows "keeps P (deferred_patch L patch body)"
  unfolding keeps_def wp_deferred_patch
proof (intro allI impI, rule wp_mono [OF keepsD [OF assms(1)]])
qed (auto split: exit.splits dest!: patch_obj intro: assms(2))

lemma deferred_patch_emits:
  assumes "emits T body" and "\<And>evs err. T evs \<Longrightarrow> U (evs @ [(KPatch, err)])"
  shows "emits U (deferred_patch L patch body)"
  unfolding emits_def wp_deferred_patch
proof (intro allI, rule wp_mono [OF emitsD [OF assms(1)]])
qed (auto split: exit.splits dest!: patch_calls intro: assms(2))

text \<open>What the body guarantees when it is done without an error, the reconciler guarantees.\<close>

lemma deferred_patch_done:
  assumes "aggregate_lawful L" and "\<And>x cs. P x \<Longrightarrow> P (SetConditions cs x)"
    and "wp body (\<lambda>r t. r = (done_result, None) \<longrightarrow> P (obj t)) (\<lambda>e t. e = Return (done_result, None) \<longrightarrow> P (obj t)) s"
  shows "wp (deferred_patch L patch body)
    (\<lambda>r t. r = (done_result, None) \<longrightarrow> P (obj t)) (\<lambda>e t. e = Return (done_result, None) \<longrightarrow> P (obj t)) s"
proof -
  have agg: "NewAggregate L [x, Some e] \<noteq> None" for x e
    using assms(1) unfolding aggregate_lawful_def by (metis list.set_intros(1,2) option.distinct(1))
  have after: "(if err \<noteq> None then (done_result, NewAggregate L [snd r, err]) else r) = (done_result, None) \<longrightarrow> P (obj u)"
    if "r = (done_result, None) \<longrightarrow> P (obj t)" "patch t = (err, u)" for r t err u
    using that patch_obj [OF that(2)] assms(2) by (cases err) (auto simp: agg simp del: not_None_eq)
  show ?thesis
    unfolding wp_deferred_patch
  proof (rule wp_mono [OF assms(3)])
    show "\<forall>err s2. patch t = (err, s2) \<longrightarrow> (case e of
        Panic p \<Rightarrow> Panic p = Return (done_result, None) \<longrightarrow> P (obj s2)
      | Return r \<Rightarrow> (if err \<noteq> None then (done_result, NewAggregate L [snd r, err]) else r) = (done_result, None) \<longrightarrow> P (obj s2))"
      if "e = Return (done_result, None) \<longrightarrow> P (obj t)" for e t
    proof (cases e)
      case (Return r)
      then have "r = (done_result, None) \<longrightarrow> P (obj t)" using that by simp
      from after [OF this] show ?thesis by (simp only: Return exit.case) blast
    qed simp
  qed (rule allI, rule allI, rule impI, rule after)
qed

end

text \<open>
  What a patch leaves in the API server: \<^verbatim>\<open>Helper.Patch\<close> writes the conditions, the object and
  the rest of the status in three requests; when it reports an error, each of them may
  have been carried out or not.
\<close>

definition patch_outcome :: "('o \<Rightarrow> 'p) \<Rightarrow> ('o \<Rightarrow> 'q) \<Rightarrow> ('o \<Rightarrow> Conditions) \<Rightarrow> 'o \<Rightarrow> 'o \<Rightarrow> goerror option \<Rightarrow> 'o \<Rightarrow> bool" where
  "patch_outcome object_of status_of conditions_of x c err x' \<longleftrightarrow> (err = None \<longrightarrow> x' = c) \<and>
     object_of x' \<in> {object_of x, object_of c} \<and> status_of x' \<in> {status_of x, status_of c} \<and>
     conditions_of x' \<in> {conditions_of x, conditions_of c}"

lemma patch_outcome_complete: "patch_outcome f g h x c None c"
  by (simp add: patch_outcome_def)

subsection \<open>Services that answer\<close>

definition answers :: "('a option, 'w) reply \<Rightarrow> bool" where
  \<comment> \<open>the call returns a value and no error\<close>
  "answers f \<longleftrightarrow> (\<forall>w. \<exists>x. fst (f w) = (Some x, None))"

definition succeeds :: "('a, 'w) reply \<Rightarrow> bool" where
  "succeeds f \<longleftrightarrow> (\<forall>w. snd (fst (f w)) = None)"

definition looks_up :: "lib \<Rightarrow> ('a option, 'w) reply \<Rightarrow> bool" where
  \<comment> \<open>the call returns a value and no error, or a not-found error\<close>
  "looks_up L f \<longleftrightarrow> (\<forall>w. (\<exists>x. fst (f w) = (Some x, None)) \<or> ContainsNotFound L (snd (fst (f w))))"

lemma wp_answers: "answers f \<Longrightarrow> wp (call c f) Q E s \<longleftrightarrow>
    (\<forall>x w'. f (world s) = ((Some x, None), w') \<longrightarrow>
       Q (Some x, None) (s\<lparr>world := w', trace := trace s @ [(c, None)]\<rparr>))"
proof -
  assume f: "answers f"
  obtain x e w' where w: "f (world s) = ((x, e), w')" by (metis prod.collapse)
  from f have "\<exists>y. (x, e) = (Some y, None)" unfolding answers_def using w by (metis fst_conv)
  then show ?thesis by (auto simp: wp_call w)
qed

lemma wp_succeeds: "succeeds f \<Longrightarrow> wp (call c f) Q E s \<longleftrightarrow>
    (\<forall>x w'. f (world s) = ((x, None), w') \<longrightarrow>
       Q (x, None) (s\<lparr>world := w', trace := trace s @ [(c, None)]\<rparr>))"
  unfolding wp_call succeeds_def by (metis fst_conv snd_conv)

lemma wp_looks_up: "looks_up L f \<Longrightarrow> wp (call c f) Q E s \<longleftrightarrow>
    (\<forall>x w'. f (world s) = ((Some x, None), w') \<longrightarrow>
       Q (Some x, None) (s\<lparr>world := w', trace := trace s @ [(c, None)]\<rparr>)) \<and>
    (\<forall>x e w'. f (world s) = ((x, e), w') \<longrightarrow> ContainsNotFound L e \<longrightarrow>
       Q (x, e) (s\<lparr>world := w', trace := trace s @ [(c, e)]\<rparr>))"
proof -
  assume f: "looks_up L f"
  obtain x e w' where w: "f (world s) = ((x, e), w')" by (metis prod.collapse)
  from f have "(\<exists>y. (x, e) = (Some y, None)) \<or> ContainsNotFound L e"
    unfolding looks_up_def using w by (metis fst_conv snd_conv)
  then show ?thesis by (auto simp: wp_call w)
qed

definition accepts :: "('w \<Rightarrow> goerror option \<times> 'w) \<Rightarrow> bool" where
  "accepts f \<longleftrightarrow> (\<forall>w. fst (f w) = None)"

lemma wp_accepts: "accepts f \<Longrightarrow> wp (call_err c f) Q E s \<longleftrightarrow>
    (\<forall>w'. f (world s) = (None, w') \<longrightarrow> Q None (s\<lparr>world := w', trace := trace s @ [(c, None)]\<rparr>))"
  unfolding wp_call_err accepts_def by (metis fst_conv)

lemmas wp_healthy = wp_answers wp_succeeds wp_return wp_exit wp_bind wp_deref wp_get_obj wp_modify_obj
  wp_if wp_case_option wp_case_prod wp_let wp_call_err

subsection \<open>Early returns that report\<close>

definition unfinished :: "('w, 'o, 'a) handler \<Rightarrow> bool" where
  \<comment> \<open>an early return of \<open>m\<close> reports an error or asks to be called again\<close>
  "unfinished m \<longleftrightarrow> (\<forall>s. wp m (\<lambda>_ _. True) (\<lambda>e _. e \<noteq> Return (done_result, None)) s)"

lemma requeues_neq [simp]: "requeue_minute \<noteq> done_result" "\<lparr>RequeueAfter = time_Second * 5\<rparr> \<noteq> done_result"
  by (simp_all add: requeue_minute_def done_result_def time_Minute_def time_Second_def)

lemma unfinishedD: "unfinished m \<Longrightarrow> wp m (\<lambda>_ _. True) (\<lambda>e _. e \<noteq> Return (done_result, None)) s"
  by (simp add: unfinished_def)

lemma unfinished_bind: "unfinished m \<Longrightarrow> (\<And>x. unfinished (f x)) \<Longrightarrow> unfinished (go_bind m f)"
  unfolding unfinished_def wp_bind by (blast intro: wp_mono)

subsection \<open>Passes that count down\<close>

lemma countdown:
  assumes "\<And>i. P (x i) \<Longrightarrow> D i \<and> P (x (Suc i)) \<and> m (x (Suc i)) = m (x i) - (1 :: nat)" and "P (x 0)"
  shows "D i \<and> P (x i) \<and> m (x i) = m (x 0) - i"
proof -
  have "P (x i) \<and> m (x i) = m (x 0) - i"
    by (induction i) (use assms in auto)
  with assms(1) show ?thesis by blast
qed

end
