(* ===== verification/Name_Util.thy ===== *)
theory Name_Util
  imports Api_V1alpha1
begin

section \<open>Names of the Cloud Director resources (src/util/nameutil)\<close>

text \<open>
  How the provider derives the names under which it creates and later finds the resources
  of a cluster: the name of the cluster, or its UID, and the use the resource has.
\<close>

definition UseControlPlane :: string where
  "UseControlPlane = ''controlplane''"

definition ResourceName :: "CloudDirectorTenantCluster \<Rightarrow> string" where
  "ResourceName c =
     (if csUseUIDForNames (tcSpec c) then metaUID (tcMeta c) else metaName (tcMeta c))"

definition ResourceNameWithUse :: "CloudDirectorTenantCluster \<Rightarrow> string \<Rightarrow> string" where
  "ResourceNameWithUse c use =
     (if csUseUIDForNames (tcSpec c) then metaUID (tcMeta c) @ ''-'' @ use
      else metaName (tcMeta c) @ ''-'' @ use)"

lemma ResourceNameWithUse_eq: "ResourceNameWithUse c use = ResourceName c @ ''-'' @ use"
  by (simp add: ResourceNameWithUse_def ResourceName_def)

lemma ResourceName_cong:
  "tcMeta c = tcMeta d \<Longrightarrow> tcSpec c = tcSpec d \<Longrightarrow>
    ResourceName c = ResourceName d \<and> ResourceNameWithUse c u = ResourceNameWithUse d u"
  by (simp add: ResourceName_def ResourceNameWithUse_def)

end
