(* ===== verification/Tenant_Cluster.thy ===== *)
theory Tenant_Cluster
  imports Reconcile_Common Name_Util
begin

section \<open>The cluster controller (src/controllers/clouddirectortenantcluster\_controller.go)\<close>

text \<open>
  The reconciler of \<^verbatim>\<open>CloudDirectorTenantCluster\<close>: it claims an external address for the
  control plane, makes the IP set, the load-balancer pool, the virtual service and the vApp
  of the cluster when they do not exist, and records them in the status; on deletion it
  deletes them in the reverse order of their dependencies. Each \<open>c_\<close> definition is a
  stretch of \<^verbatim>\<open>Reconcile\<close> or \<^verbatim>\<open>reconcileDelete\<close> between two joins of the control flow; a
  pointer result of a lookup stays an option as long as the code may go on with nil.
\<close>

type_synonym ('w, 'a) tc_handler = "('w, CloudDirectorTenantCluster, 'a) handler"

definition CloudDirectorTenantClusterFinalizer :: string where
  "CloudDirectorTenantClusterFinalizer =
     ''cloud-director-tenant.infrastructure.cluster.x-k8s.io/finalizer''"

definition FirewallGroupTypeIpSet :: string where
  "FirewallGroupTypeIpSet = ''IP_SET''"

definition tc_set_finalizers :: "string list \<Rightarrow> CloudDirectorTenantCluster \<Rightarrow> CloudDirectorTenantCluster" where
  "tc_set_finalizers fs c = c\<lparr>tcMeta := (tcMeta c)\<lparr>metaFinalizers := fs\<rparr>\<rparr>"

definition tc_set_status :: "(CloudDirectorTenantClusterStatus \<Rightarrow> CloudDirectorTenantClusterStatus)
    \<Rightarrow> CloudDirectorTenantCluster \<Rightarrow> CloudDirectorTenantCluster" where
  "tc_set_status f c = c\<lparr>tcStatus := f (tcStatus c)\<rparr>"

definition tc_MarkTrue :: "lib \<Rightarrow> ConditionType \<Rightarrow> CloudDirectorTenantCluster \<Rightarrow> CloudDirectorTenantCluster" where
  "tc_MarkTrue L t c = tc_SetConditions (MarkTrue L (tc_GetConditions c) t) c"

definition tc_MarkFalse :: "lib \<Rightarrow> ConditionType \<Rightarrow> string \<Rightarrow> string \<Rightarrow> string
    \<Rightarrow> CloudDirectorTenantCluster \<Rightarrow> CloudDirectorTenantCluster" where
  "tc_MarkFalse L t reason sev m c = tc_SetConditions (MarkFalse L (tc_GetConditions c) t reason sev m) c"

subsection \<open>Reconcile: claiming the infrastructure\<close>

definition c_infrastructure :: "('w, 'h) env \<Rightarrow>
    ('w, VCDClient option \<times> Vdc option \<times> NsxtEdgeGateway option) tc_handler" where
  "c_infrastructure E =
     go_bind get_obj (\<lambda>tc.
     if csIdentityRef (tcSpec tc) = None then go_exit (done_result, None) else
     go_bind (call_panic GetVCDClientCall (envGetVCDClient E tc)) (\<lambda>(vcdClient, err).
     case err of Some e \<Rightarrow>
       go_bind (modify_obj (tc_MarkFalse (envLib E) ExternalIPAddressReady
          CloudDirectorErrorReason ''Error'' (errError e))) (\<lambda>_.
       go_exit (requeue_minute, None))
     | None \<Rightarrow>
     go_bind (call (GetOrgByName vcdClient (csOrganization (tcSpec tc)))
        (v_GetOrgByName (envVcd E) vcdClient (csOrganization (tcSpec tc)))) (\<lambda>(org, err).
     if err \<noteq> None then go_exit (requeue_minute, None) else
     go_bind (deref org) (\<lambda>_.
     go_bind (call (GetVDCByName org (csVirtualDataCenter (tcSpec tc)))
        (v_GetVDCByName (envVcd E) org (csVirtualDataCenter (tcSpec tc)) False)) (\<lambda>(vdc, err).
     if err \<noteq> None then go_exit (requeue_minute, None) else
     go_bind (deref vdc) (\<lambda>v.
     go_bind (call (GetEdgeGateway org (csEdgeGateway (tcSpec tc)) (vdcID v))
        (v_GetEdgeGateway (envVcd E) org (csEdgeGateway (tcSpec tc)) (vdcID v))) (\<lambda>(gw, err).
     if err \<noteq> None then go_exit (requeue_minute, None) else
     go_return (vcdClient, vdc, gw))))))))"

definition c_endpoint :: "('w, 'h) env \<Rightarrow> NsxtEdgeGateway option \<Rightarrow> ('w, unit) tc_handler" where
  "c_endpoint E gw =
     go_bind get_obj (\<lambda>tc.
     if endpointHost (csControlPlaneEndpoint (tcSpec tc)) = '''' then
       go_bind (call (GetUnusedExternalIPAddresses gw)
          (v_GetUnusedExternalIPAddresses (envVcd E) gw)) (\<lambda>(addrs, err).
       case err of Some e \<Rightarrow>
         go_bind (modify_obj (tc_MarkFalse (envLib E) ExternalIPAddressReady
            ExternalIPAddressGetUnusedFailedReason ''Error'' (errError e))) (\<lambda>_.
         go_exit (requeue_minute, None))
       | None \<Rightarrow>
       go_bind (go_index0 addrs) (\<lambda>a.
       go_bind (modify_obj (\<lambda>c. c\<lparr>tcSpec := (tcSpec c)\<lparr>csControlPlaneEndpoint :=
          \<lparr>endpointHost = addr_String a, endpointPort = 6443\<rparr>\<rparr>\<rparr>)) (\<lambda>_.
       go_exit (done_result, None))))
     else
       modify_obj (tc_MarkTrue (envLib E) ExternalIPAddressReady))"

subsection \<open>Reconcile: the resources of the control plane\<close>

definition c_ensure_firewall_group :: "('w, 'h) env \<Rightarrow> Vdc option \<Rightarrow> NsxtEdgeGateway option
    \<Rightarrow> ('w, NsxtFirewallGroup option) tc_handler" where
  "c_ensure_firewall_group E vdc gw =
     go_bind get_obj (\<lambda>tc.
     let name = ResourceNameWithUse tc UseControlPlane in
     go_bind (call (GetFirewallGroupByName vdc name)
        (v_GetFirewallGroupByName (envVcd E) vdc name FirewallGroupTypeIpSet)) (\<lambda>(fgroup, err).
     if ContainsNotFound (envLib E) err then
       go_bind (deref gw) (\<lambda>g.
       let config = \<lparr>fgID = '''', fgName = name, fgTypeValue = FirewallGroupTypeIpSet,
             fgOwnerRef = Some \<lparr>oaName = gwName g, oaID = gwID g\<rparr>, fgIpAddresses = []\<rparr> in
       go_bind (call (CreateFirewallGroup config)
          (v_CreateFirewallGroup (envVcd E) vdc config)) (\<lambda>(created, err).
       if err \<noteq> None then go_exit (requeue_minute, None) else
       go_return created))
     else go_return fgroup))"

definition c_ensure_pool :: "('w, 'h) env \<Rightarrow> VCDClient option \<Rightarrow> NsxtEdgeGateway option
    \<Rightarrow> NsxtFirewallGroup option \<Rightarrow> ('w, NsxtAlbPool option) tc_handler" where
  "c_ensure_pool E vcdClient gw fgroup =
     go_bind get_obj (\<lambda>tc.
     let name = ResourceNameWithUse tc UseControlPlane in
     go_bind (deref gw) (\<lambda>g.
     go_bind (call (GetAlbPoolByName (gwID g) name)
        (v_GetAlbPoolByName (envVcd E) vcdClient (gwID g) name)) (\<lambda>(pool, err).
     if ContainsNotFound (envLib E) err then
       go_bind (deref fgroup) (\<lambda>fg.
       let config = \<lparr>poolID = '''', poolName = name, poolDefaultPort = Some 6443,
             poolGatewayRef = \<lparr>oaName = gwName g, oaID = gwID g\<rparr>,
             poolMemberGroupRef = Some \<lparr>oaName = fgName fg, oaID = fgID fg\<rparr>,
             poolHealthMonitors = [''TCP'']\<rparr> in
       go_bind (call (CreateAlbPool config)
          (v_CreateAlbPool (envVcd E) vcdClient config)) (\<lambda>(created, err).
       if err \<noteq> None then go_exit (requeue_minute, None) else
       go_return created))
     else go_return pool)))"

definition c_ensure_virtual_service :: "('w, 'h) env \<Rightarrow> VCDClient option \<Rightarrow> NsxtEdgeGateway option
    \<Rightarrow> NsxtAlbPool option \<Rightarrow> ('w, NsxtAlbVirtualService option) tc_handler" where
  "c_ensure_virtual_service E vcdClient gw pool =
     go_bind get_obj (\<lambda>tc.
     go_bind (deref gw) (\<lambda>g.
     let name = ResourceNameWithUse tc UseControlPlane in
     go_bind (call (GetVirtualServiceByName (gwID g) name)
        (v_GetVirtualServiceByName (envVcd E) vcdClient (gwID g) name)) (\<lambda>(service, err).
     if IgnoreNotFound (envLib E) err \<noteq> None then go_exit (done_result, err) else
     if ContainsNotFound (envLib E) err then
       go_bind (call (GetServiceEngineGroupAssignment (csServiceEngineGroup (tcSpec tc))
             (''gatewayRef.id=='' @ gwID g))
          (v_GetServiceEngineGroupAssignment (envVcd E) vcdClient
             (csServiceEngineGroup (tcSpec tc)) (''gatewayRef.id=='' @ gwID g))) (\<lambda>(seg, err).
       if err \<noteq> None then go_exit (requeue_minute, None) else
       go_bind (deref pool) (\<lambda>p.
       go_bind (deref seg) (\<lambda>a.
       go_bind (deref (segRef a)) (\<lambda>sg.
       let config = \<lparr>vsID = '''', vsName = name, vsEnabled = Some True,
             vsGatewayRef = \<lparr>oaName = gwName g, oaID = gwID g\<rparr>,
             vsLoadBalancerPoolRef = \<lparr>oaName = poolName p, oaID = poolID p\<rparr>,
             vsServiceEngineGroupRef = \<lparr>oaName = oaName sg, oaID = oaID sg\<rparr>,
             vsVirtualIpAddress = endpointHost (csControlPlaneEndpoint (tcSpec tc)),
             vsServicePorts = [\<lparr>vspPortStart =
                 Some (scast (endpointPort (csControlPlaneEndpoint (tcSpec tc)))),
               vspTcpUdpProfile = Some ''TCP_PROXY''\<rparr>],
             vsApplicationProfile = ''L4''\<rparr> in
       go_bind (call (CreateVirtualService config)
          (v_CreateVirtualService (envVcd E) vcdClient config)) (\<lambda>(created, err).
       case err of Some e \<Rightarrow>
         go_bind (modify_obj (tc_MarkFalse (envLib E) VirtualServiceReadyCondition
            VirtualServiceCreateFailedReason ''Error'' (re_ReplaceAll (errError e)))) (\<lambda>_.
         go_exit (requeue_minute, None))
       | None \<Rightarrow> go_return created)))))
     else go_return service)))"

definition c_ensure_vapp :: "('w, 'h) env \<Rightarrow> Vdc option \<Rightarrow> ('w, VApp option) tc_handler" where
  "c_ensure_vapp E vdc =
     go_bind get_obj (\<lambda>tc.
     let name = ResourceName tc in
     go_bind (call (GetVAppByName name) (a_GetVAppByName (envVapp E) vdc name True)) (\<lambda>(vApp, err).
     if IgnoreNotFound (envLib E) err \<noteq> None then go_exit (done_result, err) else
     if ContainsNotFound (envLib E) err then
       go_bind (call (CreateRawVApp name '''')
          (a_CreateRawVApp (envVapp E) vdc name '''')) (\<lambda>(vApp, err).
       case err of Some e \<Rightarrow>
         go_bind (modify_obj (tc_MarkFalse (envLib E) VAppReadyCondition
            VAppCreateFailedReason ''Error'' (errError e))) (\<lambda>_.
         go_exit (requeue_minute, None))
       | None \<Rightarrow>
       go_bind (call (GetOrgVdcNetworkByName (csNetwork (tcSpec tc)))
          (a_GetOrgVdcNetworkByName (envVapp E) vdc (csNetwork (tcSpec tc)) True)) (\<lambda>(network, err).
       if err \<noteq> None then go_exit (requeue_minute, None) else
       go_bind (deref network) (\<lambda>n.
       go_bind (call (AddOrgNetwork vApp) (a_AddOrgNetwork (envVapp E) vApp n False)) (\<lambda>(_, err).
       if err \<noteq> None then go_exit (requeue_minute, None) else
       go_bind (call (PowerOnVApp vApp) (a_PowerOn (envVapp E) vApp)) (\<lambda>(task, err).
       if err \<noteq> None then go_exit (requeue_minute, None) else
       go_bind (deref task) (\<lambda>_.
       go_bind (call_err (WaitTaskCompletion task)
          (a_WaitTaskCompletion (envVapp E) task)) (\<lambda>_.
       go_return vApp)))))))
     else go_return vApp))"

definition cd_reference :: "string \<Rightarrow> string \<Rightarrow> CloudDirectorReference" where
  "cd_reference i n = \<lparr>cdrID = i, cdrName = n\<rparr>"

definition c_publish :: "('w, 'h) env \<Rightarrow> NsxtAlbVirtualService \<Rightarrow> NsxtAlbPool option
    \<Rightarrow> NsxtFirewallGroup option \<Rightarrow> VApp option \<Rightarrow> ('w, reconcile_result) tc_handler" where
  "c_publish E service pool fgroup vApp =
     go_bind (deref vApp) (\<lambda>a.
     go_bind (modify_obj (tc_set_status (\<lambda>st. st\<lparr>ctVApp := Some (cd_reference (vappID a) (vappName a))\<rparr>))) (\<lambda>_.
     go_bind (modify_obj (tc_MarkTrue (envLib E) VAppReadyCondition)) (\<lambda>_.
     go_bind (modify_obj (tc_set_status (\<lambda>st. st\<lparr>ctVirtualService := Some (cd_reference (vsID service) (vsName service))\<rparr>))) (\<lambda>_.
     go_bind (modify_obj (tc_MarkTrue (envLib E) VirtualServiceReadyCondition)) (\<lambda>_.
     go_bind (deref pool) (\<lambda>p.
     go_bind (modify_obj (tc_set_status (\<lambda>st. st\<lparr>ctPool := Some (cd_reference (poolID p) (poolName p))\<rparr>))) (\<lambda>_.
     go_bind (modify_obj (tc_MarkTrue (envLib E) PoolReadyCondition)) (\<lambda>_.
     go_bind (deref fgroup) (\<lambda>fg.
     go_bind (modify_obj (tc_set_status (\<lambda>st. st\<lparr>ctIPSet := Some (cd_reference (fgID fg) (fgName fg))\<rparr>))) (\<lambda>_.
     go_bind (modify_obj (tc_MarkTrue (envLib E) IPSetReadyCondition)) (\<lambda>_.
     go_bind (modify_obj (tc_set_status (\<lambda>st. st\<lparr>ctReady := True\<rparr>))) (\<lambda>_.
     go_return (done_result, None)))))))))))))"

definition c_resources :: "('w, 'h) env \<Rightarrow> VCDClient option \<Rightarrow> Vdc option \<Rightarrow> NsxtEdgeGateway option
    \<Rightarrow> ('w, reconcile_result) tc_handler" where
  "c_resources E vcdClient vdc gw =
     go_bind (c_ensure_firewall_group E vdc gw) (\<lambda>fgroup.
     go_bind (c_ensure_pool E vcdClient gw fgroup) (\<lambda>pool.
     go_bind (c_ensure_virtual_service E vcdClient gw pool) (\<lambda>service.
     go_bind (deref service) (\<lambda>vs.
     go_bind (c_ensure_vapp E vdc) (\<lambda>vApp.
     c_publish E vs pool fgroup vApp)))))"

definition c_reconcileNormal :: "('w, 'h) env \<Rightarrow> Cluster option \<Rightarrow> ('w, reconcile_result) tc_handler" where
  "c_reconcileNormal E ownerCluster =
     go_bind (c_infrastructure E) (\<lambda>(vcdClient, vdc, gw).
     go_bind (c_endpoint E gw) (\<lambda>_.
     case ownerCluster of None \<Rightarrow> go_exit (done_result, None)
     | Some oc \<Rightarrow>
       if clusterControlPlaneRef oc = None then go_exit (done_result, None)
       else c_resources E vcdClient vdc gw))"

subsection \<open>reconcileDelete\<close>

definition c_delete_virtual_service :: "('w, 'h) env \<Rightarrow> VCDClient option \<Rightarrow> ('w, unit) tc_handler" where
  "c_delete_virtual_service E vcdClient =
     go_bind get_obj (\<lambda>tc.
     case ctVirtualService (tcStatus tc) of None \<Rightarrow> go_return ()
     | Some ref \<Rightarrow>
       go_bind (call (GetVirtualServiceById (cdrID ref))
          (v_GetVirtualServiceById (envVcd E) vcdClient (cdrID ref))) (\<lambda>(service, err).
       if IgnoreNotFound (envLib E) err \<noteq> None then go_exit (done_result, err) else
       if \<not> ContainsNotFound (envLib E) err then
         go_bind (call_err (DeleteVirtualService service)
            (v_DeleteVirtualService (envVcd E) service)) (\<lambda>err.
         if err \<noteq> None then go_exit (done_result, err) else go_return ())
       else go_return ()))"

definition c_delete_pool :: "('w, 'h) env \<Rightarrow> VCDClient option \<Rightarrow> ('w, unit) tc_handler" where
  "c_delete_pool E vcdClient =
     go_bind get_obj (\<lambda>tc.
     case ctPool (tcStatus tc) of None \<Rightarrow> go_return ()
     | Some ref \<Rightarrow>
       go_bind (call (GetAlbPoolById (cdrID ref))
          (v_GetAlbPoolById (envVcd E) vcdClient (cdrID ref))) (\<lambda>(pool, err).
       if IgnoreNotFound (envLib E) err \<noteq> None then go_exit (done_result, err) else
       if \<not> ContainsNotFound (envLib E) err then
         go_bind (call_err (DeleteAlbPool pool) (v_DeleteAlbPool (envVcd E) pool)) (\<lambda>err.
         if err \<noteq> None then go_exit (done_result, err) else go_return ())
       else go_return ()))"

definition c_delete_ip_set :: "('w, 'h) env \<Rightarrow> Vdc option \<Rightarrow> ('w, unit) tc_handler" where
  "c_delete_ip_set E vdc =
     go_bind get_obj (\<lambda>tc.
     case ctIPSet (tcStatus tc) of None \<Rightarrow> go_return ()
     | Some ref \<Rightarrow>
       go_bind (call (GetFirewallGroupById vdc (cdrID ref))
          (v_GetFirewallGroupById (envVcd E) vdc (cdrID ref))) (\<lambda>(fgroup, err).
       if IgnoreNotFound (envLib E) err \<noteq> None then go_exit (done_result, err) else
       if \<not> ContainsNotFound (envLib E) err then
         go_bind (deref fgroup) (\<lambda>fg.
         if length (fgIpAddresses fg) > 0 then go_exit (done_result, None) else
         go_bind (call_err (DeleteFirewallGroup fg) (v_DeleteFirewallGroup (envVcd E) fg)) (\<lambda>err.
         if err \<noteq> None then go_exit (done_result, err) else go_return ()))
       else go_return ()))"

definition c_delete_vapp :: "('w, 'h) env \<Rightarrow> Vdc option \<Rightarrow> ('w, unit) tc_handler" where
  "c_delete_vapp E vdc =
     go_bind get_obj (\<lambda>tc.
     case ctVApp (tcStatus tc) of None \<Rightarrow> go_return ()
     | Some ref \<Rightarrow>
       go_bind (call (GetVAppById vdc (cdrID ref))
          (a_GetVAppById (envVapp E) vdc (cdrID ref) False)) (\<lambda>(vApp, err).
       if IgnoreNotFound (envLib E) err \<noteq> None then go_exit (done_result, err) else
       if \<not> ContainsNotFound (envLib E) err then
         go_bind (deref vApp) (\<lambda>a.
         go_bind (call (GetVAppStatus a) (a_GetStatus (envVapp E) a)) (\<lambda>(status, err).
         if err \<noteq> None then go_exit (done_result, err) else
         go_bind
           (if status \<noteq> ''POWERED_OFF'' then
              go_bind (call (UndeployVApp a) (a_Undeploy (envVapp E) a)) (\<lambda>(task, err).
              if err \<noteq> None then go_exit (done_result, err) else
              go_bind (call_err (WaitTaskCompletion task)
                 (a_WaitTaskCompletion (envVapp E) task)) (\<lambda>err.
              if err \<noteq> None then go_exit (done_result, err) else go_return ()))
            else go_return ()) (\<lambda>_.
         go_bind (call (DeleteVApp a) (a_Delete (envVapp E) a)) (\<lambda>(task, err).
         if err \<noteq> None then go_exit (done_result, err) else
         go_bind (call_err (WaitTaskCompletion task)
            (a_WaitTaskCompletion (envVapp E) task)) (\<lambda>err.
         if err \<noteq> None then go_exit (done_result, err) else go_return ())))))
       else go_return ()))"

definition c_delete_resources :: "('w, 'h) env \<Rightarrow> VCDClient option \<Rightarrow> Vdc option \<Rightarrow> ('w, unit) tc_handler" where
  "c_delete_resources E vcdClient vdc =
     go_bind (c_delete_virtual_service E vcdClient) (\<lambda>_.
     go_bind (c_delete_pool E vcdClient) (\<lambda>_.
     go_bind (c_delete_ip_set E vdc) (\<lambda>_.
     c_delete_vapp E vdc)))"

definition c_reconcileDelete :: "('w, 'h) env \<Rightarrow> Cluster option \<Rightarrow> ('w, reconcile_result) tc_handler" where
  "c_reconcileDelete E ownerCluster =
     go_bind (call KListMachines
        (k_GetFilteredMachinesForCluster (envKube E) ownerCluster)) (\<lambda>(machines, err).
     if err \<noteq> None then go_exit (done_result, err) else
     if length machines > 0 then go_exit (\<lparr>RequeueAfter = time_Second * 5\<rparr>, None) else
     go_bind get_obj (\<lambda>tc.
     go_bind (call_panic GetVCDClientCall (envGetVCDClient E tc)) (\<lambda>(vcdClient, err).
     if err \<noteq> None then go_exit (done_result, err) else
     go_bind (call (GetOrgByName vcdClient (csOrganization (tcSpec tc)))
        (v_GetOrgByName (envVcd E) vcdClient (csOrganization (tcSpec tc)))) (\<lambda>(org, err).
     if err \<noteq> None then go_exit (done_result, err) else
     go_bind (call (GetVDCByName org (csVirtualDataCenter (tcSpec tc)))
        (v_GetVDCByName (envVcd E) org (csVirtualDataCenter (tcSpec tc)) False)) (\<lambda>(vdc, err).
     if err \<noteq> None then go_exit (done_result, err) else
     go_bind (c_delete_resources E vcdClient vdc) (\<lambda>_.
     go_bind (modify_obj (\<lambda>c. tc_set_finalizers (fst (RemoveFinalizer (envLib E)
        (metaFinalizers (tcMeta c)) CloudDirectorTenantClusterFinalizer)) c)) (\<lambda>_.
     go_return (done_result, None))))))))"

subsection \<open>Reconcile\<close>

definition patchTenantCluster :: "('w, 'h) env \<Rightarrow> 'h option
    \<Rightarrow> ('w, CloudDirectorTenantCluster) cstate \<Rightarrow> goerror option \<times> ('w, CloudDirectorTenantCluster) cstate" where
  "patchTenantCluster E helper s =
     (let tc = tc_SetConditions (SetSummary (envLib E) (tc_GetConditions (obj s))
            [VirtualServiceReadyCondition, PoolReadyCondition, IPSetReadyCondition,
             VAppReadyCondition, ExternalIPAddressReady]) (obj s);
          owned = [''Ready'', VirtualServiceReadyCondition, PoolReadyCondition,
             IPSetReadyCondition, VAppReadyCondition, ExternalIPAddressReady]
      in case k_PatchCluster (envKube E) helper tc owned (world s) of (err, w') \<Rightarrow>
        (err, s\<lparr>obj := tc, world := w', trace := trace s @ [(KPatch, err)]\<rparr>))"

definition c_Reconcile_body :: "('w, 'h) env \<Rightarrow> ('w, reconcile_result) tc_handler" where
  "c_Reconcile_body E =
     go_bind get_obj (\<lambda>tc.
     go_bind (call KGetOwnerCluster (k_GetOwnerCluster (envKube E) (tcMeta tc))) (\<lambda>(ownerCluster, err).
     if err \<noteq> None then go_exit (done_result, err) else
     if \<not> TimeIsZero (envLib E) (metaDeletionTimestamp (tcMeta tc)) then
       c_reconcileDelete E ownerCluster
     else
       (case AddFinalizer (envLib E) (metaFinalizers (tcMeta tc)) CloudDirectorTenantClusterFinalizer of
          (finalizers, added) \<Rightarrow>
            go_bind (modify_obj (tc_set_finalizers finalizers)) (\<lambda>_.
            if added then go_exit (done_result, None) else c_reconcileNormal E ownerCluster))))"

definition c_Reconcile :: "('w, 'h) env \<Rightarrow> NamespacedName \<Rightarrow> ('w, reconcile_result) tc_handler" where
  "c_Reconcile E req =
     go_bind (call_get (KGetTenantCluster req) (k_GetTenantCluster (envKube E) req)) (\<lambda>r.
     case r of
       Inl err \<Rightarrow> go_exit (done_result, ClientIgnoreNotFound (envLib E) (Some err))
     | Inr tc \<Rightarrow>
         go_bind (modify_obj (\<lambda>_. tc)) (\<lambda>_.
         go_bind (call KNewHelper (k_NewHelperCluster (envKube E) tc)) (\<lambda>(helper, err).
         if err \<noteq> None then go_exit (done_result, err) else
         deferred_patch (envLib E) (patchTenantCluster E helper) (c_Reconcile_body E))))"

subsection \<open>SetupWithManager\<close>

text \<open>The map function of the \<^verbatim>\<open>Cluster\<close> watch: the request names the tenant cluster after the cluster.\<close>

definition clusterToTenantClusters :: "Cluster \<Rightarrow> NamespacedName list" where
  "clusterToTenantClusters oc =
     [\<lparr>nnName = metaName (clusterMeta oc), nnNamespace = metaNamespace (clusterMeta oc)\<rparr>]"

subsection \<open>Frame lemmas: what each stage may call and change\<close>

lemma tc_Mark_quiet:
  "quiet tc_SetConditions C (modify_obj (tc_MarkTrue L t))"
  "quiet tc_SetConditions C (modify_obj (tc_MarkFalse L t r v m))"
  unfolding tc_MarkTrue_def tc_MarkFalse_def by (rule tc.quiet_mark)+

lemmas tc_quiet = tc_Mark_quiet tc.quiet_rules

lemma c_infrastructure_quiet: "quiet tc_SetConditions (\<lambda>c. \<not> mutates c \<and> c \<noteq> KPatch) (c_infrastructure E)"
  unfolding c_infrastructure_def by (intro tc_quiet) (simp_all add: call_classes)

lemma c_ensure_firewall_group_quiet:
  "quiet tc_SetConditions (\<lambda>c. \<not> deletes c \<and> c \<noteq> KPatch) (c_ensure_firewall_group E vdc gw)"
  unfolding c_ensure_firewall_group_def by (intro tc_quiet) (simp_all add: call_classes)

lemma c_ensure_pool_quiet:
  "quiet tc_SetConditions (\<lambda>c. \<not> deletes c \<and> c \<noteq> KPatch) (c_ensure_pool E vc gw fgroup)"
  unfolding c_ensure_pool_def by (intro tc_quiet) (simp_all add: call_classes)

lemma c_ensure_virtual_service_quiet:
  "quiet tc_SetConditions (\<lambda>c. \<not> deletes c \<and> c \<noteq> KPatch) (c_ensure_virtual_service E vc gw pool)"
  unfolding c_ensure_virtual_service_def by (intro tc_quiet) (simp_all add: call_classes)

lemma c_ensure_vapp_quiet:
  "quiet tc_SetConditions (\<lambda>c. \<not> deletes c \<and> c \<noteq> KPatch) (c_ensure_vapp E vdc)"
  unfolding c_ensure_vapp_def by (intro tc_quiet) (simp_all add: call_classes)

lemma c_delete_stages_quiet:
  "quiet tc_SetConditions (\<lambda>c. \<not> creates c \<and> c \<noteq> KPatch) (c_delete_virtual_service E vc)"
  "quiet tc_SetConditions (\<lambda>c. \<not> creates c \<and> c \<noteq> KPatch) (c_delete_pool E vc)"
  "quiet tc_SetConditions (\<lambda>c. \<not> creates c \<and> c \<noteq> KPatch) (c_delete_ip_set E vdc)"
  "quiet tc_SetConditions (\<lambda>c. \<not> creates c \<and> c \<noteq> KPatch) (c_delete_vapp E vdc)"
  unfolding c_delete_virtual_service_def c_delete_pool_def c_delete_ip_set_def c_delete_vapp_def
  by (intro tc_quiet; simp add: call_classes)+

lemma c_delete_resources_quiet:
  "quiet tc_SetConditions (\<lambda>c. \<not> creates c \<and> c \<noteq> KPatch) (c_delete_resources E vc vdc)"
  unfolding c_delete_resources_def by (intro tc_quiet c_delete_stages_quiet)

lemmas c_stages_quiet = c_infrastructure_quiet c_ensure_firewall_group_quiet c_ensure_pool_quiet
  c_ensure_virtual_service_quiet c_ensure_vapp_quiet c_delete_resources_quiet

text \<open>The patch of a cluster satisfies the contract of a patch function.\<close>

interpretation tcp: patch_function tc_GetConditions tc_SetConditions "patchTenantCluster E helper"
  for E :: "('w, 'h) env" and helper
  by unfold_locales (auto simp: patchTenantCluster_def Let_def split: prod.splits)

subsection \<open>Lifting to Reconcile\<close>

lemma c_Reconcile_keeps:
  assumes "keeps P (c_Reconcile_body E)" and "\<And>x cs. P x \<Longrightarrow> P (tc_SetConditions cs x)"
    and "k_GetTenantCluster (envKube E) req (world s) = (Inr tc, w)" and "P tc"
    and "finish (c_Reconcile E req) s = (e, s')"
  shows "P (obj s')"
proof -
  have "keeps P (deferred_patch (envLib E) (patchTenantCluster E h) (c_Reconcile_body E))" for h
    using assms(1,2) by (rule tcp.deferred_patch_keeps)
  then have "wp (c_Reconcile E req) (\<lambda>_ s'. P (obj s')) (\<lambda>_ s'. P (obj s')) s"
    unfolding c_Reconcile_def using assms(3,4) by (auto simp: wp intro!: keepsD)
  then show ?thesis by (rule wp_finish) (rule assms(5))
qed

lemma c_Reconcile_emits:
  fixes E :: "('w, 'h) env"
  assumes "emits T (c_Reconcile_body E)"
    and "\<And>evs fs. T evs \<Longrightarrow> list_all (\<lambda>ev. \<not> vcd_call (fst ev)) fs \<Longrightarrow> U (evs @ fs)"
    and "\<And>evs. list_all (\<lambda>ev. \<not> vcd_call (fst ev)) evs \<Longrightarrow> V evs"
    and "\<And>evs fs. list_all (\<lambda>ev. \<not> vcd_call (fst ev)) evs \<Longrightarrow> U fs \<Longrightarrow> V (evs @ fs)"
  shows "emits V (c_Reconcile E req)"
proof -
  have d: "emits U (deferred_patch (envLib E) (patchTenantCluster E h) (c_Reconcile_body E))" for h
    using assms(1) by (rule tcp.deferred_patch_emits) (simp add: assms(2))
  have d': "wp (deferred_patch (envLib E) (patchTenantCluster E h) (c_Reconcile_body E))
     (\<lambda>_ s'. \<exists>evs. trace s' = trace s @ evs \<and> V evs) (\<lambda>_ s'. \<exists>evs. trace s' = trace s @ evs \<and> V evs) s1"
    if "trace s1 = trace s @ xs" "list_all (\<lambda>ev. \<not> vcd_call (fst ev)) xs"
    for h xs and s s1 :: "('w, CloudDirectorTenantCluster) cstate"
    by (rule wp_mono [OF emitsD [OF d]]) (auto simp: that(1) intro: assms(4) [OF that(2)])
  show ?thesis
    unfolding emits_def c_Reconcile_def
    by (auto simp: wp intro!: assms(3)
        d' [where xs = "[(KGetTenantCluster req, None), (KNewHelper, None)]"])
qed

text \<open>A property of the state that the body establishes and the patch keeps holds after \<^verbatim>\<open>Reconcile\<close>.\<close>

lemma c_Reconcile_lift:
  fixes E :: "('w, 'h) env"
  assumes "k_GetTenantCluster (envKube E) req (world s) = (Inr tc, w)"
    and "\<And>w'. wp (c_Reconcile_body E) (\<lambda>_. Q) (\<lambda>_. Q) (s\<lparr>obj := tc, world := w',
       trace := trace s @ [(KGetTenantCluster req, None), (KNewHelper, None)]\<rparr>)"
    and "\<And>t t' cs err. Q t \<Longrightarrow> obj t' = tc_SetConditions cs (obj t) \<Longrightarrow>
       trace t' = trace t @ [(KPatch, err)] \<Longrightarrow> Q t'"
    and "\<And>t err. obj t = tc \<Longrightarrow> trace t = trace s @ [(KGetTenantCluster req, None), (KNewHelper, Some err)] \<Longrightarrow> Q t"
  shows "Q (snd (finish (c_Reconcile E req) s))"
proof -
  have patch: "Q t'" if "Q t" "patchTenantCluster E h t = (err, t')" for t t' h err
    using that tcp.patch_calls tcp.patch_obj assms(3) by metis
  have "wp (c_Reconcile E req) (\<lambda>_. Q) (\<lambda>_. Q) s"
    unfolding c_Reconcile_def
    using assms(1)
    by (auto simp: wp wp_deferred_patch intro!: wp_mono [OF assms(2)]
        intro: patch assms(4) split: exit.splits)
  then show ?thesis by (rule wp_finish) (rule prod.collapse [symmetric])
qed

end
