(* ===== verification/Client_Cache.thy ===== *)
theory Client_Cache
  imports External_Deps
begin

section \<open>The cache of Cloud Director clients (src/util/clientcache/clientcache.go)\<close>

text \<open>
  \<^verbatim>\<open>GetVCDClient\<close> reads the identity secret of a cluster, looks a client up under a hash of
  the credentials and logs in when there is none. The calls are recorded like those of the
  controllers; the interface \<^verbatim>\<open>ClientCache\<close> as the controllers see it is \<open>GetVCDClient\<close>,
  which runs the handler and drops the record. The mutex makes lookup, login and insertion
  one step, which is what a run of the handler is; \<open>Concurrent_Cache\<close> shows it for interleaved
  calls.

  Parameters (\<open>auth\<close>): the expiring cache of \<^verbatim>\<open>k8s.io/apimachinery\<close>, the client of govcd and
  its login, the JWT parser and the clock; \<^verbatim>\<open>url.Parse\<close> too, since its result is only handed
  on to govcd. A numeric claim is represented by its conversion to \<^verbatim>\<open>int64\<close>.
\<close>

datatype claim = ClaimFloat64 int64 | ClaimOther

record Token =
  AccessToken :: string

record ('w, 'u) auth =
  au_Parse :: "string \<Rightarrow> goerror + 'u"
  au_NewVCDClient :: "'u \<Rightarrow> bool \<Rightarrow> VCDClient"
  au_SetApiToken :: "VCDClient \<Rightarrow> string \<Rightarrow> string \<Rightarrow> (VCDClient \<times> Token option, 'w) reply"
  au_ParseUnverified :: "string \<Rightarrow> goerror + (string \<rightharpoonup> claim) option"
  au_Now :: "'w \<Rightarrow> int"
  au_CacheGet :: "32 word \<Rightarrow> 'w \<Rightarrow> VCDClient option \<times> 'w"
  au_CacheAdd :: "32 word \<Rightarrow> VCDClient \<Rightarrow> int \<Rightarrow> 'w \<Rightarrow> 'w"

datatype cache_call =
    CacheGetSecret NamespacedName
  | CacheGet "32 word"
  | CacheLogin string string
  | CacheAdd "32 word" VCDClient int

type_synonym ('w, 'a) cache_handler =
  "(('w, unit, cache_call) rst, VCDClient option \<times> goerror option, 'a) go"

subsection \<open>The remaining life time of a token\<close>

definition duration :: "int \<Rightarrow> int" where
  \<comment> \<open>\<^verbatim>\<open>Time.Sub\<close> saturates at the ends of \<^verbatim>\<open>time.Duration\<close>\<close>
  "duration d = max (- (2 ^ 63)) (min (2 ^ 63 - 1) d)"

definition getTokenRemainingTTL :: "('w, 'u) auth \<Rightarrow> string \<Rightarrow> 'w \<Rightarrow> int \<times> goerror option" where
  "getTokenRemainingTTL A tokenString w =
     (case au_ParseUnverified A tokenString of
        Inl _ \<Rightarrow> (- 1, Some (ErrorString ''unable to parse input as JWT token''))
      | Inr claims \<Rightarrow>
        (case claims of None \<Rightarrow> (- 1, Some (ErrorString ''unable to parse token claims''))
         | Some m \<Rightarrow>
           (case m ''exp'' of
              Some (ClaimFloat64 expFloat) \<Rightarrow> (duration (sint expFloat * time_Second - au_Now A w), None)
            | _ \<Rightarrow> (- 1, Some (ErrorString ''unable to get expiration date from token'')))))"

subsection \<open>GetVCDClient\<close>

definition get_world :: "(('w, 'o, 'c) rst, 'r, 'w) go" where
  \<comment> \<open>the world is looked at (the clock is read)\<close>
  "get_world = (\<lambda>s. (Inr (world s), s))"

lemma wp_get_world [wp]: "wp get_world Q E s = Q (world s) s"
  by (simp add: wp_def get_world_def)

definition cache_key :: "string \<Rightarrow> string \<Rightarrow> string \<Rightarrow> 32 word" where
  \<comment> \<open>\<^verbatim>\<open>fnv.New32()\<close> after three writes\<close>
  "cache_key endpoint apiToken organization =
     fnv_Write (fnv_Write (fnv_Write fnv_offset32 endpoint) apiToken) organization"

definition get_client :: "('w, 'u) auth \<Rightarrow> 'u \<Rightarrow> string \<Rightarrow> string \<Rightarrow> string
    \<Rightarrow> ('w, VCDClient option \<times> goerror option) cache_handler" where
  \<comment> \<open>the part under the mutex\<close>
  "get_client A u endpoint apiToken organization =
     (let sum = cache_key endpoint apiToken organization in
     go_bind (call (CacheGet sum) (\<lambda>w. case au_CacheGet A sum w of (i, w') \<Rightarrow> ((i, None), w'))) (\<lambda>(i, _).
     if i \<noteq> None then go_exit (i, None) else
     let vcdClient = au_NewVCDClient A u False in
     go_bind (call (CacheLogin organization apiToken)
        (au_SetApiToken A vcdClient organization apiToken)) (\<lambda>((vcdClient, token), err).
     if err \<noteq> None then go_exit (None, err) else
     go_bind (deref token) (\<lambda>t.
     go_bind get_world (\<lambda>w.
     (case getTokenRemainingTTL A (AccessToken t) w of (ttl, err) \<Rightarrow>
        if err \<noteq> None then go_exit (None, err) else
        go_bind (call_err (CacheAdd sum vcdClient ttl)
           (\<lambda>w. (None, au_CacheAdd A sum vcdClient ttl w))) (\<lambda>_.
        go_return (Some vcdClient, None))))))))"

definition get_vcd_client :: "('w, 'h) kube \<Rightarrow> ('w, 'u) auth \<Rightarrow> CloudDirectorTenantCluster
    \<Rightarrow> ('w, VCDClient option \<times> goerror option) cache_handler" where
  "get_vcd_client K A tc =
     go_bind (deref (csIdentityRef (tcSpec tc))) (\<lambda>ref.
     let objectKey = \<lparr>nnName = identityName ref, nnNamespace = metaNamespace (tcMeta tc)\<rparr> in
     go_bind (call_get (CacheGetSecret objectKey) (k_GetSecret K objectKey)) (\<lambda>r.
     case r of Inl err \<Rightarrow> go_exit (None, Some err)
     | Inr secret \<Rightarrow>
       (case secretData secret ''url'' of None \<Rightarrow> go_exit (None, None)
        | Some endpoint \<Rightarrow>
          (case au_Parse A (endpoint @ ''/api'') of Inl err \<Rightarrow> go_exit (None, Some err)
           | Inr u \<Rightarrow>
             (case secretData secret ''apiToken'' of None \<Rightarrow> go_exit (None, None)
              | Some apiToken \<Rightarrow>
                (case secretData secret ''organization'' of None \<Rightarrow> go_exit (None, None)
                 | Some organization \<Rightarrow> get_client A u endpoint apiToken organization))))))"

definition start :: "'w \<Rightarrow> ('w, unit, cache_call) rst" where
  "start w = \<lparr>obj = (), world = w, trace = []\<rparr>"

definition GetVCDClient :: "('w, 'h) kube \<Rightarrow> ('w, 'u) auth \<Rightarrow> CloudDirectorTenantCluster \<Rightarrow> 'w
    \<Rightarrow> (go_panic + VCDClient option \<times> goerror option) \<times> 'w" where
  "GetVCDClient K A tc w =
     (case finish (get_vcd_client K A tc) (start w) of
        (Panic p, s) \<Rightarrow> (Inl p, world s)
      | (Return r, s) \<Rightarrow> (Inr r, world s))"

lemma start_sel [simp]: "world (start w) = w" "trace (start w) = []"
  by (simp_all add: start_def)

subsection \<open>The contract of a client cache\<close>

text \<open>
  What the controllers may rely on, for any implementation of the interface: without an
  identity reference there is no result (the pointer is followed without a test), and an
  error comes with no client. The provider satisfies it.
\<close>

locale client_cache =
  fixes get :: "CloudDirectorTenantCluster \<Rightarrow> 'w \<Rightarrow> (go_panic + VCDClient option \<times> goerror option) \<times> 'w"
  assumes nil_identity: "csIdentityRef (tcSpec tc) = None \<Longrightarrow> get tc w = (Inl NilDereference, w)"
    and error_no_client: "get tc w = (Inr (cl, Some err), w') \<Longrightarrow> cl = None"
begin

lemma call_without_identity:
  "csIdentityRef (tcSpec tc) = None \<Longrightarrow> wp (call_panic c (get tc)) Q E s = E (Panic NilDereference) s"
  by (simp add: wp nil_identity)

lemma client_implies_identity: "get tc w = (Inr r, w') \<Longrightarrow> csIdentityRef (tcSpec tc) \<noteq> None"
  using nil_identity by force

end

lemma get_vcd_client_error:
  assumes "finish (get_vcd_client K A tc) s = (e, s')"
  shows "e = Return (cl, Some err) \<longrightarrow> cl = None"
proof -
  let ?Q = "\<lambda>e s'. e = Return (cl, Some err) \<longrightarrow> cl = None"
  have "wp (get_vcd_client K A tc) (\<lambda>r. ?Q (Return r)) ?Q s"
    unfolding get_vcd_client_def get_client_def
    by (auto simp: wp Let_def split: option.splits sum.splits prod.splits)
  from wp_finish [OF this assms] show ?thesis .
qed

interpretation provider: client_cache "GetVCDClient K A"
  for K :: "('w, 'h) kube" and A :: "('w, 'u) auth"
proof
  show "csIdentityRef (tcSpec tc) = None \<Longrightarrow> GetVCDClient K A tc w = (Inl NilDereference, w)" for tc w
    by (simp add: GetVCDClient_def get_vcd_client_def finish_def go_bind_def deref_def panic_def)
  show "GetVCDClient K A tc w = (Inr (cl, Some err), w') \<Longrightarrow> cl = None" for tc w cl err w'
    using get_vcd_client_error [of K A tc "start w"]
    by (auto simp: GetVCDClient_def split: prod.splits exit.splits)
qed

subsection \<open>Which clients are cached\<close>

definition credentials :: "Secret \<Rightarrow> (string \<times> string \<times> string) option" where
  "credentials secret = (case (secretData secret ''url'', secretData secret ''apiToken'', secretData secret ''organization'') of
     (Some u, Some t, Some org) \<Rightarrow> Some (u, t, org) | _ \<Rightarrow> None)"

definition secret_of :: "('w, 'h) kube \<Rightarrow> CloudDirectorTenantCluster \<Rightarrow> Secret \<Rightarrow> bool" where
  \<comment> \<open>the secret the identity of the cluster names, in the namespace of the cluster, as it is read at some moment\<close>
  "secret_of K tc secret \<longleftrightarrow> (\<exists>ref w. csIdentityRef (tcSpec tc) = Some ref \<and>
     fst (k_GetSecret K \<lparr>nnName = identityName ref, nnNamespace = metaNamespace (tcMeta tc)\<rparr> w) = Inr secret)"

definition logged_in :: "('w, 'u) auth \<Rightarrow> string \<Rightarrow> string \<Rightarrow> string \<Rightarrow> VCDClient \<Rightarrow> Token \<Rightarrow> 'w \<Rightarrow> bool" where
  \<comment> \<open>the login of a new client for that URL with that token and organization made \<open>c\<close> and \<open>tok\<close>, and left \<open>w\<close>\<close>
  "logged_in A url apiToken organization c tok w \<longleftrightarrow> (\<exists>u v. au_Parse A (url @ ''/api'') = Inr u \<and>
     au_SetApiToken A (au_NewVCDClient A u False) organization apiToken v = (((c, Some tok), None), w))"

text \<open>
  C30. A client enters the cache only under the hash of the URL, token and organization of
  the secret of its cluster, when the cache had no client for them; only after a client made
  for that URL logged in with that token and organization, with the life time its access
  token has right after that login; and only as the last step of a call that returns that
  very client: a call that fails leaves the cache as it was.
\<close>

theorem only_logged_in_clients_cached:
  assumes "finish (get_vcd_client K A tc) (start w) = (e, s')"
    and "(CacheAdd k c ttl, x) \<in> set (trace s')"
  shows "\<exists>secret url apiToken organization tok w1 w2. secret_of K tc secret \<and>
    credentials secret = Some (url, apiToken, organization) \<and> k = cache_key url apiToken organization \<and>
    fst (au_CacheGet A k w1) = None \<and> logged_in A url apiToken organization c tok w2 \<and>
    getTokenRemainingTTL A (AccessToken tok) w2 = (ttl, None) \<and>
    e = Return (Some c, None) \<and> last (trace s') = (CacheAdd k c ttl, x) \<and> world s' = au_CacheAdd A k c ttl w2"
proof -
  let ?P = "\<lambda>e s'. \<exists>secret url apiToken organization tok w1 w2. secret_of K tc secret \<and>
    credentials secret = Some (url, apiToken, organization) \<and> k = cache_key url apiToken organization \<and>
    fst (au_CacheGet A k w1) = None \<and> logged_in A url apiToken organization c tok w2 \<and>
    getTokenRemainingTTL A (AccessToken tok) w2 = (ttl, None) \<and>
    e = Return (Some c, None) \<and> last (trace s') = (CacheAdd k c ttl, x) \<and> world s' = au_CacheAdd A k c ttl w2"
  have secret: "secret_of K tc secret" if "csIdentityRef (tcSpec tc) = Some ref"
      "k_GetSecret K \<lparr>nnName = identityName ref, nnNamespace = metaNamespace (tcMeta tc)\<rparr> v = (Inr secret, v')" for ref v v' secret
    using that unfolding secret_of_def by (metis fst_conv)
  have creds: "credentials secret = Some (url, apiToken, organization)"
    if "secretData secret ''url'' = Some url" "secretData secret ''organization'' = Some organization"
      "secretData secret ''apiToken'' = Some apiToken" for secret url apiToken organization
    using that by (simp add: credentials_def)
  have login: "logged_in A url apiToken organization c' tok v'" if "au_Parse A (url @ ''/api'') = Inr u"
      "au_SetApiToken A (au_NewVCDClient A u False) organization apiToken v = (((c', Some tok), None), v')"
    for url u organization apiToken v c' tok v'
    using that unfolding logged_in_def by blast
  have miss: "\<exists>w1. fst (au_CacheGet A k' w1) = None" if "au_CacheGet A k' v = (None, v')" for k' v v'
    using that by (metis fst_conv)
  let ?Q = "\<lambda>e s'. (CacheAdd k c ttl, x) \<in> set (trace s') \<longrightarrow> ?P e s'"
  have "wp (get_vcd_client K A tc) (\<lambda>r. ?Q (Return r)) ?Q (start w)"
    unfolding get_vcd_client_def get_client_def
    by (auto simp: wp Let_def split: option.splits sum.splits prod.splits) (blast intro: secret creds login miss)
  from wp_finish [OF this assms(1)] assms(2) show ?thesis by simp
qed

subsection \<open>When every cluster is served\<close>

definition logins_granted :: "('w, 'h) kube \<Rightarrow> ('w, 'u) auth \<Rightarrow> bool" where
  \<comment> \<open>the secrets are complete, the URLs parse, the logins succeed and their tokens can be read\<close>
  "logins_granted K A \<longleftrightarrow>
     (\<forall>key w. \<exists>secret. fst (k_GetSecret K key w) = Inr secret \<and> credentials secret \<noteq> None) \<and>
     (\<forall>s. \<exists>u. au_Parse A s = Inr u) \<and>
     (\<forall>c org t w. \<exists>c' tok. fst (au_SetApiToken A c org t w) = ((c', Some tok), None)) \<and>
     (\<forall>t w. snd (getTokenRemainingTTL A t w) = None)"

lemma get_client_served:
  assumes "\<And>c org t w. \<exists>c' tok. fst (au_SetApiToken A c org t w) = ((c', Some tok), None)"
    and "\<And>t w. snd (getTokenRemainingTTL A t w) = None"
  shows "wp (get_client A u url apiToken organization) (\<lambda>r _. \<exists>c. r = (Some c, None)) (\<lambda>e _. \<exists>c. e = Return (Some c, None)) s"
proof -
  have login: "au_SetApiToken A c org t w = (((c', tok), err), w') \<Longrightarrow> err = None \<and> tok \<noteq> None" for c org t w c' tok err w'
    using assms(1) [of c org t w] by auto
  have ttl: "getTokenRemainingTTL A t w = (d, err) \<Longrightarrow> err = None" for t w d err
    using assms(2) [of t w] by simp
  show ?thesis
    unfolding get_client_def by (auto simp: wp Let_def split: option.splits dest: login ttl)
qed

text \<open>Then \<^verbatim>\<open>GetVCDClient\<close> gives every cluster with an identity a client, and never an error.\<close>

theorem every_identity_served:
  assumes "logins_granted K A" and "csIdentityRef (tcSpec tc) \<noteq> None"
  shows "\<exists>c. fst (GetVCDClient K A tc w) = Inr (Some c, None)"
proof -
  have secret: "k_GetSecret K key w = (r, w') \<Longrightarrow> \<exists>s. r = Inr s \<and> credentials s \<noteq> None" for key w r w'
    using assms(1) unfolding logins_granted_def by (metis fst_conv)
  have url: "au_Parse A s \<noteq> Inl e" for s e
    using assms(1) unfolding logins_granted_def by (metis sum.distinct(1))
  have client: "wp (get_client A u url apiToken organization) (\<lambda>r _. \<exists>c. r = (Some c, None)) (\<lambda>e _. \<exists>c. e = Return (Some c, None)) s"
    for u url apiToken organization and s :: "('a, unit, cache_call) rst"
    by (rule get_client_served) (use assms(1) in \<open>auto simp: logins_granted_def\<close>)
  have "wp (get_vcd_client K A tc) (\<lambda>r _. \<exists>c. r = (Some c, None)) (\<lambda>e _. \<exists>c. e = Return (Some c, None)) (start w)"
    using assms(2) unfolding get_vcd_client_def
    by (auto simp: wp Let_def url credentials_def split: option.splits sum.splits intro!: client dest!: secret)
  then have "wp (get_vcd_client K A tc) (\<lambda>r _. \<exists>c. Return r = Return (Some c, None)) (\<lambda>e _. \<exists>c. e = Return (Some c, None)) (start w)"
    by (rule wp_mono) auto
  from wp_finish [OF this prod.collapse [symmetric]] show ?thesis
    by (auto simp: GetVCDClient_def split: prod.splits exit.splits)
qed

subsection \<open>When a client is used again\<close>

definition secret_is :: "('w, 'h) kube \<Rightarrow> CloudDirectorTenantCluster \<Rightarrow> Secret \<Rightarrow> bool" where
  \<comment> \<open>the cluster has an identity, and reading its secret gives this secret and changes nothing\<close>
  "secret_is K tc secret \<longleftrightarrow> (\<exists>ref. csIdentityRef (tcSpec tc) = Some ref \<and>
     (\<forall>w. k_GetSecret K \<lparr>nnName = identityName ref, nnNamespace = metaNamespace (tcMeta tc)\<rparr> w = (Inr secret, w)))"

definition cache_lawful :: "('w, 'u) auth \<Rightarrow> bool" where
  \<comment> \<open>an entry with time to live is found right after it was added\<close>
  "cache_lawful A \<longleftrightarrow> (\<forall>k c ttl w. 0 < ttl \<longrightarrow> fst (au_CacheGet A k (au_CacheAdd A k c ttl w)) = Some c)"

lemma cached_client_served:
  assumes "secret_is K tc secret" and "credentials secret = Some (u, t, org)"
    and "\<not> isl (au_Parse A (u @ ''/api''))"
    and "fst (au_CacheGet A (cache_key u t org) w) = Some c"
  shows "\<exists>s'. finish (get_vcd_client K A tc) (start w) = (Return (Some c, None), s') \<and>
    list_all (\<lambda>ev. \<forall>org t. fst ev \<noteq> CacheLogin org t) (trace s')"
proof -
  obtain w' where "au_CacheGet A (cache_key u t org) w = (Some c, w')"
    using assms(4) by (metis prod.collapse)
  then show ?thesis
    using assms(1-3)
    by (auto simp: secret_is_def credentials_def get_vcd_client_def get_client_def finish_def go_bind_def
        deref_def go_return_def go_exit_def call_get_def call_def Let_def
        split: option.splits sum.splits prod.splits)
qed

lemma added_client_found:
  assumes "cache_lawful A" and "secret_is K tc secret" and "credentials secret = Some (u, t, org)"
    and "finish (get_vcd_client K A tc) (start w) = (e, s')"
    and "(CacheAdd k c ttl, x) \<in> set (trace s')" and "0 < ttl"
  shows "k = cache_key u t org \<and> fst (au_CacheGet A k (world s')) = Some c"
proof -
  let ?Q = "\<lambda>e s'. (CacheAdd k c ttl, x) \<in> set (trace s') \<longrightarrow>
    k = cache_key u t org \<and> fst (au_CacheGet A k (world s')) = Some c"
  have "wp (get_vcd_client K A tc) (\<lambda>r. ?Q (Return r)) ?Q (start w)"
    using assms(1,2,3,6) unfolding get_vcd_client_def get_client_def
    by (auto simp: wp Let_def secret_is_def credentials_def cache_lawful_def
        split: option.splits sum.splits prod.splits)
  from wp_finish [OF this assms(4)] assms(5) show ?thesis by blast
qed

text \<open>
  One login serves every later call with the same credentials: after a call that
  logged in and cached its client with a positive time to live, the next call for a cluster
  whose secret holds the same URL, token and organization returns that client, without an
  error and without a login.
\<close>

theorem client_reused:
  assumes "cache_lawful A" and "secret_is K tc1 secret1" and "credentials secret1 = Some (u, t, org)"
    and "finish (get_vcd_client K A tc1) (start w) = (e, s')"
    and "(CacheAdd k c ttl, x) \<in> set (trace s')" and "0 < ttl"
    and "secret_is K tc2 secret2" and "credentials secret2 = Some (u, t, org)"
    and "\<not> isl (au_Parse A (u @ ''/api''))"
  shows "\<exists>s''. finish (get_vcd_client K A tc2) (start (world s')) = (Return (Some c, None), s'') \<and>
    list_all (\<lambda>ev. \<forall>org t. fst ev \<noteq> CacheLogin org t) (trace s'')"
  using added_client_found [OF assms(1-6)] by (intro cached_client_served [OF assms(7-9)]) auto

text \<open>
  C33. The credentials are hashed without a separator, so different credentials whose
  concatenation is the same are one key: after a login for one cluster, a cluster with
  another token and another organization is handed that cluster's client. No hash
  collision is needed.
\<close>

theorem client_of_other_credentials:
  assumes "cache_lawful A" and "secret_is K tc1 secret1" and "credentials secret1 = Some (u1, t1, org1)"
    and "finish (get_vcd_client K A tc1) (start w) = (e, s')"
    and "(CacheAdd k c ttl, x) \<in> set (trace s')" and "0 < ttl"
    and "secret_is K tc2 secret2" and "credentials secret2 = Some (u2, t2, org2)"
    and "\<not> isl (au_Parse A (u2 @ ''/api''))"
    and "u1 @ t1 @ org1 = u2 @ t2 @ org2"
  shows "\<exists>s''. finish (get_vcd_client K A tc2) (start (world s')) = (Return (Some c, None), s'')"
proof -
  have "cache_key u1 t1 org1 = cache_key u2 t2 org2"
    using assms(10) by (simp add: cache_key_def fnv_Write_append [symmetric])
  then show ?thesis
    using cached_client_served [OF assms(7-9)] added_client_found [OF assms(1-6)] by auto
qed

text \<open>
  A secret that lacks one of the three keys is not reported: the call returns neither a
  client nor an error (so its caller goes on with a nil client), and it neither looks into
  the cache nor logs in.
\<close>

theorem incomplete_secret_not_reported:
  assumes "secret_is K tc secret" and "credentials secret = None"
    and "\<forall>s. \<exists>u. au_Parse A s = Inr u"
  shows "\<exists>s'. finish (get_vcd_client K A tc) (start w) = (Return (None, None), s') \<and> length (trace s') = 1"
proof -
  have "au_Parse A s \<noteq> Inl e" for s e using assms(3) by (metis sum.distinct(1))
  with assms(1,2) show ?thesis
    by (auto simp: secret_is_def credentials_def get_vcd_client_def finish_def go_bind_def deref_def go_return_def
        go_exit_def call_get_def Let_def split: option.splits sum.splits prod.splits)
qed

text \<open>
  The remaining life time of a token, when there is one: the token parses, its claim
  \<^verbatim>\<open>exp\<close> is a number, the result fits \<^verbatim>\<open>time.Duration\<close>, and it is positive exactly when the
  expiration lies after the present.
\<close>

lemma token_ttl_bounds:
  assumes "getTokenRemainingTTL A tok w = (ttl, None)"
  shows "\<exists>claims ex. au_ParseUnverified A tok = Inr (Some claims) \<and> claims ''exp'' = Some (ClaimFloat64 ex) \<and>
    - (2 ^ 63) \<le> ttl \<and> ttl < 2 ^ 63 \<and> (0 < ttl \<longleftrightarrow> au_Now A w < sint ex * time_Second)"
  using assms
  by (auto simp: getTokenRemainingTTL_def duration_def split: sum.splits option.splits claim.splits)

subsection \<open>A concrete cache\<close>

text \<open>
  The theorems applied: the world is the content of the cache, two clusters have their
  credentials in the secrets \<^verbatim>\<open>a\<close> and \<^verbatim>\<open>b\<close>, and every login is granted for an hour.
\<close>

definition demo_secret :: "string \<Rightarrow> Secret" where
  "demo_secret n = \<lparr>secretName = n, secretNamespace = ''default'', secretData =
     (if n = ''a'' then [''url'' \<mapsto> ''https://vcd'', ''apiToken'' \<mapsto> ''tok1'', ''organization'' \<mapsto> ''2org'']
      else if n = ''b'' then [''url'' \<mapsto> ''https://vcd'', ''apiToken'' \<mapsto> ''tok12'', ''organization'' \<mapsto> ''org'']
      else [''url'' \<mapsto> ''https://vcd''])\<rparr>"

definition demo_kube :: "(32 word \<rightharpoonup> VCDClient, unit) kube" where
  "demo_kube = (let missing = ErrorString ''not found'' in \<lparr>
     k_GetTenantMachine = (\<lambda>_ w. (Inl missing, w)), k_GetTenantCluster = (\<lambda>_ w. (Inl missing, w)),
     k_GetSecret = (\<lambda>key w. (Inr (demo_secret (nnName key)), w)),
     k_GetOwnerMachine = (\<lambda>_ w. ((None, None), w)), k_GetOwnerCluster = (\<lambda>_ w. ((None, None), w)),
     k_GetClusterFromMetadata = (\<lambda>_ w. ((None, Some missing), w)),
     k_GetFilteredMachinesForCluster = (\<lambda>_ w. (([], None), w)),
     k_NewHelperMachine = (\<lambda>_ w. ((Some (), None), w)), k_NewHelperCluster = (\<lambda>_ w. ((Some (), None), w)),
     k_PatchMachine = (\<lambda>_ _ _ w. (None, w)), k_PatchCluster = (\<lambda>_ _ _ w. (None, w))\<rparr>)"

definition demo_auth :: "(32 word \<rightharpoonup> VCDClient, string) auth" where
  "demo_auth = \<lparr>au_Parse = Inr, au_NewVCDClient = (\<lambda>u _. \<lparr>vcdHREF = u, vcdToken = ''''\<rparr>),
     au_SetApiToken = (\<lambda>c org t w. (((c\<lparr>vcdToken := t\<rparr>, Some \<lparr>AccessToken = ''jwt''\<rparr>), None), w)),
     au_ParseUnverified = (\<lambda>_. Inr (Some [''exp'' \<mapsto> ClaimFloat64 3600])),
     au_Now = (\<lambda>_. 0), au_CacheGet = (\<lambda>k w. (w k, w)), au_CacheAdd = (\<lambda>k c _ w. w(k \<mapsto> c))\<rparr>"

definition demo_cluster :: "string \<Rightarrow> CloudDirectorTenantCluster" where
  "demo_cluster n = \<lparr>tcMeta = \<lparr>metaName = n, metaNamespace = ''default'', metaUID = '''', metaLabels = [],
       metaFinalizers = [], metaDeletionTimestamp = None\<rparr>,
     tcSpec = \<lparr>csControlPlaneEndpoint = \<lparr>endpointHost = '''', endpointPort = 0\<rparr>, csOrganization = '''',
       csVirtualDataCenter = '''', csEdgeGateway = '''', csNetwork = '''', csServiceEngineGroup = '''',
       csIdentityRef = Some \<lparr>identityKind = ''Secret'', identityName = n\<rparr>, csUseUIDForNames = False\<rparr>,
     tcStatus = \<lparr>ctReady = False, ctVirtualService = None, ctVApp = None, ctIPSet = None, ctPool = None,
       ctConditions = []\<rparr>\<rparr>"

definition demo_client :: VCDClient where
  "demo_client = \<lparr>vcdHREF = ''https://vcd/api'', vcdToken = ''tok1''\<rparr>"

lemma demo_secret_is: "secret_is demo_kube (demo_cluster n) (demo_secret n)"
  by (simp add: secret_is_def demo_kube_def demo_cluster_def Let_def)

lemma demo_credentials:
  "credentials (demo_secret ''a'') = Some (''https://vcd'', ''tok1'', ''2org'')"
  "credentials (demo_secret ''b'') = Some (''https://vcd'', ''tok12'', ''org'')"
  "credentials (demo_secret ''c'') = None"
  by (simp_all add: credentials_def demo_secret_def)

lemma demo_auth_lawful: "cache_lawful demo_auth" "\<not> isl (au_Parse demo_auth u)" "\<exists>v. au_Parse demo_auth u = Inr v"
  by (simp_all add: cache_lawful_def demo_auth_def)

lemma demo_ttl: "getTokenRemainingTTL demo_auth ''jwt'' w = (3600000000000, None)"
  by (simp add: getTokenRemainingTTL_def demo_auth_def duration_def time_Second_def)

lemma demo_auth_sel:
  "au_Parse demo_auth = Inr" "au_NewVCDClient demo_auth u b = \<lparr>vcdHREF = u, vcdToken = ''''\<rparr>"
  "au_SetApiToken demo_auth c org t w = (((c\<lparr>vcdToken := t\<rparr>, Some \<lparr>AccessToken = ''jwt''\<rparr>), None), w)"
  "au_CacheGet demo_auth k w = (w k, w)" "au_CacheAdd demo_auth k c d w = w(k \<mapsto> c)"
  by (simp_all add: demo_auth_def)

lemma demo_login:
  "finish (get_vcd_client demo_kube demo_auth (demo_cluster ''a'')) (start Map.empty) =
     (Return (Some demo_client, None), \<lparr>obj = (),
       world = [cache_key ''https://vcd'' ''tok1'' ''2org'' \<mapsto> demo_client],
       trace = [(CacheGetSecret \<lparr>nnName = ''a'', nnNamespace = ''default''\<rparr>, None),
         (CacheGet (cache_key ''https://vcd'' ''tok1'' ''2org''), None), (CacheLogin ''2org'' ''tok1'', None),
         (CacheAdd (cache_key ''https://vcd'' ''tok1'' ''2org'') demo_client 3600000000000, None)]\<rparr>)"
  by (simp add: get_vcd_client_def get_client_def demo_cluster_def demo_kube_def demo_secret_def demo_client_def
      demo_ttl demo_auth_sel start_def finish_def go_bind_def deref_def go_return_def go_exit_def call_get_def
      call_def call_err_def get_world_def Let_def)

lemma demo_added: "(CacheAdd (cache_key ''https://vcd'' ''tok1'' ''2org'') demo_client 3600000000000, None) \<in>
    set (trace (snd (finish (get_vcd_client demo_kube demo_auth (demo_cluster ''a'')) (start Map.empty))))"
  by (simp add: demo_login)

theorem only_logged_in_clients_cached_witness:
  "\<exists>secret url apiToken organization tok w. secret_of demo_kube (demo_cluster ''a'') secret \<and>
    credentials secret = Some (url, apiToken, organization) \<and>
    cache_key ''https://vcd'' ''tok1'' ''2org'' = cache_key url apiToken organization \<and>
    logged_in demo_auth url apiToken organization demo_client tok w"
  using only_logged_in_clients_cached [OF prod.collapse [symmetric] demo_added] by blast

theorem client_reused_witness:
  "\<exists>s''. finish (get_vcd_client demo_kube demo_auth (demo_cluster ''a''))
      (start [cache_key ''https://vcd'' ''tok1'' ''2org'' \<mapsto> demo_client]) = (Return (Some demo_client, None), s'') \<and>
    list_all (\<lambda>ev. \<forall>org t. fst ev \<noteq> CacheLogin org t) (trace s'')"
  using client_reused [OF demo_auth_lawful(1) demo_secret_is demo_credentials(1) prod.collapse [symmetric]
      demo_added _ demo_secret_is demo_credentials(1) demo_auth_lawful(2)]
  by (simp add: demo_login)

theorem client_of_other_credentials_witness:
  "\<exists>s''. finish (get_vcd_client demo_kube demo_auth (demo_cluster ''b''))
      (start [cache_key ''https://vcd'' ''tok1'' ''2org'' \<mapsto> demo_client]) = (Return (Some demo_client, None), s'')"
  using client_of_other_credentials [OF demo_auth_lawful(1) demo_secret_is demo_credentials(1) prod.collapse [symmetric]
      demo_added _ demo_secret_is demo_credentials(2) demo_auth_lawful(2)]
  by (simp add: demo_login)

theorem incomplete_secret_not_reported_witness:
  "\<exists>s'. finish (get_vcd_client demo_kube demo_auth (demo_cluster ''c'')) (start Map.empty) =
     (Return (None, None), s') \<and> length (trace s') = 1"
  by (rule incomplete_secret_not_reported [OF demo_secret_is demo_credentials(3)]) (simp add: demo_auth_lawful)

end
