(* ===== verification/Sample_Env.thy ===== *)
theory Sample_Env
  imports Client_Cache
begin

section \<open>A concrete environment\<close>

text \<open>
  An executable instance of the parameters of \<open>External_Deps\<close>, on which the theorems of the
  development are applied: library functions that behave as documented (proved below), a
  Kubernetes client that serves the objects of a configuration, and a Cloud Director that
  answers every lookup either with a resource or with a not-found error and accepts every
  change. The client cache is not an instance: the environment runs the \<open>GetVCDClient\<close> of
  \<open>Client_Cache\<close>, on a login that is always granted. It is an instance of the parameters, not a description of those services.
\<close>

definition not_found_error :: goerror where
  "not_found_error = ExternalError 404 ''[ENF] entity not found''"

definition sample_mark :: "Conditions \<Rightarrow> Condition \<Rightarrow> Conditions" where
  "sample_mark cs c = c # filter (\<lambda>d. condType d \<noteq> condType c) cs"

definition sample_lib :: lib where
  "sample_lib = \<lparr>
     ContainsNotFound = (\<lambda>err. err = Some not_found_error),
     ClientIgnoreNotFound = (\<lambda>err. if err = Some not_found_error then None else err),
     AddFinalizer = (\<lambda>fs f. if f \<in> set fs then (fs, False) else (fs @ [f], True)),
     RemoveFinalizer = (\<lambda>fs f. (filter (\<lambda>g. g \<noteq> f) fs, f \<in> set fs)),
     TimeIsZero = (\<lambda>t. t = None),
     MarkTrue = (\<lambda>cs t. sample_mark cs
        \<lparr>condType = t, condStatus = ''True'', condSeverity = '''', condReason = '''', condMessage = ''''\<rparr>),
     MarkFalse = (\<lambda>cs t reason sev m. sample_mark cs
        \<lparr>condType = t, condStatus = ''False'', condSeverity = sev, condReason = reason, condMessage = m\<rparr>),
     IsTrue = (\<lambda>cs t. map_option condStatus (cond_of cs t) = Some ''True''),
     SetSummary = (\<lambda>cs ts. cs),
     IsControlPlaneMachine = (\<lambda>m. map_of (metaLabels (machineMeta m)) ''cluster.x-k8s.io/control-plane'' \<noteq> None),
     NewAggregate = (\<lambda>errs. case filter (\<lambda>e. e \<noteq> None) errs of [] \<Rightarrow> None | e # _ \<Rightarrow> e)\<rparr>"

lemma find_filter_other: "t \<noteq> u \<Longrightarrow> cond_of (filter (\<lambda>d. condType d \<noteq> u) cs) t = cond_of cs t"
  unfolding cond_of_def by (induction cs) auto

lemma sample_lib_lawful:
  "not_found_lawful sample_lib" "finalizers_lawful sample_lib" "conditions_lawful sample_lib"
  by (simp_all add: not_found_lawful_def finalizers_lawful_def conditions_lawful_def sample_lib_def
      sample_mark_def find_filter_other) (simp_all add: cond_of_def find_filter_other [unfolded cond_of_def])

lemma sample_lib_aggregate: "aggregate_lawful sample_lib"
  unfolding aggregate_lawful_def
proof (intro allI impI)
  fix errs :: "goerror option list" and e
  assume "e \<in> set errs" "e \<noteq> None"
  then obtain x xs where eq: "filter (\<lambda>e. e \<noteq> None) errs = x # xs"
    by (metis (mono_tags, lifting) filter_empty_conv neq_Nil_conv)
  then have "x \<noteq> None" by (blast dest: filter_eq_ConsD)
  moreover have "NewAggregate sample_lib errs = x"
    unfolding sample_lib_def lib.simps eq by (rule list.case(2))
  ultimately show "NewAggregate sample_lib errs \<noteq> None" by metis
qed

record sample =
  smCluster :: CloudDirectorTenantCluster
  smMachine :: CloudDirectorTenantMachine
  smOwnerCluster :: Cluster
  smOwnerMachine :: Machine
  smMachines :: "Machine list"
  smFound :: bool

text \<open>The world of the instance: how many virtual machines there are.\<close>

type_synonym sample_world = nat

definition answer :: "bool \<Rightarrow> 'a \<Rightarrow> ('a option, sample_world) reply" where
  "answer found x w = ((if found then (Some x, None) else (None, Some not_found_error)), w)"

definition accept :: "'a \<Rightarrow> ('a option, sample_world) reply" where
  "accept x w = ((Some x, None), w)"

definition sample_group :: NsxtFirewallGroup where
  "sample_group = \<lparr>fgID = ''urn:ipset:1'', fgName = ''prod-controlplane'', fgTypeValue = ''IP_SET'',
     fgOwnerRef = None, fgIpAddresses = []\<rparr>"

definition sample_pool :: NsxtAlbPool where
  "sample_pool = \<lparr>poolID = ''urn:pool:1'', poolName = ''prod-controlplane'', poolDefaultPort = Some 6443,
     poolGatewayRef = \<lparr>oaName = ''edge'', oaID = ''urn:gw:1''\<rparr>, poolMemberGroupRef = None,
     poolHealthMonitors = []\<rparr>"

definition sample_service :: NsxtAlbVirtualService where
  "sample_service = \<lparr>vsID = ''urn:vs:1'', vsName = ''prod-controlplane'', vsEnabled = Some True,
     vsGatewayRef = \<lparr>oaName = ''edge'', oaID = ''urn:gw:1''\<rparr>,
     vsLoadBalancerPoolRef = \<lparr>oaName = ''prod-controlplane'', oaID = ''urn:pool:1''\<rparr>,
     vsServiceEngineGroupRef = \<lparr>oaName = ''seg'', oaID = ''urn:seg:1''\<rparr>,
     vsVirtualIpAddress = ''192.0.2.10'', vsServicePorts = [], vsApplicationProfile = ''L4''\<rparr>"

definition sample_vapp :: VApp where
  "sample_vapp = \<lparr>vappID = ''urn:vapp:1'', vappName = ''prod''\<rparr>"

definition sample_task :: Task where
  "sample_task = \<lparr>taskID = ''urn:task:1''\<rparr>"

definition sample_disk :: DiskSettings where
  "sample_disk = \<lparr>dsDiskId = ''2000'', dsSizeMb = 16384, dsUnitNumber = 0, dsBusNumber = 0,
     dsAdapterType = ''5'', dsThinProvisioned = Some True\<rparr>"

definition sample_vm :: Vm where
  "sample_vm = \<lparr>vmID = ''urn:vm:1'', vmName = ''prod-cp-0'', vmVmSpecSection =
     Some \<lparr>vssMemoryResourceMb = Some 4096, vssNumCpus = Some 2,
       vssDiskSection = Some \<lparr>dsecDiskSettings = [sample_disk]\<rparr>\<rparr>\<rparr>"

definition sample_network :: VAppNetwork where
  "sample_network = \<lparr>vanConfiguration = Some \<lparr>ncfIPScopes = Some
     [\<lparr>isGateway = ''10.0.0.1'', isDNS1 = ''10.0.0.2'', isSubnetPrefixLength = ''24'',
       isIPRanges = Some [\<lparr>irStartAddress = ''10.0.0.3'', irEndAddress = ''10.0.0.9''\<rparr>]\<rparr>]\<rparr>\<rparr>"

definition sample_connection :: NetworkConnectionSection where
  "sample_connection = \<lparr>ncsNetworkConnection = Some [\<lparr>ncNetwork = ''net'', ncNetworkConnectionIndex = 0,
     ncIsConnected = True, ncIPAddress = ''10.0.0.5'', ncMACAddress = ''00:50:56:00:00:01'',
     ncIPAddressAllocationMode = ''POOL'', ncNetworkAdapterType = ''VMXNET3''\<rparr>]\<rparr>"

definition sample_kube :: "sample \<Rightarrow> (sample_world, unit) kube" where
  "sample_kube S = \<lparr>
     k_GetTenantMachine = (\<lambda>_ w. (Inr (smMachine S), w)),
     k_GetTenantCluster = (\<lambda>_ w. (Inr (smCluster S), w)),
     k_GetSecret = (\<lambda>key w. (Inr \<lparr>secretName = nnName key, secretNamespace = nnNamespace key,
        secretData = [''value'' \<mapsto> ''#cloud-config'', ''url'' \<mapsto> ''https://vcd.example'',
          ''apiToken'' \<mapsto> ''token'', ''organization'' \<mapsto> ''org'']\<rparr>, w)),
     k_GetOwnerMachine = (\<lambda>_. accept (smOwnerMachine S)),
     k_GetOwnerCluster = (\<lambda>_. accept (smOwnerCluster S)),
     k_GetClusterFromMetadata = (\<lambda>_. accept (smOwnerCluster S)),
     k_GetFilteredMachinesForCluster = (\<lambda>_ w. ((smMachines S, None), w)),
     k_NewHelperMachine = (\<lambda>_. accept ()),
     k_NewHelperCluster = (\<lambda>_. accept ()),
     k_PatchMachine = (\<lambda>_ _ _ w. (None, w)),
     k_PatchCluster = (\<lambda>_ _ _ w. (None, w))\<rparr>"

definition sample_vcd :: "bool \<Rightarrow> sample_world vcd" where
  "sample_vcd found = \<lparr>
     v_GetOrgByName = (\<lambda>_ _. accept \<lparr>orgID = ''urn:org:1''\<rparr>),
     v_GetVDCByName = (\<lambda>_ _ _. accept \<lparr>vdcID = ''urn:vdc:1''\<rparr>),
     v_GetEdgeGateway = (\<lambda>_ _ _. accept \<lparr>gwName = ''edge'', gwID = ''urn:gw:1''\<rparr>),
     v_GetUnusedExternalIPAddresses = (\<lambda>_ w. (([Addr4 0xC000020A], None), w)),
     v_GetFirewallGroupByName = (\<lambda>_ _ _. answer found sample_group),
     v_GetFirewallGroupById = (\<lambda>_ _. answer found sample_group),
     v_CreateFirewallGroup = (\<lambda>_ g. accept (g\<lparr>fgID := ''urn:ipset:1''\<rparr>)),
     v_UpdateFirewallGroup = accept,
     v_DeleteFirewallGroup = (\<lambda>_ w. (None, w)),
     v_GetAlbPoolByName = (\<lambda>_ _ _. answer found sample_pool),
     v_GetAlbPoolById = (\<lambda>_ _. answer found sample_pool),
     v_CreateAlbPool = (\<lambda>_ p. accept (p\<lparr>poolID := ''urn:pool:1''\<rparr>)),
     v_DeleteAlbPool = (\<lambda>_ w. (None, w)),
     v_GetVirtualServiceByName = (\<lambda>_ _ _. answer found sample_service),
     v_GetVirtualServiceById = (\<lambda>_ _. answer found sample_service),
     v_CreateVirtualService = (\<lambda>_ v. accept (v\<lparr>vsID := ''urn:vs:1''\<rparr>)),
     v_DeleteVirtualService = (\<lambda>_ w. (None, w)),
     v_GetServiceEngineGroupAssignment = (\<lambda>_ _ _. accept
        \<lparr>segRef = Some \<lparr>oaName = ''seg'', oaID = ''urn:seg:1''\<rparr>\<rparr>)\<rparr>"

definition sample_vapps :: "bool \<Rightarrow> sample_world vapp" where
  "sample_vapps found = \<lparr>
     a_GetVAppByName = (\<lambda>_ _ _. answer found sample_vapp),
     a_GetVAppById = (\<lambda>_ _ _. accept sample_vapp),
     a_CreateRawVApp = (\<lambda>_ n _. accept \<lparr>vappID = ''urn:vapp:1'', vappName = n\<rparr>),
     a_GetOrgVdcNetworkByName = (\<lambda>_ n _. accept \<lparr>ovnName = n\<rparr>),
     a_AddOrgNetwork = (\<lambda>_ _ _ w. (((), None), w)),
     a_PowerOn = (\<lambda>_. accept sample_task),
     a_GetStatus = (\<lambda>_ w. ((''POWERED_ON'', None), w)),
     a_Undeploy = (\<lambda>_. accept sample_task),
     a_Delete = (\<lambda>_. accept sample_task),
     a_WaitTaskCompletion = (\<lambda>_ w. (None, w))\<rparr>"

definition sample_vms :: "bool \<Rightarrow> sample_world vmapi" where
  "sample_vms found = \<lparr>
     m_GetCatalogByName = (\<lambda>_ n _. accept \<lparr>catalogName = n\<rparr>),
     m_GetVMByName = (\<lambda>_ _ _ w. answer (found \<or> 0 < w) sample_vm w),
     m_GetVAppTemplateByName = (\<lambda>_ n. accept \<lparr>vatName = n\<rparr>),
     m_AddNewVM = (\<lambda>_ _ _ _ _ w. accept sample_task (Suc w)),
     m_GetVappNetworkByName = (\<lambda>_ _ _. accept sample_network),
     m_GetNetworkConnectionSection = (\<lambda>_. accept sample_connection),
     m_GetGuestCustomizationSection = (\<lambda>_. accept \<lparr>gcsEnabled = None, gcsComputerName = ''''\<rparr>),
     m_SetGuestCustomizationSection = (\<lambda>_. accept),
     m_GetProductSectionList = (\<lambda>_. accept \<lparr>pslProductSection = Some \<lparr>psProperty = []\<rparr>\<rparr>),
     m_SetProductSectionList = (\<lambda>_. accept),
     m_UpdateVmSpecSection = (\<lambda>vm _ _. accept vm),
     m_PowerOn = (\<lambda>_. accept sample_task),
     m_Delete = (\<lambda>_ w. (None, w - 1))\<rparr>"

definition sample_auth :: "(sample_world, string) auth" where
  \<comment> \<open>every login is granted, nothing is cached\<close>
  "sample_auth = \<lparr>au_Parse = Inr, au_NewVCDClient = (\<lambda>u _. \<lparr>vcdHREF = u, vcdToken = ''''\<rparr>),
     au_SetApiToken = (\<lambda>c org t w. (((c\<lparr>vcdToken := t\<rparr>, Some \<lparr>AccessToken = ''jwt''\<rparr>), None), w)),
     au_ParseUnverified = (\<lambda>_. Inr (Some [''exp'' \<mapsto> ClaimFloat64 3600])),
     au_Now = (\<lambda>_. 0), au_CacheGet = (\<lambda>k w. (None, w)), au_CacheAdd = (\<lambda>k c _ w. w)\<rparr>"

definition sample_get_client :: "sample \<Rightarrow> CloudDirectorTenantCluster \<Rightarrow> sample_world \<Rightarrow>
    (go_panic + VCDClient option \<times> goerror option) \<times> sample_world" where
  "sample_get_client S = GetVCDClient (sample_kube S) sample_auth"

lemma sample_logins: "logins_granted (sample_kube S) sample_auth"
  by (simp add: logins_granted_def credentials_def sample_kube_def sample_auth_def getTokenRemainingTTL_def)

lemma sample_get_client_eval [simp]:
  "csIdentityRef (tcSpec tc) \<noteq> None \<Longrightarrow> sample_get_client S tc w =
     (Inr (Some \<lparr>vcdHREF = ''https://vcd.example/api'', vcdToken = ''token''\<rparr>, None), w)"
  "csIdentityRef (tcSpec tc) = None \<Longrightarrow> sample_get_client S tc w = (Inl NilDereference, w)"
  by (auto simp: sample_get_client_def GetVCDClient_def get_vcd_client_def get_client_def sample_kube_def sample_auth_def
      getTokenRemainingTTL_def start_def finish_def go_bind_def deref_def go_return_def go_exit_def call_get_def
      call_def call_err_def get_world_def panic_def Let_def)

definition sample_env :: "sample \<Rightarrow> (sample_world, unit) env" where
  "sample_env S = \<lparr>envLib = sample_lib, envKube = sample_kube S, envVcd = sample_vcd (smFound S),
     envVapp = sample_vapps (smFound S), envVm = sample_vms (smFound S), envGetVCDClient = sample_get_client S\<rparr>"

lemma sample_env_lib [simp]: "envLib (sample_env S) = sample_lib"
  by (simp add: sample_env_def)

lemma sample_get_cluster [simp]:
  "k_GetTenantCluster (envKube (sample_env S)) req w = (Inr (smCluster S), w)"
  by (simp add: sample_env_def sample_kube_def)

lemma sample_get_machine [simp]:
  "k_GetTenantMachine (envKube (sample_env S)) req w = (Inr (smMachine S), w)"
  by (simp add: sample_env_def sample_kube_def)

lemma sample_env_client: "envGetVCDClient (sample_env S) = GetVCDClient (sample_kube S) sample_auth"
  by (simp add: sample_env_def sample_get_client_def)

subsection \<open>Objects\<close>

definition sample_meta :: "string \<Rightarrow> ObjectMeta" where
  "sample_meta n = \<lparr>metaName = n, metaNamespace = ''default'', metaUID = ''8d3f'', metaLabels = [],
     metaFinalizers = [], metaDeletionTimestamp = None\<rparr>"

definition sample_cluster :: CloudDirectorTenantCluster where
  "sample_cluster = \<lparr>tcMeta = sample_meta ''prod'',
     tcSpec = \<lparr>csControlPlaneEndpoint = \<lparr>endpointHost = ''192.0.2.10'', endpointPort = 6443\<rparr>,
       csOrganization = ''org'', csVirtualDataCenter = ''vdc'', csEdgeGateway = ''edge'',
       csNetwork = ''net'', csServiceEngineGroup = ''seg'',
       csIdentityRef = Some \<lparr>identityKind = ''Secret'', identityName = ''vcd''\<rparr>, csUseUIDForNames = False\<rparr>,
     tcStatus = \<lparr>ctReady = False, ctVirtualService = None, ctVApp = None, ctIPSet = None,
       ctPool = None, ctConditions = []\<rparr>\<rparr>"

definition sample_machine :: CloudDirectorTenantMachine where
  "sample_machine = \<lparr>tmMeta = sample_meta ''prod-cp-0'',
     tmSpec = \<lparr>msProviderID = '''', msCatalog = ''catalog'', msTemplate = ''talos'',
       msNetworkAdapterType = ''VMXNET3'', msMemoryResourceMiB = 8192, msNumCPUs = 4,
       msDiskResourceMiB = 32768, msAdditionalDisks = [\<lparr>adName = ''data'', adSizeMiB = 1024\<rparr>]\<rparr>,
     tmStatus = \<lparr>mtReady = False, mtAddresses = [], mtConditions = []\<rparr>\<rparr>"

definition sample_owner_cluster :: Cluster where
  "sample_owner_cluster = \<lparr>clusterMeta = sample_meta ''prod'',
     clusterInfrastructureRef = Some \<lparr>refName = ''prod''\<rparr>,
     clusterControlPlaneRef = Some \<lparr>refName = ''prod-cp''\<rparr>, clusterInfrastructureReady = True,
     clusterConditions = []\<rparr>"

definition sample_owner_machine :: Machine where
  "sample_owner_machine = \<lparr>machineMeta = (sample_meta ''prod-cp-0'')\<lparr>metaLabels :=
     [(''cluster.x-k8s.io/control-plane'', '''')]\<rparr>, machineDataSecretName = Some ''prod-cp-0''\<rparr>"

definition sample :: sample where
  "sample = \<lparr>smCluster = sample_cluster, smMachine = sample_machine,
     smOwnerCluster = sample_owner_cluster, smOwnerMachine = sample_owner_machine,
     smMachines = [], smFound = False\<rparr>"

definition sample_state :: "'o \<Rightarrow> (sample_world, 'o, call) rst" where
  "sample_state x = \<lparr>obj = x, world = 0, trace = []\<rparr>"

lemma sample_state_sel [simp]:
  "obj (sample_state x) = x" "world (sample_state x) = 0" "trace (sample_state x) = []"
  by (simp_all add: sample_state_def)

lemmas sample_objects = sample_def sample_cluster_def sample_machine_def sample_owner_cluster_def
  sample_owner_machine_def sample_meta_def

lemmas sample_services = sample_env_def sample_kube_def sample_vcd_def sample_vapps_def sample_vms_def
  answer_def accept_def

end
