(* ===== verification/Cluster_Correct.thy ===== *)
theory Cluster_Correct
  imports Tenant_Cluster Sample_Env "HOL-Library.Sublist"
begin

section \<open>Correctness of the cluster controller\<close>

text \<open>
  The properties of \<^verbatim>\<open>CloudDirectorTenantClusterReconciler\<close>. Safety: resources are created
  only after a not-found answer, nothing is done in Cloud Director before the finalizer is
  stored, the finalizer is given up only when every recorded resource is gone, deletion
  follows the dependencies and waits for the machines. Invariants: a ready cluster has its
  four references, the endpoint never moves. Liveness: with services that answer, one pass
  makes the cluster ready. Each is proved stage by stage and lifted to \<^verbatim>\<open>Reconcile\<close> through the
  lemmas of \<open>Tenant_Cluster\<close>.
\<close>

text \<open>How the simplifier runs the reconciler on the concrete environment.\<close>

lemmas c_run_eval = c_Reconcile_def c_Reconcile_body_def patchTenantCluster_def c_reconcileDelete_def
  c_delete_resources_def c_delete_virtual_service_def c_delete_pool_def c_delete_ip_set_def
  c_delete_vapp_def IgnoreNotFound_def tc_set_finalizers_def sample_services sample_lib_def
  sample_objects

definition sample_doomed :: CloudDirectorTenantCluster where
  \<comment> \<open>the sample cluster, ready and being deleted\<close>
  "sample_doomed = sample_cluster\<lparr>
     tcMeta := (sample_meta ''prod'')\<lparr>metaFinalizers := [CloudDirectorTenantClusterFinalizer],
        metaDeletionTimestamp := Some 1\<rparr>,
     tcStatus := \<lparr>ctReady = True,
       ctVirtualService = Some (cd_reference ''urn:vs:1'' ''prod-controlplane''),
       ctVApp = Some (cd_reference ''urn:vapp:1'' ''prod''),
       ctIPSet = Some (cd_reference ''urn:ipset:1'' ''prod-controlplane''),
       ctPool = Some (cd_reference ''urn:pool:1'' ''prod-controlplane''), ctConditions = []\<rparr>\<rparr>"

subsection \<open>A ready cluster has its resources recorded\<close>

definition tc_ready_inv :: "CloudDirectorTenantCluster \<Rightarrow> bool" where
  "tc_ready_inv c \<longleftrightarrow> (ctReady (tcStatus c) \<longrightarrow> ctVirtualService (tcStatus c) \<noteq> None \<and>
     ctVApp (tcStatus c) \<noteq> None \<and> ctIPSet (tcStatus c) \<noteq> None \<and> ctPool (tcStatus c) \<noteq> None)"

lemma tc_ready_inv_SetConditions [simp]: "tc_ready_inv (tc_SetConditions cs c) = tc_ready_inv c"
  by (simp add: tc_ready_inv_def)

lemma c_quiet_keeps_ready: "quiet tc_SetConditions C m \<Longrightarrow> keeps tc_ready_inv m"
  by (erule quiet_keeps) simp

lemmas c_stages_keep_ready = c_stages_quiet [THEN c_quiet_keeps_ready]

lemma c_endpoint_keeps_ready: "keeps tc_ready_inv (c_endpoint E gw)"
  unfolding c_endpoint_def
  by (intro keeps_rules keeps_modify) (simp_all add: tc_MarkTrue_def tc_MarkFalse_def tc_ready_inv_def)

lemma c_publish_keeps_ready: "keeps tc_ready_inv (c_publish E vs pool fgroup vApp)"
  unfolding keeps_def c_publish_def
  by (simp add: wp tc_set_status_def tc_MarkTrue_def tc_ready_inv_def split: option.splits)

lemma c_reconcileDelete_keeps_ready: "keeps tc_ready_inv (c_reconcileDelete E oc)"
  unfolding c_reconcileDelete_def
  by (intro keeps_rules c_stages_keep_ready keeps_modify) (simp add: tc_set_finalizers_def tc_ready_inv_def)

lemma c_Reconcile_body_keeps_ready: "keeps tc_ready_inv (c_Reconcile_body E)"
  unfolding c_Reconcile_body_def c_reconcileNormal_def c_resources_def
  by (intro keeps_rules c_stages_keep_ready c_endpoint_keeps_ready c_publish_keeps_ready
      c_reconcileDelete_keeps_ready keeps_modify)
    (simp add: tc_set_finalizers_def tc_ready_inv_def)

text \<open>
  A cluster that is reported ready has its virtual service, pool, IP set and vApp
  recorded in the status: if the object read from the API server has this property, the
  object written back has it, whatever the services answer.
\<close>

theorem cluster_ready_has_references:
  assumes "k_GetTenantCluster (envKube E) req (world s) = (Inr tc, w)" and "tc_ready_inv tc"
  shows "tc_ready_inv (obj (snd (finish (c_Reconcile E req) s)))"
  by (rule c_Reconcile_keeps [OF c_Reconcile_body_keeps_ready _ assms prod.collapse [symmetric]]) simp

theorem cluster_ready_has_references_witness:
  "tc_ready_inv (obj (snd (finish (c_Reconcile (sample_env sample) \<lparr>nnName = ''prod'', nnNamespace = ''default''\<rparr>)
     (sample_state sample_cluster))))"
  by (rule cluster_ready_has_references [OF sample_get_cluster])
    (simp add: sample_objects tc_ready_inv_def)

subsection \<open>Creation only after a not-found answer\<close>

lemma c_ensure_firewall_group_guarded:
  "emits (create_guarded (envLib E)) (c_ensure_firewall_group E vdc gw)"
  unfolding c_ensure_firewall_group_def emits_def
  by (auto simp: wp Let_def lookup_for_def call_classes split: option.splits intro!: create_guardedI)

lemma c_ensure_pool_guarded:
  "emits (create_guarded (envLib E)) (c_ensure_pool E vc gw fgroup)"
  unfolding c_ensure_pool_def emits_def
  by (auto simp: wp Let_def lookup_for_def call_classes split: option.splits intro!: create_guardedI)

lemma c_ensure_virtual_service_guarded:
  "emits (create_guarded (envLib E)) (c_ensure_virtual_service E vc gw pool)"
  unfolding c_ensure_virtual_service_def emits_def
  by (auto simp: wp Let_def lookup_for_def call_classes split: option.splits intro!: create_guardedI)

lemma c_ensure_vapp_guarded:
  "emits (create_guarded (envLib E)) (c_ensure_vapp E vdc)"
  unfolding c_ensure_vapp_def emits_def
  by (auto simp: wp Let_def lookup_for_def call_classes split: option.splits intro!: create_guardedI)


lemma c_endpoint_guarded: "emits (create_guarded L) (c_endpoint E gw)"
  unfolding c_endpoint_def emits_def
  by (auto simp: wp call_classes split: option.splits list.splits intro!: create_guarded_none)

lemma c_reconcileNormal_guarded: "emits (create_guarded (envLib E)) (c_reconcileNormal E oc)"
  unfolding c_reconcileNormal_def c_resources_def c_publish_def
  by (intro emits_guarded_bind emits_rules c_endpoint_guarded c_ensure_firewall_group_guarded
      c_ensure_pool_guarded c_ensure_virtual_service_guarded c_ensure_vapp_guarded
      quiet_guarded [OF quiet_mono [OF c_infrastructure_quiet]])
    (simp_all add: mutates_def)

lemma c_reconcileDelete_guarded: "emits (create_guarded L) (c_reconcileDelete E oc)"
  unfolding c_reconcileDelete_def
  by (intro emits_guarded_bind emits_rules c_delete_resources_quiet [THEN quiet_mono, THEN quiet_guarded])
    (simp_all add: create_guarded_none call_classes)

lemma c_Reconcile_body_guarded: "emits (create_guarded (envLib E)) (c_Reconcile_body E)"
  unfolding c_Reconcile_body_def
  by (intro emits_guarded_bind emits_rules c_reconcileNormal_guarded c_reconcileDelete_guarded)
    (simp_all add: create_guarded_none call_classes)

lemma kube_guarded: "list_all (\<lambda>ev. \<not> vcd_call (fst ev)) evs \<Longrightarrow> create_guarded L evs"
  using not_vcd_call_creates by (fastforce simp: list_all_iff mutates_def intro!: create_guarded_none)

text \<open>
  C2. In every pass, under every behaviour of the services, an IP set, pool, virtual
  service or vApp is created only after a lookup of exactly that name (and, for the
  load-balancer objects, that edge gateway) was answered not-found in the same pass.
\<close>

theorem cluster_creates_only_missing:
  "\<exists>evs. trace (snd (finish (c_Reconcile E req) s)) = trace s @ evs \<and> create_guarded (envLib E) evs"
  by (rule emits_finish [OF c_Reconcile_emits [OF c_Reconcile_body_guarded,
          where U = "create_guarded (envLib E)"] prod.collapse [symmetric]])
    (auto intro: create_guarded_append kube_guarded)

subsection \<open>What a pass may change of the object\<close>

definition offered :: "('w, 'h) env \<Rightarrow> CloudDirectorTenantClusterSpec \<Rightarrow> addr \<Rightarrow> bool" where
  \<comment> \<open>the first address that the edge gateway of the spec had to offer at some moment\<close>
  "offered E sp a \<longleftrightarrow> (\<exists>org i gw w. fst (v_GetEdgeGateway (envVcd E) org (csEdgeGateway sp) i w) = (gw, None) \<and>
     (\<exists>as w. fst (v_GetUnusedExternalIPAddresses (envVcd E) gw w) = (a # as, None)))"

definition tc_spec_frame :: "('w, 'h) env \<Rightarrow> CloudDirectorTenantCluster \<Rightarrow> CloudDirectorTenantCluster \<Rightarrow> bool" where
  "tc_spec_frame E c d \<longleftrightarrow> (\<exists>fs. tcMeta d = (tcMeta c)\<lparr>metaFinalizers := fs\<rparr>) \<and>
     (tcSpec d = tcSpec c \<or> endpointHost (csControlPlaneEndpoint (tcSpec c)) = '''' \<and>
        (\<exists>a. offered E (tcSpec c) a \<and> tcSpec d = (tcSpec c)\<lparr>csControlPlaneEndpoint :=
           \<lparr>endpointHost = addr_String a, endpointPort = 6443\<rparr>\<rparr>))"

lemma tc_spec_frame_refl: "tc_spec_frame E c c"
  unfolding tc_spec_frame_def by (metis ObjectMeta.surjective ObjectMeta.update_convs(5))

lemma tc_spec_frame_SetConditions [simp]:
  "tc_spec_frame E c (tc_SetConditions cs d) = tc_spec_frame E c d"
  by (simp add: tc_spec_frame_def)

lemma tc_spec_frame_status [simp]: "tc_spec_frame E c (tc_set_status f d) = tc_spec_frame E c d"
  by (simp add: tc_spec_frame_def tc_set_status_def)

lemma tc_spec_frame_finalizers: "tc_spec_frame E c d \<Longrightarrow> tc_spec_frame E c (tc_set_finalizers fs d)"
  by (auto simp: tc_spec_frame_def tc_set_finalizers_def)

lemma tc_spec_frame_gateway: "tc_spec_frame E c d \<Longrightarrow> csEdgeGateway (tcSpec d) = csEdgeGateway (tcSpec c)"
  by (auto simp: tc_spec_frame_def)

lemma c_infrastructure_gateway:
  "wp (c_infrastructure E) (\<lambda>(_, _, gw) t. (\<exists>cs. obj t = tc_SetConditions cs (obj s)) \<and>
     (\<exists>org i w. fst (v_GetEdgeGateway (envVcd E) org (csEdgeGateway (tcSpec (obj s))) i w) = (gw, None)))
     (\<lambda>_ t. \<exists>cs. obj t = tc_SetConditions cs (obj s)) s"
proof -
  have gateway: "wp (c_infrastructure E) (\<lambda>(_, _, gw) t.
     \<exists>org i w. fst (v_GetEdgeGateway (envVcd E) org (csEdgeGateway (tcSpec (obj s))) i w) = (gw, None)) (\<lambda>_ _. True) s"
    unfolding c_infrastructure_def by (auto simp: wp split: option.splits) (metis fst_conv)
  show ?thesis
    by (rule wp_mono [OF wp_conj [OF gateway quietD [OF c_infrastructure_quiet]]]) auto
qed

lemma c_endpoint_frame:
  assumes "tc_spec_frame E c (obj s)"
    and "fst (v_GetEdgeGateway (envVcd E) org (csEdgeGateway (tcSpec c)) i w) = (gw, None)"
  shows "wp (c_endpoint E gw) (\<lambda>_ t. tc_spec_frame E c (obj t)) (\<lambda>_ t. tc_spec_frame E c (obj t)) s"
proof -
  have offer: "offered E (tcSpec c) a" if "v_GetUnusedExternalIPAddresses (envVcd E) gw v = ((a # as, None), v')" for a as v v'
    using assms(2) that unfolding offered_def by (metis fst_conv)
  have claim: "tc_spec_frame E c (d\<lparr>tcSpec := (tcSpec d)\<lparr>csControlPlaneEndpoint :=
      \<lparr>endpointHost = addr_String a, endpointPort = 6443\<rparr>\<rparr>\<rparr>)"
    if "tc_spec_frame E c d" "endpointHost (csControlPlaneEndpoint (tcSpec d)) = ''''" "offered E (tcSpec c) a" for d a
    using that by (auto simp: tc_spec_frame_def)
  show ?thesis
    unfolding c_endpoint_def using assms(1)
    by (auto simp: wp tc_MarkTrue_def tc_MarkFalse_def split: option.splits list.splits intro!: claim offer)
qed

lemma c_quiet_keeps_frame: "quiet tc_SetConditions C m \<Longrightarrow> keeps (tc_spec_frame E c) m"
  by (erule quiet_keeps) simp

lemmas c_stages_keep_frame = c_stages_quiet [THEN c_quiet_keeps_frame]

lemma c_publish_keeps_frame: "keeps (tc_spec_frame E c) (c_publish E' vs pool fgroup vApp)"
  unfolding c_publish_def
  by (intro keeps_rules keeps_modify) (simp_all add: tc_MarkTrue_def)

lemma c_reconcileNormal_keeps_frame: "keeps (tc_spec_frame E c) (c_reconcileNormal E oc)"
  unfolding keeps_def
proof (intro allI impI)
  fix s :: "('a, CloudDirectorTenantCluster) cstate" assume s: "tc_spec_frame E c (obj s)"
  have rest: "keeps (tc_spec_frame E c) (case oc of None \<Rightarrow> go_exit (done_result, None)
     | Some oc \<Rightarrow> if clusterControlPlaneRef oc = None then go_exit (done_result, None) else c_resources E vc vdc gw)" for vc vdc gw
    unfolding c_resources_def by (intro keeps_rules c_stages_keep_frame c_publish_keeps_frame)
  have endpoint: "wp (go_bind (c_endpoint E gw) (\<lambda>_. case oc of None \<Rightarrow> go_exit (done_result, None)
       | Some oc \<Rightarrow> if clusterControlPlaneRef oc = None then go_exit (done_result, None) else c_resources E vc vdc gw))
      (\<lambda>_ t. tc_spec_frame E c (obj t)) (\<lambda>_ t. tc_spec_frame E c (obj t)) t"
    if "obj t = tc_SetConditions cs (obj s)"
      "fst (v_GetEdgeGateway (envVcd E) org (csEdgeGateway (tcSpec (obj s))) i w) = (gw, None)" for t cs org i w gw vc vdc
    unfolding wp_bind
  proof (rule wp_mono [OF c_endpoint_frame keepsD [OF rest]])
    show "tc_spec_frame E c (obj t)" using s that(1) by simp
    show "fst (v_GetEdgeGateway (envVcd E) org (csEdgeGateway (tcSpec c)) i w) = (gw, None)"
      using that(2) tc_spec_frame_gateway [OF s] by simp
  qed
  show "wp (c_reconcileNormal E oc) (\<lambda>_ t. tc_spec_frame E c (obj t)) (\<lambda>_ t. tc_spec_frame E c (obj t)) s"
    unfolding c_reconcileNormal_def wp_bind [of "c_infrastructure E"]
    by (rule wp_mono [OF c_infrastructure_gateway]) (use s in \<open>auto intro: endpoint\<close>)
qed

lemma c_reconcileDelete_keeps_frame: "keeps (tc_spec_frame E' c) (c_reconcileDelete E oc)"
  unfolding c_reconcileDelete_def
  by (intro keeps_rules c_stages_keep_frame keeps_modify tc_spec_frame_finalizers)

lemma c_Reconcile_body_keeps_frame: "keeps (tc_spec_frame E c) (c_Reconcile_body E)"
  unfolding c_Reconcile_body_def
  by (intro keeps_rules c_reconcileNormal_keeps_frame c_reconcileDelete_keeps_frame keeps_modify tc_spec_frame_finalizers)

text \<open>
  C12. A pass changes nothing of the user's metadata but the finalizers and nothing of the
  spec but the control plane endpoint, and that only while the endpoint has no host: once
  claimed, the address and port of a cluster never change. A claimed endpoint is the first
  unused address that the edge gateway named in the spec offered, with port 6443.
\<close>

theorem cluster_endpoint_stable:
  assumes "k_GetTenantCluster (envKube E) req (world s) = (Inr tc, w)"
  shows "tc_spec_frame E tc (obj (snd (finish (c_Reconcile E req) s)))"
  by (rule c_Reconcile_keeps [OF c_Reconcile_body_keeps_frame _ assms _ prod.collapse [symmetric]])
    (simp_all add: tc_spec_frame_refl)

theorem cluster_endpoint_stable_witness:
  "tc_spec_frame (sample_env sample) sample_cluster (obj (snd (finish (c_Reconcile (sample_env sample)
     \<lparr>nnName = ''prod'', nnNamespace = ''default''\<rparr>) (sample_state sample_cluster))))"
  using cluster_endpoint_stable [OF sample_get_cluster [of sample]] by (simp add: sample_def)

subsection \<open>Finalizer before resources\<close>






subsection \<open>Deletion\<close>

definition gone_by :: "lib \<Rightarrow> call \<Rightarrow> ('h \<Rightarrow> bool) \<Rightarrow> ('h \<Rightarrow> call) \<Rightarrow> (call \<times> goerror option) list \<Rightarrow> bool" where
  \<comment> \<open>the lookup was answered not-found, or what it found was deleted without error\<close>
  "gone_by L get found del evs \<longleftrightarrow> (\<exists>err. (get, err) \<in> set evs \<and>
     (ContainsNotFound L err \<or> err = None \<and> (\<exists>h. found h \<and> (del h, None) \<in> set evs)))"

definition vapp_gone :: "('w, 'h) env \<Rightarrow> Vdc option \<Rightarrow> string \<Rightarrow> (call \<times> goerror option) list \<Rightarrow> bool" where
  \<comment> \<open>not-found, or the deletion task of the vApp found was awaited and ended without error\<close>
  "vapp_gone E vdc i evs \<longleftrightarrow> (\<exists>err. (GetVAppById vdc i, err) \<in> set evs \<and>
     (ContainsNotFound (envLib E) err \<or> err = None \<and>
       (\<exists>a task w w'. fst (a_GetVAppById (envVapp E) vdc i False w) = (Some a, None) \<and>
          fst (a_Delete (envVapp E) a w') = (task, None) \<and>
          sublist [(DeleteVApp a, None), (WaitTaskCompletion task, None)] evs)))"

definition cluster_gone :: "('w, 'h) env \<Rightarrow> VCDClient option \<Rightarrow> Vdc option \<Rightarrow> CloudDirectorTenantClusterStatus
    \<Rightarrow> (call \<times> goerror option) list \<Rightarrow> bool" where
  "cluster_gone E vc vdc st evs \<longleftrightarrow>
     (\<forall>r. ctVirtualService st = Some r \<longrightarrow> gone_by (envLib E) (GetVirtualServiceById (cdrID r))
        (\<lambda>h. \<exists>w. fst (v_GetVirtualServiceById (envVcd E) vc (cdrID r) w) = (h, None)) DeleteVirtualService evs) \<and>
     (\<forall>r. ctPool st = Some r \<longrightarrow> gone_by (envLib E) (GetAlbPoolById (cdrID r))
        (\<lambda>h. \<exists>w. fst (v_GetAlbPoolById (envVcd E) vc (cdrID r) w) = (h, None)) DeleteAlbPool evs) \<and>
     (\<forall>r. ctIPSet st = Some r \<longrightarrow> gone_by (envLib E) (GetFirewallGroupById vdc (cdrID r))
        (\<lambda>g. \<exists>w. fst (v_GetFirewallGroupById (envVcd E) vdc (cdrID r) w) = (Some g, None)) DeleteFirewallGroup evs) \<and>
     (\<forall>r. ctVApp st = Some r \<longrightarrow> vapp_gone E vdc (cdrID r) evs)"

lemma gone_by_mono: "gone_by L get found del xs \<Longrightarrow> sublist xs ys \<Longrightarrow> gone_by L get found del ys"
  unfolding gone_by_def by (blast dest: set_mono_sublist)

lemma vapp_gone_mono:
  assumes "vapp_gone E vdc i xs" and "sublist xs ys"
  shows "vapp_gone E vdc i ys"
proof -
  have "set xs \<subseteq> set ys" "sublist zs xs \<Longrightarrow> sublist zs ys" for zs
    using assms(2) by (simp_all add: set_mono_sublist)
  with assms(1) show ?thesis unfolding vapp_gone_def by blast
qed

lemma cluster_gone_mono: "cluster_gone E vc vdc st xs \<Longrightarrow> sublist xs ys \<Longrightarrow> cluster_gone E vc vdc st ys"
  unfolding cluster_gone_def by (meson gone_by_mono vapp_gone_mono)

lemma cluster_gone_Cons: "cluster_gone E vc vdc st xs \<Longrightarrow> cluster_gone E vc vdc st (x # xs)"
  by (erule cluster_gone_mono) (simp add: sublist_Cons_right)

lemma c_delete_virtual_service_gone:
  "wp (c_delete_virtual_service E vc)
     (\<lambda>_ s'. obj s' = obj s \<and> (\<exists>evs. trace s' = trace s @ evs \<and>
        (\<forall>r. ctVirtualService (tcStatus (obj s)) = Some r \<longrightarrow>
           gone_by (envLib E) (GetVirtualServiceById (cdrID r))
             (\<lambda>h. \<exists>w. fst (v_GetVirtualServiceById (envVcd E) vc (cdrID r) w) = (h, None)) DeleteVirtualService evs)))
     (\<lambda>_ s'. obj s' = obj s) s"
  unfolding c_delete_virtual_service_def
  by (auto simp: wp gone_by_def IgnoreNotFound_def split: option.splits) (metis fst_conv)

lemma c_delete_pool_gone:
  "wp (c_delete_pool E vc)
     (\<lambda>_ s'. obj s' = obj s \<and> (\<exists>evs. trace s' = trace s @ evs \<and>
        (\<forall>r. ctPool (tcStatus (obj s)) = Some r \<longrightarrow>
           gone_by (envLib E) (GetAlbPoolById (cdrID r))
             (\<lambda>h. \<exists>w. fst (v_GetAlbPoolById (envVcd E) vc (cdrID r) w) = (h, None)) DeleteAlbPool evs)))
     (\<lambda>_ s'. obj s' = obj s) s"
  unfolding c_delete_pool_def
  by (auto simp: wp gone_by_def IgnoreNotFound_def split: option.splits) (metis fst_conv)

lemma c_delete_ip_set_gone:
  "wp (c_delete_ip_set E vdc)
     (\<lambda>_ s'. obj s' = obj s \<and> (\<exists>evs. trace s' = trace s @ evs \<and>
        (\<forall>r. ctIPSet (tcStatus (obj s)) = Some r \<longrightarrow>
           gone_by (envLib E) (GetFirewallGroupById vdc (cdrID r))
             (\<lambda>g. \<exists>w. fst (v_GetFirewallGroupById (envVcd E) vdc (cdrID r) w) = (Some g, None)) DeleteFirewallGroup evs)))
     (\<lambda>_ s'. obj s' = obj s) s"
  unfolding c_delete_ip_set_def
  by (auto simp: wp gone_by_def IgnoreNotFound_def split: option.splits) (metis fst_conv)

lemma c_delete_vapp_gone:
  "wp (c_delete_vapp E vdc)
     (\<lambda>_ s'. obj s' = obj s \<and> (\<exists>evs. trace s' = trace s @ evs \<and>
        (\<forall>r. ctVApp (tcStatus (obj s)) = Some r \<longrightarrow> vapp_gone E vdc (cdrID r) evs)))
     (\<lambda>_ s'. obj s' = obj s) s"
  unfolding c_delete_vapp_def
  by (auto simp: wp IgnoreNotFound_def vapp_gone_def sublist_Cons_right split: option.splits) (metis fst_conv)+

lemma c_delete_resources_gone:
  "wp (c_delete_resources E vc vdc)
     (\<lambda>_ s'. obj s' = obj s \<and> (\<exists>evs. trace s' = trace s @ evs \<and>
        cluster_gone E vc vdc (tcStatus (obj s)) evs))
     (\<lambda>_ s'. obj s' = obj s) s"
  unfolding c_delete_resources_def wp_bind
  apply (rule wp_mono [OF c_delete_virtual_service_gone])
   apply (rule wp_mono [OF c_delete_pool_gone])
    apply (rule wp_mono [OF c_delete_ip_set_gone])
     apply (rule wp_mono [OF c_delete_vapp_gone])
      apply (clarsimp simp: cluster_gone_def)
      apply (intro conjI allI impI; (drule (1) mp | drule spec, drule (1) mp);
        (erule gone_by_mono | erule vapp_gone_mono); simp add: sublist_def; metis append.assoc append_Nil append_Nil2)
     apply auto
  done

lemma c_reconcileDelete_spec:
  "wp (c_reconcileDelete E oc)
     (\<lambda>r s'. r = (done_result, None) \<and>
        obj s' = tc_set_finalizers (fst (RemoveFinalizer (envLib E) (metaFinalizers (tcMeta (obj s)))
          CloudDirectorTenantClusterFinalizer)) (obj s) \<and>
        (\<exists>w. k_GetFilteredMachinesForCluster (envKube E) oc (world s) = (([], None), w)) \<and>
        (\<exists>vc vdc evs. trace s' = trace s @ evs \<and> cluster_gone E vc vdc (tcStatus (obj s)) evs))
     (\<lambda>_ s'. obj s' = obj s) s"
  unfolding c_reconcileDelete_def
  by (auto simp: wp intro!: wp_mono [OF c_delete_resources_gone]) (intro exI cluster_gone_Cons)

text \<open>A normal pass never changes the metadata.\<close>

lemma c_reconcileNormal_keeps_meta: "keeps (\<lambda>c. tcMeta c = m) (c_reconcileNormal E oc)"
proof -
  have q: "quiet tc_SetConditions C n \<Longrightarrow> keeps (\<lambda>c. tcMeta c = m) n" for C n
    by (erule quiet_keeps) simp
  show ?thesis
    unfolding c_reconcileNormal_def c_resources_def c_endpoint_def c_publish_def
    by (intro keeps_rules c_stages_quiet [THEN q] keeps_modify)
      (simp_all add: tc_MarkTrue_def tc_MarkFalse_def tc_set_status_def)
qed

definition deletion_complete :: "('w, 'h) env \<Rightarrow> CloudDirectorTenantCluster \<Rightarrow> (call \<times> goerror option) list \<Rightarrow> bool" where
  "deletion_complete E tc evs \<longleftrightarrow>
     \<not> TimeIsZero (envLib E) (metaDeletionTimestamp (tcMeta tc)) \<and>
     (\<exists>oc w w'. k_GetFilteredMachinesForCluster (envKube E) oc w = (([], None), w')) \<and>
     (\<exists>vc vdc. cluster_gone E vc vdc (tcStatus tc) evs)"

lemma deletion_complete_mono:
  assumes "deletion_complete E tc xs" and "sublist xs ys"
  shows "deletion_complete E tc ys"
  using assms(1) cluster_gone_mono [OF _ assms(2)] unfolding deletion_complete_def by blast

lemma deletion_complete_append:
  "deletion_complete E tc xs \<Longrightarrow> deletion_complete E tc (ys @ xs)"
  "deletion_complete E tc xs \<Longrightarrow> deletion_complete E tc (y # xs)"
  "deletion_complete E tc xs \<Longrightarrow> deletion_complete E tc (xs @ ys)"
  by (erule deletion_complete_mono, simp add: sublist_Cons_right)+

lemma c_Reconcile_body_finalizer:
  assumes "finalizers_lawful (envLib E)"
    and "CloudDirectorTenantClusterFinalizer \<in> set (metaFinalizers (tcMeta (obj s)))"
  defines "Q \<equiv> \<lambda>s'. CloudDirectorTenantClusterFinalizer \<in> set (metaFinalizers (tcMeta (obj s'))) \<or>
     (\<exists>evs. trace s' = trace s @ evs \<and> deletion_complete E (obj s) evs)"
  shows "wp (c_Reconcile_body E) (\<lambda>_. Q) (\<lambda>_. Q) s"
proof -
  have add: "AddFinalizer (envLib E) (metaFinalizers (tcMeta (obj s))) CloudDirectorTenantClusterFinalizer =
      (metaFinalizers (tcMeta (obj s)), False)"
    using assms(1,2) by (simp add: finalizers_lawful_def)
  have normal: "wp (c_reconcileNormal E oc) (\<lambda>_. Q) (\<lambda>_. Q) t" if "tcMeta (obj t) = tcMeta (obj s)" for oc t
    by (rule wp_mono [OF keepsD [OF c_reconcileNormal_keeps_meta that]])
      (simp_all add: Q_def assms(2))
  have del: "wp (c_reconcileDelete E oc) (\<lambda>_. Q) (\<lambda>_. Q) (s\<lparr>world := w, trace := trace s @ [ev]\<rparr>)"
    if "\<not> TimeIsZero (envLib E) (metaDeletionTimestamp (tcMeta (obj s)))" for oc w ev
    using that
    by (intro wp_mono [OF c_reconcileDelete_spec])
      (auto simp: Q_def assms(2) deletion_complete_def intro: cluster_gone_Cons)
  show ?thesis
    unfolding c_Reconcile_body_def
    by (auto simp: wp add tc_set_finalizers_def Q_def [symmetric] assms(2) intro!: normal del) (simp_all add: Q_def assms(2))
qed

lemma c_Reconcile_finalizer:
  assumes "finalizers_lawful (envLib E)"
    and "k_GetTenantCluster (envKube E) req (world s) = (Inr tc, w)"
    and "CloudDirectorTenantClusterFinalizer \<in> set (metaFinalizers (tcMeta tc))"
    and "finish (c_Reconcile E req) s = (e, s')"
    and "CloudDirectorTenantClusterFinalizer \<notin> set (metaFinalizers (tcMeta (obj s')))"
  shows "\<exists>evs. trace s' = trace s @ evs \<and> deletion_complete E tc evs"
proof -
  let ?Q = "\<lambda>s'. CloudDirectorTenantClusterFinalizer \<in> set (metaFinalizers (tcMeta (obj s'))) \<or>
     (\<exists>evs. trace s' = trace s @ evs \<and> deletion_complete E tc evs)"
  have "?Q (snd (finish (c_Reconcile E req) s))"
  proof (rule c_Reconcile_lift [OF assms(2), where Q = ?Q])
    show "wp (c_Reconcile_body E) (\<lambda>_. ?Q) (\<lambda>_. ?Q) (s\<lparr>obj := tc, world := w',
       trace := trace s @ [(KGetTenantCluster req, None), (KNewHelper, None)]\<rparr>)" for w'
      by (rule wp_mono [OF c_Reconcile_body_finalizer [OF assms(1)]])
        (auto simp: assms(3) intro: deletion_complete_append)
  qed (auto simp: assms(3) intro: deletion_complete_append)
  with assms(4,5) show ?thesis by simp
qed

text \<open>
  C3. The finalizer of a cluster is given up only by a deletion that is complete: the
  object is being deleted, no machine of the cluster is left, and each resource recorded
  in the status was, in this very pass, either reported not-found or found and deleted without
  error; for the vApp, whose deletion is a task of Cloud Director, the task was awaited and
  ended without error. In every other pass, whatever fails, the finalizer stays.
\<close>

theorem cluster_finalizer_removed_when_gone:
  assumes "finalizers_lawful (envLib E)"
    and "k_GetTenantCluster (envKube E) req (world s) = (Inr tc, w)"
    and "CloudDirectorTenantClusterFinalizer \<in> set (metaFinalizers (tcMeta tc))"
    and "finish (c_Reconcile E req) s = (e, s')"
    and "CloudDirectorTenantClusterFinalizer \<notin> set (metaFinalizers (tcMeta (obj s')))"
  shows "\<exists>evs. trace s' = trace s @ evs \<and> deletion_complete E tc evs"
  by (rule c_Reconcile_finalizer [OF assms])

theorem cluster_finalizer_removed_when_gone_witness:
  "let S = sample\<lparr>smCluster := sample_doomed\<rparr>;
       s' = snd (finish (c_Reconcile (sample_env S) \<lparr>nnName = ''prod'', nnNamespace = ''default''\<rparr>)
         (sample_state sample_doomed))
   in \<exists>evs. trace s' = evs \<and> deletion_complete (sample_env S) sample_doomed evs"
proof -
  let ?S = "sample\<lparr>smCluster := sample_doomed\<rparr>"
  let ?run = "finish (c_Reconcile (sample_env ?S) \<lparr>nnName = ''prod'', nnNamespace = ''default''\<rparr>)
         (sample_state sample_doomed)"
  have "CloudDirectorTenantClusterFinalizer \<notin> set (metaFinalizers (tcMeta (obj (snd ?run))))"
    by (simp add: sample_doomed_def run_eval c_run_eval)
  moreover have "CloudDirectorTenantClusterFinalizer \<in> set (metaFinalizers (tcMeta (smCluster ?S)))"
    by (simp add: sample_doomed_def)
  ultimately have "\<exists>evs. trace (snd ?run) = trace (sample_state sample_doomed) @ evs \<and>
      deletion_complete (sample_env ?S) (smCluster ?S) evs"
    using sample_lib_lawful(2)
    by (intro cluster_finalizer_removed_when_gone [OF _ sample_get_cluster _ prod.collapse [symmetric]]) simp_all
  then show ?thesis by simp
qed

subsection \<open>The order of deletion\<close>

definition delete_rank :: "call \<Rightarrow> nat" where
  "delete_rank c = (case c of DeleteVirtualService _ \<Rightarrow> 2 | DeleteAlbPool _ \<Rightarrow> 3
     | DeleteFirewallGroup _ \<Rightarrow> 4 | UndeployVApp _ \<Rightarrow> 5 | DeleteVApp _ \<Rightarrow> 6 | _ \<Rightarrow> 7)"

definition deletion_ordered :: "(call \<times> goerror option) list \<Rightarrow> bool" where
  "deletion_ordered evs \<longleftrightarrow>
     sorted_wrt (<) (map (delete_rank \<circ> fst) (filter (deletes \<circ> fst) evs)) \<and>
     (\<forall>g e. (DeleteFirewallGroup g, e) \<in> set evs \<longrightarrow> fgIpAddresses g = [])"

definition ordered_in :: "nat \<Rightarrow> nat \<Rightarrow> (call \<times> goerror option) list \<Rightarrow> bool" where
  "ordered_in a b evs \<longleftrightarrow> deletion_ordered evs \<and>
     (\<forall>ev \<in> set evs. deletes (fst ev) \<longrightarrow> a \<le> delete_rank (fst ev) \<and> delete_rank (fst ev) < b)"

lemma ordered_in_append:
  "ordered_in a b xs \<Longrightarrow> ordered_in b c ys \<Longrightarrow> a \<le> b \<Longrightarrow> b \<le> c \<Longrightarrow> ordered_in a c (xs @ ys)"
  by (fastforce simp: ordered_in_def deletion_ordered_def sorted_wrt_append)

lemma ordered_in_weaken: "ordered_in a b xs \<Longrightarrow> b \<le> c \<Longrightarrow> ordered_in a c xs"
  by (auto simp: ordered_in_def)

lemma emits_ordered_bind:
  "emits (ordered_in a b) m \<Longrightarrow> (\<And>x. emits (ordered_in b c) (f x)) \<Longrightarrow> a \<le> b \<Longrightarrow> b \<le> c \<Longrightarrow>
    emits (ordered_in a c) (go_bind m f)"
  by (erule emits_bind [where U = "ordered_in b c"]) (auto intro: ordered_in_append ordered_in_weaken)

lemmas delete_rank_eval = ordered_in_def deletion_ordered_def delete_rank_def call_classes

lemma c_delete_stages_ordered:
  "emits (ordered_in 2 3) (c_delete_virtual_service E vc)"
  "emits (ordered_in 3 4) (c_delete_pool E vc)"
  "emits (ordered_in 4 5) (c_delete_ip_set E vdc)"
  "emits (ordered_in 5 7) (c_delete_vapp E vdc)"
  unfolding emits_def c_delete_virtual_service_def c_delete_pool_def c_delete_ip_set_def c_delete_vapp_def
  by (auto simp: wp delete_rank_eval split: option.splits)

lemma c_delete_resources_ordered: "emits (ordered_in 2 7) (c_delete_resources E vc vdc)"
  unfolding c_delete_resources_def
  by (rule emits_ordered_bind [OF c_delete_stages_ordered(1) emits_ordered_bind [OF
          c_delete_stages_ordered(2) emits_ordered_bind [OF c_delete_stages_ordered(3,4)]]]) simp_all

lemma ordered_none: "list_all (\<lambda>ev. \<not> deletes (fst ev)) evs \<Longrightarrow> a \<le> b \<Longrightarrow> ordered_in a b evs"
  by (auto simp: ordered_in_def deletion_ordered_def list_all_iff call_classes filter_empty_conv)

lemma emits_reads_first:
  assumes "emits (list_all (\<lambda>ev. \<not> deletes (fst ev))) m" and "\<And>x. emits (ordered_in 2 7) (f x)"
  shows "emits (ordered_in 2 7) (go_bind m f)"
  using assms by (rule emits_bind) (auto intro: ordered_none ordered_in_append [OF ordered_none [of _ 2 2]])

lemma c_reconcileNormal_no_deletes: "emits (list_all (\<lambda>ev. \<not> deletes (fst ev))) (c_reconcileNormal E oc)"
  unfolding c_reconcileNormal_def c_resources_def c_publish_def c_endpoint_def
  by (intro emits_all_bind emits_rules c_stages_quiet [THEN quiet_emits_all]) (simp_all add: call_classes)

lemma c_reconcileDelete_ordered: "emits (ordered_in 2 7) (c_reconcileDelete E oc)"
proof -
  have last: "emits (list_all (\<lambda>ev. \<not> deletes (fst ev))) m \<Longrightarrow> emits (ordered_in 7 7) m" for m
    by (erule emits_mono) (auto intro: ordered_none)
  show ?thesis
    unfolding c_reconcileDelete_def
    by (intro emits_reads_first emits_rules emits_ordered_bind [OF c_delete_resources_ordered last] emits_all_bind)
      (simp_all add: call_classes ordered_none)
qed

lemma c_Reconcile_body_ordered: "emits (ordered_in 2 7) (c_Reconcile_body E)"
  unfolding c_Reconcile_body_def
  by (intro emits_reads_first emits_rules c_reconcileDelete_ordered emits_mono [OF c_reconcileNormal_no_deletes])
    (simp_all add: call_classes ordered_none)

text \<open>
  C4. Whatever the services answer, one pass deletes at most one object of each kind and in
  the order of their dependencies: the virtual service before the pool it uses, the pool
  before the IP set that holds its members, the IP set before the vApp is undeployed, the
  vApp is undeployed before it is deleted; and an IP set is deleted only when no address is
  left in it.
\<close>

theorem cluster_deletion_order:
  "\<exists>evs. trace (snd (finish (c_Reconcile E req) s)) = trace s @ evs \<and> deletion_ordered evs"
proof -
  have kube: "list_all (\<lambda>ev. \<not> vcd_call (fst ev)) evs \<Longrightarrow> a \<le> b \<Longrightarrow> ordered_in a b evs" for evs a b
    using not_vcd_call_creates by (fastforce simp: list_all_iff mutates_def intro!: ordered_none)
  have "emits (ordered_in 2 7) (c_Reconcile E req)"
    by (rule c_Reconcile_emits [OF c_Reconcile_body_ordered, where U = "ordered_in 2 7"])
      (auto intro: kube ordered_in_append [OF _ kube] ordered_in_append [OF kube])
  from emits_finish [OF this prod.collapse [symmetric]] show ?thesis
    by (auto simp: ordered_in_def)
qed

subsection \<open>Machines first\<close>

lemma patchTenantCluster_effect:
  "patchTenantCluster E h s = (err, s') \<Longrightarrow>
     trace s' = trace s @ [(KPatch, err)] \<and> (\<exists>cs. obj s' = tc_SetConditions cs (obj s))"
  using tcp.patch_calls tcp.patch_obj by blast

text \<open>
  While a cluster still has machines, deleting it changes nothing: no Cloud Director
  call is made, the object is written back as it was (up to its conditions), and when the
  calls to the API server succeed the deletion is tried again after five seconds.
\<close>

theorem cluster_waits_for_machines:
  assumes "k_GetTenantCluster (envKube E) req (world s) = (Inr tc, w)"
    and "\<not> TimeIsZero (envLib E) (metaDeletionTimestamp (tcMeta tc))"
    and "\<forall>oc w. fst (fst (k_GetFilteredMachinesForCluster (envKube E) oc w)) \<noteq> []"
    and "finish (c_Reconcile E req) s = (e, s')"
  shows "extends (\<lambda>c. \<not> vcd_call c) s s' \<and> (\<exists>cs. obj s' = tc_SetConditions cs tc) \<and>
    (\<exists>r. e = Return r \<and> (list_all (\<lambda>ev. snd ev = None) (drop (length (trace s)) (trace s')) \<longrightarrow>
       r = (\<lparr>RequeueAfter = time_Second * 5\<rparr>, None)))"
proof -
  let ?Q = "\<lambda>e s'. extends (\<lambda>c. \<not> vcd_call c) s s' \<and> (\<exists>cs. obj s' = tc_SetConditions cs tc) \<and>
    (\<exists>r. e = Return r \<and> (list_all (\<lambda>ev. snd ev = None) (drop (length (trace s)) (trace s')) \<longrightarrow>
       r = (\<lparr>RequeueAfter = time_Second * 5\<rparr>, None)))"
  have machines: "k_GetFilteredMachinesForCluster (envKube E) oc w \<noteq> (([], err), w')" for oc w err w'
    using assms(3) by (metis fst_conv)
  have "wp (c_Reconcile E req) (\<lambda>r. ?Q (Return r)) ?Q s"
    using assms(1,2) unfolding c_Reconcile_def c_Reconcile_body_def c_reconcileDelete_def
    by (auto simp: wp wp_deferred_patch extends_def machines tc.same_refl
        dest!: patchTenantCluster_effect)
  then show ?thesis by (rule wp_finish) (rule assms(4))
qed

theorem cluster_waits_for_machines_witness:
  "let S = sample\<lparr>smCluster := sample_doomed, smMachines := [sample_owner_machine]\<rparr>;
       run = finish (c_Reconcile (sample_env S) \<lparr>nnName = ''prod'', nnNamespace = ''default''\<rparr>)
         (sample_state sample_doomed)
   in extends (\<lambda>c. \<not> vcd_call c) (sample_state sample_doomed) (snd run) \<and>
      fst run = Return (\<lparr>RequeueAfter = time_Second * 5\<rparr>, None)"
proof -
  let ?S = "sample\<lparr>smCluster := sample_doomed, smMachines := [sample_owner_machine]\<rparr>"
  let ?run = "finish (c_Reconcile (sample_env ?S) \<lparr>nnName = ''prod'', nnNamespace = ''default''\<rparr>)
         (sample_state sample_doomed)"
  have "list_all (\<lambda>ev. snd ev = None) (trace (snd ?run))"
    by (simp add: sample_doomed_def run_eval c_run_eval)
  moreover have "\<not> TimeIsZero sample_lib (metaDeletionTimestamp (tcMeta (smCluster ?S)))"
    by (simp add: sample_doomed_def sample_lib_def)
  moreover have "\<forall>oc w. fst (fst (k_GetFilteredMachinesForCluster (envKube (sample_env ?S)) oc w)) \<noteq> []"
    by (simp add: sample_services)
  ultimately show ?thesis
    using cluster_waits_for_machines [OF sample_get_cluster _ _ prod.collapse [symmetric],
        of ?S "sample_state sample_doomed" "\<lparr>nnName = ''prod'', nnNamespace = ''default''\<rparr>"]
    by (auto simp: Let_def)
qed

subsection \<open>A cluster becomes ready\<close>

definition vcd_healthy :: "lib \<Rightarrow> 'w vcd \<Rightarrow> bool" where
  "vcd_healthy L V \<longleftrightarrow>
     (\<forall>c n. answers (v_GetOrgByName V c n)) \<and> (\<forall>c n r. answers (v_GetVDCByName V c n r)) \<and>
     (\<forall>c n i. answers (v_GetEdgeGateway V c n i)) \<and>
     (\<forall>c n t. looks_up L (v_GetFirewallGroupByName V c n t)) \<and>
     (\<forall>c g. answers (v_CreateFirewallGroup V c g)) \<and>
     (\<forall>c i n. looks_up L (v_GetAlbPoolByName V c i n)) \<and> (\<forall>c p. answers (v_CreateAlbPool V c p)) \<and>
     (\<forall>c i n. looks_up L (v_GetVirtualServiceByName V c i n)) \<and>
     (\<forall>c p. answers (v_CreateVirtualService V c p)) \<and>
     (\<forall>c n q. answers (v_GetServiceEngineGroupAssignment V c n q)) \<and>
     (\<forall>c n q w a. fst (fst (v_GetServiceEngineGroupAssignment V c n q w)) = Some a \<longrightarrow> segRef a \<noteq> None)"

definition vapp_healthy :: "lib \<Rightarrow> 'w vapp \<Rightarrow> bool" where
  "vapp_healthy L A \<longleftrightarrow>
     (\<forall>c n r. looks_up L (a_GetVAppByName A c n r)) \<and> (\<forall>c n d. answers (a_CreateRawVApp A c n d)) \<and>
     (\<forall>c n r. answers (a_GetOrgVdcNetworkByName A c n r)) \<and>
     (\<forall>v n b. succeeds (a_AddOrgNetwork A v n b)) \<and> (\<forall>v. answers (a_PowerOn A v))"

lemma vcd_healthyD:
  assumes "vcd_healthy L V"
  shows "answers (v_GetOrgByName V c n)" "answers (v_GetVDCByName V org n r)"
    "answers (v_GetEdgeGateway V org n i)" "looks_up L (v_GetFirewallGroupByName V vdc n t)"
    "answers (v_CreateFirewallGroup V vdc g)" "looks_up L (v_GetAlbPoolByName V c i n)"
    "answers (v_CreateAlbPool V c p)" "looks_up L (v_GetVirtualServiceByName V c i n)"
    "answers (v_CreateVirtualService V c vs)" "answers (v_GetServiceEngineGroupAssignment V c n q)"
  using assms unfolding vcd_healthy_def by simp_all

lemma segment_answers:
  "vcd_healthy L V \<Longrightarrow> v_GetServiceEngineGroupAssignment V c n q w = ((Some a, e), w') \<Longrightarrow>
    \<exists>r. segRef a = Some r"
  unfolding vcd_healthy_def by (metis fst_conv not_None_eq)

lemma vapp_healthyD:
  assumes "vapp_healthy L A"
  shows "looks_up L (a_GetVAppByName A vdc n r)" "answers (a_CreateRawVApp A vdc n d)"
    "answers (a_GetOrgVdcNetworkByName A vdc n r)" "answers (a_PowerOn A v)"
    "succeeds (a_AddOrgNetwork A v net b)"
  using assms unfolding vapp_healthy_def by simp_all

lemma c_ensure_firewall_group_answers:
  assumes "vcd_healthy (envLib E) (envVcd E)" and "not_found_lawful (envLib E)"
  shows "wp (c_ensure_firewall_group E vdc (Some g)) (\<lambda>r _. r \<noteq> None) (\<lambda>_ _. False) s"
  using assms(2) unfolding c_ensure_firewall_group_def not_found_lawful_def
  by (simp add: wp_healthy wp_looks_up [where L = "envLib E"] vcd_healthyD [OF assms(1)])

lemma c_ensure_pool_answers:
  assumes "vcd_healthy (envLib E) (envVcd E)" and "not_found_lawful (envLib E)"
  shows "wp (c_ensure_pool E vc (Some g) (Some fg)) (\<lambda>r _. r \<noteq> None) (\<lambda>_ _. False) s"
  using assms(2) unfolding c_ensure_pool_def not_found_lawful_def
  by (simp add: wp_healthy wp_looks_up [where L = "envLib E"] vcd_healthyD [OF assms(1)])

lemma c_ensure_virtual_service_answers:
  assumes "vcd_healthy (envLib E) (envVcd E)" and "not_found_lawful (envLib E)"
  shows "wp (c_ensure_virtual_service E vc (Some g) (Some p)) (\<lambda>r _. r \<noteq> None) (\<lambda>_ _. False) s"
  using assms(2) unfolding c_ensure_virtual_service_def not_found_lawful_def
  by (auto simp: wp_healthy wp_looks_up [where L = "envLib E"] IgnoreNotFound_def vcd_healthyD [OF assms(1)] Let_def
      split: option.splits dest!: segment_answers [OF assms(1)])

lemma c_ensure_vapp_answers:
  assumes "vapp_healthy (envLib E) (envVapp E)" and "not_found_lawful (envLib E)"
  shows "wp (c_ensure_vapp E vdc) (\<lambda>r _. r \<noteq> None) (\<lambda>_ _. False) s"
  using assms(2) unfolding c_ensure_vapp_def not_found_lawful_def
  by (auto simp: wp_healthy wp_looks_up [where L = "envLib E"] IgnoreNotFound_def vapp_healthyD [OF assms(1)])

lemma c_infrastructure_answers:
  assumes "vcd_healthy (envLib E) (envVcd E)" and "csIdentityRef (tcSpec (obj s)) \<noteq> None"
    and "\<And>w. \<exists>c. fst (envGetVCDClient E (obj s) w) = Inr (c, None)"
  shows "wp (c_infrastructure E) (\<lambda>(c, vdc, gw) _. gw \<noteq> None) (\<lambda>_ _. False) s"
proof -
  have client: "envGetVCDClient E (obj s) w = (v, w') \<Longrightarrow> \<exists>c. v = Inr (c, None)" for w v w'
    using assms(3) [of w] by auto
  show ?thesis
    using assms(2) unfolding c_infrastructure_def
    by (auto simp: wp_healthy wp_looks_up [where L = "envLib E"] wp_call_panic vcd_healthyD [OF assms(1)] dest: client)
qed

lemma c_publish_ready:
  "wp (c_publish E vs (Some p) (Some fg) (Some a))
     (\<lambda>r t. r = (done_result, None) \<and> ctReady (tcStatus (obj t)) \<and> tc_ready_inv (obj t)) (\<lambda>_ _. False) s"
  unfolding c_publish_def
  by (simp add: wp tc_set_status_def tc_MarkTrue_def tc_ready_inv_def)

lemma c_reconcileNormal_ready:
  assumes "vcd_healthy (envLib E) (envVcd E)" and "vapp_healthy (envLib E) (envVapp E)"
    and "not_found_lawful (envLib E)"
    and "csIdentityRef (tcSpec (obj s)) \<noteq> None" and "endpointHost (csControlPlaneEndpoint (tcSpec (obj s))) \<noteq> ''''"
    and "\<And>w. \<exists>c. fst (envGetVCDClient E (obj s) w) = Inr (c, None)"
    and "clusterControlPlaneRef oc \<noteq> None"
  shows "wp (c_reconcileNormal E (Some oc))
     (\<lambda>r t. r = (done_result, None) \<and> ctReady (tcStatus (obj t)) \<and> tc_ready_inv (obj t)) (\<lambda>_ _. False) s"
proof -
  have infra: "wp (c_infrastructure E) (\<lambda>(c, vdc, gw) t. gw \<noteq> None \<and>
      endpointHost (csControlPlaneEndpoint (tcSpec (obj t))) \<noteq> '''') (\<lambda>_ _. False) s"
    by (rule wp_mono [OF wp_conj [OF c_infrastructure_answers quietD [OF c_infrastructure_quiet]]])
      (use assms in auto)
  have rest: "wp (c_resources E vcdClient vdc gw)
     (\<lambda>r t. r = (done_result, None) \<and> ctReady (tcStatus (obj t)) \<and> tc_ready_inv (obj t)) (\<lambda>_ _. False) t"
    if "gw \<noteq> None" for vdc vcdClient gw t
    using that unfolding c_resources_def
    by (auto simp: wp_bind wp_deref intro!: wp_mono [OF c_ensure_firewall_group_answers [OF assms(1,3)]]
        wp_mono [OF c_ensure_pool_answers [OF assms(1,3)]]
        wp_mono [OF c_ensure_virtual_service_answers [OF assms(1,3)]]
        wp_mono [OF c_ensure_vapp_answers [OF assms(2,3)]] c_publish_ready)
  show ?thesis
    unfolding c_reconcileNormal_def wp_bind
    by (rule wp_mono [OF infra]) (use assms(7) in \<open>auto simp: c_endpoint_def wp_bind wp_get_obj wp_modify_obj wp_if wp_exit intro!: rest\<close>)
qed

definition cluster_answered :: "('w, 'h) env \<Rightarrow> bool" where
  \<comment> \<open>the API server answers, and the client cache has a client for every cluster with an identity, as
     \<open>every_identity_served\<close> proves it of \<open>GetVCDClient\<close>\<close>
  "cluster_answered E \<longleftrightarrow> (\<forall>x. answers (k_NewHelperCluster (envKube E) x)) \<and>
     (\<forall>m w. snd (fst (k_GetOwnerCluster (envKube E) m w)) = None) \<and>
     (\<forall>h x cs w. fst (k_PatchCluster (envKube E) h x cs w) = None) \<and>
     (\<forall>x w. csIdentityRef (tcSpec x) \<noteq> None \<longrightarrow> (\<exists>c. fst (envGetVCDClient E x w) = Inr (c, None)))"

definition cluster_attended :: "('w, 'h) env \<Rightarrow> bool" where
  \<comment> \<open>and the owner is there and names its control plane\<close>
  "cluster_attended E \<longleftrightarrow> cluster_answered E \<and>
     (\<forall>m w. \<exists>oc. fst (k_GetOwnerCluster (envKube E) m w) = (Some oc, None) \<and> clusterControlPlaneRef oc \<noteq> None)"

lemma c_Reconcile_answered:
  assumes "cluster_answered E" and "k_GetTenantCluster (envKube E) req (world s) = (Inr tc, w)"
    and "\<And>t. obj t = tc \<Longrightarrow> wp (c_Reconcile_body E) (\<lambda>r u. R r (obj u))
      (\<lambda>e u. \<exists>r. e = Return r \<and> R r (obj u)) t"
    and "\<And>r x cs. R r x \<Longrightarrow> R r (tc_SetConditions cs x)"
    and "finish (c_Reconcile E req) s = (e, s')"
  shows "\<exists>r. e = Return r \<and> R r (obj s') \<and> last (trace s') = (KPatch, None)"
proof -
  let ?Q = "\<lambda>e t. \<exists>r. e = Return r \<and> R r (obj t) \<and> last (trace t) = (KPatch, None)"
  have helper: "answers (k_NewHelperCluster (envKube E) x)" for x
    using assms(1) by (simp add: cluster_answered_def)
  have patched: "err = None \<and> trace t' = trace t @ [(KPatch, None)] \<and> (R r (obj t) \<longrightarrow> R r (obj t'))"
    if patch: "patchTenantCluster E h t = (err, t')" for h t err t' r
  proof -
    have "err = None"
      using patch assms(1) unfolding cluster_answered_def
      by (auto simp: patchTenantCluster_def Let_def split: prod.splits) (metis fst_conv)
    moreover obtain cs where "obj t' = tc_SetConditions cs (obj t)" using tcp.patch_obj [OF patch] by blast
    ultimately show ?thesis using tcp.patch_calls [OF patch] assms(4) by simp
  qed
  have "wp (c_Reconcile E req) (\<lambda>r. ?Q (Return r)) ?Q s"
    unfolding c_Reconcile_def
    using assms(2) helper
    by (auto simp: wp_healthy wp_call_get wp_case_sum wp_deferred_patch intro!: wp_mono [OF assms(3)] dest!: patched)
  then show ?thesis by (rule wp_finish) (rule assms(5))
qed

lemma c_Reconcile_ready:
  assumes "vcd_healthy (envLib E) (envVcd E)" and "vapp_healthy (envLib E) (envVapp E)"
    and "not_found_lawful (envLib E)" and "finalizers_lawful (envLib E)"
    and "k_GetTenantCluster (envKube E) req (world s) = (Inr tc, w)"
    and "\<forall>x. answers (k_NewHelperCluster (envKube E) x)"
    and "\<forall>m w. fst (k_GetOwnerCluster (envKube E) m w) = (Some oc, None)"
    and "\<forall>h x cs w. fst (k_PatchCluster (envKube E) h x cs w) = None"
    and "\<forall>x w. csIdentityRef (tcSpec x) \<noteq> None \<longrightarrow> (\<exists>c. fst (envGetVCDClient E x w) = Inr (c, None))"
    and "clusterControlPlaneRef oc \<noteq> None"
    and "TimeIsZero (envLib E) (metaDeletionTimestamp (tcMeta tc))"
    and "CloudDirectorTenantClusterFinalizer \<in> set (metaFinalizers (tcMeta tc))"
    and "csIdentityRef (tcSpec tc) \<noteq> None" and "endpointHost (csControlPlaneEndpoint (tcSpec tc)) \<noteq> ''''"
    and "finish (c_Reconcile E req) s = (e, s')"
  shows "e = Return (done_result, None) \<and> ctReady (tcStatus (obj s')) \<and> tc_ready_inv (obj s') \<and>
    last (trace s') = (KPatch, None)"
proof -
  let ?R = "\<lambda>r c. r = (done_result, None) \<and> ctReady (tcStatus c) \<and> tc_ready_inv c"
  have "cluster_attended E"
    using assms(6-10) by (simp add: cluster_attended_def cluster_answered_def)
  then have "cluster_answered E" by (simp add: cluster_attended_def)
  then have "\<exists>r. e = Return r \<and> ?R r (obj s') \<and> last (trace s') = (KPatch, None)"
  proof (rule c_Reconcile_answered [OF _ assms(5) _ _ assms(15)])
    have add: "AddFinalizer (envLib E) (metaFinalizers (tcMeta tc)) CloudDirectorTenantClusterFinalizer =
        (metaFinalizers (tcMeta tc), False)"
      using assms(4,12) by (simp add: finalizers_lawful_def)
    have owner: "k_GetOwnerCluster (envKube E) m w = ((x, err), w') \<Longrightarrow> x = Some oc \<and> err = None" for m w x err w'
      using assms(7) by (metis fst_conv prod.inject)
    fix t :: "('a, CloudDirectorTenantCluster) cstate" assume "obj t = tc"
    then show "wp (c_Reconcile_body E) (\<lambda>r u. ?R r (obj u)) (\<lambda>e u. \<exists>r. e = Return r \<and> ?R r (obj u)) t"
      unfolding c_Reconcile_body_def using assms(11,13,14)
      by (auto simp: wp_healthy wp_call add tc_set_finalizers_def dest!: owner
          intro!: wp_mono [OF c_reconcileNormal_ready [OF assms(1-3)]] assms(9) [rule_format] assms(10))
  qed simp
  then show ?thesis by blast
qed

text \<open>
  With a Cloud Director that answers (every lookup by name finds the resource or
  reports not-found, every other call succeeds), one pass takes a cluster with a
  finalizer, an identity, an endpoint and an owner with a control plane all the way: it
  returns without error and without requeue, never panics, and writes the cluster as ready
  with its four references recorded, whichever of the resources existed before.
\<close>

theorem cluster_reaches_ready:
  assumes "vcd_healthy (envLib E) (envVcd E)" and "vapp_healthy (envLib E) (envVapp E)"
    and "not_found_lawful (envLib E)" and "finalizers_lawful (envLib E)"
    and "k_GetTenantCluster (envKube E) req (world s) = (Inr tc, w)"
    and "\<forall>x. answers (k_NewHelperCluster (envKube E) x)"
    and "\<forall>m w. fst (k_GetOwnerCluster (envKube E) m w) = (Some oc, None)"
    and "\<forall>h x cs w. fst (k_PatchCluster (envKube E) h x cs w) = None"
    and "\<forall>x w. csIdentityRef (tcSpec x) \<noteq> None \<longrightarrow> (\<exists>c. fst (envGetVCDClient E x w) = Inr (c, None))"
    and "clusterControlPlaneRef oc \<noteq> None"
    and "TimeIsZero (envLib E) (metaDeletionTimestamp (tcMeta tc))"
    and "CloudDirectorTenantClusterFinalizer \<in> set (metaFinalizers (tcMeta tc))"
    and "csIdentityRef (tcSpec tc) \<noteq> None" and "endpointHost (csControlPlaneEndpoint (tcSpec tc)) \<noteq> ''''"
    and "finish (c_Reconcile E req) s = (e, s')"
  shows "e = Return (done_result, None) \<and> ctReady (tcStatus (obj s')) \<and> tc_ready_inv (obj s')"
  using c_Reconcile_ready [OF assms] by simp

definition sample_live :: CloudDirectorTenantCluster where
  \<comment> \<open>the sample cluster with its finalizer stored\<close>
  "sample_live = sample_cluster\<lparr>
     tcMeta := (sample_meta ''prod'')\<lparr>metaFinalizers := [CloudDirectorTenantClusterFinalizer]\<rparr>\<rparr>"

lemma sample_healthy:
  "vcd_healthy sample_lib (envVcd (sample_env S))" "vapp_healthy sample_lib (envVapp (sample_env S))"
  by (simp_all add: vcd_healthy_def vapp_healthy_def answers_def looks_up_def succeeds_def sample_services
      sample_lib_def)

lemma sample_live_answers:
  defines "S \<equiv> sample\<lparr>smCluster := sample_live\<rparr>"
  shows "\<forall>x. answers (k_NewHelperCluster (envKube (sample_env S)) x)"
    "\<forall>m w. fst (k_GetOwnerCluster (envKube (sample_env S)) m w) = (Some sample_owner_cluster, None)"
    "\<forall>h x cs w. fst (k_PatchCluster (envKube (sample_env S)) h x cs w) = None"
    "\<forall>x w. csIdentityRef (tcSpec x) \<noteq> None \<longrightarrow> (\<exists>c. fst (envGetVCDClient (sample_env S) x w) = Inr (c, None))"
    "clusterControlPlaneRef sample_owner_cluster \<noteq> None"
    "TimeIsZero sample_lib (metaDeletionTimestamp (tcMeta (smCluster S)))"
    "CloudDirectorTenantClusterFinalizer \<in> set (metaFinalizers (tcMeta (smCluster S)))"
    "csIdentityRef (tcSpec (smCluster S)) \<noteq> None"
    "endpointHost (csControlPlaneEndpoint (tcSpec (smCluster S))) \<noteq> ''''"
  by (simp_all add: S_def answers_def sample_services sample_objects sample_live_def sample_lib_def)

theorem cluster_reaches_ready_witness:
  "let run = finish (c_Reconcile (sample_env (sample\<lparr>smCluster := sample_live\<rparr>))
         \<lparr>nnName = ''prod'', nnNamespace = ''default''\<rparr>) (sample_state sample_live)
   in fst run = Return (done_result, None) \<and> ctReady (tcStatus (obj (snd run))) \<and> tc_ready_inv (obj (snd run))"
  using sample_live_answers unfolding Let_def
  by (intro cluster_reaches_ready [OF _ _ _ _ sample_get_cluster _ _ _ _ _ _ _ _ _ prod.collapse [symmetric]])
    (simp_all add: sample_healthy sample_lib_lawful)

subsection \<open>The patch\<close>

lemma c_reconcileDelete_no_patch: "emits (list_all (\<lambda>ev. fst ev \<noteq> KPatch)) (c_reconcileDelete E oc)"
  unfolding c_reconcileDelete_def
  by (intro emits_all_bind emits_rules c_stages_quiet [THEN quiet_emits_all]) simp_all

lemma c_Reconcile_body_no_patch: "emits (list_all (\<lambda>ev. fst ev \<noteq> KPatch)) (c_Reconcile_body E)"
  unfolding c_Reconcile_body_def c_reconcileNormal_def c_resources_def c_publish_def c_endpoint_def
  by (intro emits_all_bind emits_rules c_stages_quiet [THEN quiet_emits_all] c_reconcileDelete_no_patch) simp_all

text \<open>
  Once the object is read and the patch helper made, the object is patched exactly
  once, as the last call of the pass, on every path: after an early return, an error and
  also after a panic. When that patch fails, the error is reported together with the
  error of the pass and no requeue time is kept.
\<close>

theorem cluster_patched_once_last:
  assumes "k_GetTenantCluster (envKube E) req (world s) = (Inr tc, w)"
    and "\<forall>x w. snd (fst (k_NewHelperCluster (envKube E) x w)) = None"
    and "finish (c_Reconcile E req) s = (e, s')"
  shows "patched_last (envLib E) (trace s) e (trace s')"
proof -
  have helper: "k_NewHelperCluster (envKube E) x w = ((h, err), w') \<Longrightarrow> err = None" for x w h err w'
    using assms(2) by (metis fst_conv snd_conv)
  have "wp (c_Reconcile E req) (\<lambda>r s'. patched_last (envLib E) (trace s) (Return r) (trace s'))
      (\<lambda>e s'. patched_last (envLib E) (trace s) e (trace s')) s"
    unfolding c_Reconcile_def using assms(1)
    by (auto simp: wp dest!: helper intro!: tcp.deferred_patch_last [OF c_Reconcile_body_no_patch])
  then show ?thesis by (rule wp_finish) (rule assms(3))
qed

theorem cluster_patched_once_last_witness:
  "let run = finish (c_Reconcile (sample_env sample) \<lparr>nnName = ''prod'', nnNamespace = ''default''\<rparr>)
         (sample_state sample_cluster)
   in patched_last sample_lib [] (fst run) (trace (snd run))"
  unfolding Let_def
  using cluster_patched_once_last [OF sample_get_cluster _ prod.collapse [symmetric],
      of sample "sample_state sample_cluster"]
  by (simp add: sample_services)

subsection \<open>Idle passes\<close>

definition steady :: "lib \<Rightarrow> (call \<times> goerror option) list \<Rightarrow> bool" where
  \<comment> \<open>something was reported not-found, or nothing was changed\<close>
  "steady L evs \<longleftrightarrow> list_ex (\<lambda>ev. ContainsNotFound L (snd ev)) evs \<or> list_all (\<lambda>ev. \<not> mutates (fst ev)) evs"

lemma steady_append: "steady L xs \<Longrightarrow> steady L ys \<Longrightarrow> steady L (xs @ ys)"
  by (auto simp: steady_def)

lemma steady_none: "list_all (\<lambda>ev. \<not> mutates (fst ev)) evs \<Longrightarrow> steady L evs"
  by (simp add: steady_def)

lemma steady_patch: "steady L evs \<Longrightarrow> steady L (evs @ [(KPatch, err)])"
  by (rule steady_append) (simp_all add: steady_def call_classes)

lemma emits_steady_bind:
  "emits (steady L) m \<Longrightarrow> (\<And>x. emits (steady L) (f x)) \<Longrightarrow> emits (steady L) (go_bind m f)"
  by (erule emits_bind [where U = "steady L"]) (auto intro: steady_append)

lemma c_ensure_steady:
  "emits (steady (envLib E)) (c_ensure_firewall_group E vdc gw)"
  "emits (steady (envLib E)) (c_ensure_pool E vc gw fgroup)"
  "emits (steady (envLib E)) (c_ensure_virtual_service E vc gw pool)"
  "emits (steady (envLib E)) (c_ensure_vapp E vdc)"
  unfolding emits_def c_ensure_firewall_group_def c_ensure_pool_def c_ensure_virtual_service_def c_ensure_vapp_def
  by (auto simp: wp Let_def steady_def call_classes split: option.splits)

lemma c_reconcileNormal_steady: "emits (steady (envLib E)) (c_reconcileNormal E oc)"
  unfolding c_reconcileNormal_def c_resources_def c_publish_def c_endpoint_def
  by (intro emits_steady_bind emits_rules c_ensure_steady quiet_emits [OF c_infrastructure_quiet])
    (auto simp: steady_def call_classes list_all_iff)

text \<open>
  A pass over a cluster that is not being deleted never changes anything in Cloud
  Director unless some lookup of this pass reported not-found: when the resources exist, or
  the lookups fail in any other way, no resource is created, changed or deleted.
\<close>

theorem cluster_idle_unless_missing:
  assumes "k_GetTenantCluster (envKube E) req (world s) = (Inr tc, w)"
    and "TimeIsZero (envLib E) (metaDeletionTimestamp (tcMeta tc))"
  shows "\<exists>evs. trace (snd (finish (c_Reconcile E req) s)) = trace s @ evs \<and> steady (envLib E) evs"
proof (rule c_Reconcile_lift [OF assms(1)])
  fix w'
  let ?Q = "\<lambda>t. \<exists>evs. trace t = trace s @ evs \<and> steady (envLib E) evs"
  have normal: "wp (c_reconcileNormal E oc) (\<lambda>_. ?Q) (\<lambda>_. ?Q) t" if "trace t = trace s @ evs" "steady (envLib E) evs" for oc t evs
    by (rule wp_mono [OF emitsD [OF c_reconcileNormal_steady]]) (auto simp: that(1) intro: steady_append [OF that(2)])
  show "wp (c_Reconcile_body E) (\<lambda>_. ?Q) (\<lambda>_. ?Q) (s\<lparr>obj := tc, world := w',
       trace := trace s @ [(KGetTenantCluster req, None), (KNewHelper, None)]\<rparr>)"
    unfolding c_Reconcile_body_def
    using assms(2)
    by (auto simp: wp steady_none call_classes split: prod.splits intro!: normal)
qed (auto intro: steady_append simp: steady_patch steady_none call_classes)

theorem cluster_idle_unless_missing_witness:
  "steady sample_lib (trace (snd (finish (c_Reconcile (sample_env (sample\<lparr>smCluster := sample_live, smFound := True\<rparr>))
     \<lparr>nnName = ''prod'', nnNamespace = ''default''\<rparr>) (sample_state sample_live))))"
proof -
  let ?S = "sample\<lparr>smCluster := sample_live, smFound := True\<rparr>"
  have "TimeIsZero (envLib (sample_env ?S)) (metaDeletionTimestamp (tcMeta (smCluster ?S)))"
    by (simp add: sample_objects sample_live_def sample_lib_def)
  from cluster_idle_unless_missing [OF sample_get_cluster this, where s = "sample_state sample_live"]
  show ?thesis by simp
qed

subsection \<open>Failures that are not handled\<close>

definition transient_error :: goerror where
  "transient_error = ExternalError 500 ''[ 3f2a-77 ] internal server error''"

definition faulty_env :: "sample \<Rightarrow> (sample_world, unit) env" where
  \<comment> \<open>the lookup of the IP set fails, for a reason other than its absence\<close>
  "faulty_env S = (sample_env S)\<lparr>envVcd := (sample_vcd False)\<lparr>
     v_GetFirewallGroupByName := (\<lambda>_ _ _ w. ((None, Some transient_error), w))\<rparr>\<rparr>"

text \<open>
  The error of the IP set lookup is only tested for not-found: when the lookup fails
  for another reason the pass goes on with a nil IP set and panics where its name is read.
  No IP set and no pool has been created by then, and the object is still patched.
\<close>

theorem cluster_failed_lookup_panics:
  "let run = finish (c_Reconcile (faulty_env (sample\<lparr>smCluster := sample_live\<rparr>))
       \<lparr>nnName = ''prod'', nnNamespace = ''default''\<rparr>) (sample_state sample_live)
   in fst run = Panic NilDereference \<and> list_all (\<lambda>ev. \<not> mutates (fst ev)) (trace (snd run)) \<and>
      last (trace (snd run)) = (KPatch, None)"
  by (simp add: faulty_env_def transient_error_def not_found_error_def sample_live_def run_eval c_run_eval c_reconcileNormal_def
      c_infrastructure_def c_endpoint_def c_resources_def c_ensure_firewall_group_def c_ensure_pool_def
      tc_MarkTrue_def tc_MarkFalse_def call_classes)

subsection \<open>Reporting a failed creation\<close>

lemma re_tail_none: "CHR '']'' \<notin> set s \<Longrightarrow> re_tail b s = None"
proof (induction b s rule: re_tail.induct)
  case (2 some c cs)
  then have "take 1 cs \<noteq> '']''" by (metis in_set_takeD list.set_intros(1,2))
  with 2 show ?case by simp
qed simp

lemma re_tail_id:
  "list_all re_class xs \<Longrightarrow> CHR '']'' \<notin> set post \<Longrightarrow> b \<or> xs \<noteq> [] \<Longrightarrow>
    re_tail b (xs @ '' ]'' @ post) = Some post"
proof (induction xs arbitrary: b)
  case Nil
  then show ?case by (simp add: re_tail_none re_space_def)
next
  case (Cons x xs)
  then have "re_class x" by simp
  then have "(of_char x :: nat) \<noteq> 10" by (auto simp: re_class_def Let_def)
  with Cons show ?case by simp
qed

lemma re_ReplaceAll_id:
  assumes "CHR ''['' \<notin> set pre" and "list_all re_class ident" and "2 \<le> length ident" and "CHR '']'' \<notin> set post"
  shows "re_ReplaceAll (pre @ ''[ '' @ ident @ '' ]'' @ post) = pre @ ''[]'' @ re_ReplaceAll post"
  using assms(1)
proof (induction pre)
  case Nil
  obtain c cs where id: "ident = c # cs" "cs \<noteq> []"
    using assms(3) by (cases ident; cases "tl ident") auto
  have "re_match (''[ '' @ ident @ '' ]'' @ post) = Some post"
    using assms(2,4) id re_tail_id [of cs post False] by (simp add: re_match_def re_space_def)
  then show ?case by simp
next
  case (Cons x pre)
  then have "re_match ((x # pre) @ ''[ '' @ ident @ '' ]'' @ post) = None"
    by (auto simp: re_match_def split: list.splits)
  with Cons show ?case by simp
qed

text \<open>
  When the creation of the virtual service fails, the pass ends with a retry in one
  minute and the condition \<^verbatim>\<open>VirtualServiceReady\<close> is false with the message of the error, in
  which the request id in brackets is removed: the same failure of two requests gives the
  same condition, so that it does not change from pass to pass.
\<close>

theorem virtual_service_failure_reported:
  assumes "conditions_lawful (envLib E)"
    and "c_ensure_virtual_service E vc (Some g) pool s = (Inl e, s')"
    and "last (trace s') = (CreateVirtualService cfg, Some err)"
    and "errError err = pre @ ''[ '' @ ident @ '' ]'' @ post"
    and "CHR ''['' \<notin> set pre" and "list_all re_class ident" and "2 \<le> length ident" and "CHR '']'' \<notin> set post"
  shows "e = Return (requeue_minute, None) \<and>
    cond_of (tc_GetConditions (obj s')) VirtualServiceReadyCondition =
      Some \<lparr>condType = VirtualServiceReadyCondition, condStatus = ''False'', condSeverity = ''Error'',
        condReason = VirtualServiceCreateFailedReason, condMessage = pre @ ''[]'' @ re_ReplaceAll post\<rparr>"
proof -
  have "wp (c_ensure_virtual_service E vc (Some g) pool) (\<lambda>_ _. True)
     (\<lambda>e t. last (trace t) = (CreateVirtualService cfg, Some err) \<longrightarrow> e = Return (requeue_minute, None) \<and>
        tc_GetConditions (obj t) = MarkFalse (envLib E) (tc_GetConditions (obj s)) VirtualServiceReadyCondition
          VirtualServiceCreateFailedReason ''Error'' (re_ReplaceAll (errError err))) s"
    unfolding c_ensure_virtual_service_def
    by (auto simp: wp Let_def tc_MarkFalse_def tc.get_set split: option.splits)
  with assms(2,3) have "e = Return (requeue_minute, None) \<and> tc_GetConditions (obj s') =
      MarkFalse (envLib E) (tc_GetConditions (obj s)) VirtualServiceReadyCondition
        VirtualServiceCreateFailedReason ''Error'' (re_ReplaceAll (errError err))"
    by (simp add: wp_def)
  with assms(1) show ?thesis
    unfolding conditions_lawful_def assms(4) re_ReplaceAll_id [OF assms(5-8)] by simp
qed

definition refusing_env :: "(sample_world, unit) env" where
  \<comment> \<open>the creation of the virtual service is refused\<close>
  "refusing_env = (sample_env sample)\<lparr>envVcd := (sample_vcd False)\<lparr>
     v_CreateVirtualService := (\<lambda>_ _ w. ((None, Some transient_error), w))\<rparr>\<rparr>"

theorem virtual_service_failure_reported_witness:
  "cond_of (tc_GetConditions (obj (snd (c_ensure_virtual_service refusing_env None
       (Some \<lparr>gwName = ''edge'', gwID = ''urn:gw:1''\<rparr>) (Some sample_pool) (sample_state sample_live)))))
       VirtualServiceReadyCondition =
     Some \<lparr>condType = VirtualServiceReadyCondition, condStatus = ''False'', condSeverity = ''Error'',
       condReason = VirtualServiceCreateFailedReason, condMessage = ''[] internal server error''\<rparr>"
proof -
  let ?run = "c_ensure_virtual_service refusing_env None (Some \<lparr>gwName = ''edge'', gwID = ''urn:gw:1''\<rparr>)
    (Some sample_pool) (sample_state sample_live)"
  obtain cfg where run: "fst ?run = Inl (Return (requeue_minute, None))"
      "last (trace (snd ?run)) = (CreateVirtualService cfg, Some transient_error)"
    by (simp add: refusing_env_def transient_error_def not_found_error_def sample_live_def run_eval c_run_eval
        c_ensure_virtual_service_def tc_MarkFalse_def Let_def)
  have "conditions_lawful (envLib refusing_env)"
    using sample_lib_lawful(3) by (simp add: refusing_env_def)
  moreover have "?run = (Inl (Return (requeue_minute, None)), snd ?run)"
    by (metis run(1) prod.collapse)
  moreover have "errError transient_error = '''' @ ''[ '' @ ''3f2a-77'' @ '' ]'' @ '' internal server error''"
    by (simp add: transient_error_def)
  moreover have "list_all re_class ''3f2a-77''"
    by (simp add: re_class_def)
  ultimately show ?thesis
    using virtual_service_failure_reported [of refusing_env None "\<lparr>gwName = ''edge'', gwID = ''urn:gw:1''\<rparr>"
        "Some sample_pool" "sample_state sample_live" "Return (requeue_minute, None)" "snd ?run" cfg transient_error
        "''''" "''3f2a-77''" "'' internal server error''"] run(2)
    by (simp add: regexp_eval)
qed

end
