(* ===== verification/Cluster_Lifecycle.thy ===== *)
theory Cluster_Lifecycle
  imports Cluster_Correct
begin

section \<open>The life of a cluster over many passes\<close>

text \<open>
  A controller is run again and again on the object it left in the API server, and between
  two passes users edit the object and mark it for deletion. This theory states what holds
  over every such history. \<open>stored\<close> are the objects that can be in the API server:
  created by a user, left by the patch of a pass (with any world and any answers of the
  services, the patch complete or failed in part), or edited. The abstract specification is the four-state machine \<open>lifecycle\<close>;
  \<open>phase_of\<close> maps an object to its state and every pass refines a step of it.
\<close>

subsection \<open>Abstract specification\<close>

datatype phase =
    Fresh \<comment> \<open>not yet taken over by the controller\<close>
  | Guarded \<comment> \<open>the finalizer is stored, resources may exist\<close>
  | Serving \<comment> \<open>ready\<close>
  | Released \<comment> \<open>deleted, nothing is left of it\<close>

inductive lifecycle :: "phase \<Rightarrow> phase \<Rightarrow> bool" where
  stay: "lifecycle p p"
| adopt: "lifecycle Fresh Guarded"
| publish: "lifecycle Guarded Serving"
| release: "p = Guarded \<or> p = Serving \<Longrightarrow> lifecycle p Released"

inductive_simps lifecycle_simps [simp]:
  "lifecycle Fresh q" "lifecycle Guarded q" "lifecycle Serving q" "lifecycle Released q"

definition finalized :: "CloudDirectorTenantCluster \<Rightarrow> bool" where
  "finalized tc \<longleftrightarrow> CloudDirectorTenantClusterFinalizer \<in> set (metaFinalizers (tcMeta tc))"

definition live :: "lib \<Rightarrow> CloudDirectorTenantCluster \<Rightarrow> bool" where
  "live L tc \<longleftrightarrow> TimeIsZero L (metaDeletionTimestamp (tcMeta tc))"

definition phase_of :: "lib \<Rightarrow> CloudDirectorTenantCluster \<Rightarrow> phase" where
  "phase_of L tc =
     (if finalized tc then if ctReady (tcStatus tc) then Serving else Guarded
      else if live L tc then Fresh else Released)"

subsection \<open>Histories\<close>

definition resources :: "CloudDirectorTenantClusterStatus \<Rightarrow> CloudDirectorTenantClusterStatus" where
  "resources st = st\<lparr>ctConditions := []\<rparr>"

definition patch_writes :: "CloudDirectorTenantCluster \<Rightarrow> CloudDirectorTenantCluster \<Rightarrow> goerror option \<Rightarrow> CloudDirectorTenantCluster \<Rightarrow> bool" where
  "patch_writes = patch_outcome (\<lambda>tc. (tcMeta tc, tcSpec tc)) (\<lambda>tc. resources (tcStatus tc)) tc_GetConditions"

definition cluster_pass :: "('w, 'h) env \<Rightarrow> NamespacedName \<Rightarrow> CloudDirectorTenantCluster \<Rightarrow> CloudDirectorTenantCluster \<Rightarrow> bool" where
  \<comment> \<open>a pass that read \<open>tc\<close> and whose patch left \<open>tc'\<close> in the API server\<close>
  "cluster_pass E req tc tc' \<longleftrightarrow> (\<exists>s w err. trace s = [] \<and> k_GetTenantCluster (envKube E) req (world s) = (Inr tc, w) \<and>
     last (trace (snd (finish (c_Reconcile E req) s))) = (KPatch, err) \<and>
     patch_writes tc (obj (snd (finish (c_Reconcile E req) s))) err tc')"

definition user_edit :: "lib \<Rightarrow> CloudDirectorTenantCluster \<Rightarrow> CloudDirectorTenantCluster \<Rightarrow> bool" where
  \<comment> \<open>any change of the spec, labels and names; a deletion is not taken back; status and finalizers are the controller's\<close>
  "user_edit L tc tc' \<longleftrightarrow> tcStatus tc' = tcStatus tc \<and> metaFinalizers (tcMeta tc') = metaFinalizers (tcMeta tc) \<and>
     (live L tc' \<longrightarrow> live L tc)"

definition recorded :: "CloudDirectorTenantCluster \<Rightarrow> bool" where
  "recorded tc \<longleftrightarrow> ctReady (tcStatus tc) \<or> ctVirtualService (tcStatus tc) \<noteq> None \<or> ctPool (tcStatus tc) \<noteq> None \<or>
     ctIPSet (tcStatus tc) \<noteq> None \<or> ctVApp (tcStatus tc) \<noteq> None"

inductive stored :: "('w, 'h) env \<Rightarrow> NamespacedName \<Rightarrow> CloudDirectorTenantCluster \<Rightarrow> bool"
  for E :: "('w, 'h) env" and req where
  created: "\<not> recorded tc \<Longrightarrow> live (envLib E) tc \<Longrightarrow> stored E req tc"
| passed: "stored E req tc \<Longrightarrow> cluster_pass E req tc tc' \<Longrightarrow> stored E req tc'"
| edited: "stored E req tc \<Longrightarrow> user_edit (envLib E) tc tc' \<Longrightarrow> stored E req tc'"

subsection \<open>One pass\<close>

definition cluster_step :: "lib \<Rightarrow> CloudDirectorTenantCluster \<Rightarrow> CloudDirectorTenantCluster \<Rightarrow> bool" where
  "cluster_step L tc c \<longleftrightarrow> live L c = live L tc \<and>
     (if live L tc then (finalized tc \<longrightarrow> finalized c \<and> (ctReady (tcStatus tc) \<longrightarrow> ctReady (tcStatus c))) \<and>
        (\<not> finalized tc \<longrightarrow> resources (tcStatus c) = resources (tcStatus tc))
      else resources (tcStatus c) = resources (tcStatus tc) \<and> (finalized c \<longrightarrow> finalized tc))"

lemma cluster_step_refl: "cluster_step L tc tc"
  by (simp add: cluster_step_def)

lemma cluster_step_SetConditions [simp]: "cluster_step L tc (tc_SetConditions cs c) = cluster_step L tc c"
  by (simp add: cluster_step_def live_def finalized_def resources_def tc_SetConditions_def)

lemma recorded_resources: "resources (tcStatus c) = resources (tcStatus d) \<Longrightarrow> recorded c = recorded d \<and> ctReady (tcStatus c) = ctReady (tcStatus d)"
  unfolding resources_def recorded_def
  by (cases "tcStatus c"; cases "tcStatus d") simp

lemma resources_ready_inv: "resources (tcStatus c) = resources (tcStatus d) \<Longrightarrow> tc_ready_inv d \<Longrightarrow> tc_ready_inv c"
  unfolding resources_def tc_ready_inv_def
  by (cases "tcStatus c"; cases "tcStatus d") simp

lemma c_reconcileNormal_step:
  assumes "live L tc" and "finalized tc"
  shows "keeps (\<lambda>c. tcMeta c = tcMeta tc \<and> (ctReady (tcStatus tc) \<longrightarrow> ctReady (tcStatus c))) (c_reconcileNormal E oc)"
proof -
  let ?P = "\<lambda>c. tcMeta c = tcMeta tc \<and> (ctReady (tcStatus tc) \<longrightarrow> ctReady (tcStatus c))"
  have q: "quiet tc_SetConditions C n \<Longrightarrow> keeps ?P n" for C and n :: "('w, CloudDirectorTenantCluster, 'x) handler"
    by (erule quiet_keeps) simp
  show ?thesis
    unfolding c_reconcileNormal_def c_resources_def c_endpoint_def c_publish_def
    by (intro keeps_rules q [OF c_infrastructure_quiet] q [OF c_ensure_firewall_group_quiet] q [OF c_ensure_pool_quiet]
        q [OF c_ensure_virtual_service_quiet] q [OF c_ensure_vapp_quiet] keeps_modify)
      (auto simp: tc_MarkTrue_def tc_MarkFalse_def tc_set_status_def)
qed

lemma c_Reconcile_step:
  fixes E :: "('w, 'h) env"
  assumes "finalizers_lawful (envLib E)" and "k_GetTenantCluster (envKube E) req (world s) = (Inr tc, w)"
  shows "cluster_step (envLib E) tc (obj (snd (finish (c_Reconcile E req) s)))"
proof (rule c_Reconcile_lift [OF assms(2)])
  let ?Q = "\<lambda>t. cluster_step (envLib E) tc (obj t)" and ?f = CloudDirectorTenantClusterFinalizer
  have removed: "?f \<notin> set (fst (RemoveFinalizer (envLib E) fs ?f))" for fs
    using assms(1) by (simp add: finalizers_lawful_def)
  have del: "wp (c_reconcileDelete E oc) (\<lambda>_. ?Q) (\<lambda>_. ?Q) t" if "obj t = tc" "\<not> live (envLib E) tc" for oc t
    by (rule wp_mono [OF c_reconcileDelete_spec])
      (use that removed in \<open>auto simp: cluster_step_def tc_set_finalizers_def live_def finalized_def resources_def\<close>)
  have normal: "wp (c_reconcileNormal E oc) (\<lambda>_. ?Q) (\<lambda>_. ?Q) t" if "obj t = tc" "live (envLib E) tc" "finalized tc" for oc t
    by (rule wp_mono [OF keepsD [OF c_reconcileNormal_step [OF that(2,3)]]])
      (use that in \<open>auto simp: cluster_step_def live_def finalized_def\<close>)
  have body: "wp (c_Reconcile_body E) (\<lambda>_. ?Q) (\<lambda>_. ?Q) t" if t: "obj t = tc" for t
  proof (cases "finalized tc")
    case True
    then have "AddFinalizer (envLib E) (metaFinalizers (tcMeta tc)) ?f = (metaFinalizers (tcMeta tc), False)"
      using assms(1) by (simp add: finalizers_lawful_def finalized_def)
    with True show ?thesis
      unfolding c_Reconcile_body_def
      by (auto simp: wp_bind [of get_obj] wp_bind [of "modify_obj _"] wp_bind [of "call _ _"] wp_get_obj wp_modify_obj wp_call
          wp_case_prod wp_if wp_exit tc_set_finalizers_def t cluster_step_refl intro!: del normal) (simp_all add: live_def t)
  next
    case False
    then obtain fs where "AddFinalizer (envLib E) (metaFinalizers (tcMeta tc)) ?f = (fs, True)"
      using assms(1) unfolding finalizers_lawful_def finalized_def by (metis prod.collapse)
    with False show ?thesis
      unfolding c_Reconcile_body_def
      by (auto simp: wp_bind [of get_obj] wp_bind [of "modify_obj _"] wp_bind [of "call _ _"] wp_get_obj wp_modify_obj wp_call
          wp_case_prod wp_if wp_exit t cluster_step_refl intro!: del)
        (simp_all add: cluster_step_def t tc_set_finalizers_def live_def resources_def)
  qed
  show "wp (c_Reconcile_body E) (\<lambda>_. ?Q) (\<lambda>_. ?Q) (s\<lparr>obj := tc, world := w',
       trace := trace s @ [(KGetTenantCluster req, None), (KNewHelper, None)]\<rparr>)" for w'
    by (rule body) simp
qed (simp_all add: cluster_step_refl)

lemma patch_writes_parts:
  assumes "patch_writes tc c err tc'"
  shows "tcMeta tc' = tcMeta tc \<or> tcMeta tc' = tcMeta c"
    and "resources (tcStatus tc') = resources (tcStatus tc) \<or> resources (tcStatus tc') = resources (tcStatus c)"
  using assms by (auto simp: patch_writes_def patch_outcome_def)

lemma patch_writes_step:
  assumes "patch_writes tc c err tc'" and "cluster_step L tc c"
  shows "cluster_step L tc tc'"
  using patch_writes_parts [OF assms(1)] recorded_resources [of tc' tc] recorded_resources [of tc' c] assms(2)
  by (elim disjE) (simp_all add: cluster_step_def live_def finalized_def split: if_splits)

lemma patch_writes_ready: "patch_writes tc c err tc' \<Longrightarrow> tc_ready_inv tc \<Longrightarrow> tc_ready_inv c \<Longrightarrow> tc_ready_inv tc'"
  using patch_writes_parts(2) resources_ready_inv by blast

lemma cluster_pass_step:
  "finalizers_lawful (envLib E) \<Longrightarrow> cluster_pass E req tc tc' \<Longrightarrow> cluster_step (envLib E) tc tc'"
  unfolding cluster_pass_def by (blast intro: c_Reconcile_step patch_writes_step)

lemma cluster_pass_ready: "cluster_pass E req tc tc' \<Longrightarrow> tc_ready_inv tc \<Longrightarrow> tc_ready_inv tc'"
  unfolding cluster_pass_def using c_Reconcile_keeps [OF c_Reconcile_body_keeps_ready _ _ _ prod.collapse [symmetric]] patch_writes_ready
  by fastforce

lemma stored_inv:
  assumes "finalizers_lawful (envLib E)" and "stored E req tc"
  shows "tc_ready_inv tc \<and> (recorded tc \<and> live (envLib E) tc \<longrightarrow> finalized tc)"
  using assms(2)
proof (induction rule: stored.induct)
  case (created tc)
  then show ?case by (simp add: recorded_def tc_ready_inv_def)
next
  case (passed tc tc')
  then have "cluster_step (envLib E) tc tc'" using cluster_pass_step [OF assms(1)] by blast
  with passed have "recorded tc' \<and> live (envLib E) tc' \<longrightarrow> finalized tc'"
    using recorded_resources [of tc' tc] by (auto simp: cluster_step_def split: if_splits)
  with passed show ?case using cluster_pass_ready by blast
next
  case (edited tc tc')
  then show ?case by (auto simp: user_edit_def tc_ready_inv_def recorded_def finalized_def)
qed

text \<open>
  C6. Over every history of a cluster (passes with any answers of the services, lost
  and partial patches, edits and deletions by users) the stored object satisfies: a cluster with
  anything recorded that is not being deleted holds the finalizer, so that it cannot vanish
  with its resources left behind; and a ready cluster has its four references, also after
  edits and while it is being deleted.
\<close>

theorem cluster_history_invariant:
  assumes "finalizers_lawful (envLib E)" and "stored E req tc"
  shows "(recorded tc \<and> live (envLib E) tc \<longrightarrow> finalized tc) \<and>
    (ctReady (tcStatus tc) \<longrightarrow> ctVirtualService (tcStatus tc) \<noteq> None \<and> ctVApp (tcStatus tc) \<noteq> None \<and>
       ctIPSet (tcStatus tc) \<noteq> None \<and> ctPool (tcStatus tc) \<noteq> None)"
  using stored_inv [OF assms] by (auto simp: tc_ready_inv_def)

text \<open>
  C7. Every pass refines a step of the life cycle: on any object a history can lead to,
  the object that the pass leaves, also when its patch is lost in part, is in the same state, or taken over (finalizer stored,
  nothing recorded yet), or ready after it was taken over, or released after it was taken
  over. No pass skips a state, no ready cluster falls back, and a released one stays
  released.
\<close>

theorem cluster_pass_refines_lifecycle:
  assumes "finalizers_lawful (envLib E)" and "stored E req tc" and "cluster_pass E req tc tc'"
  shows "lifecycle (phase_of (envLib E) tc) (phase_of (envLib E) tc')"
  using cluster_pass_step [OF assms(1,3)] stored_inv [OF assms(1,2)] recorded_resources [of tc' tc]
  by (auto simp: cluster_step_def phase_of_def recorded_def split: if_splits)

subsection \<open>A history\<close>

text \<open>The sample cluster, taken over, and the pass that makes it ready.\<close>

definition sample_served :: CloudDirectorTenantCluster where
  "sample_served = obj (snd (finish (c_Reconcile (sample_env (sample\<lparr>smCluster := sample_live\<rparr>))
     \<lparr>nnName = ''prod'', nnNamespace = ''default''\<rparr>) (sample_state sample_live)))"

lemma sample_history_run:
  "last (trace (snd (finish (c_Reconcile (sample_env (sample\<lparr>smCluster := sample_live\<rparr>))
     \<lparr>nnName = ''prod'', nnNamespace = ''default''\<rparr>) (sample_state sample_live)))) = (KPatch, None)"
  "ctReady (tcStatus sample_served)"
proof -
  let ?run = "finish (c_Reconcile (sample_env (sample\<lparr>smCluster := sample_live\<rparr>)) \<lparr>nnName = ''prod'', nnNamespace = ''default''\<rparr>)
    (sample_state sample_live)"
  have "fst ?run = Return (done_result, None) \<and> ctReady (tcStatus (obj (snd ?run))) \<and> tc_ready_inv (obj (snd ?run)) \<and>
      last (trace (snd ?run)) = (KPatch, None)"
    using sample_live_answers
    by (intro c_Reconcile_ready [OF _ _ _ _ sample_get_cluster _ _ _ _ _ _ _ _ _ prod.collapse [symmetric]])
      (simp_all add: sample_healthy sample_lib_lawful)
  then show "last (trace (snd ?run)) = (KPatch, None)" "ctReady (tcStatus sample_served)"
    by (simp_all add: sample_served_def)
qed

lemma sample_history:
  "stored (sample_env (sample\<lparr>smCluster := sample_live\<rparr>)) \<lparr>nnName = ''prod'', nnNamespace = ''default''\<rparr> sample_live"
  "cluster_pass (sample_env (sample\<lparr>smCluster := sample_live\<rparr>)) \<lparr>nnName = ''prod'', nnNamespace = ''default''\<rparr>
     sample_live sample_served"
proof -
  show "stored (sample_env (sample\<lparr>smCluster := sample_live\<rparr>)) \<lparr>nnName = ''prod'', nnNamespace = ''default''\<rparr> sample_live"
    by (rule stored.created) (simp_all add: recorded_def live_def sample_live_def sample_objects sample_lib_def)
  show "cluster_pass (sample_env (sample\<lparr>smCluster := sample_live\<rparr>)) \<lparr>nnName = ''prod'', nnNamespace = ''default''\<rparr>
     sample_live sample_served"
    unfolding cluster_pass_def
    by (rule exI [of _ "sample_state sample_live"]) (simp add: sample_history_run(1) sample_served_def patch_writes_def patch_outcome_complete)
qed

lemma sample_history_finalized: "finalized sample_served"
  using cluster_pass_step [OF _ sample_history(2)] sample_lib_lawful(2)
  by (simp add: cluster_step_def live_def finalized_def sample_live_def sample_objects sample_lib_def)

theorem cluster_history_invariant_witness:
  "finalized sample_served \<and> ctVApp (tcStatus sample_served) \<noteq> None \<and> ctIPSet (tcStatus sample_served) \<noteq> None"
proof -
  have "finalizers_lawful (envLib (sample_env (sample\<lparr>smCluster := sample_live\<rparr>)))" by (simp add: sample_lib_lawful)
  from cluster_history_invariant [OF this stored.passed [OF sample_history]] sample_history_run(2) sample_history_finalized
  show ?thesis by simp
qed

theorem cluster_pass_refines_lifecycle_witness:
  "lifecycle (phase_of sample_lib sample_live) (phase_of sample_lib sample_served) \<and>
   phase_of sample_lib sample_live = Guarded \<and> phase_of sample_lib sample_served = Serving"
proof -
  have "finalizers_lawful (envLib (sample_env (sample\<lparr>smCluster := sample_live\<rparr>)))" by (simp add: sample_lib_lawful)
  from cluster_pass_refines_lifecycle [OF this sample_history]
  have "lifecycle (phase_of sample_lib sample_live) (phase_of sample_lib sample_served)" by simp
  moreover have "phase_of sample_lib sample_live = Guarded"
    by (simp add: phase_of_def finalized_def sample_live_def sample_objects)
  moreover have "phase_of sample_lib sample_served = Serving"
    using sample_history_run(2) sample_history_finalized by (simp add: phase_of_def)
  ultimately show ?thesis by simp
qed

end
