(* ===== verification/Cluster_Progress.thy ===== *)
theory Cluster_Progress
  imports Cluster_Lifecycle
begin

section \<open>Progress of the cluster controller\<close>

text \<open>
  What the controller achieves and what it does not. With services that answer, the passes
  over a cluster converge: each does one of at most three steps, the last one makes the
  cluster ready, and one pass completes a deletion. With services that do anything, no
  cluster is forgotten: a pass that does not reach its goal reports an error or asks for
  another pass, but for the reasons the theorem lists. And what a pass interrupted between
  two creations leaves behind.
\<close>

lemma c_Reconcile_body_normal:
  assumes "cluster_attended E" and "finalizers_lawful (envLib E)" and "live (envLib E) (obj t)" and "finalized (obj t)"
    and "\<And>oc u. obj u = obj t \<Longrightarrow> clusterControlPlaneRef oc \<noteq> None \<Longrightarrow> wp (c_reconcileNormal E (Some oc)) Q X u"
  shows "wp (c_Reconcile_body E) Q X t"
proof -
  have add: "AddFinalizer (envLib E) (metaFinalizers (tcMeta (obj t))) CloudDirectorTenantClusterFinalizer =
      (metaFinalizers (tcMeta (obj t)), False)"
    using assms(2,4) by (simp add: finalizers_lawful_def finalized_def)
  have owner: "k_GetOwnerCluster (envKube E) m w = ((x, err), w') \<Longrightarrow>
      err = None \<and> (\<exists>oc. x = Some oc \<and> clusterControlPlaneRef oc \<noteq> None)" for m w x err w'
    using assms(1) unfolding cluster_attended_def by (metis fst_conv prod.inject)
  show ?thesis
    unfolding c_Reconcile_body_def using assms(3)
    by (auto simp: wp_healthy wp_call add tc_set_finalizers_def live_def dest!: owner intro!: assms(5))
qed

subsection \<open>Convergence\<close>

definition remaining :: "CloudDirectorTenantCluster \<Rightarrow> nat" where
  \<comment> \<open>the passes that are left: the finalizer, the endpoint, the resources\<close>
  "remaining tc = (if finalized tc then 0 else 1) + (if endpointHost (csControlPlaneEndpoint (tcSpec tc)) = '''' then 1 else 0) +
     (if ctReady (tcStatus tc) \<and> tc_ready_inv tc then 0 else 1)"

lemma remaining_SetConditions [simp]: "remaining (tc_SetConditions cs tc) = remaining tc"
  by (simp add: remaining_def finalized_def)

definition addresses_offered :: "'w vcd \<Rightarrow> bool" where
  "addresses_offered V \<longleftrightarrow> (\<forall>gw w. \<exists>a as. fst (v_GetUnusedExternalIPAddresses V gw w) = (a # as, None))"

definition advances :: "CloudDirectorTenantCluster \<Rightarrow> reconcile_result \<Rightarrow> CloudDirectorTenantCluster \<Rightarrow> bool" where
  "advances tc r c \<longleftrightarrow> r = (done_result, None) \<and> remaining c = remaining tc - 1 \<and>
     metaDeletionTimestamp (tcMeta c) = metaDeletionTimestamp (tcMeta tc) \<and> csIdentityRef (tcSpec c) = csIdentityRef (tcSpec tc)"

lemma advances_SetConditions [simp]: "advances tc r (tc_SetConditions cs c) = advances tc r c"
  by (simp add: advances_def)

lemma c_reconcileNormal_claims:
  fixes s :: "('w, CloudDirectorTenantCluster) cstate"
  assumes "vcd_healthy (envLib E) (envVcd E)" and "addresses_offered (envVcd E)"
    and "csIdentityRef (tcSpec (obj s)) \<noteq> None" and "\<And>w. \<exists>c. fst (envGetVCDClient E (obj s) w) = Inr (c, None)"
    and "endpointHost (csControlPlaneEndpoint (tcSpec (obj s))) = ''''" and "finalized (obj s)"
  shows "wp (c_reconcileNormal E oc) (\<lambda>_ _. False) (\<lambda>e u. \<exists>r. e = Return r \<and> advances (obj s) r (obj u)) s"
proof -
  have infra: "wp (c_infrastructure E) (\<lambda>_ t. \<exists>cs. obj t = tc_SetConditions cs (obj s)) (\<lambda>_ _. False) s"
    by (rule wp_mono [OF wp_conj [OF c_infrastructure_answers quietD [OF c_infrastructure_quiet]]])
      (use assms in auto)
  have offer: "v_GetUnusedExternalIPAddresses (envVcd E) gw w = ((xs, err), w') \<Longrightarrow> err = None \<and> (\<exists>a as. xs = a # as)" for gw w xs err w'
    using assms(2) unfolding addresses_offered_def by (metis fst_conv prod.inject)
  have claim: "wp (c_endpoint E gw) (\<lambda>_ _. False) (\<lambda>e u. \<exists>r. e = Return r \<and> advances (obj s) r (obj u)) t"
    if "obj t = tc_SetConditions cs (obj s)" for t :: "('w, CloudDirectorTenantCluster) cstate" and gw cs
    using that assms(5,6) unfolding c_endpoint_def
    by (auto simp: wp_bind wp_get_obj wp_modify_obj wp_if wp_exit wp_call wp_index0 wp_case_prod wp_case_option dest!: offer)
      (simp add: advances_def remaining_def finalized_def tc_ready_inv_def addr_String_nonempty)
  show ?thesis
    unfolding c_reconcileNormal_def wp_bind
    by (rule wp_mono [OF infra]) (auto simp: wp_bind intro!: wp_mono [OF claim])
qed

lemma c_reconcileNormal_keeps_spec:
  assumes "endpointHost (csControlPlaneEndpoint sp) \<noteq> ''''"
  shows "keeps (\<lambda>c. tcSpec c = sp) (c_reconcileNormal E oc)"
proof -
  have q: "quiet tc_SetConditions C n \<Longrightarrow> keeps (\<lambda>c. tcSpec c = sp) n" for C n
    by (erule quiet_keeps) simp
  show ?thesis
    unfolding c_reconcileNormal_def c_resources_def c_endpoint_def c_publish_def
    by (intro keeps_rules c_stages_quiet [THEN q] keeps_modify)
      (use assms in \<open>simp_all add: tc_MarkTrue_def tc_MarkFalse_def tc_set_status_def\<close>)
qed

text \<open>One pass does one of the steps that are left.\<close>

lemma c_Reconcile_advances:
  fixes E :: "('a, 'h) env"
  assumes "cluster_attended E" and "vcd_healthy (envLib E) (envVcd E)" and "vapp_healthy (envLib E) (envVapp E)"
    and "addresses_offered (envVcd E)" and "not_found_lawful (envLib E)" and "finalizers_lawful (envLib E)"
    and "k_GetTenantCluster (envKube E) req (world s) = (Inr tc, w)" and "live (envLib E) tc" and "csIdentityRef (tcSpec tc) \<noteq> None"
    and "finish (c_Reconcile E req) s = (e, s')"
  shows "\<exists>r. e = Return r \<and> advances tc r (obj s') \<and> last (trace s') = (KPatch, None)"
proof (rule c_Reconcile_answered [OF _ assms(7) _ _ assms(10)])
  show "cluster_answered E" using assms(1) by (simp add: cluster_attended_def)
next
  fix t :: "('a, CloudDirectorTenantCluster) cstate" assume t: "obj t = tc"
  have client: "\<exists>c. fst (envGetVCDClient E tc w) = Inr (c, None)" for w
    using assms(1,9) by (simp add: cluster_attended_def cluster_answered_def)
  let ?goal = "wp (c_Reconcile_body E) (\<lambda>r u. advances tc r (obj u)) (\<lambda>e u. \<exists>r. e = Return r \<and> advances tc r (obj u)) t"
  show ?goal
  proof (cases "finalized tc")
    case False
    then obtain fs where fs: "AddFinalizer (envLib E) (metaFinalizers (tcMeta tc)) CloudDirectorTenantClusterFinalizer = (fs, True)"
        "CloudDirectorTenantClusterFinalizer \<in> set fs"
      using assms(6) unfolding finalizers_lawful_def finalized_def by (metis prod.collapse)
    have "advances tc (done_result, None) (tc_set_finalizers fs tc)"
      using False fs(2) by (simp add: advances_def remaining_def finalized_def tc_set_finalizers_def tc_ready_inv_def)
    moreover have owner: "k_GetOwnerCluster (envKube E) m w = ((x, err), w') \<Longrightarrow> err = None" for m w x err w'
      using assms(1) unfolding cluster_attended_def by (metis fst_conv prod.inject)
    ultimately show ?thesis
      unfolding c_Reconcile_body_def using assms(8) t
      by (auto simp: wp_bind wp_get_obj wp_call wp_if wp_case_prod wp_modify_obj wp_exit fs(1) live_def dest: owner)
  next
    case fin: True
    show ?thesis
    proof (cases "endpointHost (csControlPlaneEndpoint (tcSpec tc)) = ''''")
      case True
      with assms(8,9) fin show ?thesis
        by (intro c_Reconcile_body_normal [OF assms(1,6)] wp_mono [OF c_reconcileNormal_claims [OF assms(2,4)]])
          (simp_all add: t client)
    next
      case False
      have "wp (c_reconcileNormal E (Some oc)) (\<lambda>r u. advances tc r (obj u)) (\<lambda>e u. \<exists>r. e = Return r \<and> advances tc r (obj u)) u"
        if "obj u = tc" "clusterControlPlaneRef oc \<noteq> None" for oc u
      proof -
        have m: "wp (c_reconcileNormal E (Some oc)) (\<lambda>_ v. tcMeta (obj v) = tcMeta tc) (\<lambda>_ v. tcMeta (obj v) = tcMeta tc) u"
          by (rule keepsD [OF c_reconcileNormal_keeps_meta]) (simp add: that)
        have sp: "wp (c_reconcileNormal E (Some oc)) (\<lambda>_ v. tcSpec (obj v) = tcSpec tc) (\<lambda>_ v. tcSpec (obj v) = tcSpec tc) u"
          by (rule keepsD [OF c_reconcileNormal_keeps_spec [OF False]]) (simp add: that)
        have r: "wp (c_reconcileNormal E (Some oc))
           (\<lambda>r v. r = (done_result, None) \<and> ctReady (tcStatus (obj v)) \<and> tc_ready_inv (obj v)) (\<lambda>_ _. False) u"
          by (rule c_reconcileNormal_ready [OF assms(2,3,5)]) (simp_all add: that False assms(9) client)
        have "advances tc r (obj v)" if "r = (done_result, None) \<and> ctReady (tcStatus (obj v)) \<and> tc_ready_inv (obj v)"
          "tcMeta (obj v) = tcMeta tc" "tcSpec (obj v) = tcSpec tc" for r and v :: "('a, CloudDirectorTenantCluster) cstate"
          using that fin False by (simp add: advances_def remaining_def finalized_def)
        then show ?thesis by (intro wp_mono [OF wp_conj [OF r wp_conj [OF m sp]]]) blast+
      qed
      with assms(8) fin show ?thesis by (intro c_Reconcile_body_normal [OF assms(1,6)]) (simp_all only: t)
    qed
  qed
qed simp

definition cluster_served :: "lib \<Rightarrow> ('w, 'h) env \<Rightarrow> bool" where
  "cluster_served L E \<longleftrightarrow> envLib E = L \<and> cluster_attended E \<and> vcd_healthy L (envVcd E) \<and> vapp_healthy L (envVapp E) \<and>
     addresses_offered (envVcd E)"

definition cluster_course :: "(nat \<Rightarrow> ('w, 'h) env) \<Rightarrow> NamespacedName \<Rightarrow> (nat \<Rightarrow> ('w, CloudDirectorTenantCluster) cstate) \<Rightarrow>
    (nat \<Rightarrow> CloudDirectorTenantCluster) \<Rightarrow> bool" where
  \<comment> \<open>pass \<open>i\<close> reads the object \<open>x i\<close> and leaves \<open>x (i + 1)\<close>\<close>
  "cluster_course E req s x \<longleftrightarrow> (\<forall>i. fst (k_GetTenantCluster (envKube (E i)) req (world (s i))) = Inr (x i) \<and>
     x (Suc i) = obj (snd (finish (c_Reconcile (E i) req) (s i))))"

text \<open>
  C5. With services that answer (every lookup by name finds the resource or reports not-found,
  every other call succeeds, the client cache has a client for every cluster with an
  identity, the edge gateway an unused address), every cluster that has an identity and an
  owner with a control plane converges: each pass returns without error and without requeue and does exactly one of the steps that are
  left (store the finalizer, claim the endpoint, make the resources), so that after as many
  passes as steps were left, at most three, the cluster holds the finalizer, has an endpoint
  and is ready with its four references; and every later pass leaves it so. The environment
  may be a different one in every pass.
\<close>

theorem cluster_converges:
  assumes "not_found_lawful L" and "finalizers_lawful L" and "\<forall>i. cluster_served L (E i)"
    and "cluster_course E req s x" and "live L (x 0)" and "csIdentityRef (tcSpec (x 0)) \<noteq> None"
  shows "fst (finish (c_Reconcile (E i) req) (s i)) = Return (done_result, None) \<and>
    remaining (x i) = remaining (x 0) - i \<and> remaining (x 0) \<le> 3 \<and>
    (remaining (x 0) \<le> i \<longrightarrow> finalized (x i) \<and> endpointHost (csControlPlaneEndpoint (tcSpec (x i))) \<noteq> '''' \<and>
       ctReady (tcStatus (x i)) \<and> tc_ready_inv (x i))"
proof -
  have pass: "fst (finish (c_Reconcile (E i) req) (s i)) = Return (done_result, None) \<and> advances (x i) (done_result, None) (x (Suc i))"
    if "live L (x i)" "csIdentityRef (tcSpec (x i)) \<noteq> None" for i
  proof -
    let ?run = "finish (c_Reconcile (E i) req) (s i)"
    have served: "cluster_served L (E i)" using assms(3) by blast
    have "k_GetTenantCluster (envKube (E i)) req (world (s i)) = (Inr (x i), snd (k_GetTenantCluster (envKube (E i)) req (world (s i))))"
      using assms(4) unfolding cluster_course_def by (metis prod.collapse)
    then have "\<exists>r. fst ?run = Return r \<and> advances (x i) r (obj (snd ?run)) \<and> last (trace (snd ?run)) = (KPatch, None)"
      using that served assms(1,2) unfolding cluster_served_def
      by (intro c_Reconcile_advances [OF _ _ _ _ _ _ _ _ _ prod.collapse [symmetric]]) simp_all
    then show ?thesis using assms(4) by (auto simp: advances_def cluster_course_def)
  qed
  then have "fst (finish (c_Reconcile (E i) req) (s i)) = Return (done_result, None) \<and>
      (live L (x (Suc i)) \<and> csIdentityRef (tcSpec (x (Suc i))) \<noteq> None) \<and> remaining (x (Suc i)) = remaining (x i) - 1"
    if "live L (x i) \<and> csIdentityRef (tcSpec (x i)) \<noteq> None" for i
    using that by (simp add: advances_def live_def)
  from countdown [where P = "\<lambda>c. live L c \<and> csIdentityRef (tcSpec c) \<noteq> None"
      and D = "\<lambda>i. fst (finish (c_Reconcile (E i) req) (s i)) = Return (done_result, None)" and m = remaining, OF this, of i]
  have run: "fst (finish (c_Reconcile (E i) req) (s i)) = Return (done_result, None)" "remaining (x i) = remaining (x 0) - i"
    using assms(5,6) by simp_all
  have "remaining (x 0) \<le> i \<Longrightarrow> remaining (x i) = 0" using run(2) by simp
  then have zero: "remaining (x 0) \<le> i \<Longrightarrow> finalized (x i) \<and> endpointHost (csControlPlaneEndpoint (tcSpec (x i))) \<noteq> '''' \<and>
      ctReady (tcStatus (x i)) \<and> tc_ready_inv (x i)"
    by (simp add: remaining_def split: if_splits)
  have "remaining (x 0) \<le> 3" by (simp add: remaining_def)
  with zero run show ?thesis by blast
qed

text \<open>A cluster as a user makes it: no finalizer, no endpoint, nothing recorded.\<close>

definition sample_fresh :: CloudDirectorTenantCluster where
  "sample_fresh = sample_cluster\<lparr>tcSpec := (tcSpec sample_cluster)\<lparr>csControlPlaneEndpoint := \<lparr>endpointHost = '''', endpointPort = 0\<rparr>\<rparr>\<rparr>"

primrec sample_course :: "nat \<Rightarrow> CloudDirectorTenantCluster" where
  "sample_course 0 = sample_fresh"
| "sample_course (Suc i) = obj (snd (finish (c_Reconcile (sample_env (sample\<lparr>smCluster := sample_course i\<rparr>))
     \<lparr>nnName = ''prod'', nnNamespace = ''default''\<rparr>) (sample_state (sample_course i))))"

lemma sample_attended: "smOwnerCluster S = sample_owner_cluster \<Longrightarrow> cluster_attended (sample_env S)"
  by (simp add: cluster_attended_def cluster_answered_def answers_def sample_services) (simp add: sample_objects)

lemma sample_served: "smOwnerCluster S = sample_owner_cluster \<Longrightarrow> cluster_served sample_lib (sample_env S)"
  using sample_attended sample_healthy
  by (simp add: cluster_served_def addresses_offered_def) (simp add: sample_services)

theorem cluster_converges_witness:
  "(\<forall>S. envGetVCDClient (sample_env S) = GetVCDClient (sample_kube S) sample_auth) \<and>
   remaining sample_fresh = 3 \<and> ctReady (tcStatus (sample_course 3)) \<and> tc_ready_inv (sample_course 3) \<and> finalized (sample_course 3)"
proof -
  let ?E = "\<lambda>i. sample_env (sample\<lparr>smCluster := sample_course i\<rparr>)"
  have three: "remaining sample_fresh = 3"
    by (simp add: remaining_def finalized_def sample_fresh_def sample_objects)
  have "cluster_course ?E \<lparr>nnName = ''prod'', nnNamespace = ''default''\<rparr> (\<lambda>i. sample_state (sample_course i)) sample_course"
    by (simp add: cluster_course_def)
  from cluster_converges [OF sample_lib_lawful(1,2) allI [OF sample_served] this, of 3]
  show ?thesis using three by (simp add: sample_env_client live_def sample_fresh_def sample_objects sample_lib_def)
qed

subsection \<open>Deletion completes\<close>

definition addresses_left :: "'w vcd \<Rightarrow> CloudDirectorTenantCluster \<Rightarrow> bool" where
  "addresses_left V tc \<longleftrightarrow> (\<exists>r vdc w g w'. ctIPSet (tcStatus tc) = Some r \<and>
     v_GetFirewallGroupById V vdc (cdrID r) w = ((Some g, None), w') \<and> fgIpAddresses g \<noteq> [])"

definition cluster_released :: "lib \<Rightarrow> ('w, 'h) env \<Rightarrow> bool" where
  \<comment> \<open>no machine is left, lookups by id answer or report not-found, deletions are carried out\<close>
  "cluster_released L E \<longleftrightarrow> envLib E = L \<and> cluster_answered E \<and>
     (\<forall>oc w. fst (k_GetFilteredMachinesForCluster (envKube E) oc w) = ([], None)) \<and>
     (\<forall>c n. answers (v_GetOrgByName (envVcd E) c n)) \<and> (\<forall>org n r. answers (v_GetVDCByName (envVcd E) org n r)) \<and>
     (\<forall>c i. looks_up L (v_GetVirtualServiceById (envVcd E) c i)) \<and> (\<forall>v. accepts (v_DeleteVirtualService (envVcd E) v)) \<and>
     (\<forall>c i. looks_up L (v_GetAlbPoolById (envVcd E) c i)) \<and> (\<forall>p. accepts (v_DeleteAlbPool (envVcd E) p)) \<and>
     (\<forall>vdc i. looks_up L (v_GetFirewallGroupById (envVcd E) vdc i)) \<and> (\<forall>g. accepts (v_DeleteFirewallGroup (envVcd E) g)) \<and>
     (\<forall>vdc i r. looks_up L (a_GetVAppById (envVapp E) vdc i r)) \<and> (\<forall>a. succeeds (a_GetStatus (envVapp E) a)) \<and>
     (\<forall>a. answers (a_Undeploy (envVapp E) a)) \<and> (\<forall>a. answers (a_Delete (envVapp E) a)) \<and>
     (\<forall>t. accepts (a_WaitTaskCompletion (envVapp E) t))"

lemma cluster_releasedD:
  assumes "cluster_released L E"
  shows "envLib E = L" "cluster_answered E" "answers (v_GetOrgByName (envVcd E) c n)" "answers (v_GetVDCByName (envVcd E) org n r)"
    "looks_up L (v_GetVirtualServiceById (envVcd E) c i)" "accepts (v_DeleteVirtualService (envVcd E) v)"
    "looks_up L (v_GetAlbPoolById (envVcd E) c i)" "accepts (v_DeleteAlbPool (envVcd E) p)"
    "looks_up L (v_GetFirewallGroupById (envVcd E) vdc i)" "accepts (v_DeleteFirewallGroup (envVcd E) g)"
    "looks_up L (a_GetVAppById (envVapp E) vdc i r)" "succeeds (a_GetStatus (envVapp E) a)"
    "answers (a_Undeploy (envVapp E) a)" "answers (a_Delete (envVapp E) a)" "accepts (a_WaitTaskCompletion (envVapp E) t)"
  using assms unfolding cluster_released_def by simp_all

lemma c_delete_stages_complete:
  assumes "cluster_released (envLib E) E" and "not_found_lawful (envLib E)"
  shows "wp (c_delete_virtual_service E vc) (\<lambda>_ t. obj t = obj s) (\<lambda>_ _. False) s"
    and "wp (c_delete_pool E vc) (\<lambda>_ t. obj t = obj s) (\<lambda>_ _. False) s"
    and "wp (c_delete_ip_set E vdc) (\<lambda>_ t. obj t = obj s)
      (\<lambda>e t. obj t = obj s \<and> e = Return (done_result, None) \<and> addresses_left (envVcd E) (obj s)) s"
    and "wp (c_delete_vapp E vdc) (\<lambda>_ t. obj t = obj s) (\<lambda>_ _. False) s"
proof -
  note released = cluster_releasedD(5-) [OF assms(1)] and none = assms(2) [unfolded not_found_lawful_def]
  show "wp (c_delete_virtual_service E vc) (\<lambda>_ t. obj t = obj s) (\<lambda>_ _. False) s"
    unfolding c_delete_virtual_service_def
    by (simp add: wp_healthy wp_accepts wp_looks_up [where L = "envLib E"] IgnoreNotFound_def released none split: option.split del: wp_call_err)
  show "wp (c_delete_pool E vc) (\<lambda>_ t. obj t = obj s) (\<lambda>_ _. False) s"
    unfolding c_delete_pool_def
    by (simp add: wp_healthy wp_accepts wp_looks_up [where L = "envLib E"] IgnoreNotFound_def released none split: option.split del: wp_call_err)
  show "wp (c_delete_ip_set E vdc) (\<lambda>_ t. obj t = obj s)
      (\<lambda>e t. obj t = obj s \<and> e = Return (done_result, None) \<and> addresses_left (envVcd E) (obj s)) s"
    unfolding c_delete_ip_set_def
    by (auto simp: wp_healthy wp_accepts wp_looks_up [where L = "envLib E"] IgnoreNotFound_def released none addresses_left_def
        split: option.split simp del: wp_call_err)
  show "wp (c_delete_vapp E vdc) (\<lambda>_ t. obj t = obj s) (\<lambda>_ _. False) s"
    unfolding c_delete_vapp_def
    by (simp add: wp_healthy wp_accepts wp_looks_up [where L = "envLib E"] IgnoreNotFound_def released none split: option.split del: wp_call_err)
qed

lemma c_delete_resources_complete:
  assumes "cluster_released (envLib E) E" and "not_found_lawful (envLib E)"
  shows "wp (c_delete_resources E vc vdc) (\<lambda>_ t. obj t = obj s)
    (\<lambda>e t. obj t = obj s \<and> e = Return (done_result, None) \<and> addresses_left (envVcd E) (obj s)) s"
  unfolding c_delete_resources_def wp_bind
  by (rule wp_mono [OF c_delete_stages_complete(1) [OF assms]], rule wp_mono [OF c_delete_stages_complete(2) [OF assms]],
      rule wp_mono [OF c_delete_stages_complete(3) [OF assms]], rule wp_mono [OF c_delete_stages_complete(4) [OF assms]]) simp_all

definition deletion_ends :: "('w, 'h) env \<Rightarrow> CloudDirectorTenantCluster \<Rightarrow> CloudDirectorTenantCluster \<Rightarrow> bool" where
  \<comment> \<open>the finalizer is given up; or an address is left in the recorded IP set, then it is kept\<close>
  "deletion_ends E tc c \<longleftrightarrow> \<not> finalized c \<or> addresses_left (envVcd E) tc \<and> finalized tc"

lemma deletion_ends_SetConditions [simp]: "deletion_ends E tc (tc_SetConditions cs c) = deletion_ends E tc c"
  by (simp add: deletion_ends_def finalized_def)

lemma c_reconcileDelete_completes:
  assumes "cluster_released (envLib E) E" and "not_found_lawful (envLib E)" and "finalizers_lawful (envLib E)"
    and "obj s = tc" and "csIdentityRef (tcSpec tc) \<noteq> None"
  shows "wp (c_reconcileDelete E oc) (\<lambda>r t. r = (done_result, None) \<and> deletion_ends E tc (obj t))
    (\<lambda>e t. e = Return (done_result, None) \<and> deletion_ends E tc (obj t)) s"
proof -
  have none: "k_GetFilteredMachinesForCluster (envKube E) oc w = ((ms, err), w') \<Longrightarrow> ms = [] \<and> err = None" for w ms err w'
    using assms(1) unfolding cluster_released_def by (metis fst_conv prod.inject)
  have client: "envGetVCDClient E tc w = (v, w') \<Longrightarrow> \<exists>c. v = Inr (c, None)" for w v w'
    using assms(1,5) unfolding cluster_released_def cluster_answered_def by (metis fst_conv)
  have rest: "wp (c_delete_resources E vc vdc) (\<lambda>_. wp (go_bind (modify_obj (\<lambda>c. tc_set_finalizers (fst (RemoveFinalizer (envLib E)
      (metaFinalizers (tcMeta c)) CloudDirectorTenantClusterFinalizer)) c)) (\<lambda>_. go_return (done_result, None)))
      (\<lambda>r t. r = (done_result, None) \<and> deletion_ends E tc (obj t)) (\<lambda>e t. e = Return (done_result, None) \<and> deletion_ends E tc (obj t)))
      (\<lambda>e t. e = Return (done_result, None) \<and> deletion_ends E tc (obj t)) t" if "obj t = tc" for vc vdc t
    by (rule wp_mono [OF c_delete_resources_complete [OF assms(1,2)]])
      (use assms(3) that in \<open>simp_all add: wp finalizers_lawful_def finalized_def tc_set_finalizers_def deletion_ends_def\<close>)
  note answering = cluster_releasedD(3,4) [OF assms(1)]
  show ?thesis
    unfolding c_reconcileDelete_def wp_bind [of "call _ _"] wp_bind [of get_obj] wp_bind [of "call_panic _ _"]
      wp_bind [of "c_delete_resources _ _ _"] wp_case_prod wp_if wp_exit wp_get_obj
      wp_answers [OF answering(1)] wp_answers [OF answering(2)]
    by (auto simp: wp_call wp_call_panic assms(4) intro!: rest dest!: none dest: client)
qed

text \<open>
  C13. The deletion of a cluster completes: when the cluster has an identity and no machine
  is left, and Cloud Director answers every lookup and carries out every deletion, a single
  pass over a cluster that is being deleted returns without error or requeue, never panics,
  and writes the cluster back without its finalizer, whichever of the recorded resources
  still exist; with one exception, an IP set that is still there with addresses in it: then
  the pass ends as quietly, and the finalizer may stay.
\<close>

theorem cluster_deletion_completes:
  assumes "not_found_lawful L" and "finalizers_lawful L" and "cluster_released L E"
    and "k_GetTenantCluster (envKube E) req (world s) = (Inr tc, w)" and "\<not> live L tc"
    and "csIdentityRef (tcSpec tc) \<noteq> None"
    and "finish (c_Reconcile E req) s = (e, s')"
  shows "e = Return (done_result, None) \<and> last (trace s') = (KPatch, None) \<and>
    (\<not> finalized (obj s') \<or> addresses_left (envVcd E) tc \<and> finalized tc)"
proof -
  note lib = cluster_releasedD(1) [OF assms(3)]
  have owner: "k_GetOwnerCluster (envKube E) m w = ((x, err), w') \<Longrightarrow> err = None" for m w x err w'
    using cluster_releasedD(2) [OF assms(3)] unfolding cluster_answered_def by (metis fst_conv snd_conv)
  let ?R = "\<lambda>r c. r = (done_result, None) \<and> deletion_ends E tc c"
  have "\<exists>r. e = Return r \<and> ?R r (obj s') \<and> last (trace s') = (KPatch, None)"
  proof (rule c_Reconcile_answered [OF cluster_releasedD(2) [OF assms(3)] assms(4) _ _ assms(7)])
    fix t :: "('a, CloudDirectorTenantCluster) cstate" assume t: "obj t = tc"
    have delete: "wp (c_reconcileDelete E oc) (\<lambda>r u. ?R r (obj u)) (\<lambda>e u. e = Return (done_result, None) \<and> deletion_ends E tc (obj u)) u"
      if "obj u = tc" for oc u
      using assms(1-3,6) that by (intro c_reconcileDelete_completes) (simp_all add: lib)
    show "wp (c_Reconcile_body E) (\<lambda>r u. ?R r (obj u)) (\<lambda>e u. \<exists>r. e = Return r \<and> ?R r (obj u)) t"
      unfolding c_Reconcile_body_def using assms(5)
      by (auto simp: wp_bind wp_get_obj wp_call wp_if wp_case_prod wp_exit live_def lib t dest: owner
          intro!: wp_mono [OF delete])
  qed simp
  then show ?thesis by (auto simp: deletion_ends_def)
qed

theorem cluster_deletion_completes_witness:
  "let S = sample\<lparr>smCluster := sample_doomed, smFound := True\<rparr>;
       run = finish (c_Reconcile (sample_env S) \<lparr>nnName = ''prod'', nnNamespace = ''default''\<rparr>) (sample_state sample_doomed)
   in envGetVCDClient (sample_env S) = GetVCDClient (sample_kube S) sample_auth \<and>
      fst run = Return (done_result, None) \<and> \<not> finalized (obj (snd run)) \<and> finalized sample_doomed"
proof -
  let ?S = "sample\<lparr>smCluster := sample_doomed, smFound := True\<rparr>" and ?req = "\<lparr>nnName = ''prod'', nnNamespace = ''default''\<rparr>"
  let ?run = "finish (c_Reconcile (sample_env ?S) ?req) (sample_state sample_doomed)"
  have "cluster_released sample_lib (sample_env ?S)"
    using sample_attended [of ?S] unfolding cluster_released_def cluster_attended_def
    by (simp add: answers_def looks_up_def succeeds_def accepts_def)
      (simp add: sample_services sample_group_def sample_lib_def sample_objects split: if_splits)
  moreover have "\<not> live sample_lib (smCluster ?S)" "csIdentityRef (tcSpec (smCluster ?S)) \<noteq> None"
    by (simp_all add: live_def sample_doomed_def sample_lib_def sample_objects)
  ultimately have "fst ?run = Return (done_result, None) \<and> last (trace (snd ?run)) = (KPatch, None) \<and>
      (\<not> finalized (obj (snd ?run)) \<or> addresses_left (envVcd (sample_env ?S)) (smCluster ?S) \<and> finalized (smCluster ?S))"
    by (intro cluster_deletion_completes [OF sample_lib_lawful(1,2) _ sample_get_cluster _ _ prod.collapse [symmetric]])
  moreover have "\<not> addresses_left (envVcd (sample_env ?S)) (smCluster ?S)"
    by (simp add: addresses_left_def sample_services sample_group_def)
  moreover have "finalized sample_doomed" by (simp add: finalized_def sample_doomed_def)
  ultimately show ?thesis by (simp add: Let_def sample_env_client)
qed

subsection \<open>No cluster is forgotten\<close>

lemma c_stages_unfinished:
  "unfinished (c_ensure_firewall_group E vdc gw)" "unfinished (c_ensure_pool E vc gw fgroup)"
  "unfinished (c_ensure_virtual_service E vc gw pool)" "unfinished (c_ensure_vapp E vdc)"
  "unfinished (c_delete_virtual_service E vc)" "unfinished (c_delete_pool E vc)" "unfinished (c_delete_vapp E vdc)"
  unfolding unfinished_def c_ensure_firewall_group_def c_ensure_pool_def c_ensure_virtual_service_def c_ensure_vapp_def
    c_delete_virtual_service_def c_delete_pool_def c_delete_vapp_def
  by (auto simp: wp Let_def IgnoreNotFound_def split: option.splits)

lemma c_publish_done:
  "wp (c_publish E vs pool fgroup vApp)
     (\<lambda>_ t. ctReady (tcStatus (obj t)) \<and> tc_ready_inv (obj t)) (\<lambda>e _. e \<noteq> Return (done_result, None)) s"
  unfolding c_publish_def
  by (simp add: wp tc_set_status_def tc_MarkTrue_def tc_ready_inv_def split: option.splits)

lemma c_resources_done:
  "wp (c_resources E vc vdc gw) (\<lambda>_ t. ctReady (tcStatus (obj t)) \<and> tc_ready_inv (obj t)) (\<lambda>e _. e \<noteq> Return (done_result, None)) s"
  unfolding c_resources_def wp_bind
  by (rule wp_mono [OF unfinishedD [OF c_stages_unfinished(1)]], rule wp_mono [OF unfinishedD [OF c_stages_unfinished(2)]],
      rule wp_mono [OF unfinishedD [OF c_stages_unfinished(3)]])
    (auto simp: wp_deref split: option.splits intro!: wp_mono [OF unfinishedD [OF c_stages_unfinished(4)]] wp_mono [OF c_publish_done])

lemma c_endpoint_done:
  "wp (c_endpoint E gw) (\<lambda>_ _. True) (\<lambda>e t. e = Return (done_result, None) \<longrightarrow>
     endpointHost (csControlPlaneEndpoint (tcSpec (obj s))) = '''' \<and> endpointHost (csControlPlaneEndpoint (tcSpec (obj t))) \<noteq> '''') s"
  unfolding c_endpoint_def
  by (auto simp: wp addr_String_nonempty split: option.splits list.splits)

lemma c_infrastructure_done:
  "wp (c_infrastructure E) (\<lambda>_ t. True) (\<lambda>e _. e = Return (done_result, None) \<longrightarrow> csIdentityRef (tcSpec (obj s)) = None) s"
  unfolding c_infrastructure_def by (auto simp: wp split: option.splits)

definition normal_ends :: "Cluster option \<Rightarrow> CloudDirectorTenantCluster \<Rightarrow> CloudDirectorTenantCluster \<Rightarrow> bool" where
  \<comment> \<open>why a normal pass from \<open>tc\<close> to \<open>c\<close> may end without an error and without asking for another one\<close>
  "normal_ends oc tc c \<longleftrightarrow> csIdentityRef (tcSpec tc) = None \<or>
     endpointHost (csControlPlaneEndpoint (tcSpec tc)) = '''' \<and> endpointHost (csControlPlaneEndpoint (tcSpec c)) \<noteq> '''' \<or>
     (case oc of None \<Rightarrow> True | Some c \<Rightarrow> clusterControlPlaneRef c = None) \<or>
     ctReady (tcStatus c) \<and> tc_ready_inv c"

definition pass_ends :: "('w, 'h) env \<Rightarrow> CloudDirectorTenantCluster \<Rightarrow> CloudDirectorTenantCluster \<Rightarrow> bool" where
  "pass_ends E tc c \<longleftrightarrow>
     (if live (envLib E) tc then \<not> finalized tc \<and> finalized c \<or>
        (\<exists>oc w w'. k_GetOwnerCluster (envKube E) (tcMeta tc) w = ((oc, None), w') \<and> normal_ends oc tc c)
      else \<not> finalized c \<or> addresses_left (envVcd E) tc)"

lemma normal_ends_SetConditions [simp]:
  "normal_ends oc tc (tc_SetConditions cs c) = normal_ends oc tc c"
  "normal_ends oc (tc_SetConditions cs tc) c = normal_ends oc tc c"
  by (simp_all add: normal_ends_def)

lemma pass_ends_SetConditions [simp]: "pass_ends E tc (tc_SetConditions cs c) = pass_ends E tc c"
  by (simp add: pass_ends_def finalized_def)

lemma c_reconcileNormal_ends:
  "wp (c_reconcileNormal E oc) (\<lambda>r t. normal_ends oc (obj s) (obj t))
     (\<lambda>e t. e = Return (done_result, None) \<longrightarrow> normal_ends oc (obj s) (obj t)) s"
proof -
  have infra: "wp (c_infrastructure E) (\<lambda>_ t. \<exists>cs. obj t = tc_SetConditions cs (obj s))
      (\<lambda>e t. e = Return (done_result, None) \<longrightarrow> normal_ends oc (obj s) (obj t)) s"
    by (rule wp_mono [OF wp_conj [OF c_infrastructure_done quietD [OF c_infrastructure_quiet]]])
      (auto simp: normal_ends_def)
  have resources: "wp (c_resources E vc vdc gw) (\<lambda>_ u. normal_ends oc tc (obj u))
      (\<lambda>e u. e = Return (done_result, None) \<longrightarrow> normal_ends oc tc (obj u)) t" for oc vc vdc gw tc t
    by (rule wp_mono [OF c_resources_done]) (auto simp: normal_ends_def)
  have waits: "normal_ends None tc c" "clusterControlPlaneRef x = None \<Longrightarrow> normal_ends (Some x) tc c" for tc c x
    by (simp_all add: normal_ends_def)
  have rest: "wp (case oc of None \<Rightarrow> go_exit (done_result, None) | Some x \<Rightarrow>
        if clusterControlPlaneRef x = None then go_exit (done_result, None) else c_resources E vc vdc gw)
      (\<lambda>_ u. normal_ends oc tc (obj u)) (\<lambda>e u. e = Return (done_result, None) \<longrightarrow> normal_ends oc tc (obj u)) t" for vc vdc gw tc t
    by (cases oc) (simp_all add: wp_exit resources waits)
  have endpoint: "wp (c_endpoint E gw) (\<lambda>_ _. True) (\<lambda>e u. e = Return (done_result, None) \<longrightarrow> normal_ends oc (obj t) (obj u)) t" for gw t
    by (rule wp_mono [OF c_endpoint_done]) (auto simp: normal_ends_def)
  have tail: "wp (c_endpoint E gw) (\<lambda>_. wp (case oc of None \<Rightarrow> go_exit (done_result, None) | Some x \<Rightarrow>
        if clusterControlPlaneRef x = None then go_exit (done_result, None) else c_resources E vc vdc gw)
          (\<lambda>_ u. normal_ends oc (obj s) (obj u)) (\<lambda>e u. e = Return (done_result, None) \<longrightarrow> normal_ends oc (obj s) (obj u)))
      (\<lambda>e u. e = Return (done_result, None) \<longrightarrow> normal_ends oc (obj s) (obj u)) t"
    if "obj t = tc_SetConditions cs (obj s)" for vc vdc gw cs t
    by (rule wp_mono [OF endpoint]) (simp_all add: rest that)
  show ?thesis
    unfolding c_reconcileNormal_def wp_bind
    by (rule wp_mono [OF infra]) (auto simp: wp_bind intro!: tail)
qed

lemma c_reconcileDelete_ends:
  assumes "finalizers_lawful (envLib E)"
  shows "wp (c_reconcileDelete E oc) (\<lambda>_ t. \<not> finalized (obj t))
     (\<lambda>e _. e = Return (done_result, None) \<longrightarrow> addresses_left (envVcd E) (obj s)) s"
proof -
  have removed: "\<not> finalized (tc_set_finalizers (fst (RemoveFinalizer (envLib E) fs CloudDirectorTenantClusterFinalizer)) c)" for fs c
    using assms by (simp add: finalizers_lawful_def finalized_def tc_set_finalizers_def)
  have ipset: "wp (c_delete_ip_set E vdc) (\<lambda>_ _. True) (\<lambda>e _. e = Return (done_result, None) \<longrightarrow> addresses_left (envVcd E) (obj t)) t" for vdc t
    unfolding c_delete_ip_set_def
    by (auto simp: wp IgnoreNotFound_def addresses_left_def split: option.splits)
  have resources: "wp (c_delete_resources E vc vdc) (\<lambda>_ _. True) (\<lambda>e _. e = Return (done_result, None) \<longrightarrow> addresses_left (envVcd E) (obj t)) t" for vc vdc t
    unfolding c_delete_resources_def wp_bind
    by (rule wp_mono [OF wp_conj [OF unfinishedD [OF c_stages_unfinished(5)] c_delete_virtual_service_gone]],
        rule wp_mono [OF wp_conj [OF unfinishedD [OF c_stages_unfinished(6)] c_delete_pool_gone]],
        rule wp_mono [OF ipset], rule wp_mono [OF unfinishedD [OF c_stages_unfinished(7)]]) simp_all
  have tail: "wp (c_delete_resources E vc vdc) (\<lambda>_. wp (go_bind (modify_obj (\<lambda>c. tc_set_finalizers (fst (RemoveFinalizer (envLib E)
      (metaFinalizers (tcMeta c)) CloudDirectorTenantClusterFinalizer)) c)) (\<lambda>_. go_return (done_result, None)))
      (\<lambda>_ t. \<not> finalized (obj t)) (\<lambda>e _. e = Return (done_result, None) \<longrightarrow> addresses_left (envVcd E) (obj s)))
      (\<lambda>e _. e = Return (done_result, None) \<longrightarrow> addresses_left (envVcd E) (obj s)) t" if "obj t = obj s" for vc vdc t
    by (rule wp_mono [OF resources]) (simp_all add: wp removed that)
  show ?thesis
    unfolding c_reconcileDelete_def wp_bind [of "call _ _"] wp_bind [of get_obj] wp_bind [of "call_panic _ _"]
      wp_bind [of "c_delete_resources _ _ _"] wp_case_prod wp_if wp_exit wp_get_obj
    by (auto simp: wp_call wp_call_panic intro!: tail)
qed

text \<open>
  C15. No cluster is forgotten: whatever the services answer, a pass that returns without an
  error and without asking for another pass has stored the finalizer, or has claimed the
  endpoint, or the cluster waits for an identity or for its owner's control plane, or it is
  ready with its four references; and of a cluster that is being deleted it has given up the
  finalizer, or found addresses left in the IP set. In all other cases the caller is told.
\<close>

theorem cluster_pass_progress:
  assumes "finalizers_lawful (envLib E)" and "aggregate_lawful (envLib E)"
    and "k_GetTenantCluster (envKube E) req (world s) = (Inr tc, w)"
    and "finish (c_Reconcile E req) s = (Return (done_result, None), s')"
  shows "pass_ends E tc (obj s')"
proof -
  let ?Q = "\<lambda>e t. e = Return (done_result, None) \<longrightarrow> pass_ends E tc (obj t)"
  have body: "wp (c_Reconcile_body E) (\<lambda>r v. r = (done_result, None) \<longrightarrow> pass_ends E tc (obj v)) ?Q t" if t: "obj t = tc" for t :: "('a, CloudDirectorTenantCluster) cstate"
  proof (cases "live (envLib E) tc")
    case True
    have normal: "wp (c_reconcileNormal E oc) (\<lambda>r v. r = (done_result, None) \<longrightarrow> pass_ends E tc (obj v)) ?Q u"
      if "obj u = tc" "k_GetOwnerCluster (envKube E) (tcMeta tc) x = ((oc, None), x')" for oc u x x'
      by (rule wp_mono [OF c_reconcileNormal_ends]) (use True that in \<open>auto simp: pass_ends_def\<close>)
    obtain fs added where add: "AddFinalizer (envLib E) (metaFinalizers (tcMeta tc)) CloudDirectorTenantClusterFinalizer = (fs, added)"
      by (metis prod.collapse)
    then have fs: "if finalized tc then fs = metaFinalizers (tcMeta tc) \<and> \<not> added else added \<and> CloudDirectorTenantClusterFinalizer \<in> set fs"
      using assms(1) unfolding finalizers_lawful_def finalized_def by (metis fst_conv snd_conv)
    then have "finalized tc \<Longrightarrow> tc_set_finalizers fs tc = tc" "\<not> finalized tc \<Longrightarrow> pass_ends E tc (tc_set_finalizers fs tc)"
      using True by (simp_all add: tc_set_finalizers_def pass_ends_def finalized_def)
    with fs True show ?thesis
      unfolding c_Reconcile_body_def
      by (cases "finalized tc") (auto simp: wp_bind wp_get_obj wp_call wp_if wp_case_prod wp_exit wp_modify_obj add t live_def intro!: normal)
  next
    case False
    then show ?thesis
      unfolding c_Reconcile_body_def using t
      by (auto simp: wp_bind wp_get_obj wp_call wp_if wp_case_prod wp_exit live_def
          intro!: wp_mono [OF c_reconcileDelete_ends [OF assms(1)]]) (simp_all add: pass_ends_def live_def)
  qed
  have "wp (c_Reconcile E req) (\<lambda>r t. r = (done_result, None) \<longrightarrow> pass_ends E tc (obj t)) ?Q s"
    unfolding c_Reconcile_def wp_bind wp_call_get wp_call
    by (auto simp: assms(3) wp intro!: tcp.deferred_patch_done [OF assms(2)] body)
  then have "wp (c_Reconcile E req) (\<lambda>r. ?Q (Return r)) ?Q s" by (rule wp_mono) simp_all
  from wp_finish [OF this assms(4)] show ?thesis by simp
qed

theorem cluster_pass_progress_witness:
  "pass_ends (sample_env (sample\<lparr>smCluster := sample_live\<rparr>)) sample_live sample_served \<and> finalized sample_live"
proof -
  let ?E = "sample_env (sample\<lparr>smCluster := sample_live\<rparr>)" and ?req = "\<lparr>nnName = ''prod'', nnNamespace = ''default''\<rparr>"
  let ?run = "finish (c_Reconcile ?E ?req) (sample_state sample_live)"
  have "\<exists>r. fst ?run = Return r \<and> advances sample_live r (obj (snd ?run)) \<and> last (trace (snd ?run)) = (KPatch, None)"
    using sample_served [of "sample\<lparr>smCluster := sample_live\<rparr>"] sample_lib_lawful(1,2) unfolding cluster_served_def
    by (intro c_Reconcile_advances [OF _ _ _ _ _ _ _ _ _ prod.collapse [symmetric]])
      (simp_all add: live_def sample_live_def sample_objects sample_lib_def)
  then have "?run = (Return (done_result, None), snd ?run)"
    by (auto simp: advances_def prod_eq_iff)
  from cluster_pass_progress [OF _ _ sample_get_cluster this] sample_lib_lawful(2) sample_lib_aggregate
  show ?thesis by (simp add: sample_served_def finalized_def sample_live_def)
qed

subsection \<open>What an interrupted pass leaves behind\<close>

text \<open>
  C35. The references are recorded only at the end of a pass that made all resources, and the
  deletion looks only at them: of a cluster that is deleted while nothing is recorded
  nothing is deleted, also when earlier passes created resources and failed afterwards. In
  the witness the pool is refused after the IP set was created; the deletion then gives up
  the finalizer without a single deletion.
\<close>

theorem unrecorded_resources_leak:
  assumes "k_GetTenantCluster (envKube E) req (world s) = (Inr tc, w)"
    and "\<not> live (envLib E) tc" and "\<not> recorded tc"
  shows "extends (\<lambda>c. \<not> mutates c) s (snd (finish (c_Reconcile E req) s))"
proof (rule c_Reconcile_lift [OF assms(1)])
  fix w'
  let ?t = "s\<lparr>obj := tc, world := w', trace := trace s @ [(KGetTenantCluster req, None), (KNewHelper, None)]\<rparr>"
  have none: "wp (c_delete_resources E vc vdc) Q X t = Q () t" if "obj t = tc" for vc vdc Q X and t :: "('a, CloudDirectorTenantCluster) cstate"
    using that assms(3) unfolding recorded_def c_delete_resources_def c_delete_virtual_service_def c_delete_pool_def c_delete_ip_set_def c_delete_vapp_def
    by (simp add: wp)
  show "wp (c_Reconcile_body E) (\<lambda>_. extends (\<lambda>c. \<not> mutates c) s) (\<lambda>_. extends (\<lambda>c. \<not> mutates c) s) ?t"
    using assms(2) unfolding c_Reconcile_body_def c_reconcileDelete_def live_def
    by (simp add: wp none extends_def call_classes)
qed (auto simp: extends_def call_classes)

definition refusing_pools :: "CloudDirectorTenantCluster \<Rightarrow> (sample_world, unit) env" where
  \<comment> \<open>nothing exists yet, the creation of the pool is refused\<close>
  "refusing_pools tc = (sample_env (sample\<lparr>smCluster := tc\<rparr>))\<lparr>envVcd := (sample_vcd False)\<lparr>
     v_CreateAlbPool := (\<lambda>_ _ w. ((None, Some transient_error), w))\<rparr>\<rparr>"

definition sample_interrupted :: "(sample_world, CloudDirectorTenantCluster) cstate" where
  "sample_interrupted = snd (finish (c_Reconcile (refusing_pools sample_live) \<lparr>nnName = ''prod'', nnNamespace = ''default''\<rparr>)
     (sample_state sample_live))"

definition sample_abandoned :: CloudDirectorTenantCluster where
  \<comment> \<open>what that pass left, marked for deletion\<close>
  "sample_abandoned = (obj sample_interrupted)\<lparr>tcMeta := (tcMeta (obj sample_interrupted))\<lparr>metaDeletionTimestamp := Some 1\<rparr>\<rparr>"

theorem unrecorded_resources_leak_witness:
  "list_ex (\<lambda>ev. creates (fst ev) \<and> snd ev = None) (trace sample_interrupted) \<and>
   (let run = finish (c_Reconcile (sample_env (sample\<lparr>smCluster := sample_abandoned\<rparr>)) \<lparr>nnName = ''prod'', nnNamespace = ''default''\<rparr>)
         (sample_state sample_abandoned)
    in fst run = Return (done_result, None) \<and> \<not> finalized (obj (snd run)) \<and> 
       extends (\<lambda>c. \<not> mutates c) (sample_state sample_abandoned) (snd run))"
proof -
  let ?E = "sample_env (sample\<lparr>smCluster := sample_abandoned\<rparr>)" and ?req = "\<lparr>nnName = ''prod'', nnNamespace = ''default''\<rparr>"
  let ?run = "finish (c_Reconcile ?E ?req) (sample_state sample_abandoned)"
  have first: "list_ex (\<lambda>ev. creates (fst ev) \<and> snd ev = None) (trace sample_interrupted)"
    "tcMeta (obj sample_interrupted) = tcMeta sample_live" "tcSpec (obj sample_interrupted) = tcSpec sample_live" "resources (tcStatus (obj sample_interrupted)) = resources (tcStatus sample_live)"
    by (simp_all add: sample_interrupted_def refusing_pools_def transient_error_def not_found_error_def sample_live_def run_eval c_run_eval
        c_reconcileNormal_def c_infrastructure_def c_endpoint_def c_resources_def c_ensure_firewall_group_def c_ensure_pool_def
        tc_MarkTrue_def tc_MarkFalse_def call_classes Let_def resources_def tc_SetConditions_def)
  have "\<not> recorded (obj sample_interrupted)"
    using recorded_resources [OF first(4)] by (simp add: recorded_def sample_live_def sample_objects)
  then have abandoned: "tcMeta sample_abandoned = (tcMeta sample_live)\<lparr>metaDeletionTimestamp := Some 1\<rparr>" "\<not> recorded sample_abandoned"
    "csIdentityRef (tcSpec sample_abandoned) \<noteq> None"
    using first(2,3) by (simp_all add: sample_abandoned_def recorded_def) (simp add: sample_live_def sample_objects)
  then have dead: "\<not> live (envLib ?E) sample_abandoned"
    by (simp add: live_def sample_lib_def)
  have "fst ?run = Return (done_result, None)" "\<not> finalized (obj (snd ?run))"
    using abandoned by (simp_all add: run_eval c_run_eval sample_live_def finalized_def recorded_def)
  moreover have "extends (\<lambda>c. \<not> mutates c) (sample_state sample_abandoned) (snd ?run)"
    by (rule unrecorded_resources_leak [OF _ dead abandoned(2)]) simp
  ultimately show ?thesis using first(1) by (simp add: Let_def)
qed

definition connects :: "call \<Rightarrow> bool" where
  \<comment> \<open>the call connects the vApp to the network or starts it\<close>
  "connects c = (case c of AddOrgNetwork _ \<Rightarrow> True | PowerOnVApp _ \<Rightarrow> True | _ \<Rightarrow> False)"

lemma c_stages_connect_nothing:
  "emits (list_all (\<lambda>ev. \<not> connects (fst ev))) (c_infrastructure E)"
  "emits (list_all (\<lambda>ev. \<not> connects (fst ev))) (c_endpoint E gw)"
  "emits (list_all (\<lambda>ev. \<not> connects (fst ev))) (c_ensure_firewall_group E vdc gw)"
  "emits (list_all (\<lambda>ev. \<not> connects (fst ev))) (c_ensure_pool E vc gw fgroup)"
  "emits (list_all (\<lambda>ev. \<not> connects (fst ev))) (c_ensure_virtual_service E vc gw pool)"
  "emits (list_all (\<lambda>ev. \<not> connects (fst ev))) (c_publish E vs pool fgroup vApp)"
  "emits (list_all (\<lambda>ev. \<not> connects (fst ev))) (c_reconcileDelete E oc)"
  unfolding c_infrastructure_def c_endpoint_def c_ensure_firewall_group_def c_ensure_pool_def c_ensure_virtual_service_def c_publish_def
    c_reconcileDelete_def c_delete_resources_def c_delete_virtual_service_def c_delete_pool_def c_delete_ip_set_def c_delete_vapp_def
  by (intro emits_all_bind emits_rules; simp add: connects_def)+

lemma c_ensure_vapp_connects_nothing:
  assumes "not_found_lawful (envLib E)" and "\<forall>vdc n r. succeeds (a_GetVAppByName (envVapp E) vdc n r)"
  shows "emits (list_all (\<lambda>ev. \<not> connects (fst ev))) (c_ensure_vapp E vdc)"
  using assms unfolding emits_def c_ensure_vapp_def not_found_lawful_def
  by (simp add: wp_bind wp_get_obj wp_let wp_succeeds wp_if wp_exit wp_return wp_case_prod IgnoreNotFound_def connects_def)

text \<open>
  The network is connected and the vApp started only in the pass that creates the vApp: a
  pass that finds the vApp, for example because an earlier one created it and failed at the
  network, does neither, whatever else it does. In the witness the first pass fails at the
  network after it created the vApp; the second one declares the cluster ready with the vApp
  never connected.
\<close>

theorem interrupted_vapp_unconnected:
  assumes "k_GetTenantCluster (envKube E) req (world s) = (Inr tc, w)" and "not_found_lawful (envLib E)"
    and "\<forall>vdc n r. succeeds (a_GetVAppByName (envVapp E) vdc n r)"
  shows "extends (\<lambda>c. \<not> connects c) s (snd (finish (c_Reconcile E req) s))"
proof -
  have body: "emits (list_all (\<lambda>ev. \<not> connects (fst ev))) (c_Reconcile_body E)"
    unfolding c_Reconcile_body_def c_reconcileNormal_def c_resources_def
    by (intro emits_all_bind emits_rules c_stages_connect_nothing c_ensure_vapp_connects_nothing assms(2,3))
      (simp_all add: connects_def)
  have kube: "list_all (\<lambda>ev. \<not> vcd_call (fst ev)) evs \<Longrightarrow> list_all (\<lambda>ev. \<not> connects (fst ev)) evs" for evs :: "(call \<times> goerror option) list"
    by (auto simp: list_all_iff connects_def vcd_call_def split: call.splits)
  have "emits (list_all (\<lambda>ev. \<not> connects (fst ev))) (c_Reconcile E req)"
    by (rule c_Reconcile_emits [OF body, where U = "list_all (\<lambda>ev. \<not> connects (fst ev))"]) (auto dest: kube)
  from emits_finish [OF this prod.collapse [symmetric]] show ?thesis
    by (auto simp: extends_def list_all_iff)
qed

definition refusing_networks :: "CloudDirectorTenantCluster \<Rightarrow> (sample_world, unit) env" where
  \<comment> \<open>nothing exists yet, the network of the organisation cannot be read\<close>
  "refusing_networks tc = (sample_env (sample\<lparr>smCluster := tc\<rparr>))\<lparr>envVapp := (sample_vapps False)\<lparr>
     a_GetOrgVdcNetworkByName := (\<lambda>_ _ _ w. ((None, Some transient_error), w))\<rparr>\<rparr>"

theorem interrupted_vapp_unconnected_witness:
  "let req = \<lparr>nnName = ''prod'', nnNamespace = ''default''\<rparr>;
       first = finish (c_Reconcile (refusing_networks sample_live) req) (sample_state sample_live);
       tc = obj (snd first);
       second = finish (c_Reconcile (sample_env (sample\<lparr>smCluster := tc, smFound := True\<rparr>)) req) (sample_state tc)
   in fst first = Return (requeue_minute, None) \<and>
      list_ex (\<lambda>ev. fst ev = CreateRawVApp ''prod'' '''' \<and> snd ev = None) (trace (snd first)) \<and> \<not> list_ex (\<lambda>ev. connects (fst ev)) (trace (snd first)) \<and>
      ctReady (tcStatus (obj (snd second))) \<and> extends (\<lambda>c. \<not> connects c) (sample_state tc) (snd second)"
proof -
  let ?req = "\<lparr>nnName = ''prod'', nnNamespace = ''default''\<rparr>"
  define first where "first = finish (c_Reconcile (refusing_networks sample_live) ?req) (sample_state sample_live)"
  define tc where "tc = obj (snd first)"
  let ?E = "sample_env (sample\<lparr>smCluster := tc, smFound := True\<rparr>)"
  let ?second = "finish (c_Reconcile ?E ?req) (sample_state tc)"
  have "case first of (e, t) \<Rightarrow> e = Return (requeue_minute, None) \<and> tcMeta (obj t) = tcMeta sample_live \<and>
      tcSpec (obj t) = tcSpec sample_live \<and> resources (tcStatus (obj t)) = resources (tcStatus sample_live) \<and>
      list_ex (\<lambda>ev. fst ev = CreateRawVApp ''prod'' '''' \<and> snd ev = None) (trace t) \<and> \<not> list_ex (\<lambda>ev. connects (fst ev)) (trace t)"
    by (simp add: first_def refusing_networks_def transient_error_def not_found_error_def sample_live_def run_eval c_run_eval
        c_reconcileNormal_def c_infrastructure_def c_endpoint_def c_resources_def c_ensure_firewall_group_def c_ensure_pool_def
        c_ensure_virtual_service_def c_ensure_vapp_def ResourceName_def sample_pool_def sample_group_def
        tc_MarkTrue_def tc_MarkFalse_def connects_def Let_def resources_def tc_SetConditions_def)
  then have run: "fst first = Return (requeue_minute, None)" "tcMeta tc = tcMeta sample_live" "tcSpec tc = tcSpec sample_live"
    "resources (tcStatus tc) = resources (tcStatus sample_live)"
    "list_ex (\<lambda>ev. fst ev = CreateRawVApp ''prod'' '''' \<and> snd ev = None) (trace (snd first))"
    "\<not> list_ex (\<lambda>ev. connects (fst ev)) (trace (snd first))"
    by (simp_all add: tc_def case_prod_unfold)
  have "extends (\<lambda>c. \<not> connects c) (sample_state tc) (snd ?second)"
    by (rule interrupted_vapp_unconnected [OF sample_get_cluster])
      (simp_all add: sample_lib_lawful succeeds_def, simp add: sample_services)
  moreover have "ctReady (tcStatus (obj (snd ?second)))"
  proof -
    have "finalized tc" "remaining tc = 1" "live sample_lib tc" "csIdentityRef (tcSpec tc) \<noteq> None"
      using run(2,3) recorded_resources [OF run(4)]
      by (simp_all add: finalized_def remaining_def live_def sample_live_def sample_objects sample_lib_def)
    then have "\<exists>r. fst ?second = Return r \<and> advances tc r (obj (snd ?second)) \<and> last (trace (snd ?second)) = (KPatch, None)"
      using sample_served [of "sample\<lparr>smCluster := tc, smFound := True\<rparr>"] sample_lib_lawful(1,2) unfolding cluster_served_def
      by (intro c_Reconcile_advances [OF _ _ _ _ _ _ _ _ _ prod.collapse [symmetric]]) (simp_all add: sample_def)
    with \<open>remaining tc = 1\<close> show ?thesis by (auto simp: advances_def remaining_def split: if_splits)
  qed
  ultimately show ?thesis using run by (simp add: Let_def first_def tc_def)
qed

end
