(* ===== verification/Cloud_Init.thy ===== *)
theory Cloud_Init
  imports External_Deps
begin

section \<open>The cloud-init document of a machine (src/util/cloudinit)\<close>

text \<open>
  \<^verbatim>\<open>ExecuteCloudInitTemplate\<close> pairs every network connection of a machine with the IP scope
  of the vApp network that holds its address and renders the document. The loops over
  scopes and ranges are \<open>scan_scopes\<close> and \<open>scan_ranges\<close>; the template is rendered action by
  action, with the text between the actions after the trimming of \<^verbatim>\<open>{{-\<close>. Reading a field of
  a nil pointer inside a template is an error of \<^verbatim>\<open>Execute\<close>, not a panic.

  The lemmas: the loops compute the last scope with a range around the address, the
  document is the rendering of those scopes, and without such a scope no document is made.
\<close>

record Ethernet =
  ethIPScope :: "IPScope option"
  ethNetworkConnection :: NetworkConnection

fun scan_ranges :: "addr \<Rightarrow> IPScope \<Rightarrow> IPRange list \<Rightarrow> IPScope option \<Rightarrow> goerror + IPScope option" where
  "scan_ranges ipAddress ipScope [] cur = Inr cur"
| "scan_ranges ipAddress ipScope (ipRange # rest) cur =
     (case ParseAddr (irStartAddress ipRange) of Inl err \<Rightarrow> Inl err
      | Inr startAddress \<Rightarrow>
        (case ParseAddr (irEndAddress ipRange) of Inl err \<Rightarrow> Inl err
         | Inr endAddress \<Rightarrow>
           if addr_Compare ipAddress startAddress = - 1 \<or> addr_Compare ipAddress endAddress = 1
           then scan_ranges ipAddress ipScope rest cur
           else scan_ranges ipAddress ipScope rest (Some ipScope)))"

fun scan_scopes :: "addr \<Rightarrow> IPScope list \<Rightarrow> IPScope option \<Rightarrow> goerror + IPScope option" where
  "scan_scopes ipAddress [] cur = Inr cur"
| "scan_scopes ipAddress (ipScope # rest) cur =
     (case isIPRanges ipScope of None \<Rightarrow> scan_scopes ipAddress rest cur
      | Some ranges \<Rightarrow>
        (case scan_ranges ipAddress ipScope ranges cur of Inl err \<Rightarrow> Inl err
         | Inr cur' \<Rightarrow> scan_scopes ipAddress rest cur'))"

definition ip_scopes :: "VAppNetwork option \<Rightarrow> go_panic + IPScope list" where
  \<comment> \<open>\<^verbatim>\<open>vAppNetwork.Configuration.IPScopes.IPScope\<close>\<close>
  "ip_scopes vAppNetwork =
     (case vAppNetwork of None \<Rightarrow> Inl NilDereference
      | Some n \<Rightarrow> (case vanConfiguration n of None \<Rightarrow> Inl NilDereference
        | Some c \<Rightarrow> (case ncfIPScopes c of None \<Rightarrow> Inl NilDereference | Some scopes \<Rightarrow> Inr scopes)))"

fun make_ethernets :: "VAppNetwork option \<Rightarrow> NetworkConnection list \<Rightarrow> go_panic + (goerror + Ethernet list)" where
  "make_ethernets vAppNetwork [] = Inr (Inr [])"
| "make_ethernets vAppNetwork (networkConnection # rest) =
     (case ParseAddr (ncIPAddress networkConnection) of Inl err \<Rightarrow> Inr (Inl err)
      | Inr ipAddress \<Rightarrow>
        (case ip_scopes vAppNetwork of Inl p \<Rightarrow> Inl p
         | Inr scopes \<Rightarrow>
           (case scan_scopes ipAddress scopes None of Inl err \<Rightarrow> Inr (Inl err)
            | Inr ipScope \<Rightarrow>
              (case make_ethernets vAppNetwork rest of Inl p \<Rightarrow> Inl p
               | Inr (Inl err) \<Rightarrow> Inr (Inl err)
               | Inr (Inr ethernets) \<Rightarrow> Inr (Inr
                   (\<lparr>ethIPScope = ipScope, ethNetworkConnection = networkConnection\<rparr> # ethernets))))))"

definition nl :: string where
  "nl = [CHR 0x0A]"

definition template_nil :: "string \<Rightarrow> goerror" where
  \<comment> \<open>the error of \<^verbatim>\<open>Execute\<close> for a field of a nil pointer, less the position it is prefixed with\<close>
  "template_nil field = ExternalError 1 (''nil pointer evaluating '' @ field)"

definition ethernet_block :: "NetworkConnection \<Rightarrow> IPScope \<Rightarrow> string" where
  "ethernet_block c sc = nl @ ''    eth'' @ itoa (sint (ncNetworkConnectionIndex c)) @ '':'' @ nl @
     ''      match:'' @ nl @
     ''        macaddress: '' @ [CHR 0x22] @ ncMACAddress c @ [CHR 0x22] @ nl @
     ''      addresses:'' @ nl @
     ''      - '' @ ncIPAddress c @ ''/'' @ isSubnetPrefixLength sc @ nl @
     ''      gateway4: '' @ isGateway sc @ nl @
     ''      nameservers:'' @ nl @
     ''        addresses:'' @ nl @
     ''        - '' @ isDNS1 sc"

fun execute_range :: "Ethernet list \<Rightarrow> goerror + string" where
  \<comment> \<open>\<^verbatim>\<open>{{- range .Ethernets }} ... {{- end }}\<close>\<close>
  "execute_range [] = Inr ''''"
| "execute_range (e # es) =
     (case ethIPScope e of None \<Rightarrow> Inl (template_nil ''*types.IPScope.SubnetPrefixLength'')
      | Some sc \<Rightarrow>
        (case execute_range es of Inl err \<Rightarrow> Inl err
         | Inr rest \<Rightarrow> Inr (ethernet_block (ethNetworkConnection e) sc @ rest)))"

definition document_head :: "Vm \<Rightarrow> string" where
  "document_head vm = ''#cloud-config'' @ nl @
     ''local-hostname: '' @ vmName vm @ nl @
     ''instance-id: '' @ vmID vm @ nl @
     ''network:'' @ nl @ ''  version: 2'' @ nl @ ''  ethernets:''"

definition execute_template :: "Vm option \<Rightarrow> Ethernet list \<Rightarrow> goerror + string" where
  "execute_template vm ethernets =
     (case vm of None \<Rightarrow> Inl (template_nil ''*types.Vm.Name'')
      | Some v \<Rightarrow> (case execute_range ethernets of Inl err \<Rightarrow> Inl err
         | Inr blocks \<Rightarrow> Inr (document_head v @ blocks @ nl)))"

definition ExecuteCloudInitTemplate :: "Vm option \<Rightarrow> VAppNetwork option \<Rightarrow> NetworkConnectionSection option
    \<Rightarrow> go_panic + (string \<times> goerror option)" where
  "ExecuteCloudInitTemplate vm vAppNetwork networkConnectionSection =
     (case networkConnectionSection of None \<Rightarrow> Inl NilDereference
      | Some section \<Rightarrow>
        (case make_ethernets vAppNetwork (case ncsNetworkConnection section of None \<Rightarrow> [] | Some cs \<Rightarrow> cs) of
           Inl p \<Rightarrow> Inl p
         | Inr (Inl err) \<Rightarrow> Inr ('''', Some err)
         | Inr (Inr ethernets) \<Rightarrow>
           (case execute_template vm ethernets of Inl err \<Rightarrow> Inr ('''', Some err)
            | Inr buffer \<Rightarrow> Inr (buffer, None))))"

subsection \<open>The scope of an address\<close>

definition in_range :: "addr \<Rightarrow> IPRange \<Rightarrow> bool" where
  "in_range ip r = (case (ParseAddr (irStartAddress r), ParseAddr (irEndAddress r)) of
     (Inr a, Inr b) \<Rightarrow> a \<le> ip \<and> ip \<le> b | _ \<Rightarrow> False)"

definition in_scope :: "addr \<Rightarrow> IPScope \<Rightarrow> bool" where
  "in_scope ip sc = (case isIPRanges sc of None \<Rightarrow> False | Some rs \<Rightarrow> list_ex (in_range ip) rs)"

definition parsable :: "IPScope \<Rightarrow> bool" where
  "parsable sc = (case isIPRanges sc of None \<Rightarrow> True
     | Some rs \<Rightarrow> list_all (\<lambda>r. \<not> isl (ParseAddr (irStartAddress r)) \<and> \<not> isl (ParseAddr (irEndAddress r))) rs)"

definition scope_of :: "addr \<Rightarrow> IPScope list \<Rightarrow> IPScope option" where
  \<comment> \<open>the last scope with a range around the address\<close>
  "scope_of ip scs = (case filter (in_scope ip) scs of [] \<Rightarrow> None | xs \<Rightarrow> Some (last xs))"

lemma scan_ranges_spec:
  "list_all (\<lambda>r. \<not> isl (ParseAddr (irStartAddress r)) \<and> \<not> isl (ParseAddr (irEndAddress r))) rs \<Longrightarrow>
    scan_ranges ip sc rs cur = Inr (if list_ex (in_range ip) rs then Some sc else cur)"
  by (induction ip sc rs cur rule: scan_ranges.induct)
    (auto simp: in_range_def addr_Compare_less addr_Compare_greater split: sum.splits)

lemma scan_ranges_error:
  "\<not> list_all (\<lambda>r. \<not> isl (ParseAddr (irStartAddress r)) \<and> \<not> isl (ParseAddr (irEndAddress r))) rs \<Longrightarrow>
    isl (scan_ranges ip sc rs cur)"
  by (induction ip sc rs cur rule: scan_ranges.induct) (auto split: sum.splits)

lemma scan_scopes_spec:
  "list_all parsable scs \<Longrightarrow>
    scan_scopes ip scs cur = Inr (case scope_of ip scs of None \<Rightarrow> cur | Some sc \<Rightarrow> Some sc)"
proof (induction scs arbitrary: cur)
  case (Cons sc scs)
  then show ?case
    by (cases "isIPRanges sc")
      (auto simp: scope_of_def in_scope_def parsable_def scan_ranges_spec split: list.splits option.splits)
qed (simp add: scope_of_def)

lemma scan_scopes_error: "\<not> list_all parsable scs \<Longrightarrow> isl (scan_scopes ip scs cur)"
proof (induction scs arbitrary: cur)
  case (Cons sc scs)
  then show ?case
    using scan_ranges_error [of "the (isIPRanges sc)" ip sc cur]
    by (cases "isIPRanges sc") (auto simp: parsable_def split: sum.splits)
qed simp

lemma scope_of_None: "scope_of ip scs = None \<longleftrightarrow> \<not> list_ex (in_scope ip) scs"
  unfolding scope_of_def by (auto split: list.splits simp: filter_empty_conv list_ex_iff dest: filter_eq_ConsD)

lemma scope_of_Some:
  assumes "scope_of ip scs = Some sc"
  shows "sc \<in> set scs \<and> in_scope ip sc"
proof -
  have "filter (in_scope ip) scs \<noteq> []" "sc = last (filter (in_scope ip) scs)"
    using assms by (auto simp: scope_of_def split: list.splits)
  then have "sc \<in> set (filter (in_scope ip) scs)" using last_in_set by blast
  then show ?thesis by simp
qed

subsection \<open>The document\<close>

definition connection_scope :: "IPScope list \<Rightarrow> NetworkConnection \<Rightarrow> IPScope option" where
  "connection_scope scopes c = (case ParseAddr (ncIPAddress c) of Inl _ \<Rightarrow> None | Inr ip \<Rightarrow> scope_of ip scopes)"

lemma make_ethernets_spec:
  assumes "ip_scopes net = Inr scopes" and "list_all parsable scopes"
    and "list_all (\<lambda>c. \<not> isl (ParseAddr (ncIPAddress c))) conns"
  shows "make_ethernets net conns =
    Inr (Inr (map (\<lambda>c. \<lparr>ethIPScope = connection_scope scopes c, ethNetworkConnection = c\<rparr>) conns))"
  using assms(3)
  by (induction conns)
    (auto simp: assms(1) scan_scopes_spec [OF assms(2)] connection_scope_def split: sum.splits option.splits)

lemma make_ethernets_inv:
  assumes "make_ethernets net conns = Inr (Inr es)" and "conns \<noteq> []"
  shows "\<exists>scopes. ip_scopes net = Inr scopes \<and> list_all parsable scopes \<and>
    list_all (\<lambda>c. \<not> isl (ParseAddr (ncIPAddress c))) conns"
proof -
  from assms obtain scopes where sc: "ip_scopes net = Inr scopes"
    by (cases conns) (auto split: sum.splits)
  have "list_all parsable scopes"
  proof (rule ccontr)
    assume "\<not> list_all parsable scopes"
    then have "isl (scan_scopes ip scopes None)" for ip by (rule scan_scopes_error)
    then have "scan_scopes ip scopes None \<noteq> Inr v" for ip v by (metis isl_def sum.distinct(1))
    with assms show False by (cases conns) (auto simp: sc split: sum.splits)
  qed
  moreover have "list_all (\<lambda>c. \<not> isl (ParseAddr (ncIPAddress c))) conns"
    using assms(1) by (induction conns arbitrary: es) (auto split: sum.splits)
  ultimately show ?thesis using sc by blast
qed

lemma execute_range_spec:
  "execute_range (map (\<lambda>c. \<lparr>ethIPScope = f c, ethNetworkConnection = c\<rparr>) conns) =
    (if list_all (\<lambda>c. f c \<noteq> None) conns then Inr (concat (map (\<lambda>c. ethernet_block c (the (f c))) conns))
     else Inl (template_nil ''*types.IPScope.SubnetPrefixLength''))"
  by (induction conns) (auto split: option.splits)

definition connections :: "NetworkConnectionSection \<Rightarrow> NetworkConnection list" where
  "connections section = (case ncsNetworkConnection section of None \<Rightarrow> [] | Some cs \<Rightarrow> cs)"

text \<open>
  C28. What the generator makes of a network whose addresses are all well formed: when every
  connection has its address in a range of some IP scope, the document with one block per
  connection, in order, each with the prefix length, gateway and name server of the last
  scope that has a range around the address; otherwise an error and no document at all.
\<close>

theorem cloud_init_document:
  assumes "ip_scopes net = Inr scopes" and "list_all parsable scopes"
    and "list_all (\<lambda>c. \<not> isl (ParseAddr (ncIPAddress c))) (connections section)"
  shows "ExecuteCloudInitTemplate (Some vm) net (Some section) = Inr
    (if list_all (\<lambda>c. connection_scope scopes c \<noteq> None) (connections section)
     then (document_head vm @
       concat (map (\<lambda>c. ethernet_block c (the (connection_scope scopes c))) (connections section)) @ nl, None)
     else ('''', Some (template_nil ''*types.IPScope.SubnetPrefixLength'')))"
  using make_ethernets_spec [OF assms]
  by (simp add: ExecuteCloudInitTemplate_def connections_def [symmetric] execute_template_def execute_range_spec)

text \<open>
  C29. No machine is given a document with a wrong network configuration: whatever the input,
  when a document is returned without error, every connection's address lies in a range of
  the IP scope whose prefix length, gateway and name server its block shows, and that scope
  is one of the vApp network's.
\<close>

theorem cloud_init_sound:
  assumes "ExecuteCloudInitTemplate vm net (Some section) = Inr (doc, None)"
  shows "\<exists>v scs. vm = Some v \<and>
    doc = document_head v @ concat (map2 ethernet_block (connections section) scs) @ nl \<and>
    list_all2 (\<lambda>c sc. \<exists>ip scopes. ParseAddr (ncIPAddress c) = Inr ip \<and> ip_scopes net = Inr scopes \<and>
      sc \<in> set scopes \<and> in_scope ip sc) (connections section) scs"
proof -
  from assms obtain v es where v: "vm = Some v" and es: "make_ethernets net (connections section) = Inr (Inr es)"
    by (auto simp: ExecuteCloudInitTemplate_def connections_def execute_template_def split: sum.splits option.splits)
  show ?thesis
  proof (cases "connections section = []")
    case True
    with assms v show ?thesis
      by (auto simp: ExecuteCloudInitTemplate_def connections_def [symmetric] execute_template_def)
  next
    case False
    from make_ethernets_inv [OF es this] obtain scopes where sc: "ip_scopes net = Inr scopes"
        "list_all parsable scopes" "list_all (\<lambda>c. \<not> isl (ParseAddr (ncIPAddress c))) (connections section)"
      by blast
    let ?scs = "map (\<lambda>c. the (connection_scope scopes c)) (connections section)"
    have doc: "list_all (\<lambda>c. connection_scope scopes c \<noteq> None) (connections section)"
        "doc = document_head v @ concat (map (\<lambda>c. ethernet_block c (the (connection_scope scopes c))) (connections section)) @ nl"
      using assms make_ethernets_spec [OF sc]
      by (auto simp: v ExecuteCloudInitTemplate_def connections_def [symmetric] execute_template_def execute_range_spec
          split: if_splits)
    have "list_all2 (\<lambda>c sc. \<exists>ip scopes. ParseAddr (ncIPAddress c) = Inr ip \<and> ip_scopes net = Inr scopes \<and>
      sc \<in> set scopes \<and> in_scope ip sc) (connections section) ?scs"
      using doc(1) scope_of_Some
      by (fastforce simp: list_all2_conv_all_nth list_all_length sc(1) connection_scope_def split: sum.splits)
    then show ?thesis
      using v doc(2) by (intro exI [of _ v] exI [of _ ?scs]) (simp add: zip_map2 zip_same_conv_map comp_def)
  qed
qed

text \<open>The input of the test of \<^verbatim>\<open>cloudinit_test.go\<close>.\<close>

definition test_vm :: Vm where
  "test_vm = \<lparr>vmID = ''abc-123'', vmName = ''test'', vmVmSpecSection = None\<rparr>"

definition test_scope :: IPScope where
  "test_scope = \<lparr>isGateway = ''1.2.3.0'', isDNS1 = ''4.3.2.1'', isSubnetPrefixLength = ''24'',
     isIPRanges = Some [\<lparr>irStartAddress = ''1.2.3.4'', irEndAddress = ''4.3.2.1''\<rparr>]\<rparr>"

definition test_network :: VAppNetwork where
  "test_network = \<lparr>vanConfiguration = Some \<lparr>ncfIPScopes = Some [test_scope]\<rparr>\<rparr>"

definition test_section :: NetworkConnectionSection where
  "test_section = \<lparr>ncsNetworkConnection = Some [\<lparr>ncNetwork = '''', ncNetworkConnectionIndex = 0,
     ncIsConnected = False, ncIPAddress = ''1.2.3.4'', ncMACAddress = ''aa:bb:cc:dd:ee:ff'',
     ncIPAddressAllocationMode = '''', ncNetworkAdapterType = ''''\<rparr>]\<rparr>"

definition test_document :: string where
  "test_document = ''#cloud-config'' @ nl @ ''local-hostname: test'' @ nl @ ''instance-id: abc-123'' @ nl @
     ''network:'' @ nl @ ''  version: 2'' @ nl @ ''  ethernets:'' @ nl @ ''    eth0:'' @ nl @
     ''      match:'' @ nl @ ''        macaddress: '' @ [CHR 0x22] @ ''aa:bb:cc:dd:ee:ff'' @ [CHR 0x22] @ nl @
     ''      addresses:'' @ nl @ ''      - 1.2.3.4/24'' @ nl @ ''      gateway4: 1.2.3.0'' @ nl @
     ''      nameservers:'' @ nl @ ''        addresses:'' @ nl @ ''        - 4.3.2.1'' @ nl"

lemma test_addresses:
  "ParseAddr ''1.2.3.4'' = Inr (Addr4 0x01020304)" "ParseAddr ''4.3.2.1'' = Inr (Addr4 0x04030201)"
  by (simp_all add: parse_eval)

lemma test_scopes:
  "ip_scopes (Some test_network) = Inr [test_scope]" "list_all parsable [test_scope]"
  "list_all (\<lambda>c. \<not> isl (ParseAddr (ncIPAddress c))) (connections test_section)"
  "list_all (\<lambda>c. connection_scope [test_scope] c = Some test_scope) (connections test_section)"
  by (simp_all add: ip_scopes_def test_network_def parsable_def test_scope_def test_addresses connections_def
      test_section_def connection_scope_def scope_of_def in_scope_def in_range_def less_eq_addr_def addr_key_def)

lemma test_blocks:
  "document_head test_vm @ concat (map (\<lambda>c. ethernet_block c test_scope) (connections test_section)) @ nl = test_document"
  by (simp add: connections_def test_section_def test_document_def document_head_def ethernet_block_def nl_def
      test_vm_def test_scope_def itoa_def dec.simps digit_char_def)

lemma test_concat:
  "concat (map (\<lambda>c. ethernet_block c (the (connection_scope [test_scope] c))) (connections test_section)) =
   concat (map (\<lambda>c. ethernet_block c test_scope) (connections test_section))"
  using test_scopes(4) by (intro arg_cong [where f = concat] map_cong) (simp_all add: list_all_iff)

theorem cloud_init_document_witness:
  "ExecuteCloudInitTemplate (Some test_vm) (Some test_network) (Some test_section) = Inr (test_document, None)"
proof -
  have "list_all (\<lambda>c. connection_scope [test_scope] c \<noteq> None) (connections test_section)"
    using test_scopes(4) by (simp add: list_all_iff)
  with cloud_init_document [OF test_scopes(1-3), of test_vm] show ?thesis
    by (simp only: test_concat test_blocks if_True)
qed

lemma test_run:
  "ExecuteCloudInitTemplate (Some test_vm) (Some test_network) (Some test_section) = Inr (test_document, None)"
proof -
  have "list_all (\<lambda>c. connection_scope [test_scope] c \<noteq> None) (connections test_section)"
    using test_scopes(4) by (simp add: list_all_iff)
  then show ?thesis
    by (simp add: ExecuteCloudInitTemplate_def connections_def [symmetric] execute_template_def
        make_ethernets_spec [OF test_scopes(1-3)] execute_range_spec test_concat test_blocks)
qed

theorem cloud_init_sound_witness:
  "\<exists>scs. test_document = document_head test_vm @ concat (map2 ethernet_block (connections test_section) scs) @ nl \<and>
    list_all2 (\<lambda>c sc. \<exists>ip scopes. ParseAddr (ncIPAddress c) = Inr ip \<and> ip_scopes (Some test_network) = Inr scopes \<and>
      sc \<in> set scopes \<and> in_scope ip sc) (connections test_section) scs"
  using cloud_init_sound [OF test_run] by simp

end
