(* ===== verification/Tenant_Machine.thy ===== *)
theory Tenant_Machine
  imports Reconcile_Common Cloud_Init
begin

section \<open>The machine controller (src/controllers/clouddirectortenantmachine\_controller.go)\<close>

text \<open>
  The reconciler of \<^verbatim>\<open>CloudDirectorTenantMachine\<close>: it waits for the infrastructure and the
  bootstrap data of the machine, creates the virtual machine in the vApp of the cluster,
  hands it the bootstrap data and the cloud-init document, sizes it, powers it on, records
  the provider id and the addresses and, for a control plane machine, adds the address to
  the IP set of the load balancer. On deletion it takes the address out and deletes the
  virtual machine. Each \<open>m_\<close> definition is a stretch of \<^verbatim>\<open>Reconcile\<close> or \<^verbatim>\<open>reconcileDelete\<close>.

  A pointer the code has read a field of is passed on as a value; \<^verbatim>\<open>vm.VM.VmSpecSection\<close> is
  updated in place, so the handle the later calls are made on has the new section. The
  methods of govcd may refresh the structure behind their receiver; the code reads only its
  id afterwards.
\<close>

type_synonym ('w, 'a) tm_handler = "('w, CloudDirectorTenantMachine, 'a) handler"

definition CloudDirectorTenantMachineFinalizer :: string where
  "CloudDirectorTenantMachineFinalizer =
     ''clouddirectortenant.infrastructure.cluster.x-k8s.io/finalizer''"

definition CloudDirectorTenantMachineRequeue :: Result where
  "CloudDirectorTenantMachineRequeue = \<lparr>RequeueAfter = time_Second * 20\<rparr>"

definition tm_set_finalizers :: "string list \<Rightarrow> CloudDirectorTenantMachine \<Rightarrow> CloudDirectorTenantMachine" where
  "tm_set_finalizers fs m = m\<lparr>tmMeta := (tmMeta m)\<lparr>metaFinalizers := fs\<rparr>\<rparr>"

definition tm_MarkTrue :: "lib \<Rightarrow> ConditionType \<Rightarrow> CloudDirectorTenantMachine \<Rightarrow> CloudDirectorTenantMachine" where
  "tm_MarkTrue L t m = tm_SetConditions (MarkTrue L (tm_GetConditions m) t) m"

definition tm_MarkFalse :: "lib \<Rightarrow> ConditionType \<Rightarrow> string \<Rightarrow> string \<Rightarrow> string
    \<Rightarrow> CloudDirectorTenantMachine \<Rightarrow> CloudDirectorTenantMachine" where
  "tm_MarkFalse L t reason sev msg m = tm_SetConditions (MarkFalse L (tm_GetConditions m) t reason sev msg) m"

definition m_fail :: "('w, 'h) env \<Rightarrow> ConditionType \<Rightarrow> string \<Rightarrow> string \<Rightarrow> string \<Rightarrow> reconcile_result
    \<Rightarrow> ('w, 'a) tm_handler" where
  \<comment> \<open>\<^verbatim>\<open>conditions.MarkFalse(...); return ...\<close>\<close>
  "m_fail E t reason sev msg r =
     go_bind (modify_obj (tm_MarkFalse (envLib E) t reason sev msg)) (\<lambda>_. go_exit r)"

subsection \<open>diskSectionFromTenantMachine\<close>

definition additional_disk :: "DiskSettings \<Rightarrow> nat \<Rightarrow> AdditionalDisk \<Rightarrow> DiskSettings" where
  "additional_disk head i d = \<lparr>dsDiskId = '''', dsSizeMb = adSizeMiB d,
     dsUnitNumber = dsUnitNumber head + of_nat i + 1, dsBusNumber = dsBusNumber head,
     dsAdapterType = dsAdapterType head, dsThinProvisioned = Some True\<rparr>"

definition diskSectionFromTenantMachine :: "DiskSection option \<Rightarrow> CloudDirectorTenantMachineSpec
    \<Rightarrow> go_panic + DiskSection option" where
  \<comment> \<open>the head of the existing settings, which the code resizes in place, is in the result\<close>
  "diskSectionFromTenantMachine existing spec =
     (if msDiskResourceMiB spec = 0 \<and> msAdditionalDisks spec = [] then Inr None else
      case existing of None \<Rightarrow> Inl NilDereference
      | Some ex \<Rightarrow>
        (case dsecDiskSettings ex of [] \<Rightarrow> Inl IndexOutOfRange
         | head # _ \<Rightarrow> Inr (Some \<lparr>dsecDiskSettings =
             (if 0 <s msDiskResourceMiB spec then [head\<lparr>dsSizeMb := msDiskResourceMiB spec\<rparr>] else []) @
             map (\<lambda>(i, d). additional_disk head i d) (enumerate 0 (msAdditionalDisks spec))\<rparr>)))"

subsection \<open>Reconcile: the gates\<close>

definition m_gates :: "('w, 'h) env \<Rightarrow> Machine \<Rightarrow> Cluster option \<Rightarrow> ('w, Cluster) tm_handler" where
  "m_gates E ownerMachine ownerCluster =
     go_bind (deref ownerCluster) (\<lambda>oc.
     if \<not> clusterInfrastructureReady oc then
       m_fail E VirtualMachineReadyCondition WaitingForClusterInfrastructureReason ''Info'' ''''
         (requeue_minute, None)
     else if machineDataSecretName ownerMachine = None then
       m_fail E VirtualMachineReadyCondition WaitingForBootstrapDataReason ''Info'' ''''
         (requeue_minute, None)
     else if \<not> IsControlPlaneMachine (envLib E) ownerMachine \<and>
         \<not> IsTrue (envLib E) (clusterConditions oc) ''ControlPlaneInitialized'' then
       m_fail E VirtualMachineReadyCondition ''WaitingForControlPlaneAvailable'' ''Info'' ''''
         (done_result, None)
     else go_return oc)"

definition m_infrastructure :: "('w, 'h) env \<Rightarrow> Cluster
    \<Rightarrow> ('w, CloudDirectorTenantCluster \<times> Org option \<times> Vdc option \<times> VApp option) tm_handler" where
  "m_infrastructure E oc =
     go_bind (deref (clusterInfrastructureRef oc)) (\<lambda>ref.
     let objectKey = \<lparr>nnName = refName ref, nnNamespace = metaNamespace (clusterMeta oc)\<rparr> in
     go_bind (call_get (KGetTenantCluster objectKey) (k_GetTenantCluster (envKube E) objectKey)) (\<lambda>r.
     case r of Inl err \<Rightarrow> go_exit (done_result, Some err)
     | Inr tc \<Rightarrow>
     if csIdentityRef (tcSpec tc) = None then
       m_fail E VirtualMachineReadyCondition WaitingForClusterInfrastructureReason ''Info'' ''''
         (done_result, None)
     else
     go_bind (call_panic GetVCDClientCall (envGetVCDClient E tc)) (\<lambda>(vcdClient, err).
     case err of Some e \<Rightarrow>
       m_fail E VirtualMachineReadyCondition CloudDirectorErrorReason ''Error''
         (''error getting client: '' @ errError e) (done_result, Some e)
     | None \<Rightarrow>
     go_bind (call (GetOrgByName vcdClient (csOrganization (tcSpec tc)))
        (v_GetOrgByName (envVcd E) vcdClient (csOrganization (tcSpec tc)))) (\<lambda>(org, err).
     case err of Some e \<Rightarrow>
       m_fail E VirtualMachineReadyCondition CloudDirectorErrorReason ''Error''
         (''error getting org: '' @ errError e) (requeue_minute, None)
     | None \<Rightarrow>
     go_bind (call (GetVDCByName org (csVirtualDataCenter (tcSpec tc)))
        (v_GetVDCByName (envVcd E) org (csVirtualDataCenter (tcSpec tc)) True)) (\<lambda>(vdc, err).
     case err of Some e \<Rightarrow>
       m_fail E VirtualMachineReadyCondition CloudDirectorErrorReason ''Error''
         (''error getting vdc: '' @ errError e) (requeue_minute, None)
     | None \<Rightarrow>
     go_bind (deref (ctVApp (tcStatus tc))) (\<lambda>vref.
     go_bind (call (GetVAppById vdc (cdrID vref))
        (a_GetVAppById (envVapp E) vdc (cdrID vref) True)) (\<lambda>(vApp, err).
     case err of Some e \<Rightarrow>
       m_fail E VirtualMachineReadyCondition CloudDirectorErrorReason ''Error''
         (''error getting vapp: '' @ errError e) (requeue_minute, None)
     | None \<Rightarrow> go_return (tc, org, vdc, vApp))))))))"

subsection \<open>Reconcile: the virtual machine\<close>

definition vm_network :: "CloudDirectorTenantCluster \<Rightarrow> CloudDirectorTenantMachine \<Rightarrow> NetworkConnectionSection" where
  "vm_network tc tm = \<lparr>ncsNetworkConnection = Some [\<lparr>ncNetwork = csNetwork (tcSpec tc),
     ncNetworkConnectionIndex = 0, ncIsConnected = True, ncIPAddress = '''', ncMACAddress = '''',
     ncIPAddressAllocationMode = ''POOL'', ncNetworkAdapterType = msNetworkAdapterType (tmSpec tm)\<rparr>]\<rparr>"

definition m_catalog :: "('w, 'h) env \<Rightarrow> Org option \<Rightarrow> ('w, Catalog option) tm_handler" where
  "m_catalog E org =
     go_bind get_obj (\<lambda>tm.
     go_bind (call (GetCatalogByName org (msCatalog (tmSpec tm)))
        (m_GetCatalogByName (envVm E) org (msCatalog (tmSpec tm)) True)) (\<lambda>(catalog, err).
     case IgnoreNotFound (envLib E) err of Some e \<Rightarrow>
       m_fail E VirtualMachineReadyCondition CloudDirectorErrorReason ''Error''
         (''error getting catalog: '' @ errError e) (requeue_minute, None)
     | None \<Rightarrow>
     if ContainsNotFound (envLib E) err then
       m_fail E VirtualMachineReadyCondition CatalogNotFoundReason ''Info'' '''' (requeue_minute, None)
     else go_return catalog))"

definition m_create_vm :: "('w, 'h) env \<Rightarrow> CloudDirectorTenantCluster \<Rightarrow> Catalog option \<Rightarrow> VApp option
    \<Rightarrow> ('w, Vm option) tm_handler" where
  "m_create_vm E tc catalog vApp =
     go_bind get_obj (\<lambda>tm.
     let name = metaName (tmMeta tm) in
     go_bind (call (GetVAppTemplateByName catalog (msTemplate (tmSpec tm)))
        (m_GetVAppTemplateByName (envVm E) catalog (msTemplate (tmSpec tm)))) (\<lambda>(vAppTemplate, err).
     case IgnoreNotFound (envLib E) err of Some e \<Rightarrow>
       m_fail E VirtualMachineReadyCondition CloudDirectorErrorReason ''Error''
         (''error getting vapp template: '' @ errError e) (requeue_minute, None)
     | None \<Rightarrow>
     if ContainsNotFound (envLib E) err then
       m_fail E VirtualMachineReadyCondition TemplateNotFoundReason ''Info'' '''' (requeue_minute, None)
     else
     go_bind (deref vAppTemplate) (\<lambda>template.
     go_bind (call (AddNewVM vApp name template (vm_network tc tm))
        (m_AddNewVM (envVm E) vApp name template (vm_network tc tm) False)) (\<lambda>(task, err).
     case err of Some e \<Rightarrow>
       m_fail E VirtualMachineReadyCondition AddVirtualMachineErrorReason ''Error'' (errError e)
         (requeue_minute, None)
     | None \<Rightarrow>
     go_bind (deref task) (\<lambda>_.
     go_bind (call_err (WaitTaskCompletion task) (a_WaitTaskCompletion (envVapp E) task)) (\<lambda>_.
     go_bind (call (GetVMByName vApp name) (m_GetVMByName (envVm E) vApp name True)) (\<lambda>(vm, err).
     case err of Some e \<Rightarrow>
       m_fail E VirtualMachineReadyCondition CloudDirectorErrorReason ''Error''
         (''error getting vm by name: '' @ errError e) (requeue_minute, None)
     | None \<Rightarrow> go_return vm)))))))"

definition m_ensure_vm :: "('w, 'h) env \<Rightarrow> CloudDirectorTenantCluster \<Rightarrow> Org option \<Rightarrow> VApp option
    \<Rightarrow> ('w, Vm option) tm_handler" where
  "m_ensure_vm E tc org vApp =
     go_bind get_obj (\<lambda>tm.
     go_bind (m_catalog E org) (\<lambda>catalog.
     go_bind (call (GetVMByName vApp (metaName (tmMeta tm)))
        (m_GetVMByName (envVm E) vApp (metaName (tmMeta tm)) True)) (\<lambda>(vm, err).
     if ContainsNotFound (envLib E) err then m_create_vm E tc catalog vApp
     else go_return vm)))"

definition m_bootstrap :: "('w, 'h) env \<Rightarrow> Machine \<Rightarrow> CloudDirectorTenantCluster \<Rightarrow> VApp option \<Rightarrow> Vm
    \<Rightarrow> ('w, string \<times> NetworkConnectionSection option \<times> string) tm_handler" where
  "m_bootstrap E ownerMachine tc vApp vm =
     go_bind (deref (machineDataSecretName ownerMachine)) (\<lambda>secretName.
     let objectKey = \<lparr>nnName = secretName, nnNamespace = metaNamespace (machineMeta ownerMachine)\<rparr> in
     go_bind (call_get (KGetSecret objectKey) (k_GetSecret (envKube E) objectKey)) (\<lambda>r.
     case r of Inl _ \<Rightarrow> go_exit (requeue_minute, None)
     | Inr secret \<Rightarrow>
     (case secretData secret ''value'' of None \<Rightarrow> go_exit (requeue_minute, None)
     | Some value \<Rightarrow>
     go_bind (call (GetVappNetworkByName vApp (csNetwork (tcSpec tc)))
        (m_GetVappNetworkByName (envVm E) vApp (csNetwork (tcSpec tc)) True)) (\<lambda>(vAppNetwork, err).
     if err \<noteq> None then go_exit (requeue_minute, None) else
     go_bind (call (GetNetworkConnectionSection vm)
        (m_GetNetworkConnectionSection (envVm E) vm)) (\<lambda>(networkConnectionSection, err).
     if err \<noteq> None then go_exit (requeue_minute, None) else
     go_bind (lift_panic (ExecuteCloudInitTemplate (Some vm) vAppNetwork networkConnectionSection)) (\<lambda>(cloudInit, err).
     if err \<noteq> None then go_exit (requeue_minute, None) else
     go_return (value, networkConnectionSection, cloudInit)))))))"

definition m_customize :: "('w, 'h) env \<Rightarrow> Vm \<Rightarrow> ('w, unit) tm_handler" where
  "m_customize E vm =
     go_bind get_obj (\<lambda>tm.
     go_bind (call (GetGuestCustomizationSection vm)
        (m_GetGuestCustomizationSection (envVm E) vm)) (\<lambda>(section, err).
     if err \<noteq> None then go_exit (CloudDirectorTenantMachineRequeue, None) else
     go_bind (deref section) (\<lambda>gcs.
     let gcs' = gcs\<lparr>gcsComputerName := metaName (tmMeta tm)\<rparr> in
     go_bind (call (SetGuestCustomizationSection vm gcs')
        (m_SetGuestCustomizationSection (envVm E) vm gcs')) (\<lambda>(_, err).
     if err \<noteq> None then go_exit (CloudDirectorTenantMachineRequeue, None) else
     go_return ()))))"

fun set_first :: "string \<Rightarrow> string \<Rightarrow> Property list \<Rightarrow> Property list option" where
  \<comment> \<open>the loop with \<^verbatim>\<open>break\<close>: the first property with the key gets the value\<close>
  "set_first key val [] = None"
| "set_first key val (p # ps) =
     (if propKey p = key then Some (p\<lparr>propDefaultValue := val\<rparr> # ps)
      else map_option (\<lambda>ps'. p # ps') (set_first key val ps))"

definition set_property :: "string \<Rightarrow> string \<Rightarrow> Property list \<Rightarrow> Property list" where
  "set_property key val ps =
     (case set_first key val ps of
        Some ps' \<Rightarrow> ps'
      | None \<Rightarrow> ps @ [\<lparr>propType = ''string'', propKey = key, propLabel = key, propDefaultValue = val\<rparr>])"

definition bootstrap_properties :: "string \<Rightarrow> string \<Rightarrow> Property list \<Rightarrow> Property list" where
  "bootstrap_properties value cloudInit ps =
     set_property ''metadata'' (b64_encode cloudInit) (set_property ''userdata'' (b64_encode value) ps)"

definition m_product :: "('w, 'h) env \<Rightarrow> Vm \<Rightarrow> string \<Rightarrow> string \<Rightarrow> ('w, unit) tm_handler" where
  "m_product E vm value cloudInit =
     go_bind (call (GetProductSectionList vm) (m_GetProductSectionList (envVm E) vm)) (\<lambda>(psl, err).
     if err \<noteq> None then go_exit (CloudDirectorTenantMachineRequeue, None) else
     go_bind (deref psl) (\<lambda>l.
     go_bind (deref (pslProductSection l)) (\<lambda>ps.
     let l' = l\<lparr>pslProductSection := Some (ps\<lparr>psProperty :=
           bootstrap_properties value cloudInit (psProperty ps)\<rparr>)\<rparr> in
     go_bind (call (SetProductSectionList vm l') (m_SetProductSectionList (envVm E) vm l')) (\<lambda>(_, err).
     if err \<noteq> None then go_exit (requeue_minute, None) else
     go_return ()))))"

text \<open>
  The sizing: what the section becomes and whether it has to be sent. The section pointer
  is read only where the code reads it.
\<close>

definition update_memory :: "CloudDirectorTenantMachineSpec \<Rightarrow> VmSpecSection option
    \<Rightarrow> go_panic + VmSpecSection option \<times> bool" where
  "update_memory spec section =
     (if msMemoryResourceMiB spec = 0 then Inr (section, False) else
      case section of None \<Rightarrow> Inl NilDereference
      | Some v \<Rightarrow>
        (case vssMemoryResourceMb v of None \<Rightarrow> Inl NilDereference
         | Some configured \<Rightarrow>
           if configured \<noteq> msMemoryResourceMiB spec
           then Inr (Some (v\<lparr>vssMemoryResourceMb := Some (msMemoryResourceMiB spec)\<rparr>), True)
           else Inr (section, False)))"

definition update_cpus :: "CloudDirectorTenantMachineSpec \<Rightarrow> VmSpecSection option
    \<Rightarrow> go_panic + VmSpecSection option \<times> bool" where
  "update_cpus spec section =
     (if msNumCPUs spec = 0 then Inr (section, False) else
      case section of None \<Rightarrow> Inl NilDereference
      | Some v \<Rightarrow>
        (case vssNumCpus v of None \<Rightarrow> Inl NilDereference
         | Some n \<Rightarrow>
           if n \<noteq> msNumCPUs spec then Inr (Some (v\<lparr>vssNumCpus := Some (msNumCPUs spec)\<rparr>), True)
           else Inr (section, False)))"

definition update_disks :: "CloudDirectorTenantMachineSpec \<Rightarrow> VmSpecSection option
    \<Rightarrow> go_panic + VmSpecSection \<times> bool" where
  "update_disks spec section =
     (case section of None \<Rightarrow> Inl NilDereference
      | Some v \<Rightarrow>
        (case diskSectionFromTenantMachine (vssDiskSection v) spec of Inl p \<Rightarrow> Inl p
         | Inr None \<Rightarrow> Inr (v, False)
         | Inr (Some disks) \<Rightarrow> Inr (v\<lparr>vssDiskSection := Some disks\<rparr>, True)))"

definition vm_spec_update :: "CloudDirectorTenantMachineSpec \<Rightarrow> VmSpecSection option
    \<Rightarrow> go_panic + VmSpecSection \<times> bool" where
  "vm_spec_update spec section =
     (case update_memory spec section of Inl p \<Rightarrow> Inl p
      | Inr (s1, u1) \<Rightarrow>
        (case update_cpus spec s1 of Inl p \<Rightarrow> Inl p
         | Inr (s2, u2) \<Rightarrow>
           (case update_disks spec s2 of Inl p \<Rightarrow> Inl p
            | Inr (s3, u3) \<Rightarrow> Inr (s3, u1 \<or> u2 \<or> u3))))"

definition m_update_spec :: "('w, 'h) env \<Rightarrow> Vm \<Rightarrow> ('w, Vm) tm_handler" where
  "m_update_spec E vm =
     go_bind get_obj (\<lambda>tm.
     go_bind (lift_panic (vm_spec_update (tmSpec tm) (vmVmSpecSection vm))) (\<lambda>(section, needsUpdate).
     let vm' = vm\<lparr>vmVmSpecSection := Some section\<rparr> in
     if needsUpdate then
       go_bind (call (UpdateVmSpecSection vm' section)
          (m_UpdateVmSpecSection (envVm E) vm' section ''dockyards-vcloud-director'')) (\<lambda>(_, err).
       case err of Some e \<Rightarrow>
         m_fail E VirtualMachineReadyCondition UpdateVirtualMachineSpecSectionErrorReason ''Error'' (errError e)
           (requeue_minute, None)
       | None \<Rightarrow> go_return vm')
     else go_return vm'))"

definition machine_addresses :: "NetworkConnection list \<Rightarrow> MachineAddress list" where
  "machine_addresses cs = map (\<lambda>c. \<lparr>addressType = ''InternalIP'', addressAddress = ncIPAddress c\<rparr>) cs"

definition record_vm :: "Vm \<Rightarrow> CloudDirectorTenantMachine \<Rightarrow> CloudDirectorTenantMachine" where
  "record_vm vm m = m\<lparr>tmSpec := (tmSpec m)\<lparr>msProviderID := ''vmware-cloud-director://'' @ vmID vm\<rparr>\<rparr>"

definition record_addresses :: "NetworkConnectionSection \<Rightarrow> CloudDirectorTenantMachine \<Rightarrow> CloudDirectorTenantMachine" where
  "record_addresses section m = (case ncsNetworkConnection section of None \<Rightarrow> m
     | Some cs \<Rightarrow> m\<lparr>tmStatus := (tmStatus m)\<lparr>mtAddresses := machine_addresses cs\<rparr>\<rparr>)"

definition m_power_on :: "('w, 'h) env \<Rightarrow> Vm \<Rightarrow> NetworkConnectionSection option \<Rightarrow> ('w, unit) tm_handler" where
  "m_power_on E vm networkConnectionSection =
     go_bind (call (PowerOnVM vm) (m_PowerOn (envVm E) vm)) (\<lambda>(task, err).
     case err of Some e \<Rightarrow>
       m_fail E VirtualMachineReadyCondition VirtualMachinePowerOnErrorReason ''Error'' (errError e)
         (requeue_minute, None)
     | None \<Rightarrow>
     go_bind (deref task) (\<lambda>_.
     go_bind (call_err (WaitTaskCompletion task) (a_WaitTaskCompletion (envVapp E) task)) (\<lambda>err.
     case err of Some e \<Rightarrow>
       m_fail E VirtualMachineReadyCondition VirtualMachinePowerOnErrorReason ''Error'' (errError e)
         (requeue_minute, None)
     | None \<Rightarrow>
     go_bind (modify_obj (record_vm vm)) (\<lambda>_.
     go_bind (deref networkConnectionSection) (\<lambda>section.
     modify_obj (record_addresses section))))))"

definition m_provision :: "('w, 'h) env \<Rightarrow> Machine \<Rightarrow> CloudDirectorTenantCluster \<Rightarrow> Org option \<Rightarrow> VApp option
    \<Rightarrow> ('w, unit) tm_handler" where
  "m_provision E ownerMachine tc org vApp =
     go_bind (m_ensure_vm E tc org vApp) (\<lambda>v.
     go_bind (deref v) (\<lambda>vm.
     go_bind (m_bootstrap E ownerMachine tc vApp vm) (\<lambda>(value, section, cloudInit).
     go_bind (m_customize E vm) (\<lambda>_.
     go_bind (m_product E vm value cloudInit) (\<lambda>_.
     go_bind (m_update_spec E vm) (\<lambda>vm'.
     m_power_on E vm' section))))))"

subsection \<open>Reconcile: the load balancer\<close>

definition internal_ip :: "MachineAddress list \<Rightarrow> string" where
  \<comment> \<open>the loop keeps the last internal address\<close>
  "internal_ip as = foldl (\<lambda>ip a. if addressType a = ''InternalIP'' then addressAddress a else ip) '''' as"

definition m_load_balancer :: "('w, 'h) env \<Rightarrow> Machine \<Rightarrow> CloudDirectorTenantCluster \<Rightarrow> Vdc option
    \<Rightarrow> ('w, unit) tm_handler" where
  "m_load_balancer E ownerMachine tc vdc =
     (if \<not> IsControlPlaneMachine (envLib E) ownerMachine then go_return () else
     go_bind (deref (ctIPSet (tcStatus tc))) (\<lambda>ref.
     go_bind (call (GetFirewallGroupById vdc (cdrID ref))
        (v_GetFirewallGroupById (envVcd E) vdc (cdrID ref))) (\<lambda>(group, err).
     case err of Some e \<Rightarrow>
       m_fail E LoadBalancerMemberCondition CloudDirectorErrorReason ''Error''
         (''error getting nsxt firewall group: '' @ errError e) (CloudDirectorTenantMachineRequeue, None)
     | None \<Rightarrow>
     go_bind get_obj (\<lambda>tm.
     let internalIPAddress = internal_ip (mtAddresses (tmStatus tm)) in
     if internalIPAddress = '''' then go_exit (requeue_minute, None) else
     go_bind (deref group) (\<lambda>g.
     go_bind
       (if \<not> slices_ContainsFunc (fgIpAddresses g) (\<lambda>ip. ip = internalIPAddress) then
          (let g' = g\<lparr>fgIpAddresses := fgIpAddresses g @ [internalIPAddress]\<rparr> in
           go_bind (call (UpdateFirewallGroup g') (v_UpdateFirewallGroup (envVcd E) g')) (\<lambda>(_, err).
           case err of Some e \<Rightarrow>
             m_fail E LoadBalancerMemberCondition CloudDirectorErrorReason ''Error''
               (''error updating firewall group: '' @ errError e) (requeue_minute, None)
           | None \<Rightarrow> go_return ()))
        else go_return ()) (\<lambda>_.
     modify_obj (tm_MarkTrue (envLib E) LoadBalancerMemberCondition)))))))"

definition m_finish :: "('w, 'h) env \<Rightarrow> ('w, reconcile_result) tm_handler" where
  "m_finish E =
     go_bind (modify_obj (tm_MarkTrue (envLib E) VirtualMachineReadyCondition)) (\<lambda>_.
     go_bind (modify_obj (\<lambda>m. m\<lparr>tmStatus := (tmStatus m)\<lparr>mtReady := True\<rparr>\<rparr>)) (\<lambda>_.
     go_return (done_result, None)))"

definition m_reconcileNormal :: "('w, 'h) env \<Rightarrow> Machine \<Rightarrow> Cluster option \<Rightarrow> ('w, reconcile_result) tm_handler" where
  "m_reconcileNormal E ownerMachine ownerCluster =
     go_bind (m_gates E ownerMachine ownerCluster) (\<lambda>oc.
     go_bind (m_infrastructure E oc) (\<lambda>(tc, org, vdc, vApp).
     go_bind get_obj (\<lambda>tm.
     go_bind (if msProviderID (tmSpec tm) = '''' then m_provision E ownerMachine tc org vApp
        else go_return ()) (\<lambda>_.
     go_bind (m_load_balancer E ownerMachine tc vdc) (\<lambda>_.
     m_finish E)))))"

subsection \<open>reconcileDelete\<close>

definition m_remove_finalizer :: "('w, 'h) env \<Rightarrow> ('w, reconcile_result) tm_handler" where
  "m_remove_finalizer E =
     go_bind (modify_obj (\<lambda>m. tm_set_finalizers (fst (RemoveFinalizer (envLib E)
        (metaFinalizers (tmMeta m)) CloudDirectorTenantMachineFinalizer)) m)) (\<lambda>_.
     go_return (done_result, None))"

definition m_delete_member :: "('w, 'h) env \<Rightarrow> Machine \<Rightarrow> CloudDirectorTenantCluster \<Rightarrow> Vdc option
    \<Rightarrow> ('w, unit) tm_handler" where
  "m_delete_member E ownerMachine tc vdc =
     go_bind get_obj (\<lambda>tm.
     let internalIPAddress = internal_ip (mtAddresses (tmStatus tm)) in
     if \<not> IsControlPlaneMachine (envLib E) ownerMachine \<or> internalIPAddress = '''' then go_return () else
     go_bind (deref (ctIPSet (tcStatus tc))) (\<lambda>ref.
     go_bind (call (GetFirewallGroupById vdc (cdrID ref))
        (v_GetFirewallGroupById (envVcd E) vdc (cdrID ref))) (\<lambda>(group, err).
     if err \<noteq> None then go_exit (CloudDirectorTenantMachineRequeue, None) else
     go_bind (deref group) (\<lambda>g.
     let g' = g\<lparr>fgIpAddresses := slices_DeleteFunc (fgIpAddresses g) (\<lambda>ip. ip = internalIPAddress)\<rparr> in
     go_bind (call (UpdateFirewallGroup g') (v_UpdateFirewallGroup (envVcd E) g')) (\<lambda>(_, err).
     if err \<noteq> None then go_exit (CloudDirectorTenantMachineRequeue, None) else go_return ())))))"

definition m_delete_vm :: "('w, 'h) env \<Rightarrow> CloudDirectorTenantCluster \<Rightarrow> Vdc option
    \<Rightarrow> ('w, reconcile_result) tm_handler" where
  "m_delete_vm E tc vdc =
     (case ctVApp (tcStatus tc) of None \<Rightarrow> m_remove_finalizer E
      | Some ref \<Rightarrow>
     go_bind (call (GetVAppById vdc (cdrID ref))
        (a_GetVAppById (envVapp E) vdc (cdrID ref) True)) (\<lambda>(vApp, err).
     if err \<noteq> None then go_exit (requeue_minute, None) else
     go_bind get_obj (\<lambda>tm.
     go_bind (call (GetVMByName vApp (metaName (tmMeta tm)))
        (m_GetVMByName (envVm E) vApp (metaName (tmMeta tm)) True)) (\<lambda>(vm, err).
     if IgnoreNotFound (envLib E) err \<noteq> None then go_exit (requeue_minute, None) else
     go_bind
       (if \<not> ContainsNotFound (envLib E) err then
          go_bind (call_err (DeleteVM vm) (m_Delete (envVm E) vm)) (\<lambda>err.
          if err \<noteq> None then go_exit (requeue_minute, None) else go_return ())
        else go_return ()) (\<lambda>_.
     m_remove_finalizer E)))))"

definition m_reconcileDelete :: "('w, 'h) env \<Rightarrow> Machine \<Rightarrow> Cluster option \<Rightarrow> ('w, reconcile_result) tm_handler" where
  "m_reconcileDelete E ownerMachine ownerCluster =
     go_bind (deref ownerCluster) (\<lambda>oc.
     case clusterInfrastructureRef oc of None \<Rightarrow> m_remove_finalizer E
     | Some ref \<Rightarrow>
     (let objectKey = \<lparr>nnName = refName ref, nnNamespace = metaNamespace (clusterMeta oc)\<rparr> in
     go_bind (call_get (KGetTenantCluster objectKey) (k_GetTenantCluster (envKube E) objectKey)) (\<lambda>r.
     case r of Inl err \<Rightarrow> go_exit (done_result, Some err)
     | Inr tc \<Rightarrow>
     go_bind (call_panic GetVCDClientCall (envGetVCDClient E tc)) (\<lambda>(vcdClient, err).
     if err \<noteq> None then go_exit (done_result, err) else
     go_bind (call (GetOrgByName vcdClient (csOrganization (tcSpec tc)))
        (v_GetOrgByName (envVcd E) vcdClient (csOrganization (tcSpec tc)))) (\<lambda>(org, err).
     if err \<noteq> None then go_exit (requeue_minute, None) else
     go_bind (call (GetVDCByName org (csVirtualDataCenter (tcSpec tc)))
        (v_GetVDCByName (envVcd E) org (csVirtualDataCenter (tcSpec tc)) True)) (\<lambda>(vdc, err).
     if err \<noteq> None then go_exit (requeue_minute, None) else
     go_bind (m_delete_member E ownerMachine tc vdc) (\<lambda>_.
     m_delete_vm E tc vdc)))))))"

subsection \<open>Reconcile\<close>

definition patchTenantMachine :: "('w, 'h) env \<Rightarrow> 'h option \<Rightarrow> Machine
    \<Rightarrow> ('w, CloudDirectorTenantMachine) cstate \<Rightarrow> goerror option \<times> ('w, CloudDirectorTenantMachine) cstate" where
  "patchTenantMachine E helper ownerMachine s =
     (let summaryConditions = VirtualMachineReadyCondition #
            (if IsControlPlaneMachine (envLib E) ownerMachine then [LoadBalancerMemberCondition] else []);
          tm = tm_SetConditions (SetSummary (envLib E) (tm_GetConditions (obj s)) summaryConditions) (obj s);
          owned = [''Ready'', VirtualMachineReadyCondition, LoadBalancerMemberCondition]
      in case k_PatchMachine (envKube E) helper tm owned (world s) of (err, w') \<Rightarrow>
        (err, s\<lparr>obj := tm, world := w', trace := trace s @ [(KPatch, err)]\<rparr>))"

definition m_Reconcile_body :: "('w, 'h) env \<Rightarrow> Machine \<Rightarrow> Cluster option \<Rightarrow> ('w, reconcile_result) tm_handler" where
  "m_Reconcile_body E ownerMachine ownerCluster =
     go_bind get_obj (\<lambda>tm.
     if \<not> TimeIsZero (envLib E) (metaDeletionTimestamp (tmMeta tm)) then
       m_reconcileDelete E ownerMachine ownerCluster
     else
       (case AddFinalizer (envLib E) (metaFinalizers (tmMeta tm)) CloudDirectorTenantMachineFinalizer of
          (finalizers, added) \<Rightarrow>
            go_bind (modify_obj (tm_set_finalizers finalizers)) (\<lambda>_.
            if added then go_exit (done_result, None)
            else m_reconcileNormal E ownerMachine ownerCluster)))"

definition m_Reconcile :: "('w, 'h) env \<Rightarrow> NamespacedName \<Rightarrow> ('w, reconcile_result) tm_handler" where
  "m_Reconcile E req =
     go_bind (call_get (KGetTenantMachine req) (k_GetTenantMachine (envKube E) req)) (\<lambda>r.
     case r of
       Inl err \<Rightarrow> go_exit (done_result, ClientIgnoreNotFound (envLib E) (Some err))
     | Inr tm \<Rightarrow>
         go_bind (modify_obj (\<lambda>_. tm)) (\<lambda>_.
         go_bind (call KGetOwnerMachine (k_GetOwnerMachine (envKube E) (tmMeta tm))) (\<lambda>(ownerMachine, err).
         if err \<noteq> None then go_exit (done_result, err) else
         (case ownerMachine of None \<Rightarrow> go_exit (done_result, None)
          | Some om \<Rightarrow>
         go_bind (call KGetClusterFromMetadata
            (k_GetClusterFromMetadata (envKube E) (machineMeta om))) (\<lambda>(ownerCluster, err).
         if err \<noteq> None then go_exit (done_result, err) else
         go_bind (call KNewHelper (k_NewHelperMachine (envKube E) tm)) (\<lambda>(helper, err).
         if err \<noteq> None then go_exit (done_result, err) else
         deferred_patch (envLib E) (patchTenantMachine E helper om)
           (m_Reconcile_body E om ownerCluster)))))))"

subsection \<open>Frame lemmas: what each stage may call and change\<close>

lemma wp_m_fail [wp]: "wp (m_fail E t r v msg x) Q F s =
    F (Return x) (s\<lparr>obj := tm_MarkFalse (envLib E) t r v msg (obj s)\<rparr>)"
  by (simp add: m_fail_def wp)

lemma tm_Mark_quiet:
  "quiet tm_SetConditions C (modify_obj (tm_MarkTrue L t))"
  "quiet tm_SetConditions C (modify_obj (tm_MarkFalse L t r v msg))"
  unfolding tm_MarkTrue_def tm_MarkFalse_def by (rule tm.quiet_mark)+

lemma m_fail_quiet: "quiet tm_SetConditions C (m_fail E t r v msg x)"
  unfolding m_fail_def by (intro tm_Mark_quiet tm.quiet_rules)

lemmas tm_quiet = tm_Mark_quiet m_fail_quiet tm.quiet_rules

lemma m_gates_quiet: "quiet tm_SetConditions (\<lambda>_. False) (m_gates E om oc)"
  unfolding m_gates_def by (intro tm_quiet)

lemma m_infrastructure_quiet: "quiet tm_SetConditions (\<lambda>c. \<not> mutates c \<and> c \<noteq> KPatch) (m_infrastructure E oc)"
  unfolding m_infrastructure_def by (intro tm_quiet) (simp_all add: call_classes)

lemma m_ensure_vm_quiet:
  "quiet tm_SetConditions (\<lambda>c. \<not> deletes c \<and> \<not> configures c \<and> c \<noteq> KPatch) (m_ensure_vm E tc org va)"
  unfolding m_ensure_vm_def m_catalog_def m_create_vm_def by (intro tm_quiet) (simp_all add: call_classes)

lemma m_bootstrap_quiet: "quiet tm_SetConditions (\<lambda>c. \<not> mutates c \<and> c \<noteq> KPatch) (m_bootstrap E om tc va vm)"
  unfolding m_bootstrap_def by (intro tm_quiet) (simp_all add: call_classes)

lemma m_configure_quiet:
  "quiet tm_SetConditions (\<lambda>c. \<not> creates c \<and> \<not> deletes c \<and> c \<noteq> KPatch) (m_customize E vm)"
  "quiet tm_SetConditions (\<lambda>c. \<not> creates c \<and> \<not> deletes c \<and> c \<noteq> KPatch) (m_product E vm value ci)"
  "quiet tm_SetConditions (\<lambda>c. \<not> creates c \<and> \<not> deletes c \<and> c \<noteq> KPatch) (m_update_spec E vm)"
  unfolding m_customize_def m_product_def m_update_spec_def by (intro tm_quiet; simp add: call_classes)+

lemma m_member_quiet:
  "quiet tm_SetConditions (\<lambda>c. (mutates c \<longrightarrow> (\<exists>g. c = UpdateFirewallGroup g)) \<and> c \<noteq> KPatch) (m_load_balancer E om tc vdc)"
  "quiet tm_SetConditions (\<lambda>c. (mutates c \<longrightarrow> (\<exists>g. c = UpdateFirewallGroup g)) \<and> c \<noteq> KPatch) (m_delete_member E om tc vdc)"
  unfolding m_load_balancer_def m_delete_member_def by (intro tm_quiet; simp add: call_classes)+

lemmas m_stages_quiet = m_gates_quiet m_infrastructure_quiet m_ensure_vm_quiet m_bootstrap_quiet
  m_configure_quiet m_member_quiet

text \<open>The patch of a machine satisfies the contract of a patch function.\<close>

interpretation tmp: patch_function tm_GetConditions tm_SetConditions "patchTenantMachine E helper om"
  for E :: "('w, 'h) env" and helper om
  by unfold_locales (auto simp: patchTenantMachine_def Let_def split: prod.splits)

lemma patchTenantMachine_effect:
  "patchTenantMachine E h om s = (err, s') \<Longrightarrow>
     trace s' = trace s @ [(KPatch, err)] \<and> (\<exists>cs. obj s' = tm_SetConditions cs (obj s))"
  using tmp.patch_calls tmp.patch_obj by blast

subsection \<open>Lifting to Reconcile\<close>

text \<open>
  The calls of a pass before the deferred patch is set up all go to the API server. A
  property of the state that holds after them, that the body keeps or establishes and that
  the patch keeps holds after \<^verbatim>\<open>Reconcile\<close>.
\<close>

definition owners :: "('w, 'h) env \<Rightarrow> CloudDirectorTenantMachine \<Rightarrow> Machine \<Rightarrow> Cluster option \<Rightarrow> bool" where
  \<comment> \<open>what the API server answered for the owner machine and its cluster\<close>
  "owners E tm om oc \<longleftrightarrow> (\<exists>w w'. k_GetOwnerMachine (envKube E) (tmMeta tm) w = ((Some om, None), w')) \<and>
     (\<exists>w w'. k_GetClusterFromMetadata (envKube E) (machineMeta om) w = ((oc, None), w'))"

lemma m_Reconcile_lift:
  fixes E :: "('w, 'h) env"
  assumes "k_GetTenantMachine (envKube E) req (world s) = (Inr tm, w)"
    and "\<And>om oc t evs. obj t = tm \<Longrightarrow> trace t = trace s @ evs \<Longrightarrow> list_all (\<lambda>ev. \<not> vcd_call (fst ev)) evs \<Longrightarrow>
       owners E tm om oc \<Longrightarrow> wp (m_Reconcile_body E om oc) (\<lambda>_. Q) (\<lambda>_. Q) t"
    and "\<And>t t' cs err. Q t \<Longrightarrow> obj t' = tm_SetConditions cs (obj t) \<Longrightarrow>
       trace t' = trace t @ [(KPatch, err)] \<Longrightarrow> Q t'"
    and "\<And>t evs. obj t = tm \<Longrightarrow> trace t = trace s @ evs \<Longrightarrow> list_all (\<lambda>ev. \<not> vcd_call (fst ev)) evs \<Longrightarrow> Q t"
  shows "Q (snd (finish (m_Reconcile E req) s))"
proof -
  have patch: "Q t'" if "Q t" "patchTenantMachine E h om t = (err, t')" for t t' h om err
    using that tmp.patch_calls tmp.patch_obj assms(3) by metis
  have run: "wp (deferred_patch (envLib E) (patchTenantMachine E h om) (m_Reconcile_body E om oc)) (\<lambda>_. Q) (\<lambda>_. Q) t"
    if "obj t = tm" "trace t = trace s @ evs" "list_all (\<lambda>ev. \<not> vcd_call (fst ev)) evs" "owners E tm om oc"
    for h om oc t evs
    unfolding wp_deferred_patch
    by (rule wp_mono [OF assms(2) [OF that]]) (auto intro: patch split: exit.splits)
  have "wp (m_Reconcile E req) (\<lambda>_. Q) (\<lambda>_. Q) s"
    unfolding m_Reconcile_def using assms(1)
    by (auto simp: wp split: option.splits intro!: run intro: assms(4)) (auto simp: owners_def)
  then show ?thesis by (rule wp_finish) (rule prod.collapse [symmetric])
qed

lemma m_Reconcile_keeps:
  assumes "\<And>om oc. keeps P (m_Reconcile_body E om oc)" and "\<And>x cs. P x \<Longrightarrow> P (tm_SetConditions cs x)"
    and "k_GetTenantMachine (envKube E) req (world s) = (Inr tm, w)" and "P tm"
  shows "P (obj (snd (finish (m_Reconcile E req) s)))"
  by (rule m_Reconcile_lift [OF assms(3), where Q = "\<lambda>t. P (obj t)"])
    (use assms(1,2,4) in \<open>auto simp: keeps_def\<close>)

lemma m_Reconcile_emits:
  fixes E :: "('w, 'h) env"
  assumes "\<And>om oc. emits T (m_Reconcile_body E om oc)"
    and "\<And>evs fs. T fs \<Longrightarrow> list_all (\<lambda>ev. \<not> vcd_call (fst ev)) evs \<Longrightarrow> T (evs @ fs)"
    and "\<And>evs err. T evs \<Longrightarrow> T (evs @ [(KPatch, err)])"
    and "\<And>evs. list_all (\<lambda>ev. \<not> vcd_call (fst ev)) evs \<Longrightarrow> T evs"
  shows "\<exists>evs. trace (snd (finish (m_Reconcile E req) s)) = trace s @ evs \<and> T evs"
proof (cases "fst (k_GetTenantMachine (envKube E) req (world s))")
  case (Inl err)
  then obtain w where "k_GetTenantMachine (envKube E) req (world s) = (Inl err, w)" by (metis prod.collapse)
  then have "trace (snd (finish (m_Reconcile E req) s)) = trace s @ [(KGetTenantMachine req, Some err)]"
    by (simp add: m_Reconcile_def run_eval)
  then show ?thesis using assms(4) by simp
next
  case (Inr tm)
  then obtain w where "k_GetTenantMachine (envKube E) req (world s) = (Inr tm, w)" by (metis prod.collapse)
  then show ?thesis
  proof (rule m_Reconcile_lift)
    fix om oc evs and t :: "('w, CloudDirectorTenantMachine) cstate"
    assume *: "trace t = trace s @ evs" "list_all (\<lambda>ev. \<not> vcd_call (fst ev)) evs"
    show "wp (m_Reconcile_body E om oc) (\<lambda>_ t. \<exists>evs. trace t = trace s @ evs \<and> T evs)
        (\<lambda>_ t. \<exists>evs. trace t = trace s @ evs \<and> T evs) t"
      by (rule wp_mono [OF emitsD [OF assms(1)]]) (auto simp: *(1) intro: assms(2) [OF _ *(2)])
  qed (use assms(3,4) in auto)
qed

end
