(* ===== verification/Machine_Correct.thy ===== *)
theory Machine_Correct
  imports Tenant_Machine Sample_Env
begin

section \<open>Correctness of the machine controller\<close>

text \<open>
  The properties of \<^verbatim>\<open>CloudDirectorTenantMachineReconciler\<close>. Safety: a virtual machine is
  created only when the gates are open and a lookup of its name was answered not-found; it
  is powered on only with its bootstrap data in place; the finalizer is given up only when
  it is gone, and its address leaves the load balancer before it is deleted. Invariants: a
  ready machine has a provider id, which is set once and never changes. Functional: the
  properties, the disks and the sizing the virtual machine is given.
\<close>

text \<open>The equations that run the reconciler on the concrete environment.\<close>

lemmas m_run_eval = m_Reconcile_def m_Reconcile_body_def patchTenantMachine_def m_reconcileNormal_def
  m_gates_def m_infrastructure_def m_fail_def m_reconcileDelete_def m_delete_member_def m_delete_vm_def
  m_remove_finalizer_def IgnoreNotFound_def tm_set_finalizers_def tm_MarkTrue_def tm_MarkFalse_def
  sample_services sample_lib_def sample_objects

subsection \<open>Creation only after a not-found answer\<close>

lemma m_ensure_vm_guarded: "emits (create_guarded (envLib E)) (m_ensure_vm E tc org va)"
  unfolding m_ensure_vm_def m_catalog_def m_create_vm_def emits_def
  by (auto simp: wp Let_def lookup_for_def call_classes split: option.splits intro!: create_guardedI)

lemma m_power_on_no_creates: "emits (list_all (\<lambda>ev. \<not> creates (fst ev) \<and> \<not> deletes (fst ev) \<and> fst ev \<noteq> KPatch)) (m_power_on E vm ncs)"
  unfolding m_power_on_def emits_def by (auto simp: wp call_classes split: option.splits)

lemma m_remove_finalizer_emits: "T [] \<Longrightarrow> emits T (m_remove_finalizer E)"
  unfolding m_remove_finalizer_def emits_def by (simp add: wp)

lemma m_delete_vm_no_creates: "emits (list_all (\<lambda>ev. \<not> creates (fst ev) \<and> fst ev \<noteq> KPatch)) (m_delete_vm E tc vdc)"
  unfolding m_delete_vm_def
  by (intro emits_all_bind emits_rules m_remove_finalizer_emits) (simp_all add: call_classes)

lemma emits_all_mono: "emits (list_all P) m \<Longrightarrow> (\<And>x. P x \<Longrightarrow> Q x) \<Longrightarrow> emits (list_all Q) m"
  by (erule emits_mono) (auto simp: list_all_iff)

lemma m_provision_guarded: "emits (create_guarded (envLib E)) (m_provision E om tc org va)"
  unfolding m_provision_def
  by (intro emits_guarded_bind emits_rules m_ensure_vm_guarded quiet_guarded [OF quiet_mono [OF m_bootstrap_quiet]]
      m_configure_quiet [THEN quiet_mono, THEN quiet_guarded] emits_mono [OF m_power_on_no_creates] create_guarded_none)
    (auto simp: mutates_def list_all_iff)

lemma m_reconcileNormal_guarded: "emits (create_guarded (envLib E)) (m_reconcileNormal E om oc)"
  unfolding m_reconcileNormal_def m_finish_def
  by (intro emits_guarded_bind emits_rules m_provision_guarded quiet_guarded [OF quiet_mono [OF m_gates_quiet]]
      quiet_guarded [OF quiet_mono [OF m_infrastructure_quiet]] quiet_guarded [OF quiet_mono [OF m_member_quiet(1)]])
    (auto simp: mutates_def creates_def)

lemma m_reconcileDelete_no_creates: "emits (list_all (\<lambda>ev. \<not> creates (fst ev) \<and> fst ev \<noteq> KPatch)) (m_reconcileDelete E om oc)"
  unfolding m_reconcileDelete_def
  by (intro emits_all_bind emits_rules m_remove_finalizer_emits m_delete_vm_no_creates
      quiet_emits_all [OF m_member_quiet(2)]) (auto simp: call_classes)

lemma m_Reconcile_body_guarded: "emits (create_guarded (envLib E)) (m_Reconcile_body E om oc)"
  unfolding m_Reconcile_body_def
  by (intro emits_guarded_bind emits_rules m_reconcileNormal_guarded emits_mono [OF m_reconcileDelete_no_creates]
      create_guarded_none) (auto simp: list_all_iff)

lemma kube_creates_nothing: "list_all (\<lambda>ev. \<not> vcd_call (fst ev)) evs \<Longrightarrow> create_guarded L evs"
  using not_vcd_call_creates by (fastforce simp: list_all_iff mutates_def intro!: create_guarded_none)

text \<open>
  C18. In every pass, under every behaviour of the services, a virtual machine is added to a
  vApp only after a lookup of the machine's name in that vApp was answered not-found in the
  same pass, so that no second virtual machine is made for a machine that has one.
\<close>

theorem machine_creates_only_missing:
  "\<exists>evs. trace (snd (finish (m_Reconcile E req) s)) = trace s @ evs \<and> create_guarded (envLib E) evs"
  by (rule m_Reconcile_emits [OF m_Reconcile_body_guarded])
    (auto intro: create_guarded_append kube_creates_nothing create_guarded_snoc simp: creates_def)

subsection \<open>The gates\<close>

definition gates_open :: "lib \<Rightarrow> Machine \<Rightarrow> Cluster \<Rightarrow> bool" where
  "gates_open L om oc \<longleftrightarrow> clusterInfrastructureReady oc \<and> machineDataSecretName om \<noteq> None \<and>
     (IsControlPlaneMachine L om \<or> IsTrue L (clusterConditions oc) ''ControlPlaneInitialized'')"

lemma m_gates_spec:
  "wp (m_gates E om (Some oc)) (\<lambda>r s'. r = oc \<and> s' = s \<and> gates_open (envLib E) om oc)
     (\<lambda>e s'. \<not> gates_open (envLib E) om oc \<and> trace s' = trace s \<and>
        (e = Return (requeue_minute, None) \<or> e = Return (done_result, None)) \<and>
        (\<exists>cs. obj s' = tm_SetConditions cs (obj s))) s"
  unfolding m_gates_def by (auto simp: wp gates_open_def tm_MarkFalse_def)

text \<open>
  As long as the infrastructure of the cluster is not ready, the machine has no
  bootstrap data, or (for a worker) the control plane is not initialized, a pass makes no
  Cloud Director call, returns no error (unless the API server does) and changes nothing of
  the machine but its finalizers and conditions.
\<close>

theorem machine_waits_at_gates:
  assumes "k_GetTenantMachine (envKube E) req (world s) = (Inr tm, w)"
    and "TimeIsZero (envLib E) (metaDeletionTimestamp (tmMeta tm))"
    and "\<forall>m w. fst (k_GetOwnerMachine (envKube E) m w) = (Some om, None)"
    and "\<forall>m w. fst (k_GetClusterFromMetadata (envKube E) m w) = (Some oc, None)"
    and "\<not> gates_open (envLib E) om oc"
    and "finish (m_Reconcile E req) s = (e, s')"
  shows "extends (\<lambda>c. \<not> vcd_call c) s s' \<and> (\<exists>r. e = Return r) \<and>
    tmSpec (obj s') = tmSpec tm \<and> mtReady (tmStatus (obj s')) = mtReady (tmStatus tm)"
proof -
  let ?Q = "\<lambda>e s'. extends (\<lambda>c. \<not> vcd_call c) s s' \<and> (\<exists>r. e = Return r) \<and>
    tmSpec (obj s') = tmSpec tm \<and> mtReady (tmStatus (obj s')) = mtReady (tmStatus tm)"
  have owner: "k_GetOwnerMachine (envKube E) m w = ((x, err), w') \<Longrightarrow> x = Some om \<and> err = None"
      "k_GetClusterFromMetadata (envKube E) m w = ((y, err), w') \<Longrightarrow> y = Some oc \<and> err = None" for m w x y err w'
    using assms(3,4) by (metis fst_conv prod.inject)+
  have gates: "wp (m_reconcileNormal E om (Some oc)) Q F t" if "\<And>e t'. trace t' = trace t \<Longrightarrow>
      (\<exists>cs. obj t' = tm_SetConditions cs (obj t)) \<Longrightarrow> (\<exists>r. e = Return r) \<Longrightarrow> F e t'" for Q F t
    unfolding m_reconcileNormal_def wp_bind
    by (rule wp_mono [OF m_gates_spec]) (use assms(5) that in \<open>auto\<close>)
  have "wp (m_Reconcile E req) (\<lambda>r. ?Q (Return r)) ?Q s"
    using assms(1,2) unfolding m_Reconcile_def m_Reconcile_body_def
    by (auto simp: wp wp_deferred_patch extends_def tm_set_finalizers_def split: prod.splits intro!: gates
        dest!: owner patchTenantMachine_effect)
  then show ?thesis by (rule wp_finish) (rule assms(6))
qed

theorem machine_waits_at_gates_witness:
  "let S = sample\<lparr>smOwnerCluster := sample_owner_cluster\<lparr>clusterInfrastructureReady := False\<rparr>\<rparr>;
       s' = snd (finish (m_Reconcile (sample_env S) \<lparr>nnName = ''prod-cp-0'', nnNamespace = ''default''\<rparr>)
         (sample_state sample_machine))
   in extends (\<lambda>c. \<not> vcd_call c) (sample_state sample_machine) s' \<and> tmSpec (obj s') = tmSpec sample_machine"
proof -
  let ?S = "sample\<lparr>smOwnerCluster := sample_owner_cluster\<lparr>clusterInfrastructureReady := False\<rparr>\<rparr>"
  have "TimeIsZero (envLib (sample_env ?S)) (metaDeletionTimestamp (tmMeta (smMachine ?S)))"
    "\<forall>m w. fst (k_GetOwnerMachine (envKube (sample_env ?S)) m w) = (Some sample_owner_machine, None)"
    "\<forall>m w. fst (k_GetClusterFromMetadata (envKube (sample_env ?S)) m w) = (Some (smOwnerCluster ?S), None)"
    "\<not> gates_open (envLib (sample_env ?S)) sample_owner_machine (smOwnerCluster ?S)"
    by (simp_all add: sample_services sample_objects sample_lib_def gates_open_def)
  from machine_waits_at_gates [OF sample_get_machine this prod.collapse [symmetric]]
  have "let s' = snd (finish (m_Reconcile (sample_env ?S) \<lparr>nnName = ''prod-cp-0'', nnNamespace = ''default''\<rparr>)
         (sample_state sample_machine))
   in extends (\<lambda>c. \<not> vcd_call c) (sample_state sample_machine) s' \<and> tmSpec (obj s') = tmSpec (smMachine ?S)"
    by (simp add: Let_def)
  then show ?thesis by (simp add: Let_def sample_def)
qed

subsection \<open>Ready machines\<close>

definition tm_ready_inv :: "CloudDirectorTenantMachine \<Rightarrow> bool" where
  "tm_ready_inv m \<longleftrightarrow> (mtReady (tmStatus m) \<longrightarrow> msProviderID (tmSpec m) \<noteq> '''')"

lemma tm_ready_inv_SetConditions [simp]: "tm_ready_inv (tm_SetConditions cs m) = tm_ready_inv m"
  by (simp add: tm_ready_inv_def)

lemma m_quiet_keeps_ready: "quiet tm_SetConditions C m \<Longrightarrow> keeps tm_ready_inv m"
  by (erule quiet_keeps) simp

lemmas m_stages_keep_ready = m_stages_quiet [THEN m_quiet_keeps_ready]

lemma m_power_on_sets_provider:
  "wp (m_power_on E vm ncs) (\<lambda>_ s'. msProviderID (tmSpec (obj s')) \<noteq> '''')
     (\<lambda>_ s'. tm_ready_inv (obj s) \<longrightarrow> tm_ready_inv (obj s')) s"
  unfolding m_power_on_def
  by (auto simp: wp record_vm_def record_addresses_def tm_ready_inv_def tm_MarkFalse_def split: option.splits)

lemma m_provision_sets_provider:
  assumes "tm_ready_inv (obj s)"
  shows "wp (m_provision E om tc org va) (\<lambda>_ s'. msProviderID (tmSpec (obj s')) \<noteq> '''') (\<lambda>_ s'. tm_ready_inv (obj s')) s"
proof -
  have stage: "wp (go_bind m f) Q (\<lambda>_ s'. tm_ready_inv (obj s')) t"
    if "keeps tm_ready_inv m" "tm_ready_inv (obj t)" "\<And>x t. tm_ready_inv (obj t) \<Longrightarrow> wp (f x) Q (\<lambda>_ s'. tm_ready_inv (obj s')) t"
    for m :: "('a, CloudDirectorTenantMachine, 'x) handler" and f :: "'x \<Rightarrow> ('a, CloudDirectorTenantMachine, unit) handler" and Q t
    unfolding wp_bind by (rule wp_mono [OF keepsD [OF that(1,2)]]) (auto intro: that(3))
  show ?thesis
    unfolding m_provision_def
    by (rule stage, rule m_stages_keep_ready, rule assms, rule stage, rule keeps_basic, assumption,
        rule stage, rule m_stages_keep_ready, assumption, clarify, (rule stage, rule m_stages_keep_ready, assumption)+,
        rule wp_mono [OF m_power_on_sets_provider]) auto
qed

lemma m_finish_keeps_ready: "msProviderID (tmSpec (obj s)) \<noteq> '''' \<Longrightarrow>
    wp (m_finish E) (\<lambda>_ s'. tm_ready_inv (obj s')) (\<lambda>_ s'. tm_ready_inv (obj s')) s"
  unfolding m_finish_def by (simp add: wp tm_ready_inv_def tm_MarkTrue_def)

lemma m_load_balancer_keeps_provider: "keeps (\<lambda>m. msProviderID (tmSpec m) \<noteq> '''') (m_load_balancer E om tc vdc)"
  by (rule quiet_keeps [OF m_member_quiet(1)]) simp

lemma m_reconcileNormal_keeps_ready: "keeps tm_ready_inv (m_reconcileNormal E om oc)"
proof -
  have lb: "wp (m_load_balancer E om tc vdc) (\<lambda>_. wp (m_finish E) (\<lambda>_ s'. tm_ready_inv (obj s')) (\<lambda>_ s'. tm_ready_inv (obj s')))
      (\<lambda>_ s'. tm_ready_inv (obj s')) t" if "msProviderID (tmSpec (obj t)) \<noteq> ''''"
    for tc vdc and t :: "('a, CloudDirectorTenantMachine) cstate"
    by (rule wp_mono [OF keepsD [OF m_load_balancer_keeps_provider that]])
      (erule m_finish_keeps_ready, simp add: tm_ready_inv_def)
  have rest: "keeps tm_ready_inv (go_bind get_obj (\<lambda>tm.
     go_bind (if msProviderID (tmSpec tm) = '''' then m_provision E om tc org vApp else go_return ()) (\<lambda>_.
     go_bind (m_load_balancer E om tc vdc) (\<lambda>_. m_finish E))))" for tc org vApp vdc
    unfolding keeps_def
    by (auto simp: wp_bind wp_get_obj wp_if wp_return intro!: wp_mono [OF m_provision_sets_provider] lb)
  show ?thesis
    unfolding m_reconcileNormal_def
    by (intro keeps_bind m_stages_keep_ready keeps_prod rest)
qed

lemma m_remove_finalizer_keeps: "(\<And>x fs. P x \<Longrightarrow> P (tm_set_finalizers fs x)) \<Longrightarrow> keeps P (m_remove_finalizer E)"
  unfolding m_remove_finalizer_def by (intro keeps_rules keeps_modify)

lemma m_reconcileDelete_keeps:
  assumes "\<And>x fs. P x \<Longrightarrow> P (tm_set_finalizers fs x)" and "\<And>x cs. P x \<Longrightarrow> P (tm_SetConditions cs x)"
  shows "keeps P (m_reconcileDelete E om oc)"
  unfolding m_reconcileDelete_def m_delete_vm_def
  by (intro keeps_rules m_remove_finalizer_keeps assms quiet_keeps [OF m_member_quiet(2)])

text \<open>
  A machine that is reported ready has a provider id: if the object read has this
  property, the object written back has it, whatever the services answer and wherever the
  pass stops.
\<close>

theorem machine_ready_has_provider_id:
  assumes "k_GetTenantMachine (envKube E) req (world s) = (Inr tm, w)" and "tm_ready_inv tm"
  shows "tm_ready_inv (obj (snd (finish (m_Reconcile E req) s)))"
proof (rule m_Reconcile_keeps [where P = tm_ready_inv, OF _ _ assms])
  show "keeps tm_ready_inv (m_Reconcile_body E om oc)" for om oc
    unfolding m_Reconcile_body_def
    by (intro keeps_rules keeps_modify m_reconcileNormal_keeps_ready m_reconcileDelete_keeps)
      (simp_all add: tm_ready_inv_def tm_set_finalizers_def)
qed simp

theorem machine_ready_has_provider_id_witness:
  "tm_ready_inv (obj (snd (finish (m_Reconcile (sample_env sample) \<lparr>nnName = ''prod-cp-0'', nnNamespace = ''default''\<rparr>)
     (sample_state sample_machine))))"
  by (rule machine_ready_has_provider_id [OF sample_get_machine]) (simp add: sample_objects tm_ready_inv_def)

subsection \<open>The provider id\<close>

text \<open>\<open>moves R m\<close>: on every path \<open>m\<close> takes the state along the relation \<open>R\<close>.\<close>

definition moves :: "(('w, 'o) cstate \<Rightarrow> ('w, 'o) cstate \<Rightarrow> bool) \<Rightarrow> ('w, 'o, 'a) handler \<Rightarrow> bool" where
  "moves R m \<longleftrightarrow> (\<forall>s. wp m (\<lambda>_. R s) (\<lambda>_. R s) s)"

lemma movesD: "moves R m \<Longrightarrow> wp m (\<lambda>_. R s) (\<lambda>_. R s) s"
  by (simp add: moves_def)

lemma moves_bind:
  assumes "\<And>a b c. R a b \<Longrightarrow> R b c \<Longrightarrow> R a c" and "moves R m" and "\<And>x. moves R (f x)"
  shows "moves R (go_bind m f)"
  unfolding moves_def wp_bind
proof (intro allI, rule wp_mono [OF movesD [OF assms(2)]])
  fix s x s'
  assume "R s s'"
  then show "wp (f x) (\<lambda>_. R s) (\<lambda>_. R s) s'"
    by (intro wp_mono [OF movesD [OF assms(3)]]) (blast intro: assms(1))+
qed

lemma moves_quiet:
  assumes "quiet S C m" and "\<And>s s' evs cs. trace s' = trace s @ evs \<Longrightarrow> obj s' = S cs (obj s) \<Longrightarrow> R s s'"
  shows "moves R m"
  unfolding moves_def
  by (intro allI, rule wp_mono [OF quietD [OF assms(1)]]) (auto simp: extends_def intro: assms(2))

definition provider_step :: "('w, CloudDirectorTenantMachine) cstate \<Rightarrow> ('w, CloudDirectorTenantMachine) cstate \<Rightarrow> bool" where
  \<comment> \<open>the spec stays, or the id of a machine whose power-on was accepted and completed is recorded\<close>
  "provider_step s s' \<longleftrightarrow> (\<exists>evs. trace s' = trace s @ evs \<and> (tmSpec (obj s') = tmSpec (obj s) \<or>
     (\<exists>vm task. tmSpec (obj s') = (tmSpec (obj s))\<lparr>msProviderID := ''vmware-cloud-director://'' @ vmID vm\<rparr> \<and>
        (PowerOnVM vm, None) \<in> set evs \<and> (WaitTaskCompletion task, None) \<in> set evs)))"

lemma provider_step_refl: "trace s' = trace s \<Longrightarrow> tmSpec (obj s') = tmSpec (obj s) \<Longrightarrow> provider_step s s'"
  by (simp add: provider_step_def)

lemma provider_step_trans:
  assumes "provider_step a b" and "provider_step b c"
  shows "provider_step a c"
proof -
  obtain xs where xs: "trace b = trace a @ xs" "tmSpec (obj b) = tmSpec (obj a) \<or>
     (\<exists>vm task. tmSpec (obj b) = (tmSpec (obj a))\<lparr>msProviderID := ''vmware-cloud-director://'' @ vmID vm\<rparr> \<and>
        (PowerOnVM vm, None) \<in> set xs \<and> (WaitTaskCompletion task, None) \<in> set xs)"
    using assms(1) unfolding provider_step_def by blast
  obtain ys where ys: "trace c = trace b @ ys" "tmSpec (obj c) = tmSpec (obj b) \<or>
     (\<exists>vm task. tmSpec (obj c) = (tmSpec (obj b))\<lparr>msProviderID := ''vmware-cloud-director://'' @ vmID vm\<rparr> \<and>
        (PowerOnVM vm, None) \<in> set ys \<and> (WaitTaskCompletion task, None) \<in> set ys)"
    using assms(2) unfolding provider_step_def by blast
  show ?thesis
    unfolding provider_step_def
    by (rule exI [of _ "xs @ ys"]) (use xs ys in \<open>elim disjE exE conjE; force\<close>)
qed

lemma m_provider_quiet: "quiet tm_SetConditions C m \<Longrightarrow> moves provider_step m"
  by (erule moves_quiet) (simp add: provider_step_def)

lemmas m_stages_move = m_stages_quiet [THEN m_provider_quiet]
lemmas tm_basic_move = tm.quiet_rules(1-12) [where C = "\<lambda>_. True", THEN m_provider_quiet, simplified]

lemma m_power_on_moves: "moves provider_step (m_power_on E vm ncs)"
  unfolding m_power_on_def moves_def
  by (auto simp: wp provider_step_def record_vm_def record_addresses_def tm_MarkFalse_def split: option.splits)

lemma m_provision_moves: "moves provider_step (m_provision E om tc org va)"
  unfolding m_provision_def
  by (intro moves_bind [OF provider_step_trans] m_stages_move tm_basic_move m_power_on_moves)
    (auto intro!: moves_bind [OF provider_step_trans] m_stages_move m_power_on_moves split: prod.splits)

lemma m_finish_moves: "moves provider_step (m_finish E)"
  unfolding m_finish_def moves_def by (simp add: wp provider_step_def tm_MarkTrue_def)

lemma m_reconcileNormal_moves: "moves provider_step (m_reconcileNormal E om oc)"
  unfolding m_reconcileNormal_def
  by (intro moves_bind [OF provider_step_trans] m_stages_move tm_basic_move m_finish_moves)
    (auto intro!: moves_bind [OF provider_step_trans] m_stages_move tm_basic_move m_provision_moves m_finish_moves
      split: prod.splits)

lemma m_delete_vm_moves: "moves provider_step (m_delete_vm E tc vdc)"
  unfolding m_delete_vm_def m_remove_finalizer_def moves_def
  by (auto simp: wp provider_step_def tm_set_finalizers_def split: option.splits)

lemma m_reconcileDelete_moves: "moves provider_step (m_reconcileDelete E om oc)"
proof -
  have "moves provider_step (m_remove_finalizer E)"
    unfolding m_remove_finalizer_def moves_def by (simp add: wp provider_step_def tm_set_finalizers_def)
  then show ?thesis
    unfolding m_reconcileDelete_def
    by (auto intro!: moves_bind [OF provider_step_trans] m_stages_move tm_basic_move m_delete_vm_moves
        simp: Let_def split: prod.splits option.splits sum.splits)
qed

lemma m_Reconcile_body_moves: "moves provider_step (m_Reconcile_body E om oc)"
proof -
  have "moves provider_step (modify_obj (tm_set_finalizers fs))" for fs
    unfolding moves_def by (simp add: wp provider_step_def tm_set_finalizers_def)
  then show ?thesis
    unfolding m_Reconcile_body_def
    by (auto intro!: moves_bind [OF provider_step_trans] tm_basic_move m_reconcileNormal_moves m_reconcileDelete_moves
        split: prod.splits)
qed

text \<open>
  A pass changes nothing of a machine's spec but the provider id, and that only to the
  id of a virtual machine whose power-on was accepted and whose power-on task completed
  without error in the same pass.
\<close>

theorem machine_provider_id_after_power_on:
  assumes "k_GetTenantMachine (envKube E) req (world s) = (Inr tm, w)"
  shows "\<exists>evs. trace (snd (finish (m_Reconcile E req) s)) = trace s @ evs \<and>
    (tmSpec (obj (snd (finish (m_Reconcile E req) s))) = tmSpec tm \<or>
     (\<exists>vm task. tmSpec (obj (snd (finish (m_Reconcile E req) s))) =
          (tmSpec tm)\<lparr>msProviderID := ''vmware-cloud-director://'' @ vmID vm\<rparr> \<and>
        (PowerOnVM vm, None) \<in> set evs \<and> (WaitTaskCompletion task, None) \<in> set evs))"
proof -
  let ?s = "s\<lparr>obj := tm\<rparr>"
  have "provider_step ?s (snd (finish (m_Reconcile E req) s))"
  proof (rule m_Reconcile_lift [OF assms, where Q = "provider_step ?s"])
    show "wp (m_Reconcile_body E om oc) (\<lambda>_. provider_step ?s) (\<lambda>_. provider_step ?s) t"
      if "obj t = tm" "trace t = trace s @ evs" for om oc t evs
      by (rule wp_mono [OF movesD [OF m_Reconcile_body_moves]])
        (rule provider_step_trans [of _ t]; simp add: provider_step_def that)+
    show "provider_step ?s t'" if "provider_step ?s t" "obj t' = tm_SetConditions cs (obj t)"
        "trace t' = trace t @ [(KPatch, err)]" for t t' cs err
      by (rule provider_step_trans [OF that(1)]) (simp add: provider_step_def that)
  qed (simp add: provider_step_def)
  then show ?thesis by (simp add: provider_step_def)
qed

theorem machine_provider_id_after_power_on_witness:
  "let s' = snd (finish (m_Reconcile (sample_env sample) \<lparr>nnName = ''prod-cp-0'', nnNamespace = ''default''\<rparr>)
       (sample_state sample_machine))
   in tmSpec (obj s') = tmSpec sample_machine \<or>
     (\<exists>vm. tmSpec (obj s') = (tmSpec sample_machine)\<lparr>msProviderID := ''vmware-cloud-director://'' @ vmID vm\<rparr> \<and>
        (PowerOnVM vm, None) \<in> set (trace s'))"
  using machine_provider_id_after_power_on [OF sample_get_machine [of sample], where s = "sample_state sample_machine"
      and req = "\<lparr>nnName = ''prod-cp-0'', nnNamespace = ''default''\<rparr>"]
  by (auto simp: Let_def sample_def)

lemma kube_extends:
  "trace t = trace s @ evs \<Longrightarrow> list_all (\<lambda>ev. \<not> vcd_call (fst ev)) evs \<Longrightarrow>
    extends (\<lambda>c. mutates c \<longrightarrow> P c) s t"
  using not_vcd_call_creates by (fastforce simp: extends_def list_all_iff)

subsection \<open>Provisioned machines\<close>

text \<open>
  C19. A machine with a provider id is never provisioned again: a pass over it (unless it is
  being deleted) leaves its spec alone and changes nothing in Cloud Director except, for
  the load balancer, the addresses of an IP set.
\<close>

theorem machine_provisioned_once:
  assumes "k_GetTenantMachine (envKube E) req (world s) = (Inr tm, w)"
    and "TimeIsZero (envLib E) (metaDeletionTimestamp (tmMeta tm))"
    and "msProviderID (tmSpec tm) \<noteq> ''''"
  shows "extends (\<lambda>c. mutates c \<longrightarrow> (\<exists>g. c = UpdateFirewallGroup g)) s (snd (finish (m_Reconcile E req) s)) \<and>
    tmSpec (obj (snd (finish (m_Reconcile E req) s))) = tmSpec tm"
proof -
  let ?C = "\<lambda>c. mutates c \<longrightarrow> (\<exists>g. c = UpdateFirewallGroup g)"
  let ?Q = "\<lambda>t. extends ?C s t \<and> tmSpec (obj t) = tmSpec tm"
  have stage: "wp m (\<lambda>_. ?Q) (\<lambda>_. ?Q) t" if "quiet tm_SetConditions C m" "?Q t" "\<And>c. C c \<Longrightarrow> ?C c"
    for C t and m :: "('a, CloudDirectorTenantMachine, 'x) handler"
    by (rule wp_mono [OF quietD [OF quiet_mono [OF that(1,3)]]]) (use that(2) in \<open>auto intro: extends_trans\<close>)
  have lb: "wp (m_load_balancer E om tc vdc) (\<lambda>_. wp (m_finish E) (\<lambda>_. ?Q) (\<lambda>_. ?Q)) (\<lambda>_. ?Q) t" if "?Q t" for om tc vdc t
    by (rule wp_mono [OF stage [OF m_member_quiet(1) that]]) (auto simp: m_finish_def wp tm_MarkTrue_def)
  have infra: "wp (go_bind (m_infrastructure E oc) (\<lambda>(tc, org, vdc, vApp). go_bind get_obj (\<lambda>tm.
     go_bind (if msProviderID (tmSpec tm) = '''' then m_provision E om tc org vApp else go_return ()) (\<lambda>_.
     go_bind (m_load_balancer E om tc vdc) (\<lambda>_. m_finish E))))) (\<lambda>_. ?Q) (\<lambda>_. ?Q) t" if "?Q t" for om oc t
    unfolding wp_bind [of "m_infrastructure E oc"]
    by (rule wp_mono [OF stage [OF m_infrastructure_quiet that]])
      (use assms(3) lb in \<open>auto simp: wp_bind wp_get_obj wp_return\<close>)
  have normal: "wp (m_reconcileNormal E om oc) (\<lambda>_. ?Q) (\<lambda>_. ?Q) t" if "?Q t" for om oc t
    unfolding m_reconcileNormal_def wp_bind [of "m_gates E om oc"]
    by (rule wp_mono [OF stage [OF m_gates_quiet that]]) (simp, erule infra)
  show ?thesis
  proof (rule m_Reconcile_lift [OF assms(1), where Q = ?Q])
    show "wp (m_Reconcile_body E om oc) (\<lambda>_. ?Q) (\<lambda>_. ?Q) t"
      if "obj t = tm" "trace t = trace s @ evs" "list_all (\<lambda>ev. \<not> vcd_call (fst ev)) evs" for om oc t evs
      unfolding m_Reconcile_body_def using assms(2) kube_extends [OF that(2,3)]
      by (auto simp: wp that(1) tm_set_finalizers_def split: prod.splits intro!: normal)
    show "?Q t'" if "?Q t" "obj t' = tm_SetConditions cs (obj t)" "trace t' = trace t @ [(KPatch, err)]" for t t' cs err
      using that not_vcd_call_creates [of KPatch] by (auto simp: extends_def)
  qed (simp add: kube_extends)
qed

definition sample_provisioned :: CloudDirectorTenantMachine where
  \<comment> \<open>the sample machine after its virtual machine was powered on\<close>
  "sample_provisioned = sample_machine\<lparr>
     tmMeta := (sample_meta ''prod-cp-0'')\<lparr>metaFinalizers := [CloudDirectorTenantMachineFinalizer]\<rparr>,
     tmSpec := (tmSpec sample_machine)\<lparr>msProviderID := ''vmware-cloud-director://urn:vm:1''\<rparr>,
     tmStatus := \<lparr>mtReady = True, mtAddresses = [\<lparr>addressType = ''InternalIP'', addressAddress = ''10.0.0.5''\<rparr>],
       mtConditions = []\<rparr>\<rparr>"

theorem machine_provisioned_once_witness:
  "let s' = snd (finish (m_Reconcile (sample_env (sample\<lparr>smMachine := sample_provisioned\<rparr>))
       \<lparr>nnName = ''prod-cp-0'', nnNamespace = ''default''\<rparr>) (sample_state sample_provisioned))
   in extends (\<lambda>c. mutates c \<longrightarrow> (\<exists>g. c = UpdateFirewallGroup g)) (sample_state sample_provisioned) s' \<and>
      tmSpec (obj s') = tmSpec sample_provisioned"
proof -
  let ?S = "sample\<lparr>smMachine := sample_provisioned\<rparr>"
  have "TimeIsZero (envLib (sample_env ?S)) (metaDeletionTimestamp (tmMeta (smMachine ?S)))"
    "msProviderID (tmSpec (smMachine ?S)) \<noteq> ''''"
    by (simp_all add: sample_provisioned_def sample_objects sample_lib_def)
  from machine_provisioned_once [OF sample_get_machine this, where s = "sample_state sample_provisioned"]
  show ?thesis by (simp add: Let_def)
qed

subsection \<open>The patch\<close>

lemma m_Reconcile_body_no_patch: "emits (list_all (\<lambda>ev. fst ev \<noteq> KPatch)) (m_Reconcile_body E om oc)"
proof -
  have del: "emits (list_all (\<lambda>ev. fst ev \<noteq> KPatch)) (m_reconcileDelete E om oc)"
    by (rule emits_all_mono [OF m_reconcileDelete_no_creates]) simp
  have provision: "emits (list_all (\<lambda>ev. fst ev \<noteq> KPatch)) (m_provision E om tc org va)" for tc org va
    unfolding m_provision_def
    by (intro emits_all_bind emits_rules m_stages_quiet [THEN quiet_emits_all] emits_all_mono [OF m_power_on_no_creates])
      simp_all
  show ?thesis
    unfolding m_Reconcile_body_def m_reconcileNormal_def m_finish_def
    by (intro emits_all_bind emits_rules m_stages_quiet [THEN quiet_emits_all] del provision) simp_all
qed

text \<open>
  Once the machine, its owners and the patch helper are there, the machine is patched
  exactly once, as the last call of the pass, on every path (so the provider id of a
  powered-on virtual machine is written also when a later step fails or panics); a failed
  patch is reported and clears the requeue time.
\<close>

theorem machine_patched_once_last:
  assumes "k_GetTenantMachine (envKube E) req (world s) = (Inr tm, w)"
    and "\<forall>m w. fst (k_GetOwnerMachine (envKube E) m w) = (Some om, None)"
    and "\<forall>m w. snd (fst (k_GetClusterFromMetadata (envKube E) m w)) = None"
    and "\<forall>x w. snd (fst (k_NewHelperMachine (envKube E) x w)) = None"
    and "finish (m_Reconcile E req) s = (e, s')"
  shows "patched_last (envLib E) (trace s) e (trace s')"
proof -
  have owner: "k_GetOwnerMachine (envKube E) m w = ((x, err), w') \<Longrightarrow> x = Some om \<and> err = None"
      "k_GetClusterFromMetadata (envKube E) m w = ((y, err), w') \<Longrightarrow> err = None"
      "k_NewHelperMachine (envKube E) z w = ((h, err), w') \<Longrightarrow> err = None" for m w x y z h err w'
    using assms(2-4) by (metis fst_conv snd_conv prod.inject)+
  have "wp (m_Reconcile E req) (\<lambda>r s'. patched_last (envLib E) (trace s) (Return r) (trace s'))
      (\<lambda>e s'. patched_last (envLib E) (trace s) e (trace s')) s"
    unfolding m_Reconcile_def using assms(1)
    by (auto simp: wp dest!: owner intro!: tmp.deferred_patch_last [OF m_Reconcile_body_no_patch])
  then show ?thesis by (rule wp_finish) (rule assms(5))
qed

theorem machine_patched_once_last_witness:
  "let run = finish (m_Reconcile (sample_env sample) \<lparr>nnName = ''prod-cp-0'', nnNamespace = ''default''\<rparr>)
         (sample_state sample_machine)
   in patched_last sample_lib [] (fst run) (trace (snd run))"
proof -
  have "\<forall>m w. fst (k_GetOwnerMachine (envKube (sample_env sample)) m w) = (Some (smOwnerMachine sample), None)"
    "\<forall>m w. snd (fst (k_GetClusterFromMetadata (envKube (sample_env sample)) m w)) = None"
    "\<forall>x w. snd (fst (k_NewHelperMachine (envKube (sample_env sample)) x w)) = None"
    by (simp_all add: sample_services)
  from machine_patched_once_last [OF sample_get_machine this prod.collapse [symmetric],
      where s = "sample_state sample_machine"]
  show ?thesis by (simp add: Let_def)
qed

subsection \<open>Finalizers\<close>

text \<open>
  No Cloud Director resource is touched for a machine whose finalizer is not stored
  yet: the pass that finds it missing makes no Cloud Director call, and when it ends
  without error after a successful patch, the finalizer is in the object that was written.
\<close>

theorem machine_finalizer_before_resources:
  assumes "finalizers_lawful (envLib E)"
    and "k_GetTenantMachine (envKube E) req (world s) = (Inr tm, w)"
    and "CloudDirectorTenantMachineFinalizer \<notin> set (metaFinalizers (tmMeta tm))"
    and "TimeIsZero (envLib E) (metaDeletionTimestamp (tmMeta tm))"
    and "finish (m_Reconcile E req) s = (e, s')"
  shows "extends (\<lambda>c. \<not> vcd_call c) s s' \<and>
    (last (trace s') = (KPatch, None) \<and> trace s' \<noteq> trace s \<longrightarrow>
      CloudDirectorTenantMachineFinalizer \<in> set (metaFinalizers (tmMeta (obj s'))))"
proof -
  obtain fs where fs: "AddFinalizer (envLib E) (metaFinalizers (tmMeta tm)) CloudDirectorTenantMachineFinalizer = (fs, True)"
      and mem: "CloudDirectorTenantMachineFinalizer \<in> set fs"
    using assms(1,3) unfolding finalizers_lawful_def by (metis prod.collapse)
  let ?Q = "\<lambda>e s'. extends (\<lambda>c. \<not> vcd_call c) s s' \<and>
    (last (trace s') = (KPatch, None) \<and> trace s' \<noteq> trace s \<longrightarrow>
      CloudDirectorTenantMachineFinalizer \<in> set (metaFinalizers (tmMeta (obj s'))))"
  have "wp (m_Reconcile E req) (\<lambda>r. ?Q (Return r)) ?Q s"
    using assms(2,4) fs mem unfolding m_Reconcile_def m_Reconcile_body_def
    by (auto simp: wp wp_deferred_patch extends_def tm_set_finalizers_def split: if_splits option.splits
        dest!: patchTenantMachine_effect)
  then show ?thesis by (rule wp_finish) (rule assms(5))
qed

theorem machine_finalizer_before_resources_witness:
  "let s' = snd (finish (m_Reconcile (sample_env sample) \<lparr>nnName = ''prod-cp-0'', nnNamespace = ''default''\<rparr>)
       (sample_state sample_machine))
   in extends (\<lambda>c. \<not> vcd_call c) (sample_state sample_machine) s' \<and>
     CloudDirectorTenantMachineFinalizer \<in> set (metaFinalizers (tmMeta (obj s')))"
proof -
  let ?run = "finish (m_Reconcile (sample_env sample) \<lparr>nnName = ''prod-cp-0'', nnNamespace = ''default''\<rparr>)
       (sample_state sample_machine)"
  have r: "last (trace (snd ?run)) = (KPatch, None)" "trace (snd ?run) \<noteq> []"
    by (simp_all add: run_eval m_run_eval)
  have "finalizers_lawful (envLib (sample_env sample))"
    "CloudDirectorTenantMachineFinalizer \<notin> set (metaFinalizers (tmMeta (smMachine sample)))"
    "TimeIsZero (envLib (sample_env sample)) (metaDeletionTimestamp (tmMeta (smMachine sample)))"
    by (simp_all add: sample_lib_lawful) (simp_all add: sample_objects sample_lib_def)
  from machine_finalizer_before_resources [OF this(1) sample_get_machine this(2,3) prod.collapse [symmetric]] r
  show ?thesis by (simp add: Let_def)
qed

definition vm_released :: "('w, 'h) env \<Rightarrow> string \<Rightarrow> Cluster option \<Rightarrow> (call \<times> goerror option) list \<Rightarrow> bool" where
  \<comment> \<open>the virtual machine is gone, or the cluster leads to none\<close>
  "vm_released E name oc evs \<longleftrightarrow>
     (\<exists>va. gone (envLib E) (GetVMByName va name) DeleteVM evs) \<or>
     (\<exists>c. oc = Some c \<and> clusterInfrastructureRef c = None) \<or>
     (\<exists>key tc w w'. k_GetTenantCluster (envKube E) key w = (Inr tc, w') \<and> ctVApp (tcStatus tc) = None)"

lemma vm_released_mono: "vm_released E n oc xs \<Longrightarrow> set xs \<subseteq> set ys \<Longrightarrow> vm_released E n oc ys"
  unfolding vm_released_def by (blast intro: gone_mono)

lemma vm_releasedI:
  "gone (envLib E) (GetVMByName va n) DeleteVM evs \<Longrightarrow> vm_released E n oc evs"
  "clusterInfrastructureRef c = None \<Longrightarrow> vm_released E n (Some c) evs"
  "k_GetTenantCluster (envKube E) key w = (Inr tc, w') \<Longrightarrow> ctVApp (tcStatus tc) = None \<Longrightarrow> vm_released E n oc evs"
  unfolding vm_released_def by blast+

lemma m_delete_vm_spec:
  assumes "k_GetTenantCluster (envKube E) key w0 = (Inr tc, w1)"
  shows "wp (m_delete_vm E tc vdc)
     (\<lambda>_ s'. \<exists>evs. trace s' = trace s @ evs \<and> vm_released E (metaName (tmMeta (obj s))) oc evs)
     (\<lambda>_ s'. tmMeta (obj s') = tmMeta (obj s)) s"
  unfolding m_delete_vm_def m_remove_finalizer_def
  by (auto simp: wp gone_def IgnoreNotFound_def split: option.splits
      intro: vm_releasedI(3) [OF assms] vm_releasedI(1) exI [of _ "[]"])

text \<open>The deletion up to the point where the data center is known: it looks up and changes nothing.\<close>

lemma m_reconcileDelete_split:
  assumes "\<And>c. oc = Some c \<Longrightarrow> clusterInfrastructureRef c = None \<Longrightarrow> wp (m_remove_finalizer E) Q F s"
    and "\<And>e t evs. obj t = obj s \<Longrightarrow> trace t = trace s @ evs \<Longrightarrow> list_all (\<lambda>ev. \<not> mutates (fst ev)) evs \<Longrightarrow> F e t"
    and "\<And>t tc vdc key w w' evs. k_GetTenantCluster (envKube E) key w = (Inr tc, w') \<Longrightarrow> obj t = obj s \<Longrightarrow>
       trace t = trace s @ evs \<Longrightarrow> list_all (\<lambda>ev. \<not> mutates (fst ev)) evs \<Longrightarrow>
       wp (go_bind (m_delete_member E om tc vdc) (\<lambda>_. m_delete_vm E tc vdc)) Q F t"
  shows "wp (m_reconcileDelete E om oc) Q F s"
proof -
  have quit: "F e s" "F e (s\<lparr>world := w\<rparr>)" "list_all (\<lambda>ev. \<not> mutates (fst ev)) evs \<Longrightarrow> F e (s\<lparr>world := w, trace := trace s @ evs\<rparr>)"
    "list_all (\<lambda>ev. \<not> mutates (fst ev)) evs \<Longrightarrow> F e (s\<lparr>trace := trace s @ evs, world := w\<rparr>)"
    for e w evs by (rule assms(2) [of _ "[]"] assms(2); simp)+
  have go: "wp (go_bind (m_delete_member E om tc vdc) (\<lambda>_. m_delete_vm E tc vdc)) Q F (s\<lparr>world := w'', trace := trace s @ evs\<rparr>)"
    if "k_GetTenantCluster (envKube E) key w = (Inr tc, w')" "list_all (\<lambda>ev. \<not> mutates (fst ev)) evs" for tc vdc key w w' w'' evs
    by (rule assms(3) [OF that(1) _ _ that(2)]) simp_all
  show ?thesis
    unfolding m_reconcileDelete_def
    by (auto simp: wp_deref wp_bind [of "call_get _ _"] wp_bind [of "deref _"] wp_bind [of "call_panic _ _"]
        wp_bind [of "call _ _"] wp_case_option wp_case_sum wp_case_prod wp_let wp_if wp_call_get wp_call_panic wp_call wp_exit
        Let_def call_classes split: option.splits intro!: quit intro: assms(1) go)
qed

lemma m_reconcileDelete_spec:
  "wp (m_reconcileDelete E om oc)
     (\<lambda>_ s'. \<exists>evs. trace s' = trace s @ evs \<and> vm_released E (metaName (tmMeta (obj s))) oc evs)
     (\<lambda>_ s'. tmMeta (obj s') = tmMeta (obj s)) s"
proof -
  have del: "wp (go_bind (m_delete_member E om tc vdc) (\<lambda>_. m_delete_vm E tc vdc))
     (\<lambda>_ s'. \<exists>evs. trace s' = trace s @ evs \<and> vm_released E (metaName (tmMeta (obj s))) oc' evs)
     (\<lambda>_ s'. tmMeta (obj s') = tmMeta (obj s)) t"
    if "k_GetTenantCluster (envKube E) key w0 = (Inr tc, w1)" "obj t = obj s" "trace t = trace s @ xs" for t tc vdc key w0 w1 xs oc'
    unfolding wp_bind
  proof (rule wp_mono [OF quietD [OF m_member_quiet(2)]])
    fix x u
    assume "extends (\<lambda>c. (mutates c \<longrightarrow> (\<exists>g. c = UpdateFirewallGroup g)) \<and> c \<noteq> KPatch) t u \<and>
      (\<exists>cs. obj u = tm_SetConditions cs (obj t))"
    then obtain ys cs where u: "trace u = trace t @ ys" "obj u = tm_SetConditions cs (obj t)"
      by (auto simp: extends_def)
    show "wp (m_delete_vm E tc vdc)
       (\<lambda>_ s'. \<exists>evs. trace s' = trace s @ evs \<and> vm_released E (metaName (tmMeta (obj s))) oc' evs)
       (\<lambda>_ s'. tmMeta (obj s') = tmMeta (obj s)) u"
      by (rule wp_mono [OF m_delete_vm_spec [OF that(1), where oc = oc']])
        (auto simp: u that(2,3) elim!: vm_released_mono)
  qed (auto simp: that(2))
  show ?thesis
    by (rule m_reconcileDelete_split)
      (auto simp: m_remove_finalizer_def wp_bind [of "modify_obj _"] wp_modify_obj wp_return intro: exI [of _ "[]"] vm_releasedI(2) del)
qed

lemma m_reconcileNormal_keeps_meta: "keeps (\<lambda>m. tmMeta m = meta) (m_reconcileNormal E om oc)"
proof -
  have stages: "quiet tm_SetConditions C m \<Longrightarrow> keeps (\<lambda>m. tmMeta m = meta) m" for C and m :: "('w, CloudDirectorTenantMachine, 'x) handler"
    by (erule quiet_keeps) simp
  have power: "keeps (\<lambda>m. tmMeta m = meta) (m_power_on E vm ncs)" for vm and ncs :: "NetworkConnectionSection option"
    unfolding m_power_on_def keeps_def
    by (auto simp: wp record_vm_def record_addresses_def tm_MarkFalse_def split: option.splits)
  have "keeps (\<lambda>m. tmMeta m = meta) (m_finish E)"
    unfolding m_finish_def keeps_def by (simp add: wp tm_MarkTrue_def)
  then show ?thesis
    unfolding m_reconcileNormal_def m_provision_def
    by (intro keeps_rules stages [OF m_gates_quiet] stages [OF m_infrastructure_quiet] stages [OF m_ensure_vm_quiet]
      stages [OF m_bootstrap_quiet] stages [OF m_configure_quiet(1)] stages [OF m_configure_quiet(2)]
      stages [OF m_configure_quiet(3)] stages [OF m_member_quiet(1)] power)
qed

text \<open>The fate of the finalizer, stage by stage.\<close>

lemma m_Reconcile_finalizer:
  fixes E :: "('w, 'h) env"
  assumes "finalizers_lawful (envLib E)"
    and "k_GetTenantMachine (envKube E) req (world s) = (Inr tm, w)"
    and "CloudDirectorTenantMachineFinalizer \<in> set (metaFinalizers (tmMeta tm))"
    and "finish (m_Reconcile E req) s = (e, s')"
    and "CloudDirectorTenantMachineFinalizer \<notin> set (metaFinalizers (tmMeta (obj s')))"
  shows "\<not> TimeIsZero (envLib E) (metaDeletionTimestamp (tmMeta tm)) \<and>
    (\<exists>om oc evs. owners E tm om oc \<and> trace s' = trace s @ evs \<and> vm_released E (metaName (tmMeta tm)) oc evs)"
proof -
  let ?R = "\<lambda>t. \<not> TimeIsZero (envLib E) (metaDeletionTimestamp (tmMeta tm)) \<and>
    (\<exists>om oc evs. owners E tm om oc \<and> trace t = trace s @ evs \<and> vm_released E (metaName (tmMeta tm)) oc evs)"
  let ?Q = "\<lambda>t. CloudDirectorTenantMachineFinalizer \<in> set (metaFinalizers (tmMeta (obj t))) \<or> ?R t"
  have add: "AddFinalizer (envLib E) (metaFinalizers (tmMeta tm)) CloudDirectorTenantMachineFinalizer =
      (metaFinalizers (tmMeta tm), False)"
    using assms(1,3) unfolding finalizers_lawful_def by simp
  have "?Q (snd (finish (m_Reconcile E req) s))"
  proof (rule m_Reconcile_lift [OF assms(2), where Q = ?Q])
    fix om oc evs and t :: "('w, CloudDirectorTenantMachine) cstate"
    assume t: "obj t = tm" "trace t = trace s @ evs" "owners E tm om oc"
    have normal: "wp (m_reconcileNormal E om oc) (\<lambda>_. ?Q) (\<lambda>_. ?Q) u" if "tmMeta (obj u) = tmMeta tm" for u
      by (rule wp_mono [OF keepsD [OF m_reconcileNormal_keeps_meta that]]) (simp_all add: assms(3))
    have delete: "wp (m_reconcileDelete E om oc) (\<lambda>_. ?Q) (\<lambda>_. ?Q) t"
      if "\<not> TimeIsZero (envLib E) (metaDeletionTimestamp (tmMeta tm))"
      by (rule wp_mono [OF m_reconcileDelete_spec]) (use t that assms(3) vm_released_mono in fastforce)+
    show "wp (m_Reconcile_body E om oc) (\<lambda>_. ?Q) (\<lambda>_. ?Q) t"
      unfolding m_Reconcile_body_def using normal [of "t\<lparr>obj := tm\<rparr>"] delete
      by (auto simp: wp_bind [of get_obj] wp_bind [of "modify_obj _"] wp_get_obj wp_modify_obj wp_if wp_case_prod t(1) add
          tm_set_finalizers_def)
  next
    fix cs err and t t' :: "('w, CloudDirectorTenantMachine) cstate"
    assume "?Q t" "obj t' = tm_SetConditions cs (obj t)" "trace t' = trace t @ [(KPatch, err)]"
    then show "?Q t'" by (fastforce elim: vm_released_mono)
  qed (simp add: assms(3))
  with assms(4,5) show ?thesis by simp
qed

text \<open>
  C20. A machine that holds the finalizer gives it up only when it is being deleted and its
  virtual machine is gone: the lookup of its name in the vApp was answered not-found, or the
  virtual machine found was deleted without error, in the same pass; or the cluster has no
  infrastructure reference or no vApp, and then no virtual machine is looked for. No
  error of Cloud Director or of the API server makes the controller forget the machine.
\<close>

theorem machine_finalizer_removed_when_gone:
  fixes E :: "('w, 'h) env"
  assumes "finalizers_lawful (envLib E)"
    and "k_GetTenantMachine (envKube E) req (world s) = (Inr tm, w)"
    and "CloudDirectorTenantMachineFinalizer \<in> set (metaFinalizers (tmMeta tm))"
    and "finish (m_Reconcile E req) s = (e, s')"
    and "CloudDirectorTenantMachineFinalizer \<notin> set (metaFinalizers (tmMeta (obj s')))"
  shows "\<not> TimeIsZero (envLib E) (metaDeletionTimestamp (tmMeta tm)) \<and>
    (\<exists>om oc evs. owners E tm om oc \<and> trace s' = trace s @ evs \<and> vm_released E (metaName (tmMeta tm)) oc evs)"
  by (rule m_Reconcile_finalizer [OF assms])

definition sample_ready_cluster :: CloudDirectorTenantCluster where
  "sample_ready_cluster = sample_cluster\<lparr>tcStatus := \<lparr>ctReady = True,
     ctVirtualService = Some \<lparr>cdrID = ''urn:vs:1'', cdrName = ''prod-controlplane''\<rparr>,
     ctVApp = Some \<lparr>cdrID = ''urn:vapp:1'', cdrName = ''prod''\<rparr>,
     ctIPSet = Some \<lparr>cdrID = ''urn:ipset:1'', cdrName = ''prod-controlplane''\<rparr>,
     ctPool = Some \<lparr>cdrID = ''urn:pool:1'', cdrName = ''prod-controlplane''\<rparr>, ctConditions = []\<rparr>\<rparr>"

definition sample_deleting :: sample where
  \<comment> \<open>the sample machine is being deleted and its virtual machine is there\<close>
  "sample_deleting = sample\<lparr>smFound := True, smCluster := sample_ready_cluster,
     smMachine := sample_provisioned\<lparr>tmMeta := (tmMeta sample_provisioned)\<lparr>metaDeletionTimestamp := Some 1\<rparr>\<rparr>\<rparr>"

lemmas sample_deleting_eval = sample_deleting_def sample_provisioned_def sample_ready_cluster_def sample_objects

theorem machine_finalizer_removed_when_gone_witness:
  "let s' = snd (finish (m_Reconcile (sample_env sample_deleting) \<lparr>nnName = ''prod-cp-0'', nnNamespace = ''default''\<rparr>)
       (sample_state sample_machine))
   in CloudDirectorTenantMachineFinalizer \<notin> set (metaFinalizers (tmMeta (obj s'))) \<and>
     (\<exists>oc. vm_released (sample_env sample_deleting) ''prod-cp-0'' oc (trace s'))"
proof -
  let ?run = "finish (m_Reconcile (sample_env sample_deleting) \<lparr>nnName = ''prod-cp-0'', nnNamespace = ''default''\<rparr>)
       (sample_state sample_machine)"
  have r: "CloudDirectorTenantMachineFinalizer \<notin> set (metaFinalizers (tmMeta (obj (snd ?run))))"
    by (simp add: run_eval m_run_eval sample_deleting_eval internal_ip_def)
  have "finalizers_lawful (envLib (sample_env sample_deleting))" by (simp add: sample_lib_lawful)
  moreover have "CloudDirectorTenantMachineFinalizer \<in> set (metaFinalizers (tmMeta (smMachine sample_deleting)))"
    "metaName (tmMeta (smMachine sample_deleting)) = ''prod-cp-0''"
    by (simp_all add: sample_deleting_eval)
  ultimately show ?thesis
    using machine_finalizer_removed_when_gone [OF _ sample_get_machine _ prod.collapse [symmetric],
        of sample_deleting "\<lparr>nnName = ''prod-cp-0'', nnNamespace = ''default''\<rparr>" "sample_state sample_machine"] r
    by (auto simp: Let_def)
qed

subsection \<open>The load balancer\<close>

text \<open>A stage that ends in an event of the class \<open>A\<close>, before anything of the class \<open>B\<close>.\<close>

definition paves :: "(call \<times> goerror option \<Rightarrow> bool) \<Rightarrow> (call \<times> goerror option \<Rightarrow> bool) \<Rightarrow> ('w, 'o, 'a) handler
    \<Rightarrow> ('w, 'o) cstate \<Rightarrow> bool" where
  "paves A B m s \<longleftrightarrow> wp m
     (\<lambda>_ s'. \<exists>evs. trace s' = trace s @ evs \<and> list_all (\<lambda>ev. \<not> B ev) evs \<and> list_ex A evs)
     (\<lambda>_ s'. \<exists>evs. trace s' = trace s @ evs \<and> list_all (\<lambda>ev. \<not> B ev) evs) s"

lemma paves_precedes:
  fixes m :: "('w, 'o, 'a) handler"
  assumes "paves A B m t" and "\<And>x. emits (\<lambda>_. True) (f x)" and "trace t = tr @ xs" and "list_all (\<lambda>ev. \<not> B ev) xs"
  shows "wp (go_bind m f) (\<lambda>_ s'. \<exists>evs. trace s' = tr @ evs \<and> precedes A B evs)
    (\<lambda>_ s'. \<exists>evs. trace s' = tr @ evs \<and> precedes A B evs) t"
  unfolding wp_bind
proof (rule wp_mono [OF assms(1) [unfolded paves_def]])
  fix x and u :: "('w, 'o) cstate"
  assume "\<exists>evs. trace u = trace t @ evs \<and> list_all (\<lambda>ev. \<not> B ev) evs \<and> list_ex A evs"
  then obtain ys where ys: "trace u = trace t @ ys" "list_all (\<lambda>ev. \<not> B ev) ys" "list_ex A ys" by blast
  have "precedes A B (xs @ ys @ zs)" for zs
    using precedes_first [of B "xs @ ys" A zs] ys assms(4) by simp
  then show "wp (f x) (\<lambda>_ s'. \<exists>evs. trace s' = tr @ evs \<and> precedes A B evs)
      (\<lambda>_ s'. \<exists>evs. trace s' = tr @ evs \<and> precedes A B evs) u"
    by (intro wp_mono [OF emitsD [OF assms(2)]]) (auto simp: ys(1) assms(3))
qed (auto simp: assms(3) intro!: precedes_none assms(4))

definition leaves_ip_set :: "string \<Rightarrow> call \<times> goerror option \<Rightarrow> bool" where
  \<comment> \<open>an accepted update of an IP set without the address\<close>
  "leaves_ip_set ip ev \<longleftrightarrow> (\<exists>g. ev = (UpdateFirewallGroup g, None) \<and> ip \<notin> set (fgIpAddresses g))"

lemma m_delete_member_paves:
  assumes "IsControlPlaneMachine (envLib E) om" and "internal_ip (mtAddresses (tmStatus (obj s))) \<noteq> ''''"
  shows "paves (leaves_ip_set (internal_ip (mtAddresses (tmStatus (obj s))))) (\<lambda>ev. deletes (fst ev)) (m_delete_member E om tc vdc) s"
  using assms unfolding m_delete_member_def paves_def
  by (auto simp: wp Let_def leaves_ip_set_def slices_DeleteFunc_def call_classes split: option.splits)

lemma m_reconcileDelete_leaves_first:
  assumes "IsControlPlaneMachine (envLib E) om" and "internal_ip (mtAddresses (tmStatus (obj s))) = ip" and "ip \<noteq> ''''"
    and "trace s = tr @ xs" and "list_all (\<lambda>ev. \<not> deletes (fst ev)) xs"
  shows "wp (m_reconcileDelete E om oc)
     (\<lambda>_ s'. \<exists>evs. trace s' = tr @ evs \<and> precedes (leaves_ip_set ip) (\<lambda>ev. deletes (fst ev)) evs)
     (\<lambda>_ s'. \<exists>evs. trace s' = tr @ evs \<and> precedes (leaves_ip_set ip) (\<lambda>ev. deletes (fst ev)) evs) s"
proof -
  have del: "wp (go_bind (m_delete_member E om tc vdc) (\<lambda>_. m_delete_vm E tc vdc))
     (\<lambda>_ s'. \<exists>evs. trace s' = tr @ evs \<and> precedes (leaves_ip_set ip) (\<lambda>ev. deletes (fst ev)) evs)
     (\<lambda>_ s'. \<exists>evs. trace s' = tr @ evs \<and> precedes (leaves_ip_set ip) (\<lambda>ev. deletes (fst ev)) evs) t"
    if "obj t = obj s" "trace t = tr @ ys" "list_all (\<lambda>ev. \<not> deletes (fst ev)) ys" for t tc vdc ys
    using m_delete_member_paves [OF assms(1), of t tc vdc] assms(2,3) that
    by (intro paves_precedes emits_mono [OF m_delete_vm_no_creates]) simp_all
  have no_deletes: "list_all (\<lambda>ev. \<not> deletes (fst ev)) ys" if "list_all (\<lambda>ev. \<not> mutates (fst ev)) ys" for ys :: "(call \<times> goerror option) list"
    using that by (auto simp: list_all_iff mutates_def)
  have none: "precedes (leaves_ip_set ip) (\<lambda>ev. deletes (fst ev)) (xs @ ys)" if "list_all (\<lambda>ev. \<not> mutates (fst ev)) ys" for ys
    using assms(5) no_deletes [OF that] by (intro precedes_none) simp
  show ?thesis
    by (rule m_reconcileDelete_split)
      (auto simp: m_remove_finalizer_def wp_bind [of "modify_obj _"] wp_modify_obj wp_return assms(4,5) no_deletes
        intro!: del none none [of "[]", simplified])
qed

lemma m_reconcileNormal_no_deletes: "emits (list_all (\<lambda>ev. \<not> deletes (fst ev))) (m_reconcileNormal E om oc)"
  unfolding m_reconcileNormal_def m_provision_def m_finish_def
  by (intro emits_all_bind emits_rules m_stages_quiet [THEN quiet_emits_all] emits_all_mono [OF m_power_on_no_creates])
    (auto simp: call_classes)

text \<open>
  C22. A control plane machine leaves the load balancer before it is deleted: when its owner
  is a control plane machine and an internal address is recorded in its status, the first
  deletion of a pass comes after an accepted update of an IP set that no longer has the
  address. A failed update stops the pass before the deletion.
\<close>

theorem machine_leaves_load_balancer_first:
  fixes E :: "('w, 'h) env"
  assumes "k_GetTenantMachine (envKube E) req (world s) = (Inr tm, w)"
    and "\<forall>om oc. owners E tm om oc \<longrightarrow> IsControlPlaneMachine (envLib E) om"
    and "internal_ip (mtAddresses (tmStatus tm)) = ip" and "ip \<noteq> ''''"
  shows "\<exists>evs. trace (snd (finish (m_Reconcile E req) s)) = trace s @ evs \<and>
    precedes (leaves_ip_set ip) (\<lambda>ev. deletes (fst ev)) evs"
proof (rule m_Reconcile_lift [OF assms(1)])
  let ?Q = "\<lambda>t. \<exists>evs. trace t = trace s @ evs \<and> precedes (leaves_ip_set ip) (\<lambda>ev. deletes (fst ev)) evs"
  fix om oc evs and t :: "('w, CloudDirectorTenantMachine) cstate"
  assume t: "obj t = tm" "trace t = trace s @ evs" "list_all (\<lambda>ev. \<not> vcd_call (fst ev)) evs" "owners E tm om oc"
  then have evs: "list_all (\<lambda>ev. \<not> deletes (fst ev)) evs"
    using not_vcd_call_creates by (fastforce simp: list_all_iff mutates_def)
  have cp: "IsControlPlaneMachine (envLib E) om" using assms(2) t(4) by blast
  have normal: "wp (m_reconcileNormal E om oc) (\<lambda>_. ?Q) (\<lambda>_. ?Q) u" if "trace u = trace t" for u
    by (rule wp_mono [OF emitsD [OF m_reconcileNormal_no_deletes]])
      (auto simp: t(2) that intro!: precedes_none evs)
  have delete: "wp (m_reconcileDelete E om oc) (\<lambda>_. ?Q) (\<lambda>_. ?Q) t"
    by (rule m_reconcileDelete_leaves_first [OF cp _ assms(4) t(2) evs]) (simp add: t(1) assms(3))
  show "wp (m_Reconcile_body E om oc) (\<lambda>_. ?Q) (\<lambda>_. ?Q) t"
    unfolding m_Reconcile_body_def
    by (auto simp: wp_bind [of get_obj] wp_bind [of "modify_obj _"] wp_get_obj wp_modify_obj wp_if wp_case_prod wp_exit t(2)
        split: prod.splits intro!: normal delete precedes_none evs)
next
  show "\<exists>evs. trace t' = trace s @ evs \<and> precedes (leaves_ip_set ip) (\<lambda>ev. deletes (fst ev)) evs"
    if "\<exists>evs. trace t = trace s @ evs \<and> precedes (leaves_ip_set ip) (\<lambda>ev. deletes (fst ev)) evs" "trace t' = trace t @ [(KPatch, err)]" for t t' err
    using that by (auto intro!: precedes_snoc simp: deletes_def)
next
  show "\<exists>xs. trace t = trace s @ xs \<and> precedes (leaves_ip_set ip) (\<lambda>ev. deletes (fst ev)) xs"
    if "trace t = trace s @ evs" "list_all (\<lambda>ev. \<not> vcd_call (fst ev)) evs" for t evs
    using that not_vcd_call_creates by (fastforce intro!: precedes_none simp: list_all_iff mutates_def)
qed

theorem machine_leaves_load_balancer_first_witness:
  "let s' = snd (finish (m_Reconcile (sample_env sample_deleting) \<lparr>nnName = ''prod-cp-0'', nnNamespace = ''default''\<rparr>)
       (sample_state sample_machine))
   in precedes (leaves_ip_set ''10.0.0.5'') (\<lambda>ev. deletes (fst ev)) (trace s') \<and>
     (DeleteVM (Some sample_vm), None) \<in> set (trace s')"
proof -
  let ?run = "finish (m_Reconcile (sample_env sample_deleting) \<lparr>nnName = ''prod-cp-0'', nnNamespace = ''default''\<rparr>)
       (sample_state sample_machine)"
  have "(DeleteVM (Some sample_vm), None) \<in> set (trace (snd ?run))"
    by (simp add: run_eval m_run_eval sample_deleting_eval internal_ip_def)
  moreover have "\<forall>om oc. owners (sample_env sample_deleting) (smMachine sample_deleting) om oc \<longrightarrow>
      IsControlPlaneMachine (envLib (sample_env sample_deleting)) om"
    "internal_ip (mtAddresses (tmStatus (smMachine sample_deleting))) = ''10.0.0.5''"
    by (simp_all add: owners_def sample_services sample_deleting_eval sample_lib_def internal_ip_def)
  ultimately show ?thesis
    using machine_leaves_load_balancer_first [OF sample_get_machine, of sample_deleting "''10.0.0.5''"
        "\<lparr>nnName = ''prod-cp-0'', nnNamespace = ''default''\<rparr>" "sample_state sample_machine"]
    by (simp add: Let_def)
qed

end
