(* ===== verification/Machine_Provisioning.thy ===== *)
theory Machine_Provisioning
  imports Machine_Correct
begin

section \<open>Provisioning a virtual machine\<close>

text \<open>
  What a virtual machine is given before it runs: the properties that carry the bootstrap
  data and the cloud-init document, the disks, the memory and the processors; that it is
  powered on only with them; and that a machine with answering services becomes ready as a
  member of the load balancer.
\<close>

subsection \<open>The properties\<close>

definition property_value :: "string \<Rightarrow> Property list \<Rightarrow> string option" where
  \<comment> \<open>what a guest reads: the value of the first property with the key\<close>
  "property_value key ps = map_option propDefaultValue (find (\<lambda>p. propKey p = key) ps)"

text \<open>The loop with \<^verbatim>\<open>break\<close> and the append after it, as one recursion over the properties.\<close>

lemma set_property_simps [simp]:
  "set_property key val [] = [\<lparr>propType = ''string'', propKey = key, propLabel = key, propDefaultValue = val\<rparr>]"
  "set_property key val (p # ps) =
     (if propKey p = key then p\<lparr>propDefaultValue := val\<rparr> # ps else p # set_property key val ps)"
  by (simp_all add: set_property_def split: option.splits)

lemma set_property_same: "property_value key (set_property key val ps) = Some val"
  unfolding property_value_def by (induction ps) auto

lemma set_property_other: "key \<noteq> key' \<Longrightarrow> property_value key (set_property key' val ps) = property_value key ps"
  unfolding property_value_def by (induction ps) auto

lemma set_property_others: "Q key \<Longrightarrow> filter (\<lambda>p. \<not> Q (propKey p)) (set_property key val ps) = filter (\<lambda>p. \<not> Q (propKey p)) ps"
  by (induction ps) auto

lemma set_property_again: "set_property key v' (set_property key v ps) = set_property key v' ps"
  by (induction ps) auto

lemma set_property_commute:
  "key \<noteq> key' \<Longrightarrow> key \<in> propKey ` set ps \<Longrightarrow>
    set_property key v (set_property key' v' ps) = set_property key' v' (set_property key v ps)"
  by (induction ps) auto

lemma set_property_keys: "propKey ` set (set_property key v ps) = insert key (propKey ` set ps)"
  by (induction ps) auto

text \<open>
  C25. The product section carries the bootstrap data unharmed: decoding the property
  \<^verbatim>\<open>userdata\<close> gives the bytes of the secret and decoding \<^verbatim>\<open>metadata\<close> the cloud-init document,
  whatever properties the template had; the other properties stay as they are and in their
  order; and delivering again, as a retried pass does, gives the section of the last
  delivery, with no property added a second time.
\<close>

theorem bootstrap_properties_roundtrip:
  "map_option b64_decode (property_value ''userdata'' (bootstrap_properties value cloudInit ps)) = Some value \<and>
   map_option b64_decode (property_value ''metadata'' (bootstrap_properties value cloudInit ps)) = Some cloudInit \<and>
   filter (\<lambda>p. propKey p \<notin> {''userdata'', ''metadata''}) (bootstrap_properties value cloudInit ps) =
     filter (\<lambda>p. propKey p \<notin> {''userdata'', ''metadata''}) ps \<and>
   bootstrap_properties value cloudInit (bootstrap_properties value' cloudInit' ps) = bootstrap_properties value cloudInit ps"
proof -
  have "set_property ''userdata'' u (set_property ''metadata'' m' (set_property ''userdata'' u' ps)) =
      set_property ''metadata'' m' (set_property ''userdata'' u ps)" for u u' m'
    using set_property_commute [of "''userdata''" "''metadata''" "set_property ''userdata'' u' ps" u m']
    by (simp add: set_property_keys set_property_again)
  moreover have "filter (\<lambda>p. propKey p \<notin> {''userdata'', ''metadata''}) (set_property key v qs) =
      filter (\<lambda>p. propKey p \<notin> {''userdata'', ''metadata''}) qs" if "key \<in> {''userdata'', ''metadata''}" for key v qs
    using set_property_others [of "\<lambda>k. k \<in> {''userdata'', ''metadata''}" key v qs] that by simp
  ultimately show ?thesis
    by (simp add: bootstrap_properties_def set_property_same set_property_other set_property_again b64_decode_encode)
qed

subsection \<open>The disks\<close>

text \<open>The unit numbers are 64-bit sums; they wrap around only after \<open>2 ^ 64\<close> disks.\<close>

definition unit_number :: "int64 \<Rightarrow> nat \<Rightarrow> int64" where
  "unit_number u i = u + of_nat i"

lemma unit_number_inj: "inj_on (unit_number u) {..<2 ^ 64}"
  by (auto simp: inj_on_def unit_number_def word_of_nat_eq_iff take_bit_nat_eq_self)

lemma disk_units:
  "map (\<lambda>x. dsUnitNumber (case x of (i, d) \<Rightarrow> additional_disk head i d)) (enumerate n ds) =
     map (unit_number (dsUnitNumber head)) [Suc n..<Suc (n + length ds)]"
proof (induction ds arbitrary: n)
  case (Cons d ds)
  then show ?case by (simp add: upt_conv_Cons additional_disk_def unit_number_def del: upt_Suc)
qed simp

lemma disk_sizes:
  "map (\<lambda>x. dsSizeMb (case x of (i, d) \<Rightarrow> additional_disk head i d)) (enumerate n ds) = map adSizeMiB ds"
  by (induction ds arbitrary: n) (simp_all add: additional_disk_def)

lemma units_distinct:
  assumes "n < 2 ^ 64 - 1"
  shows "distinct (u # map (unit_number u) [Suc 0..<Suc n])"
proof -
  have "{0..<Suc n} \<subseteq> {..<2 ^ 64}" using assms by (intro subsetI) (simp add: less_Suc_eq_le)
  with unit_number_inj have "inj_on (unit_number u) {0..<Suc n}" by (rule inj_on_subset)
  then have "distinct (map (unit_number u) [0..<Suc n])" by (simp add: distinct_map del: upt_Suc)
  moreover have "[0..<Suc n] = 0 # [Suc 0..<Suc n]" by (simp add: upt_conv_Cons del: upt_Suc)
  ultimately show ?thesis by (simp add: unit_number_def del: upt_Suc)
qed

text \<open>
  C26. The disk section a virtual machine is given has exactly the sizes the spec asks for,
  the boot disk first (when a size is given for it) and then the additional disks in their
  order. All of them are on the bus of the existing boot disk, on unit numbers that differ
  from each other, also under 64-bit wrap-around, and the additional disks use the adapter of
  the boot disk. Without sizes no section is sent. The adapter of the boot disk itself is
  left open here.
\<close>

theorem disk_section_as_specified:
  assumes "dsecDiskSettings existing = head # rest" and "length (msAdditionalDisks spec) < 2 ^ 64 - 1"
    and "diskSectionFromTenantMachine (Some existing) spec = Inr r"
  shows "case r of
     None \<Rightarrow> msDiskResourceMiB spec = 0 \<and> msAdditionalDisks spec = []
   | Some sec \<Rightarrow>
       map dsSizeMb (dsecDiskSettings sec) =
         (if 0 <s msDiskResourceMiB spec then [msDiskResourceMiB spec] else []) @ map adSizeMiB (msAdditionalDisks spec) \<and>
       list_all (\<lambda>d. dsBusNumber d = dsBusNumber head) (dsecDiskSettings sec) \<and>
       list_all (\<lambda>d. dsAdapterType d = dsAdapterType head)
         (drop (if 0 <s msDiskResourceMiB spec then 1 else 0) (dsecDiskSettings sec)) \<and>
       distinct (map dsUnitNumber (dsecDiskSettings sec))"
proof (cases r)
  case (Some sec)
  define new where "new = map (\<lambda>(i, d). additional_disk head i d) (enumerate 0 (msAdditionalDisks spec))"
  have settings: "dsecDiskSettings sec =
      (if 0 <s msDiskResourceMiB spec then [head\<lparr>dsSizeMb := msDiskResourceMiB spec\<rparr>] else []) @ new"
    using assms(1,3) Some by (auto simp: diskSectionFromTenantMachine_def new_def split: if_splits)
  have "map dsSizeMb new = map adSizeMiB (msAdditionalDisks spec)"
    by (simp only: new_def map_map comp_def disk_sizes)
  moreover have "list_all (\<lambda>d. dsBusNumber d = dsBusNumber head) new" "list_all (\<lambda>d. dsAdapterType d = dsAdapterType head) new"
    by (auto simp: new_def list_all_iff additional_disk_def)
  moreover have "distinct (dsUnitNumber head # map dsUnitNumber new)"
    using units_distinct [OF assms(2)] by (simp only: new_def map_map comp_def disk_units add_0)
  ultimately show ?thesis by (simp add: Some settings)
qed (use assms in \<open>auto simp: diskSectionFromTenantMachine_def split: if_splits\<close>)

theorem disk_section_as_specified_witness:
  "case diskSectionFromTenantMachine (Some \<lparr>dsecDiskSettings = [sample_disk]\<rparr>) (tmSpec sample_machine) of
     Inr (Some sec) \<Rightarrow> map dsSizeMb (dsecDiskSettings sec) = [32768, 1024] \<and>
       distinct (map dsUnitNumber (dsecDiskSettings sec))
   | _ \<Rightarrow> False"
proof -
  obtain sec where *: "diskSectionFromTenantMachine (Some \<lparr>dsecDiskSettings = [sample_disk]\<rparr>) (tmSpec sample_machine) =
      Inr (Some sec)"
    by (simp add: diskSectionFromTenantMachine_def sample_objects)
  with disk_section_as_specified [OF _ _ *, of sample_disk "[]"] show ?thesis
    by (simp add: sample_objects word_sless_alt)
qed

subsection \<open>The size\<close>

definition sized :: "CloudDirectorTenantMachineSpec \<Rightarrow> VmSpecSection \<Rightarrow> VmSpecSection" where
  \<comment> \<open>the section the spec asks for: a zero leaves the template's value\<close>
  "sized spec v = v\<lparr>
     vssMemoryResourceMb := (if msMemoryResourceMiB spec = 0 then vssMemoryResourceMb v else Some (msMemoryResourceMiB spec)),
     vssNumCpus := (if msNumCPUs spec = 0 then vssNumCpus v else Some (msNumCPUs spec)),
     vssDiskSection := (case diskSectionFromTenantMachine (vssDiskSection v) spec of
        Inr (Some disks) \<Rightarrow> Some disks | _ \<Rightarrow> vssDiskSection v)\<rparr>"

lemma vm_spec_update_sized:
  assumes "vssMemoryResourceMb v = Some mem" and "vssNumCpus v = Some cpus"
    and "vssDiskSection v = Some disks" and "dsecDiskSettings disks \<noteq> []"
  shows "vm_spec_update spec (Some v) = Inr (sized spec v,
    msMemoryResourceMiB spec \<notin> {0, mem} \<or> msNumCPUs spec \<notin> {0, cpus} \<or>
    msDiskResourceMiB spec \<noteq> 0 \<or> msAdditionalDisks spec \<noteq> [])"
proof -
  obtain r where r: "diskSectionFromTenantMachine (vssDiskSection v) spec = Inr r"
    and sent: "r = None \<longleftrightarrow> msDiskResourceMiB spec = 0 \<and> msAdditionalDisks spec = []"
    using assms(3,4) by (cases "dsecDiskSettings disks"; cases "msDiskResourceMiB spec = 0 \<and> msAdditionalDisks spec = []")
      (auto simp: diskSectionFromTenantMachine_def)
  define m where "m = (if msMemoryResourceMiB spec = 0 then vssMemoryResourceMb v else Some (msMemoryResourceMiB spec))"
  define c where "c = (if msNumCPUs spec = 0 then vssNumCpus v else Some (msNumCPUs spec))"
  have "update_memory spec (Some v) = Inr (Some (v\<lparr>vssMemoryResourceMb := m\<rparr>), msMemoryResourceMiB spec \<notin> {0, mem})"
    using assms(1) by (auto simp: update_memory_def m_def)
  moreover have "update_cpus spec (Some (v\<lparr>vssMemoryResourceMb := m\<rparr>)) =
      Inr (Some (v\<lparr>vssMemoryResourceMb := m, vssNumCpus := c\<rparr>), msNumCPUs spec \<notin> {0, cpus})"
    using assms(2) by (auto simp: update_cpus_def c_def)
  moreover have "update_disks spec (Some (v\<lparr>vssMemoryResourceMb := m, vssNumCpus := c\<rparr>)) = Inr (sized spec v, r \<noteq> None)"
    using r by (auto simp: update_disks_def sized_def m_def c_def split: option.splits)
  ultimately show ?thesis by (simp add: vm_spec_update_def sent)
qed

text \<open>
  C27. The three updates of the sizing step (memory, processors, disks) together give
  exactly the section the spec asks for, in one request. On a complete section of an existing
  virtual machine the step does not panic, and the request is sent when the memory or the
  number of processors differs from what is configured or any disk is specified, and not
  otherwise.
\<close>

theorem vm_sized_as_specified:
  assumes "vssMemoryResourceMb v = Some mem" and "vssNumCpus v = Some cpus"
    and "vssDiskSection v = Some disks" and "dsecDiskSettings disks \<noteq> []"
  shows "vm_spec_update spec (Some v) = Inr (sized spec v,
    msMemoryResourceMiB spec \<notin> {0, mem} \<or> msNumCPUs spec \<notin> {0, cpus} \<or>
    msDiskResourceMiB spec \<noteq> 0 \<or> msAdditionalDisks spec \<noteq> [])"
  using assms by (rule vm_spec_update_sized)

theorem vm_sized_as_specified_witness:
  "vm_spec_update (tmSpec sample_machine) (vmVmSpecSection sample_vm) =
     Inr (sized (tmSpec sample_machine) (the (vmVmSpecSection sample_vm)), True)"
proof -
  let ?v = "the (vmVmSpecSection sample_vm)"
  have v: "vssMemoryResourceMb ?v = Some 4096" "vssNumCpus ?v = Some 2"
      "vssDiskSection ?v = Some \<lparr>dsecDiskSettings = [sample_disk]\<rparr>" "vmVmSpecSection sample_vm = Some ?v"
    by (simp_all add: sample_vm_def)
  show ?thesis
    by (subst v(4), subst vm_sized_as_specified [OF v(1-3)]) (simp_all add: sample_machine_def)
qed

subsection \<open>The order of provisioning\<close>

definition powers_on :: "string \<Rightarrow> call \<times> goerror option \<Rightarrow> bool" where
  "powers_on i ev \<longleftrightarrow> (\<exists>vm err. ev = (PowerOnVM vm, err) \<and> vmID vm = i)"

definition boot_data :: "('w, 'h) env \<Rightarrow> Machine \<Rightarrow> string \<Rightarrow> bool" where
  \<comment> \<open>the API server answered with these bytes for the bootstrap secret of the machine\<close>
  "boot_data E om value \<longleftrightarrow> (\<exists>n secret w w'. machineDataSecretName om = Some n \<and>
     k_GetSecret (envKube E) \<lparr>nnName = n, nnNamespace = metaNamespace (machineMeta om)\<rparr> w = (Inr secret, w') \<and>
     secretData secret ''value'' = Some value)"

definition hands_over :: "('w, 'h) env \<Rightarrow> Machine \<Rightarrow> string \<Rightarrow> call \<times> goerror option \<Rightarrow> bool" where
  \<comment> \<open>the virtual machine \<open>i\<close> accepted properties with the bootstrap data and a cloud-init document made for it\<close>
  "hands_over E om i ev \<longleftrightarrow> (\<exists>vm l ps value cloudInit net ncs. ev = (SetProductSectionList vm l, None) \<and> vmID vm = i \<and>
     pslProductSection l = Some ps \<and> boot_data E om value \<and>
     ExecuteCloudInitTemplate (Some vm) net ncs = Inr (cloudInit, None) \<and>
     map_option b64_decode (property_value ''userdata'' (psProperty ps)) = Some value \<and>
     map_option b64_decode (property_value ''metadata'' (psProperty ps)) = Some cloudInit)"

lemma hands_overI:
  assumes "boot_data E om value" and "ExecuteCloudInitTemplate (Some vm) net ncs = Inr (cloudInit, None)"
  shows "hands_over E om (vmID vm) (SetProductSectionList vm
     (l\<lparr>pslProductSection := Some (ps\<lparr>psProperty := bootstrap_properties value cloudInit qs\<rparr>)\<rparr>), None)"
  using assms unfolding hands_over_def
  by (auto simp: bootstrap_properties_def set_property_same set_property_other b64_decode_encode intro!: exI [of _ "value"] exI [of _ cloudInit])

lemma m_bootstrap_spec:
  "wp (m_bootstrap E om tc va vm)
     (\<lambda>r _. boot_data E om (fst r) \<and>
        (\<exists>net ncs. ExecuteCloudInitTemplate (Some vm) net ncs = Inr (snd (snd r), None))) (\<lambda>_ _. True) s"
  unfolding m_bootstrap_def by (auto simp: wp boot_data_def Let_def split: option.splits sum.splits)

lemma m_configure_order:
  assumes "boot_data E om value" and "ExecuteCloudInitTemplate (Some vm) net ncs = Inr (cloudInit, None)"
  shows "emits (precedes (hands_over E om i) (powers_on i))
     (go_bind (m_product E vm value cloudInit) (\<lambda>_. go_bind (m_update_spec E vm) (\<lambda>vm'. m_power_on E vm' sec)))"
  unfolding m_product_def m_update_spec_def m_power_on_def emits_def
  using hands_overI [OF assms]
  by (auto simp: wp Let_def precedes_def powers_on_def split: option.splits sum.splits prod.splits)

lemma precedes_quiet_end: "precedes A B xs \<Longrightarrow> list_all (\<lambda>ev. \<not> B ev) ys \<Longrightarrow> precedes A B (xs @ ys)"
  by (induction ys rule: rev_induct) (auto dest: precedes_snoc simp flip: append_assoc)

lemma emits_precedes_bind:
  "emits (list_all (\<lambda>ev. \<not> B ev)) m \<Longrightarrow> (\<And>x. emits (precedes A B) (f x)) \<Longrightarrow> emits (precedes A B) (go_bind m f)"
  by (rule emits_bind [where T = "list_all (\<lambda>ev. \<not> B ev)" and U = "precedes A B"])
    (auto intro: precedes_none precedes_append)

lemma emits_precedes_end:
  "emits (precedes A B) m \<Longrightarrow> (\<And>x. emits (list_all (\<lambda>ev. \<not> B ev)) (f x)) \<Longrightarrow> emits (precedes A B) (go_bind m f)"
  by (rule emits_bind [where T = "precedes A B" and U = "list_all (\<lambda>ev. \<not> B ev)"]) (auto intro: precedes_quiet_end)

lemma emits_bind_result:
  assumes "emits (list_all (\<lambda>ev. \<not> B ev)) m" and "\<And>s. wp m (\<lambda>x _. P x) (\<lambda>_ _. True) s"
    and "\<And>x. P x \<Longrightarrow> emits (precedes A B) (f x)"
  shows "emits (precedes A B) (go_bind m f)"
  using assms by (rule emits_bind_fact) (auto intro: precedes_none precedes_append)

lemma powers_on_configures: "\<not> mutates c \<Longrightarrow> \<not> powers_on i (c, e)" "creates c \<Longrightarrow> \<not> powers_on i (c, e)" "deletes c \<Longrightarrow> \<not> powers_on i (c, e)"
  by (auto simp: powers_on_def call_classes)

lemma kube_no_power: "list_all (\<lambda>ev. \<not> vcd_call (fst ev)) evs \<Longrightarrow> list_all (\<lambda>ev. \<not> powers_on i ev) evs"
  by (auto simp: list_all_iff powers_on_def vcd_call_def)

lemma no_power_on_quiet:
  "quiet S C m \<Longrightarrow> (\<And>vm. \<not> C (PowerOnVM vm)) \<Longrightarrow> emits (list_all (\<lambda>ev. \<not> powers_on i ev)) m"
  by (erule quiet_emits) (auto simp: list_all_iff powers_on_def)

lemma m_customize_no_power: "emits (list_all (\<lambda>ev. \<not> powers_on i ev)) (m_customize E vm)"
  unfolding m_customize_def by (intro emits_all_bind emits_rules) (simp_all add: powers_on_def)

lemma m_provision_order: "emits (precedes (hands_over E om i) (powers_on i)) (m_provision E om tc org va)"
proof -
  have boot: "emits (precedes (hands_over E om i) (powers_on i)) (go_bind (m_bootstrap E om tc va vm)
      (\<lambda>(value, section, cloudInit). go_bind (m_customize E vm) (\<lambda>_. go_bind (m_product E vm value cloudInit)
        (\<lambda>_. go_bind (m_update_spec E vm) (\<lambda>vm'. m_power_on E vm' section)))))" for vm
    by (rule emits_bind_result [OF no_power_on_quiet [OF m_bootstrap_quiet] m_bootstrap_spec])
      (auto simp: call_classes intro!: emits_precedes_bind [OF m_customize_no_power] m_configure_order)
  show ?thesis
    unfolding m_provision_def
    by (intro emits_precedes_bind [OF no_power_on_quiet [OF m_ensure_vm_quiet]] emits_precedes_bind [OF emits_deref] boot)
      (simp_all add: call_classes)
qed

lemma m_reconcileNormal_order: "emits (precedes (hands_over E om i) (powers_on i)) (m_reconcileNormal E om oc)"
proof -
  have "emits (list_all (\<lambda>ev. \<not> powers_on i ev)) (go_bind (m_load_balancer E om tc vdc) (\<lambda>_. m_finish E))" for tc vdc
    unfolding m_finish_def
    by (intro emits_all_bind emits_rules no_power_on_quiet [OF m_member_quiet(1)]) (auto simp: call_classes)
  then have rest: "emits (precedes (hands_over E om i) (powers_on i)) (go_bind get_obj (\<lambda>tm.
     go_bind (if msProviderID (tmSpec tm) = '''' then m_provision E om tc org vApp else go_return ()) (\<lambda>_.
     go_bind (m_load_balancer E om tc vdc) (\<lambda>_. m_finish E))))" for tc org vdc vApp
    by (intro emits_precedes_bind [OF emits_get_obj] emits_precedes_end emits_if m_provision_order emits_return)
      (simp_all add: precedes_none)
  show ?thesis
    unfolding m_reconcileNormal_def
    by (intro emits_precedes_bind [OF no_power_on_quiet [OF m_gates_quiet]]
        emits_precedes_bind [OF no_power_on_quiet [OF m_infrastructure_quiet]] emits_prod rest) (simp_all add: call_classes)
qed

lemma m_reconcileDelete_no_power: "emits (list_all (\<lambda>ev. \<not> powers_on i ev)) (m_reconcileDelete E om oc)"
  unfolding m_reconcileDelete_def m_delete_vm_def
  by (intro emits_all_bind emits_rules m_remove_finalizer_emits no_power_on_quiet [OF m_member_quiet(2)])
    (auto simp: powers_on_def call_classes)

text \<open>
  C21. No virtual machine is started without its bootstrap data: in every pass, before the
  first request to power on a virtual machine, the same virtual machine has accepted product
  properties from which the bootstrap data of the machine's secret and a cloud-init document
  made for this virtual machine can be decoded. A virtual machine boots once with this data,
  so that a start without it could not be repaired by a later pass.
\<close>

theorem machine_boots_with_its_data:
  fixes E :: "('w, 'h) env"
  assumes "k_GetTenantMachine (envKube E) req (world s) = (Inr tm, w)"
    and "\<forall>om' oc. owners E tm om' oc \<longrightarrow> om' = om"
  shows "\<exists>evs. trace (snd (finish (m_Reconcile E req) s)) = trace s @ evs \<and>
    (\<forall>i. precedes (hands_over E om i) (powers_on i) evs)"
proof -
  have "\<exists>evs. trace (snd (finish (m_Reconcile E req) s)) = trace s @ evs \<and> precedes (hands_over E om i) (powers_on i) evs" for i
  proof (rule m_Reconcile_lift [OF assms(1)])
    let ?Q = "\<lambda>t. \<exists>evs. trace t = trace s @ evs \<and> precedes (hands_over E om i) (powers_on i) evs"
    fix om' oc evs and t :: "('w, CloudDirectorTenantMachine) cstate"
    assume t: "obj t = tm" "trace t = trace s @ evs" "list_all (\<lambda>ev. \<not> vcd_call (fst ev)) evs" "owners E tm om' oc"
    have body: "emits (precedes (hands_over E om i) (powers_on i)) (m_Reconcile_body E om oc)"
      unfolding m_Reconcile_body_def
      by (intro emits_precedes_bind [OF emits_get_obj] emits_if emits_prod emits_precedes_bind [OF emits_modify] emits_exit
          m_reconcileNormal_order emits_mono [OF m_reconcileDelete_no_power [where i = i]]) (simp_all add: precedes_none)
    show "wp (m_Reconcile_body E om' oc) (\<lambda>_. ?Q) (\<lambda>_. ?Q) t"
      using assms(2) t(4)
      by (auto intro!: wp_mono [OF emitsD [OF body]] precedes_append kube_no_power [OF t(3)] simp: t(2))
  next
    show "\<exists>evs. trace t' = trace s @ evs \<and> precedes (hands_over E om i) (powers_on i) evs"
      if "\<exists>evs. trace t = trace s @ evs \<and> precedes (hands_over E om i) (powers_on i) evs"
        "trace t' = trace t @ [(KPatch, err)]" for t t' err
      using that by (auto intro!: precedes_snoc simp: powers_on_def)
  next
    show "\<exists>xs. trace t = trace s @ xs \<and> precedes (hands_over E om i) (powers_on i) xs"
      if "trace t = trace s @ evs" "list_all (\<lambda>ev. \<not> vcd_call (fst ev)) evs" for t evs
      using that by (auto intro!: precedes_none kube_no_power)
  qed
  then show ?thesis by (metis same_append_eq)
qed

definition sample_booting :: sample where
  \<comment> \<open>the sample machine with its finalizer stored, a ready cluster and a virtual machine to configure\<close>
  "sample_booting = sample\<lparr>smFound := True, smCluster := sample_ready_cluster, smMachine := sample_machine\<lparr>tmMeta :=
     (sample_meta ''prod-cp-0'')\<lparr>metaFinalizers := [CloudDirectorTenantMachineFinalizer]\<rparr>\<rparr>\<rparr>"

lemmas sample_booting_eval = sample_booting_def sample_ready_cluster_def sample_objects

lemma sample_cloud_init: "\<exists>doc. ExecuteCloudInitTemplate (Some vm) (Some sample_network) (Some sample_connection) = Inr (doc, None)"
proof -
  let ?scope = "\<lparr>isGateway = ''10.0.0.1'', isDNS1 = ''10.0.0.2'', isSubnetPrefixLength = ''24'',
       isIPRanges = Some [\<lparr>irStartAddress = ''10.0.0.3'', irEndAddress = ''10.0.0.9''\<rparr>]\<rparr>"
  have addresses: "ParseAddr ''10.0.0.3'' = Inr (Addr4 0x0A000003)" "ParseAddr ''10.0.0.5'' = Inr (Addr4 0x0A000005)"
      "ParseAddr ''10.0.0.9'' = Inr (Addr4 0x0A000009)"
    by (simp_all add: parse_eval)
  have "ip_scopes (Some sample_network) = Inr [?scope]" "list_all parsable [?scope]"
      "list_all (\<lambda>c. \<not> isl (ParseAddr (ncIPAddress c))) (connections sample_connection)"
    by (simp_all add: ip_scopes_def sample_network_def parsable_def addresses connections_def sample_connection_def)
  moreover have "list_all (\<lambda>c. connection_scope [?scope] c \<noteq> None) (connections sample_connection)"
    by (simp add: connections_def sample_connection_def connection_scope_def scope_of_def addresses in_scope_def
        in_range_def less_eq_addr_def addr_key_def)
  ultimately show ?thesis
    by (simp add: ExecuteCloudInitTemplate_def connections_def [symmetric] execute_template_def
        make_ethernets_spec execute_range_spec)
qed

lemmas m_provision_eval = m_provision_def m_ensure_vm_def m_catalog_def m_bootstrap_def m_customize_def m_product_def
  m_update_spec_def vm_spec_update_def update_memory_def update_cpus_def update_disks_def diskSectionFromTenantMachine_def
  m_power_on_def record_vm_def internal_ip_def m_load_balancer_def m_finish_def

lemma sample_vm_sel: "vmID sample_vm = ''urn:vm:1''" "vmVmSpecSection sample_vm =
     Some \<lparr>vssMemoryResourceMb = Some 4096, vssNumCpus = Some 2, vssDiskSection = Some \<lparr>dsecDiskSettings = [sample_disk]\<rparr>\<rparr>"
  by (simp_all add: sample_vm_def)

lemma sample_connection_addresses: "record_addresses sample_connection m = m\<lparr>tmStatus := (tmStatus m)\<lparr>mtAddresses :=
     [\<lparr>addressType = ''InternalIP'', addressAddress = ''10.0.0.5''\<rparr>]\<rparr>\<rparr>"
  by (simp add: sample_connection_def record_addresses_def machine_addresses_def)

lemma sample_boots:
  "\<exists>vm. (PowerOnVM vm, None) \<in> set (trace (snd (finish (m_Reconcile (sample_env sample_booting)
     \<lparr>nnName = ''prod-cp-0'', nnNamespace = ''default''\<rparr>) (sample_state sample_machine)))) \<and> vmID vm = ''urn:vm:1''"
proof -
  obtain doc where "ExecuteCloudInitTemplate (Some sample_vm) (Some sample_network) (Some sample_connection) = Inr (doc, None)"
    using sample_cloud_init by blast
  then show ?thesis
    by (simp add: run_eval m_run_eval m_provision_eval sample_booting_eval sample_vm_sel
        sample_connection_addresses Let_def slices_ContainsFunc_def sample_group_def)
qed

theorem machine_boots_with_its_data_witness:
  "list_ex (hands_over (sample_env sample_booting) sample_owner_machine ''urn:vm:1'')
     (trace (snd (finish (m_Reconcile (sample_env sample_booting)
       \<lparr>nnName = ''prod-cp-0'', nnNamespace = ''default''\<rparr>) (sample_state sample_machine))))"
proof -
  have "\<forall>om oc. owners (sample_env sample_booting) (smMachine sample_booting) om oc \<longrightarrow> om = sample_owner_machine"
    by (simp add: owners_def sample_services sample_booting_def sample_def)
  from machine_boots_with_its_data [OF sample_get_machine this, of "\<lparr>nnName = ''prod-cp-0'', nnNamespace = ''default''\<rparr>"
      "sample_state sample_machine"] sample_boots
  show ?thesis by (fastforce simp: precedes_def list_ex_iff powers_on_def dest: set_takeWhileD)
qed

subsection \<open>Ready machines are members of the load balancer\<close>

definition lb_member :: "('w, 'h) env \<Rightarrow> CloudDirectorTenantMachine \<Rightarrow> (call \<times> goerror option) list \<Rightarrow> bool" where
  \<comment> \<open>the internal address of the machine is in an IP set that Cloud Director returned or accepted\<close>
  "lb_member E tm evs \<longleftrightarrow> (let ip = internal_ip (mtAddresses (tmStatus tm)) in ip \<noteq> '''' \<and>
     (\<exists>g. ip \<in> set (fgIpAddresses g) \<and> ((UpdateFirewallGroup g, None) \<in> set evs \<or>
        (\<exists>vdc i w w'. v_GetFirewallGroupById (envVcd E) vdc i w = ((Some g, None), w')))))"

lemma lb_member_mono:
  "lb_member E tm xs \<Longrightarrow> set xs \<subseteq> set ys \<Longrightarrow> mtAddresses (tmStatus tm') = mtAddresses (tmStatus tm) \<Longrightarrow> lb_member E tm' ys"
  unfolding lb_member_def Let_def by fastforce

lemma m_load_balancer_spec:
  "wp (m_load_balancer E om tc vdc)
     (\<lambda>_ s'. IsControlPlaneMachine (envLib E) om \<longrightarrow> (\<exists>evs. trace s' = trace s @ evs \<and> lb_member E (obj s') evs)) (\<lambda>_ _. True) s"
  unfolding m_load_balancer_def lb_member_def
  by (auto simp: wp Let_def tm_MarkTrue_def slices_ContainsFunc_def list_ex_iff split: option.splits) (force, blast)

lemma m_provision_keeps_unready: "keeps (\<lambda>m. \<not> mtReady (tmStatus m)) (m_provision E om tc org va)"
proof -
  have stages: "quiet tm_SetConditions C m \<Longrightarrow> keeps (\<lambda>m. \<not> mtReady (tmStatus m)) m" for C and m :: "('w, CloudDirectorTenantMachine, 'x) handler"
    by (erule quiet_keeps) simp
  have "keeps (\<lambda>m. \<not> mtReady (tmStatus m)) (m_power_on E vm ncs)" for vm and ncs :: "NetworkConnectionSection option"
    unfolding m_power_on_def keeps_def
    by (auto simp: wp record_vm_def record_addresses_def tm_MarkFalse_def split: option.splits)
  then show ?thesis
    unfolding m_provision_def
    by (intro keeps_rules stages [OF m_ensure_vm_quiet] stages [OF m_bootstrap_quiet] stages [OF m_configure_quiet(1)]
        stages [OF m_configure_quiet(2)] stages [OF m_configure_quiet(3)])
qed

lemma m_reconcileNormal_member:
  assumes "IsControlPlaneMachine (envLib E) om" and "\<not> mtReady (tmStatus (obj s)) \<and> (\<exists>evs. trace s = tr @ evs)"
  shows "wp (m_reconcileNormal E om oc)
     (\<lambda>_ s'. \<exists>evs. trace s' = tr @ evs \<and> lb_member E (obj s') evs) (\<lambda>_ s'. \<not> mtReady (tmStatus (obj s'))) s"
proof -
  let ?P = "\<lambda>t. \<not> mtReady (tmStatus (obj t)) \<and> (\<exists>evs. trace t = tr @ evs)"
  let ?U = "\<lambda>_ t. \<not> mtReady (tmStatus (obj t))"
  have stage: "wp (go_bind m f) Q ?U t"
    if "keeps (\<lambda>m. \<not> mtReady (tmStatus m)) m" "emits (\<lambda>_. True) m" "?P t" "\<And>x t. ?P t \<Longrightarrow> wp (f x) Q ?U t"
    for m :: "('a, CloudDirectorTenantMachine, 'x) handler" and f :: "'x \<Rightarrow> ('a, CloudDirectorTenantMachine, 'y) handler" and Q t
    unfolding wp_bind
    by (rule wp_mono [OF wp_conj [OF keepsD [OF that(1)] emitsD [OF that(2)]]]) (use that(3,4) in auto)
  have quiet: "keeps (\<lambda>m. \<not> mtReady (tmStatus m)) m" "emits (\<lambda>_. True) m" if "quiet tm_SetConditions C m"
    for C and m :: "('a, CloudDirectorTenantMachine, 'x) handler"
    using that by (auto elim: quiet_keeps quiet_emits)
  have lb: "wp (go_bind (m_load_balancer E om tc vdc) (\<lambda>_. m_finish E))
      (\<lambda>_ s'. \<exists>evs. trace s' = tr @ evs \<and> lb_member E (obj s') evs) ?U t" if "?P t" for tc vdc t
    unfolding wp_bind
    by (rule wp_mono [OF wp_conj [OF m_load_balancer_spec keepsD [OF quiet(1) [OF m_member_quiet(1)]]]])
      (use that assms(1) in \<open>auto simp: m_finish_def wp tm_MarkTrue_def elim!: lb_member_mono\<close>)
  show ?thesis
    unfolding m_reconcileNormal_def
    by (rule stage [OF quiet(1,2) [OF m_gates_quiet] assms(2)], rule stage [OF quiet(1,2) [OF m_infrastructure_quiet]],
        assumption, auto simp: wp_bind [of get_obj] wp_get_obj split: prod.splits
        intro!: stage [OF m_provision_keeps_unready emits_mono [OF m_provision_order]] lb)
qed

text \<open>
  C23. A control plane machine becomes ready only as a member of the load balancer: when a
  pass reports a machine ready that was not ready before, its internal address is recorded
  in its status and is in an IP set that Cloud Director returned or accepted in this pass.
\<close>

theorem machine_ready_is_member:
  fixes E :: "('w, 'h) env"
  assumes "k_GetTenantMachine (envKube E) req (world s) = (Inr tm, w)"
    and "\<forall>om oc. owners E tm om oc \<longrightarrow> IsControlPlaneMachine (envLib E) om"
    and "\<not> mtReady (tmStatus tm)"
    and "finish (m_Reconcile E req) s = (e, s')" and "mtReady (tmStatus (obj s'))"
  shows "\<exists>evs. trace s' = trace s @ evs \<and> lb_member E (obj s') evs"
proof -
  let ?Q = "\<lambda>t. mtReady (tmStatus (obj t)) \<longrightarrow> (\<exists>evs. trace t = trace s @ evs \<and> lb_member E (obj t) evs)"
  have "?Q (snd (finish (m_Reconcile E req) s))"
  proof (rule m_Reconcile_lift [OF assms(1)])
    fix om oc evs and t :: "('w, CloudDirectorTenantMachine) cstate"
    assume t: "obj t = tm" "owners E tm om oc" "trace t = trace s @ evs"
    then have cp: "IsControlPlaneMachine (envLib E) om" using assms(2) by blast
    have normal: "wp (m_reconcileNormal E om oc) (\<lambda>_. ?Q) (\<lambda>_. ?Q) u" if "\<not> mtReady (tmStatus (obj u))" "trace u = trace t" for u
      by (rule wp_mono [OF m_reconcileNormal_member [OF cp, of _ "trace s"]]) (use that t(3) in auto)
    have "keeps (\<lambda>m. \<not> mtReady (tmStatus m)) (m_reconcileDelete E om oc)"
      by (rule m_reconcileDelete_keeps) (simp_all add: tm_set_finalizers_def)
    then have delete: "wp (m_reconcileDelete E om oc) (\<lambda>_. ?Q) (\<lambda>_. ?Q) t"
      by (rule wp_mono [OF keepsD]) (use t(1) assms(3) in auto)
    show "wp (m_Reconcile_body E om oc) (\<lambda>_. ?Q) (\<lambda>_. ?Q) t"
      unfolding m_Reconcile_body_def using normal [of "t\<lparr>obj := tm_set_finalizers fs tm\<rparr>" for fs] delete t(1) assms(3)
      by (auto simp: wp_bind [of get_obj] wp_bind [of "modify_obj _"] wp_get_obj wp_modify_obj wp_if wp_case_prod wp_exit
          tm_set_finalizers_def split: prod.splits)
  next
    fix cs err and t t' :: "('w, CloudDirectorTenantMachine) cstate"
    assume "?Q t" "obj t' = tm_SetConditions cs (obj t)" "trace t' = trace t @ [(KPatch, err)]"
    then show "?Q t'" by (auto elim!: lb_member_mono)
  qed (simp add: assms(3))
  with assms(4,5) show ?thesis by simp
qed

lemma sample_becomes_ready:
  "mtReady (tmStatus (obj (snd (finish (m_Reconcile (sample_env sample_booting)
     \<lparr>nnName = ''prod-cp-0'', nnNamespace = ''default''\<rparr>) (sample_state sample_machine)))))"
proof -
  obtain doc where "ExecuteCloudInitTemplate (Some sample_vm) (Some sample_network) (Some sample_connection) = Inr (doc, None)"
    using sample_cloud_init by blast
  then show ?thesis
    by (simp add: run_eval m_run_eval m_provision_eval sample_booting_eval sample_vm_sel
        sample_connection_addresses Let_def slices_ContainsFunc_def sample_group_def)
qed

theorem machine_ready_is_member_witness:
  "let s' = snd (finish (m_Reconcile (sample_env sample_booting) \<lparr>nnName = ''prod-cp-0'', nnNamespace = ''default''\<rparr>)
       (sample_state sample_machine))
   in mtReady (tmStatus (obj s')) \<and> lb_member (sample_env sample_booting) (obj s') (trace s')"
proof -
  have "\<forall>om oc. owners (sample_env sample_booting) (smMachine sample_booting) om oc \<longrightarrow>
      IsControlPlaneMachine (envLib (sample_env sample_booting)) om"
    "\<not> mtReady (tmStatus (smMachine sample_booting))"
    by (simp_all add: owners_def sample_services sample_booting_eval sample_lib_def)
  from machine_ready_is_member [OF sample_get_machine this prod.collapse [symmetric] sample_becomes_ready]
  show ?thesis using sample_becomes_ready by (simp add: Let_def)
qed

subsection \<open>A failed lookup of the virtual machine\<close>

definition vm_lookup_fails :: "(sample_world, unit) env" where
  \<comment> \<open>the lookup of the virtual machine fails, for a reason other than its absence\<close>
  "vm_lookup_fails = (sample_env sample_booting)\<lparr>envVm := (sample_vms True)\<lparr>
     m_GetVMByName := (\<lambda>_ _ _ w. ((None, Some (ExternalError 503 ''service unavailable'')), w))\<rparr>\<rparr>"

text \<open>
  The error of the lookup of the virtual machine is only tested for not-found: when the
  lookup fails for another reason, the pass goes on with a nil virtual machine and panics
  where its id is read. No virtual machine is created or changed by then, and the
  object is still patched.
\<close>

theorem machine_failed_lookup_panics:
  "let run = finish (m_Reconcile vm_lookup_fails \<lparr>nnName = ''prod-cp-0'', nnNamespace = ''default''\<rparr>)
       (sample_state sample_machine)
   in fst run = Panic NilDereference \<and> list_all (\<lambda>ev. \<not> mutates (fst ev)) (trace (snd run)) \<and>
      last (trace (snd run)) = (KPatch, None)"
  by (simp add: vm_lookup_fails_def not_found_error_def run_eval m_run_eval m_provision_eval sample_booting_eval call_classes)

subsection \<open>A machine becomes ready\<close>

definition vm_complete :: "Vm \<Rightarrow> bool" where
  \<comment> \<open>the section of a virtual machine that exists: memory, processors and a boot disk\<close>
  "vm_complete vm \<longleftrightarrow> (\<exists>v mem cpus disks. vmVmSpecSection vm = Some v \<and> vssMemoryResourceMb v = Some mem \<and>
     vssNumCpus v = Some cpus \<and> vssDiskSection v = Some disks \<and> dsecDiskSettings disks \<noteq> [])"

definition finds_vm :: "(Vm option, 'w) reply \<Rightarrow> 'w \<Rightarrow> bool" where
  "finds_vm f w \<longleftrightarrow> (\<exists>vm. fst (f w) = (Some vm, None) \<and> vm_complete vm)"

definition vms_made :: "lib \<Rightarrow> 'w vapp \<Rightarrow> 'w vmapi \<Rightarrow> bool" where
  \<comment> \<open>a virtual machine is found or reported not-found; it can be ordered, and is found once the order is worked off\<close>
  "vms_made L A M \<longleftrightarrow>
     (\<forall>va n b w. ContainsNotFound L (snd (fst (m_GetVMByName M va n b w))) \<or> finds_vm (m_GetVMByName M va n b) w) \<and>
     (\<forall>c n. answers (m_GetVAppTemplateByName M c n)) \<and> (\<forall>va n t net b. answers (m_AddNewVM M va n t net b)) \<and>
     (\<forall>va n t net b c w task w1 e w2. m_AddNewVM M va n t net b w = ((task, None), w1) \<longrightarrow>
        a_WaitTaskCompletion A task w1 = (e, w2) \<longrightarrow> finds_vm (m_GetVMByName M va n c) w2)"

definition attached :: "'w vmapi \<Rightarrow> bool" where
  \<comment> \<open>the connections of a virtual machine have addresses in the ranges of the vApp network\<close>
  "attached M \<longleftrightarrow> (\<forall>va n b vm w1 w2 net ncs w1' w2'. m_GetVappNetworkByName M va n b w1 = ((Some net, None), w1') \<longrightarrow>
     m_GetNetworkConnectionSection M vm w2 = ((Some ncs, None), w2') \<longrightarrow>
     (\<exists>doc. ExecuteCloudInitTemplate (Some vm) (Some net) (Some ncs) = Inr (doc, None)) \<and>
     (\<exists>cs. ncsNetworkConnection ncs = Some cs \<and> internal_ip (machine_addresses cs) \<noteq> ''''))"

definition vm_healthy :: "lib \<Rightarrow> 'w vapp \<Rightarrow> 'w vmapi \<Rightarrow> bool" where
  \<comment> \<open>the virtual machine is there or can be made, every other call succeeds\<close>
  "vm_healthy L A M \<longleftrightarrow> attached M \<and> vms_made L A M \<and>
     (\<forall>vdc i b. answers (a_GetVAppById A vdc i b)) \<and> (\<forall>t w. fst (a_WaitTaskCompletion A t w) = None) \<and>
     (\<forall>org n b. answers (m_GetCatalogByName M org n b)) \<and>
     (\<forall>va n b. answers (m_GetVappNetworkByName M va n b)) \<and> (\<forall>vm. answers (m_GetNetworkConnectionSection M vm)) \<and>
     (\<forall>vm. answers (m_GetGuestCustomizationSection M vm)) \<and> (\<forall>vm g. succeeds (m_SetGuestCustomizationSection M vm g)) \<and>
     (\<forall>vm. answers (m_GetProductSectionList M vm)) \<and> (\<forall>vm l. succeeds (m_SetProductSectionList M vm l)) \<and>
     (\<forall>vm w l w'. m_GetProductSectionList M vm w = ((Some l, None), w') \<longrightarrow> pslProductSection l \<noteq> None) \<and>
     (\<forall>vm s d. succeeds (m_UpdateVmSpecSection M vm s d)) \<and> (\<forall>vm. answers (m_PowerOn M vm))"

lemma vm_healthyD:
  assumes "vm_healthy L A M"
  shows "answers (a_GetVAppById A vdc i b)" "fst (a_WaitTaskCompletion A t w) = None" "answers (m_GetCatalogByName M org n b)"
    "vms_made L A M" "answers (m_GetVappNetworkByName M va n b)" "answers (m_GetNetworkConnectionSection M vm)"
    "answers (m_GetGuestCustomizationSection M vm)" "succeeds (m_SetGuestCustomizationSection M vm g)"
    "answers (m_GetProductSectionList M vm)" "succeeds (m_SetProductSectionList M vm l)"
    "succeeds (m_UpdateVmSpecSection M vm sec d)" "answers (m_PowerOn M vm)" "attached M"
  using assms unfolding vm_healthy_def by simp_all

lemma product_section_there:
  "vm_healthy L A M \<Longrightarrow> m_GetProductSectionList M vm w = ((Some l, None), w') \<Longrightarrow> \<exists>ps. pslProductSection l = Some ps"
  unfolding vm_healthy_def by blast

lemma m_create_vm_answers:
  assumes "vms_made (envLib E) (envVapp E) (envVm E)" and "not_found_lawful (envLib E)"
  shows "wp (m_create_vm E tc catalog va) (\<lambda>v t. \<exists>vm. v = Some vm \<and> vm_complete vm \<and> obj t = obj s) (\<lambda>_ _. False) s"
proof -
  have template: "answers (m_GetVAppTemplateByName (envVm E) c n)" and order: "answers (m_AddNewVM (envVm E) va n t net b)" for c n va t net b
    using assms(1) by (simp_all add: vms_made_def)
  have made: "err = None \<and> (\<exists>x. vm = Some x \<and> vm_complete x)"
    if "m_AddNewVM (envVm E) va n t net b w = ((task, None), w1)" "a_WaitTaskCompletion (envVapp E) task w1 = (e, w2)"
      "m_GetVMByName (envVm E) va n c w2 = ((vm, err), w3)" for va n t net b w task w1 e w2 c vm err w3
    using assms(1) that unfolding vms_made_def finds_vm_def by (metis fst_conv prod.inject)
  show ?thesis
    using assms(2) unfolding m_create_vm_def not_found_lawful_def
    by (auto simp: wp_healthy wp_call [of "GetVMByName _ _"] wp_call_err Let_def IgnoreNotFound_def template order dest: made)
qed

lemma m_ensure_vm_answers:
  assumes "vm_healthy (envLib E) (envVapp E) (envVm E)" and "not_found_lawful (envLib E)"
  shows "wp (m_ensure_vm E tc org va) (\<lambda>v t. \<exists>vm. v = Some vm \<and> vm_complete vm \<and> obj t = obj s) (\<lambda>_ _. False) s"
proof -
  have found: "\<exists>x. vm = Some x \<and> vm_complete x"
    if "m_GetVMByName (envVm E) va n b w = ((vm, err), w')" "\<not> ContainsNotFound (envLib E) err" for va n b w vm err w'
    using vm_healthyD(4) [OF assms(1)] that unfolding vms_made_def finds_vm_def by (metis fst_conv snd_conv prod.inject)
  have create: "wp (m_create_vm E tc catalog va) (\<lambda>v t. \<exists>vm. v = Some vm \<and> vm_complete vm \<and> obj t = obj s) (\<lambda>_ _. False) t"
    if "obj t = obj s" for catalog t
    using m_create_vm_answers [OF vm_healthyD(4) [OF assms(1)] assms(2), where s = t] that by simp
  show ?thesis
    using assms(2) unfolding m_ensure_vm_def m_catalog_def not_found_lawful_def
    by (auto simp: wp_healthy wp_call [of "GetVMByName _ _"] IgnoreNotFound_def vm_healthyD [OF assms(1)] intro!: create dest: found)
qed

lemma m_bootstrap_answers:
  assumes "vm_healthy (envLib E) (envVapp E) (envVm E)" and "machineDataSecretName om = Some n"
    and "\<And>key w. \<exists>secret v. fst (k_GetSecret (envKube E) key w) = Inr secret \<and> secretData secret ''value'' = Some v"
  shows "wp (m_bootstrap E om tc va vm) (\<lambda>(value, sec, doc) t. obj t = obj s \<and> (\<exists>ncs cs. sec = Some ncs \<and>
      ncsNetworkConnection ncs = Some cs \<and> internal_ip (machine_addresses cs) \<noteq> '''')) (\<lambda>_ _. False) s"
proof -
  have secret: "k_GetSecret (envKube E) key w = (r, w') \<Longrightarrow> \<exists>x v. r = Inr x \<and> secretData x ''value'' = Some v" for key w r w'
    using assms(3) [of key w] by auto
  have att: "\<exists>doc cs. ExecuteCloudInitTemplate (Some vm) (Some net) (Some ncs) = Inr (doc, None) \<and>
      ncsNetworkConnection ncs = Some cs \<and> internal_ip (machine_addresses cs) \<noteq> ''''"
    if "m_GetVappNetworkByName (envVm E) va n b w1 = ((Some net, None), w1')"
      "m_GetNetworkConnectionSection (envVm E) vm w2 = ((Some ncs, None), w2')" for va n b w1 net w1' w2 ncs w2'
    using vm_healthyD(13) [OF assms(1)] that unfolding attached_def by blast
  show ?thesis
    unfolding m_bootstrap_def
    by (auto simp: assms(2) wp_healthy wp_call_get wp_case_sum wp_lift_panic vm_healthyD [OF assms(1)] Let_def
        dest!: secret split: option.splits) (drule (1) att, auto simp: wp_return)
qed

lemma m_customize_answers:
  assumes "vm_healthy (envLib E) (envVapp E) (envVm E)"
  shows "wp (m_customize E vm) (\<lambda>_ t. obj t = obj s) (\<lambda>_ _. False) s"
  unfolding m_customize_def by (simp add: wp_healthy vm_healthyD [OF assms])

lemma m_product_answers:
  assumes "vm_healthy (envLib E) (envVapp E) (envVm E)"
  shows "wp (m_product E vm value cloudInit) (\<lambda>_ t. obj t = obj s) (\<lambda>_ _. False) s"
  unfolding m_product_def
  by (auto simp: wp_healthy vm_healthyD [OF assms] Let_def split: option.splits dest: product_section_there [OF assms])

lemma vm_spec_update_complete:
  assumes "vm_complete vm"
  shows "\<exists>sec b. vm_spec_update spec (vmVmSpecSection vm) = Inr (sec, b)"
proof -
  obtain v mem cpus disks where v: "vmVmSpecSection vm = Some v" "vssMemoryResourceMb v = Some mem" "vssNumCpus v = Some cpus"
      "vssDiskSection v = Some disks" "dsecDiskSettings disks \<noteq> []"
    using assms unfolding vm_complete_def by blast
  show ?thesis by (simp add: v(1) vm_spec_update_sized [OF v(2-5)])
qed

lemma m_update_spec_answers:
  assumes "vm_healthy (envLib E) (envVapp E) (envVm E)" and "vm_complete vm"
  shows "wp (m_update_spec E vm) (\<lambda>vm' t. vmID vm' = vmID vm \<and> obj t = obj s) (\<lambda>_ _. False) s"
proof -
  obtain sec b where "vm_spec_update (tmSpec (obj s)) (vmVmSpecSection vm) = Inr (sec, b)"
    using vm_spec_update_complete [OF assms(2)] by blast
  then show ?thesis
    unfolding m_update_spec_def by (simp add: wp_healthy wp_lift_panic vm_healthyD [OF assms(1)] Let_def)
qed

lemma m_power_on_answers:
  assumes "vm_healthy (envLib E) (envVapp E) (envVm E)" and "ncsNetworkConnection ncs = Some cs"
  shows "wp (m_power_on E vm (Some ncs)) (\<lambda>_ t. msProviderID (tmSpec (obj t)) = ''vmware-cloud-director://'' @ vmID vm \<and>
      mtAddresses (tmStatus (obj t)) = machine_addresses cs) (\<lambda>_ _. False) s"
proof -
  have wait: "a_WaitTaskCompletion (envVapp E) t w = (e, w') \<Longrightarrow> e = None" for t w e w'
    using vm_healthyD(2) [OF assms(1), of t w] by simp
  show ?thesis
    unfolding m_power_on_def
    by (auto simp: wp_healthy vm_healthyD [OF assms(1)] record_vm_def record_addresses_def assms(2) dest!: wait)
qed

lemma m_provision_answers:
  assumes "vm_healthy (envLib E) (envVapp E) (envVm E)" and "not_found_lawful (envLib E)" and "machineDataSecretName om = Some n"
    and "\<And>key w. \<exists>secret v. fst (k_GetSecret (envKube E) key w) = Inr secret \<and> secretData secret ''value'' = Some v"
  shows "wp (m_provision E om tc org va) (\<lambda>_ t. msProviderID (tmSpec (obj t)) \<noteq> '''' \<and>
      internal_ip (mtAddresses (tmStatus (obj t))) \<noteq> '''') (\<lambda>_ _. False) s"
proof -
  have power: "wp (m_power_on E vm sec) (\<lambda>_ t. msProviderID (tmSpec (obj t)) \<noteq> '''' \<and>
      internal_ip (mtAddresses (tmStatus (obj t))) \<noteq> '''') (\<lambda>_ _. False) t"
    if "sec = Some ncs" "ncsNetworkConnection ncs = Some cs" "internal_ip (machine_addresses cs) \<noteq> ''''" for vm sec ncs cs t
    unfolding that(1) by (rule wp_mono [OF m_power_on_answers [OF assms(1) that(2)]]) (use that(3) in auto)
  show ?thesis
    unfolding m_provision_def wp_bind wp_deref
    by (rule wp_mono [OF m_ensure_vm_answers [OF assms(1,2)]],
        auto intro!: wp_mono [OF m_bootstrap_answers [OF assms(1,3,4)]] wp_mono [OF m_customize_answers [OF assms(1)]]
        wp_mono [OF m_product_answers [OF assms(1)]] wp_mono [OF m_update_spec_answers [OF assms(1)]] simp: wp_bind)
      (rule power [OF refl], assumption, simp)
qed

lemma m_load_balancer_answers:
  assumes "\<And>vdc i. answers (v_GetFirewallGroupById (envVcd E) vdc i)" and "\<And>g. answers (v_UpdateFirewallGroup (envVcd E) g)"
    and "ctIPSet (tcStatus tc) \<noteq> None" and "internal_ip (mtAddresses (tmStatus (obj s))) \<noteq> ''''"
  shows "wp (m_load_balancer E om tc vdc) (\<lambda>_ t. tmSpec (obj t) = tmSpec (obj s) \<and>
     mtAddresses (tmStatus (obj t)) = mtAddresses (tmStatus (obj s))) (\<lambda>_ _. False) s"
  using assms(3,4) unfolding m_load_balancer_def
  by (auto simp: wp_healthy assms(1,2) Let_def tm_MarkTrue_def)

lemma m_infrastructure_answers:
  assumes "vm_healthy (envLib E) (envVapp E) (envVm E)"
    and "\<And>c n. answers (v_GetOrgByName (envVcd E) c n)" and "\<And>org n b. answers (v_GetVDCByName (envVcd E) org n b)"
    and "clusterInfrastructureRef oc \<noteq> None" and "\<And>key w. fst (k_GetTenantCluster (envKube E) key w) = Inr tc"
    and "csIdentityRef (tcSpec tc) \<noteq> None" and "ctVApp (tcStatus tc) \<noteq> None"
    and "\<And>w. \<exists>c. fst (envGetVCDClient E tc w) = Inr (c, None)"
  shows "wp (m_infrastructure E oc) (\<lambda>r t. fst r = tc \<and> obj t = obj s) (\<lambda>_ _. False) s"
proof -
  have client: "envGetVCDClient E tc w = (v, w') \<Longrightarrow> \<exists>c. v = Inr (c, None)" for w v w'
    using assms(8) [of w] by auto
  have get: "k_GetTenantCluster (envKube E) key w = (v, w') \<Longrightarrow> v = Inr tc" for key w v w'
    using assms(5) [of key w] by simp
  show ?thesis
    using assms(4,6,7) unfolding m_infrastructure_def
    by (auto simp: wp_healthy wp_call_get wp_case_sum wp_call_panic assms(2,3) vm_healthyD [OF assms(1)] Let_def
        dest!: get client)
qed

lemma m_gates_open: "gates_open (envLib E) om oc \<Longrightarrow> wp (m_gates E om (Some oc)) (\<lambda>r t. r = oc \<and> t = s) (\<lambda>_ _. False) s"
  unfolding m_gates_def gates_open_def by (auto simp: wp)

definition machine_services :: "('w, 'h) env \<Rightarrow> CloudDirectorTenantCluster \<Rightarrow> Machine \<Rightarrow> Cluster \<Rightarrow> bool" where
  \<comment> \<open>the API server and Cloud Director answer, with this tenant cluster and these owners\<close>
  "machine_services E tc om oc \<longleftrightarrow> vm_healthy (envLib E) (envVapp E) (envVm E) \<and>
     (\<forall>c n. answers (v_GetOrgByName (envVcd E) c n)) \<and> (\<forall>org n b. answers (v_GetVDCByName (envVcd E) org n b)) \<and>
     (\<forall>vdc i. answers (v_GetFirewallGroupById (envVcd E) vdc i)) \<and> (\<forall>g. answers (v_UpdateFirewallGroup (envVcd E) g)) \<and>
     (\<forall>key w. fst (k_GetTenantCluster (envKube E) key w) = Inr tc) \<and>
     (\<forall>key w. \<exists>secret v. fst (k_GetSecret (envKube E) key w) = Inr secret \<and> secretData secret ''value'' = Some v) \<and>
     (\<forall>m w. fst (k_GetOwnerMachine (envKube E) m w) = (Some om, None)) \<and>
     (\<forall>m w. fst (k_GetClusterFromMetadata (envKube E) m w) = (Some oc, None)) \<and>
     (\<forall>x. answers (k_NewHelperMachine (envKube E) x)) \<and>
     (\<forall>h x cs w. fst (k_PatchMachine (envKube E) h x cs w) = None) \<and>
     (\<forall>w. \<exists>c. fst (envGetVCDClient E tc w) = Inr (c, None))"

definition cluster_serves :: "CloudDirectorTenantCluster \<Rightarrow> bool" where
  \<comment> \<open>what the cluster controller has recorded of a ready cluster\<close>
  "cluster_serves tc \<longleftrightarrow> csIdentityRef (tcSpec tc) \<noteq> None \<and> ctVApp (tcStatus tc) \<noteq> None \<and> ctIPSet (tcStatus tc) \<noteq> None"

definition vm_known :: "CloudDirectorTenantMachine \<Rightarrow> bool" where
  \<comment> \<open>the virtual machine and its address are recorded\<close>
  "vm_known m \<longleftrightarrow> msProviderID (tmSpec m) \<noteq> '''' \<and> internal_ip (mtAddresses (tmStatus m)) \<noteq> ''''"

lemma vm_known_SetConditions [simp]: "vm_known (tm_SetConditions cs m) = vm_known m"
  by (simp add: vm_known_def)

lemma m_reconcileNormal_ready:
  assumes "machine_services E tc om oc" and "not_found_lawful (envLib E)" and "gates_open (envLib E) om oc"
    and "clusterInfrastructureRef oc \<noteq> None" and "cluster_serves tc"
    and "msProviderID (tmSpec (obj s)) \<noteq> '''' \<longrightarrow> internal_ip (mtAddresses (tmStatus (obj s))) \<noteq> ''''"
  shows "wp (m_reconcileNormal E om (Some oc)) (\<lambda>r t. r = (done_result, None) \<and> mtReady (tmStatus (obj t)) \<and>
     vm_known (obj t)) (\<lambda>_ _. False) s"
proof -
  note S = assms(1) [unfolded machine_services_def] and C = assms(5) [unfolded cluster_serves_def]
  from S have H: "vm_healthy (envLib E) (envVapp E) (envVm E)" by blast
  obtain n where n: "machineDataSecretName om = Some n" using assms(3) unfolding gates_open_def by blast
  have lb: "wp (go_bind (m_load_balancer E om tc vdc) (\<lambda>_. m_finish E)) (\<lambda>r t. r = (done_result, None) \<and>
      mtReady (tmStatus (obj t)) \<and> vm_known (obj t)) (\<lambda>_ _. False) t"
    if "vm_known (obj t)" for vdc t
    unfolding wp_bind
    by (rule wp_mono [OF m_load_balancer_answers]) (use S C that in \<open>auto simp: vm_known_def m_finish_def wp tm_MarkTrue_def\<close>)
  have provision: "wp (m_provision E om tc org va) (\<lambda>_ t. vm_known (obj t)) (\<lambda>_ _. False) t" for org va t
    unfolding vm_known_def by (rule m_provision_answers [OF H assms(2) n]) (use S in blast)
  have infra: "wp (m_infrastructure E oc) (\<lambda>r t. fst r = tc \<and> obj t = obj s) (\<lambda>_ _. False) s"
    by (rule m_infrastructure_answers [OF H]) (use S C assms(4) in simp_all)
  have rest: "wp (go_bind get_obj (\<lambda>tm.
     go_bind (if msProviderID (tmSpec tm) = '''' then m_provision E om tc org va else go_return ()) (\<lambda>_.
     go_bind (m_load_balancer E om tc vdc) (\<lambda>_. m_finish E)))) (\<lambda>r t. r = (done_result, None) \<and>
      mtReady (tmStatus (obj t)) \<and> vm_known (obj t)) (\<lambda>_ _. False) t" if "obj t = obj s" for org va vdc t
    using assms(6) lb that vm_known_def [of "obj s"]
    by (auto simp: wp_bind [of get_obj] wp_get_obj wp_bind [of "if _ then _ else _"] wp_if wp_return intro!: wp_mono [OF provision])
  show ?thesis
    unfolding m_reconcileNormal_def wp_bind [of "m_gates _ _ _"] wp_bind [of "m_infrastructure _ _"]
    by (rule wp_mono [OF m_gates_open [OF assms(3)]], simp, rule wp_mono [OF infra]) (auto intro!: rest)
qed

text \<open>A pass in which the API server answers, with these owners, is what its body does.\<close>

definition machine_attended :: "('w, 'h) env \<Rightarrow> Machine \<Rightarrow> Cluster \<Rightarrow> bool" where
  "machine_attended E om oc \<longleftrightarrow> (\<forall>m w. fst (k_GetOwnerMachine (envKube E) m w) = (Some om, None)) \<and>
     (\<forall>m w. fst (k_GetClusterFromMetadata (envKube E) m w) = (Some oc, None)) \<and>
     (\<forall>x. answers (k_NewHelperMachine (envKube E) x)) \<and>
     (\<forall>h x cs w. fst (k_PatchMachine (envKube E) h x cs w) = None)"

lemma m_Reconcile_attended:
  assumes "machine_attended E om oc" and "k_GetTenantMachine (envKube E) req (world s) = (Inr tm, w)"
    and "\<And>t. obj t = tm \<Longrightarrow> wp (m_Reconcile_body E om (Some oc)) (\<lambda>r u. R r (obj u))
      (\<lambda>e u. \<exists>r. e = Return r \<and> R r (obj u)) t"
    and "\<And>r x cs. R r x \<Longrightarrow> R r (tm_SetConditions cs x)"
    and "finish (m_Reconcile E req) s = (e, s')"
  shows "\<exists>r. e = Return r \<and> R r (obj s') \<and> last (trace s') = (KPatch, None)"
proof -
  let ?Q = "\<lambda>e t. \<exists>r. e = Return r \<and> R r (obj t) \<and> last (trace t) = (KPatch, None)"
  note S = assms(1) [unfolded machine_attended_def]
  have owner: "k_GetOwnerMachine (envKube E) m w = ((x, err), w') \<Longrightarrow> x = Some om \<and> err = None"
      "k_GetClusterFromMetadata (envKube E) m w = ((y, err), w') \<Longrightarrow> y = Some oc \<and> err = None" for m w x y err w'
    using S by (metis fst_conv prod.inject)+
  have helper: "k_NewHelperMachine (envKube E) x w = ((h, err), w') \<Longrightarrow> err = None" for x w h err w'
    using S unfolding answers_def by (metis fst_conv prod.inject)
  have patched: "err = None \<and> trace t' = trace t @ [(KPatch, None)] \<and> (R r (obj t) \<longrightarrow> R r (obj t'))"
    if patch: "patchTenantMachine E h om t = (err, t')" for h t err t' r
  proof -
    have "err = None"
      using patch S by (auto simp: patchTenantMachine_def Let_def split: prod.splits) (metis fst_conv)
    moreover obtain cs where "obj t' = tm_SetConditions cs (obj t)" using tmp.patch_obj [OF patch] by blast
    ultimately show ?thesis using tmp.patch_calls [OF patch] assms(4) by simp
  qed
  have "wp (m_Reconcile E req) (\<lambda>r. ?Q (Return r)) ?Q s"
    unfolding m_Reconcile_def using assms(2)
    by (auto simp: wp_healthy wp_call wp_call_get wp_case_sum wp_deferred_patch dest!: owner helper patched
        intro!: wp_mono [OF assms(3)])
  then show ?thesis by (rule wp_finish) (rule assms(5))
qed

lemma m_Reconcile_body_normal:
  assumes "finalizers_lawful (envLib E)" and "TimeIsZero (envLib E) (metaDeletionTimestamp (tmMeta (obj t)))"
    and "CloudDirectorTenantMachineFinalizer \<in> set (metaFinalizers (tmMeta (obj t)))"
    and "wp (m_reconcileNormal E om oc) Q X t"
  shows "wp (m_Reconcile_body E om oc) Q X t"
proof -
  have add: "AddFinalizer (envLib E) (metaFinalizers (tmMeta (obj t))) CloudDirectorTenantMachineFinalizer =
      (metaFinalizers (tmMeta (obj t)), False)"
    using assms(1,3) by (simp add: finalizers_lawful_def)
  have "t\<lparr>obj := tm_set_finalizers (metaFinalizers (tmMeta (obj t))) (obj t)\<rparr> = t" by (simp add: tm_set_finalizers_def)
  then show ?thesis
    unfolding m_Reconcile_body_def using assms(2,4)
    by (simp add: wp_bind [of get_obj] wp_bind [of "modify_obj _"] wp_get_obj wp_modify_obj wp_if wp_case_prod add)
qed

lemma machine_services_attended: "machine_services E tc om oc \<Longrightarrow> machine_attended E om oc"
  by (simp add: machine_services_def machine_attended_def)

lemma m_Reconcile_ready:
  assumes "machine_services E tc om oc" and "not_found_lawful (envLib E)" and "finalizers_lawful (envLib E)"
    and "k_GetTenantMachine (envKube E) req (world s) = (Inr tm, w)"
    and "gates_open (envLib E) om oc" and "clusterInfrastructureRef oc \<noteq> None" and "cluster_serves tc"
    and "TimeIsZero (envLib E) (metaDeletionTimestamp (tmMeta tm))"
    and "CloudDirectorTenantMachineFinalizer \<in> set (metaFinalizers (tmMeta tm))"
    and "msProviderID (tmSpec tm) \<noteq> '''' \<longrightarrow> internal_ip (mtAddresses (tmStatus tm)) \<noteq> ''''"
    and "finish (m_Reconcile E req) s = (e, s')"
  shows "e = Return (done_result, None) \<and> mtReady (tmStatus (obj s')) \<and> msProviderID (tmSpec (obj s')) \<noteq> '''' \<and>
    last (trace s') = (KPatch, None)"
proof -
  have "\<exists>r. e = Return r \<and> (r = (done_result, None) \<and> mtReady (tmStatus (obj s')) \<and> vm_known (obj s')) \<and>
      last (trace s') = (KPatch, None)"
  proof (rule m_Reconcile_attended [OF machine_services_attended [OF assms(1)] assms(4) _ _ assms(11)])
    show "wp (m_Reconcile_body E om (Some oc)) (\<lambda>r u. r = (done_result, None) \<and> mtReady (tmStatus (obj u)) \<and> vm_known (obj u))
        (\<lambda>e u. \<exists>r. e = Return r \<and> r = (done_result, None) \<and> mtReady (tmStatus (obj u)) \<and> vm_known (obj u)) t" if "obj t = tm" for t
      by (rule m_Reconcile_body_normal [OF assms(3)], unfold that)
        (use assms(8-10) that in \<open>auto intro!: wp_mono [OF m_reconcileNormal_ready [OF assms(1,2,5,6,7)]]\<close>)
  qed simp
  then show ?thesis by (auto simp: vm_known_def)
qed

text \<open>
  With answering services, the pass over a machine whose finalizer is stored and whose
  gates are open goes all the way: it returns without error and without requeue, never
  panics, and writes the machine as ready with its provider id, whether the virtual machine
  still has to be made, or only to be configured and started, or was provisioned by an
  earlier pass.
\<close>

theorem machine_reaches_ready:
  assumes "machine_services E tc om oc" and "not_found_lawful (envLib E)" and "finalizers_lawful (envLib E)"
    and "k_GetTenantMachine (envKube E) req (world s) = (Inr tm, w)"
    and "gates_open (envLib E) om oc" and "clusterInfrastructureRef oc \<noteq> None" and "cluster_serves tc"
    and "TimeIsZero (envLib E) (metaDeletionTimestamp (tmMeta tm))"
    and "CloudDirectorTenantMachineFinalizer \<in> set (metaFinalizers (tmMeta tm))"
    and "msProviderID (tmSpec tm) \<noteq> '''' \<longrightarrow> internal_ip (mtAddresses (tmStatus tm)) \<noteq> ''''"
    and "finish (m_Reconcile E req) s = (e, s')"
  shows "e = Return (done_result, None) \<and> mtReady (tmStatus (obj s')) \<and> msProviderID (tmSpec (obj s')) \<noteq> ''''"
  using m_Reconcile_ready [OF assms] by simp

lemma sample_vms_made: "vms_made sample_lib (sample_vapps found) (sample_vms vms)"
  by (simp add: vms_made_def finds_vm_def vm_complete_def answers_def sample_lib_def sample_vms_def sample_vapps_def
      answer_def accept_def sample_vm_sel)

lemma sample_vms_attached: "attached (sample_vms found)"
proof -
  have "internal_ip (machine_addresses (the (ncsNetworkConnection sample_connection))) = ''10.0.0.5''"
      "ncsNetworkConnection sample_connection = Some (the (ncsNetworkConnection sample_connection))"
    by (simp_all add: sample_connection_def machine_addresses_def internal_ip_def)
  then show ?thesis
    unfolding attached_def using sample_cloud_init by (simp add: sample_vms_def accept_def) (metis list.distinct(1))
qed

lemma sample_vm_healthy: "vm_healthy sample_lib (sample_vapps found) (sample_vms vms)"
  unfolding vm_healthy_def
  by (intro conjI sample_vms_made sample_vms_attached) (simp_all add: answers_def succeeds_def sample_vms_def sample_vapps_def accept_def)

text \<open>The services of the instance, whether the virtual machine is there from the start or has to be made.\<close>

lemma sample_machine_services:
  "machine_services ((sample_env (sample_booting\<lparr>smMachine := m\<rparr>))\<lparr>envVm := sample_vms vms\<rparr>)
     sample_ready_cluster sample_owner_machine sample_owner_cluster"
proof -
  have "csIdentityRef (tcSpec sample_ready_cluster) \<noteq> None"
    by (simp add: sample_ready_cluster_def sample_objects)
  then show ?thesis
    using sample_vm_healthy
    by (simp add: machine_services_def sample_env_def sample_kube_def sample_vcd_def sample_booting_def sample_def)
      (simp add: answers_def accept_def answer_def)
qed

lemma sample_booting_services: "machine_services (sample_env sample_booting) sample_ready_cluster sample_owner_machine sample_owner_cluster"
proof -
  have "(sample_env (sample_booting\<lparr>smMachine := smMachine sample_booting\<rparr>))\<lparr>envVm := sample_vms True\<rparr> = sample_env sample_booting"
    by (simp add: sample_env_def sample_booting_def)
  with sample_machine_services show ?thesis by metis
qed

theorem machine_reaches_ready_witness:
  "let run = finish (m_Reconcile (sample_env sample_booting) \<lparr>nnName = ''prod-cp-0'', nnNamespace = ''default''\<rparr>)
       (sample_state sample_machine)
   in fst run = Return (done_result, None) \<and> mtReady (tmStatus (obj (snd run))) \<and> msProviderID (tmSpec (obj (snd run))) \<noteq> ''''"
proof -
  have "gates_open (envLib (sample_env sample_booting)) sample_owner_machine sample_owner_cluster"
    "clusterInfrastructureRef sample_owner_cluster \<noteq> None" "cluster_serves sample_ready_cluster"
    "TimeIsZero (envLib (sample_env sample_booting)) (metaDeletionTimestamp (tmMeta (smMachine sample_booting)))"
    "CloudDirectorTenantMachineFinalizer \<in> set (metaFinalizers (tmMeta (smMachine sample_booting)))"
    "msProviderID (tmSpec (smMachine sample_booting)) \<noteq> '''' \<longrightarrow>
       internal_ip (mtAddresses (tmStatus (smMachine sample_booting))) \<noteq> ''''"
    by (simp_all add: gates_open_def cluster_serves_def sample_booting_eval sample_lib_def)
  then show ?thesis
    unfolding Let_def
    by (intro machine_reaches_ready [OF sample_booting_services _ _ sample_get_machine _ _ _ _ _ _ prod.collapse [symmetric]])
      (simp_all add: sample_lib_lawful)
qed

end
