(* ===== verification/Machine_Lifecycle.thy ===== *)
theory Machine_Lifecycle
  imports Machine_Provisioning
begin

section \<open>The life of a machine over many passes\<close>

text \<open>
  The counterpart of \<open>Cluster_Lifecycle\<close>: the machine objects that can be in the API server
  after any history of passes, complete, lost and partial patches, and edits. The patch of
  a machine writes its spec (with the provider id) and its status (with ready) in different
  requests, so that a history can lead to a ready machine without provider id; what holds
  in every history is stated for the two separately. The abstract specification is the
  machine \<open>machine_lifecycle\<close> of five states.
\<close>

subsection \<open>Abstract specification\<close>

datatype machine_phase =
    Pending \<comment> \<open>not yet taken over by the controller\<close>
  | Claimed \<comment> \<open>the finalizer is stored, a virtual machine may exist\<close>
  | Provisioned \<comment> \<open>the virtual machine runs, its id is stored\<close>
  | Joined \<comment> \<open>ready\<close>
  | Dropped \<comment> \<open>deleted, nothing is left of it\<close>

inductive machine_lifecycle :: "machine_phase \<Rightarrow> machine_phase \<Rightarrow> bool" where
  stay: "machine_lifecycle p p"
| claim: "machine_lifecycle Pending Claimed"
| provision: "machine_lifecycle Claimed Provisioned"
| join: "p = Claimed \<or> p = Provisioned \<Longrightarrow> machine_lifecycle p Joined"
| drop: "p \<in> {Claimed, Provisioned, Joined} \<Longrightarrow> machine_lifecycle p Dropped"

inductive_simps machine_lifecycle_simps [simp]:
  "machine_lifecycle Pending q" "machine_lifecycle Claimed q" "machine_lifecycle Provisioned q"
  "machine_lifecycle Joined q" "machine_lifecycle Dropped q"

definition tm_finalized :: "CloudDirectorTenantMachine \<Rightarrow> bool" where
  "tm_finalized m \<longleftrightarrow> CloudDirectorTenantMachineFinalizer \<in> set (metaFinalizers (tmMeta m))"

definition tm_live :: "lib \<Rightarrow> CloudDirectorTenantMachine \<Rightarrow> bool" where
  "tm_live L m \<longleftrightarrow> TimeIsZero L (metaDeletionTimestamp (tmMeta m))"

definition has_vm :: "CloudDirectorTenantMachine \<Rightarrow> bool" where
  "has_vm m \<longleftrightarrow> msProviderID (tmSpec m) \<noteq> ''''"

definition machine_phase_of :: "lib \<Rightarrow> CloudDirectorTenantMachine \<Rightarrow> machine_phase" where
  "machine_phase_of L m =
     (if tm_finalized m then if mtReady (tmStatus m) then Joined else if has_vm m then Provisioned else Claimed
      else if tm_live L m then Pending else Dropped)"

subsection \<open>Histories\<close>

definition machine_status :: "CloudDirectorTenantMachineStatus \<Rightarrow> CloudDirectorTenantMachineStatus" where
  "machine_status st = st\<lparr>mtConditions := []\<rparr>"

definition machine_writes :: "CloudDirectorTenantMachine \<Rightarrow> CloudDirectorTenantMachine \<Rightarrow> goerror option \<Rightarrow> CloudDirectorTenantMachine \<Rightarrow> bool" where
  "machine_writes = patch_outcome (\<lambda>m. (tmMeta m, tmSpec m)) (\<lambda>m. machine_status (tmStatus m)) tm_GetConditions"

definition machine_pass :: "('w, 'h) env \<Rightarrow> NamespacedName \<Rightarrow> CloudDirectorTenantMachine \<Rightarrow> CloudDirectorTenantMachine \<Rightarrow> bool" where
  \<comment> \<open>a pass that read \<open>m\<close> and whose patch left \<open>m'\<close> in the API server\<close>
  "machine_pass E req m m' \<longleftrightarrow> (\<exists>s w err. trace s = [] \<and> k_GetTenantMachine (envKube E) req (world s) = (Inr m, w) \<and>
     last (trace (snd (finish (m_Reconcile E req) s))) = (KPatch, err) \<and>
     machine_writes m (obj (snd (finish (m_Reconcile E req) s))) err m')"

definition machine_edit :: "lib \<Rightarrow> CloudDirectorTenantMachine \<Rightarrow> CloudDirectorTenantMachine \<Rightarrow> bool" where
  \<comment> \<open>any change of labels, names and spec but the provider id; a deletion is not taken back;
    status and finalizers are the controller's\<close>
  "machine_edit L m m' \<longleftrightarrow> tmStatus m' = tmStatus m \<and> msProviderID (tmSpec m') = msProviderID (tmSpec m) \<and>
     metaFinalizers (tmMeta m') = metaFinalizers (tmMeta m) \<and> (tm_live L m' \<longrightarrow> tm_live L m)"

definition machine_event :: "('w, 'h) env \<Rightarrow> NamespacedName \<Rightarrow> CloudDirectorTenantMachine \<Rightarrow> CloudDirectorTenantMachine \<Rightarrow> bool" where
  "machine_event E req m m' \<longleftrightarrow> machine_pass E req m m' \<or> machine_edit (envLib E) m m'"

definition machine_new :: "lib \<Rightarrow> CloudDirectorTenantMachine \<Rightarrow> bool" where
  \<comment> \<open>as the Cluster API core makes it\<close>
  "machine_new L m \<longleftrightarrow> tm_live L m \<and> \<not> has_vm m \<and> \<not> mtReady (tmStatus m) \<and> mtAddresses (tmStatus m) = []"

inductive machine_stored :: "('w, 'h) env \<Rightarrow> NamespacedName \<Rightarrow> CloudDirectorTenantMachine \<Rightarrow> bool"
  for E :: "('w, 'h) env" and req where
  created: "machine_new (envLib E) m \<Longrightarrow> machine_stored E req m"
| happened: "machine_stored E req m \<Longrightarrow> machine_event E req m m' \<Longrightarrow> machine_stored E req m'"

subsection \<open>One pass\<close>

definition provider_id :: "string \<Rightarrow> bool" where
  "provider_id p \<longleftrightarrow> p = '''' \<or> (\<exists>i. p = ''vmware-cloud-director://'' @ i)"

definition machine_typed :: "CloudDirectorTenantMachine \<Rightarrow> bool" where
  \<comment> \<open>the fields the controller owns are well formed\<close>
  "machine_typed m \<longleftrightarrow> provider_id (msProviderID (tmSpec m)) \<and>
     (\<forall>a \<in> set (mtAddresses (tmStatus m)). addressType a = ''InternalIP'')"

definition machine_step :: "lib \<Rightarrow> CloudDirectorTenantMachine \<Rightarrow> CloudDirectorTenantMachine \<Rightarrow> bool" where
  "machine_step L m c \<longleftrightarrow> tm_live L c = tm_live L m \<and> metaName (tmMeta c) = metaName (tmMeta m) \<and> (has_vm m \<longrightarrow> tmSpec c = tmSpec m) \<and>
     tmSpec c \<in> {tmSpec m} \<union> {(tmSpec m)\<lparr>msProviderID := ''vmware-cloud-director://'' @ i\<rparr> | i. True} \<and>
     (if tm_live L m then (tm_finalized m \<longrightarrow> tm_finalized c \<and> (mtReady (tmStatus m) \<longrightarrow> mtReady (tmStatus c))) \<and>
        (\<not> tm_finalized m \<longrightarrow> tmSpec c = tmSpec m \<and> machine_status (tmStatus c) = machine_status (tmStatus m))
      else tmSpec c = tmSpec m \<and> machine_status (tmStatus c) = machine_status (tmStatus m) \<and> (tm_finalized c \<longrightarrow> tm_finalized m))"

lemma machine_step_refl: "machine_step L m m"
  by (simp add: machine_step_def)

lemma machine_step_SetConditions [simp]: "machine_step L m (tm_SetConditions cs c) = machine_step L m c"
  by (simp add: machine_step_def tm_live_def tm_finalized_def has_vm_def machine_status_def tm_SetConditions_def)

definition grows :: "CloudDirectorTenantMachine \<Rightarrow> CloudDirectorTenantMachine \<Rightarrow> bool" where
  \<comment> \<open>what the normal path may do with the object it started from\<close>
  "grows m c \<longleftrightarrow> tmMeta c = tmMeta m \<and> (mtReady (tmStatus m) \<longrightarrow> mtReady (tmStatus c)) \<and> (has_vm m \<longrightarrow> tmSpec c = tmSpec m) \<and>
     tmSpec c \<in> {tmSpec m} \<union> {(tmSpec m)\<lparr>msProviderID := ''vmware-cloud-director://'' @ i\<rparr> | i. True} \<and>
     (machine_typed m \<longrightarrow> machine_typed c)"

lemma machine_typed_SetConditions [simp]: "machine_typed (tm_SetConditions cs m) = machine_typed m"
  by (simp add: machine_typed_def tm_SetConditions_def)

lemma grows_SetConditions [simp]: "grows m (tm_SetConditions cs c) = grows m c"
  by (simp add: grows_def tm_SetConditions_def machine_typed_def)

lemma grows_refl: "grows m m"
  by (simp add: grows_def)

lemma quiet_grows: "quiet tm_SetConditions C n \<Longrightarrow> keeps (grows m) n"
  by (erule quiet_keeps) simp

lemmas m_stages_grow = m_stages_quiet [THEN quiet_grows]

lemma record_vm_grows: "\<not> has_vm m \<Longrightarrow> grows m c \<Longrightarrow> grows m (record_vm vm c)"
  by (auto simp: grows_def record_vm_def machine_typed_def provider_id_def)

lemma record_addresses_grows: "grows m c \<Longrightarrow> grows m (record_addresses sec c)"
  by (auto simp: grows_def record_addresses_def machine_addresses_def machine_typed_def split: option.splits)

lemma m_power_on_grows: "\<not> has_vm m \<Longrightarrow> keeps (grows m) (m_power_on E vm ncs)"
  unfolding m_power_on_def m_fail_def
  by (intro keeps_rules keeps_modify) (auto simp: tm_MarkFalse_def record_vm_grows record_addresses_grows)

lemma m_provision_grows: "\<not> has_vm m \<Longrightarrow> keeps (grows m) (m_provision E om tc org va)"
  unfolding m_provision_def by (intro keeps_rules m_stages_grow m_power_on_grows)

lemma m_finish_grows: "keeps (grows m) (m_finish E)"
  unfolding m_finish_def
  by (intro keeps_rules keeps_modify) (auto simp: tm_MarkTrue_def grows_def machine_typed_def)

lemma m_reconcileNormal_grows: "keeps (grows m) (m_reconcileNormal E om oc)"
proof -
  have "grows m x \<Longrightarrow> msProviderID (tmSpec x) = '''' \<Longrightarrow> \<not> has_vm m" for x
    by (auto simp: grows_def has_vm_def)
  then show ?thesis
    unfolding m_reconcileNormal_def
    by (intro keeps_rules m_stages_grow m_finish_grows m_provision_grows) simp_all
qed

definition shrinks :: "lib \<Rightarrow> CloudDirectorTenantMachine \<Rightarrow> CloudDirectorTenantMachine \<Rightarrow> bool" where
  \<comment> \<open>what the deletion may do with the object\<close>
  "shrinks L m c \<longleftrightarrow> tm_live L c = tm_live L m \<and> metaName (tmMeta c) = metaName (tmMeta m) \<and> tmSpec c = tmSpec m \<and>
     machine_status (tmStatus c) = machine_status (tmStatus m) \<and> (tm_finalized c \<longrightarrow> tm_finalized m)"

lemma shrinks_SetConditions [simp]: "shrinks L m (tm_SetConditions cs c) = shrinks L m c"
  by (simp add: shrinks_def tm_live_def tm_finalized_def machine_status_def tm_SetConditions_def)

lemma m_reconcileDelete_shrinks:
  assumes "finalizers_lawful (envLib E)"
  shows "keeps (shrinks (envLib E) m) (m_reconcileDelete E om oc)"
proof -
  have "CloudDirectorTenantMachineFinalizer \<notin> set (fst (RemoveFinalizer (envLib E) fs CloudDirectorTenantMachineFinalizer))" for fs
    using assms by (simp add: finalizers_lawful_def)
  then have "keeps (shrinks (envLib E) m) (m_remove_finalizer E)"
    unfolding m_remove_finalizer_def
    by (intro keeps_rules keeps_modify) (simp add: shrinks_def tm_set_finalizers_def tm_live_def tm_finalized_def)
  then show ?thesis
    unfolding m_reconcileDelete_def m_delete_vm_def
    by (intro keeps_rules quiet_keeps [OF m_member_quiet(2)]) simp_all
qed

lemma shrinks_step: "shrinks L m c \<Longrightarrow> \<not> tm_live L m \<Longrightarrow> machine_step L m c"
  by (simp add: shrinks_def machine_step_def)

lemma grows_step: "grows m c \<Longrightarrow> tm_live L m \<Longrightarrow> tm_finalized m \<Longrightarrow> machine_step L m c"
  by (auto simp: grows_def machine_step_def tm_live_def tm_finalized_def)

lemma machine_typed_same:
  "tmSpec c = tmSpec m \<Longrightarrow> machine_status (tmStatus c) = machine_status (tmStatus m) \<Longrightarrow> machine_typed c = machine_typed m"
  by (cases "tmStatus c"; cases "tmStatus m") (simp add: machine_typed_def machine_status_def)

lemma shrinks_typed: "shrinks L m c \<Longrightarrow> machine_typed c = machine_typed m"
  unfolding shrinks_def by (rule machine_typed_same) simp_all

lemma grows_typed: "grows m c \<Longrightarrow> machine_typed m \<Longrightarrow> machine_typed c"
  by (simp add: grows_def)

lemma shrinks_refl: "shrinks L m m"
  by (simp add: shrinks_def)

lemma m_Reconcile_body_step:
  fixes t :: "('w, CloudDirectorTenantMachine) cstate"
  assumes "finalizers_lawful (envLib E)"
  defines "Q \<equiv> \<lambda>u :: ('w, CloudDirectorTenantMachine) cstate.
    machine_step (envLib E) (obj t) (obj u) \<and> (machine_typed (obj t) \<longrightarrow> machine_typed (obj u))"
  shows "wp (m_Reconcile_body E om oc) (\<lambda>_. Q) (\<lambda>_. Q) t"
proof -
  let ?m = "obj t" and ?f = CloudDirectorTenantMachineFinalizer
  have del: "wp (m_reconcileDelete E om oc) (\<lambda>_. Q) (\<lambda>_. Q) t" if "\<not> tm_live (envLib E) ?m"
    unfolding Q_def
    by (rule wp_mono [OF keepsD [OF m_reconcileDelete_shrinks [OF assms(1)] shrinks_refl]])
      (simp_all add: shrinks_step [OF _ that] shrinks_typed)
  have normal: "wp (m_reconcileNormal E om oc) (\<lambda>_. Q) (\<lambda>_. Q) t" if "tm_live (envLib E) ?m" "tm_finalized ?m"
    unfolding Q_def
    by (rule wp_mono [OF keepsD [OF m_reconcileNormal_grows grows_refl]]) (simp_all add: grows_step [OF _ that] grows_typed)
  show ?thesis
  proof (cases "tm_finalized ?m")
    case True
    then have add: "AddFinalizer (envLib E) (metaFinalizers (tmMeta ?m)) ?f = (metaFinalizers (tmMeta ?m), False)"
      using assms(1) by (simp add: finalizers_lawful_def tm_finalized_def)
    have "t\<lparr>obj := tm_set_finalizers (metaFinalizers (tmMeta ?m)) ?m\<rparr> = t" by (simp add: tm_set_finalizers_def)
    then show ?thesis
      unfolding m_Reconcile_body_def using del normal [OF _ True]
      by (simp add: wp_bind [of get_obj] wp_bind [of "modify_obj _"] wp_get_obj wp_modify_obj wp_if wp_case_prod add tm_live_def)
  next
    case False
    then obtain fs where add: "AddFinalizer (envLib E) (metaFinalizers (tmMeta ?m)) ?f = (fs, True)"
      using assms(1) unfolding finalizers_lawful_def tm_finalized_def by (metis prod.collapse)
    have "machine_step (envLib E) ?m (tm_set_finalizers fs ?m) \<and> (machine_typed ?m \<longrightarrow> machine_typed (tm_set_finalizers fs ?m))"
      if "tm_live (envLib E) ?m"
      using that False by (simp add: machine_step_def tm_set_finalizers_def tm_live_def machine_typed_def)
    then show ?thesis
      unfolding m_Reconcile_body_def using del
      by (simp add: wp_bind [of get_obj] wp_bind [of "modify_obj _"] wp_get_obj wp_modify_obj wp_if wp_case_prod wp_exit add tm_live_def Q_def)
  qed
qed

lemma m_Reconcile_step:
  assumes "finalizers_lawful (envLib E)" and "k_GetTenantMachine (envKube E) req (world s) = (Inr m, w)"
  shows "machine_step (envLib E) m (obj (snd (finish (m_Reconcile E req) s))) \<and>
    (machine_typed m \<longrightarrow> machine_typed (obj (snd (finish (m_Reconcile E req) s))))"
proof (rule m_Reconcile_lift [OF assms(2), where Q = "\<lambda>t. machine_step (envLib E) m (obj t) \<and> (machine_typed m \<longrightarrow> machine_typed (obj t))"])
qed (use m_Reconcile_body_step [OF assms(1)] in \<open>auto simp: machine_step_refl\<close>)

subsection \<open>Passes in a history\<close>

lemma machine_writes_parts:
  assumes "machine_writes m c err m'"
  shows "tmMeta m' = tmMeta m \<and> tmSpec m' = tmSpec m \<or> tmMeta m' = tmMeta c \<and> tmSpec m' = tmSpec c"
    and "machine_status (tmStatus m') = machine_status (tmStatus m) \<or> machine_status (tmStatus m') = machine_status (tmStatus c)"
  using assms by (auto simp: machine_writes_def patch_outcome_def)

lemma machine_status_eq:
  "machine_status st = machine_status st' \<longleftrightarrow> mtReady st = mtReady st' \<and> mtAddresses st = mtAddresses st'"
  by (cases st; cases st') (simp add: machine_status_def)

lemma machine_writes_step:
  assumes "machine_writes m c err m'" and "machine_step L m c"
  shows "machine_step L m m'"
  using machine_writes_parts [OF assms(1)] assms(2)
  unfolding machine_step_def tm_live_def tm_finalized_def machine_status_eq
  by (elim disjE) (auto split: if_splits)

lemma machine_writes_typed:
  assumes "machine_writes m c err m'" and "machine_typed m" and "machine_typed c"
  shows "machine_typed m'"
  using machine_writes_parts [OF assms(1)] assms(2,3)
  unfolding machine_typed_def machine_status_eq by (elim disjE) auto

lemma machine_pass_step:
  assumes "finalizers_lawful (envLib E)" and "machine_pass E req m m'"
  shows "machine_step (envLib E) m m'" and "machine_typed m \<Longrightarrow> machine_typed m'"
proof -
  obtain s w err where s: "k_GetTenantMachine (envKube E) req (world s) = (Inr m, w)"
      "machine_writes m (obj (snd (finish (m_Reconcile E req) s))) err m'"
    using assms(2) unfolding machine_pass_def by blast
  note step = m_Reconcile_step [OF assms(1) s(1)]
  show "machine_step (envLib E) m m'" by (rule machine_writes_step [OF s(2)]) (use step in blast)
  show "machine_typed m \<Longrightarrow> machine_typed m'" by (rule machine_writes_typed [OF s(2)]) (use step in blast)+
qed

definition guarded :: "lib \<Rightarrow> CloudDirectorTenantMachine \<Rightarrow> bool" where
  \<comment> \<open>a machine with a virtual machine cannot vanish from the API server\<close>
  "guarded L m \<longleftrightarrow> ((has_vm m \<or> mtReady (tmStatus m)) \<and> tm_live L m \<longrightarrow> tm_finalized m)"

lemma machine_step_guarded: "machine_step L m m' \<Longrightarrow> guarded L m \<Longrightarrow> guarded L m'"
  by (auto simp: machine_step_def guarded_def has_vm_def machine_status_eq split: if_splits)

lemma machine_step_monotone:
  "machine_step L m m' \<Longrightarrow> (has_vm m \<longrightarrow> msProviderID (tmSpec m') = msProviderID (tmSpec m)) \<and>
    (guarded L m \<and> mtReady (tmStatus m) \<longrightarrow> mtReady (tmStatus m'))"
  by (auto simp: machine_step_def guarded_def machine_status_eq split: if_splits)

lemma machine_edit_keeps:
  assumes "machine_edit L m m'"
  shows "guarded L m \<Longrightarrow> guarded L m'" and "machine_typed m' = machine_typed m"
    and "msProviderID (tmSpec m') = msProviderID (tmSpec m) \<and> tmStatus m' = tmStatus m"
  using assms by (auto simp: machine_edit_def guarded_def machine_typed_def has_vm_def tm_finalized_def)

lemma machine_stored_inv:
  assumes "finalizers_lawful (envLib E)" and "machine_stored E req m"
  shows "guarded (envLib E) m \<and> machine_typed m"
  using assms(2)
proof (induction rule: machine_stored.induct)
  case (created m)
  then show ?case by (simp add: machine_new_def guarded_def machine_typed_def provider_id_def has_vm_def)
next
  case (happened m m')
  then show ?case
    unfolding machine_event_def
    using machine_pass_step [OF assms(1), of req m m'] machine_step_guarded machine_edit_keeps(1,2) by metis
qed

lemma machine_event_monotone:
  assumes "finalizers_lawful (envLib E)" and "machine_event E req m m'" and "guarded (envLib E) m"
  shows "guarded (envLib E) m' \<and> (has_vm m \<longrightarrow> msProviderID (tmSpec m') = msProviderID (tmSpec m)) \<and>
    (mtReady (tmStatus m) \<longrightarrow> mtReady (tmStatus m'))"
  using assms(2) unfolding machine_event_def
proof
  assume "machine_pass E req m m'"
  from machine_pass_step(1) [OF assms(1) this] show ?thesis
    using machine_step_monotone machine_step_guarded assms(3) by blast
next
  assume "machine_edit (envLib E) m m'"
  then show ?thesis using machine_edit_keeps assms(3) by metis
qed

lemma machine_history_monotone:
  assumes "finalizers_lawful (envLib E)" and "(machine_event E req)\<^sup>*\<^sup>* m m'" and "guarded (envLib E) m"
  shows "guarded (envLib E) m' \<and> (has_vm m \<longrightarrow> msProviderID (tmSpec m') = msProviderID (tmSpec m)) \<and>
    (mtReady (tmStatus m) \<longrightarrow> mtReady (tmStatus m'))"
  using assms(2)
proof (induction rule: rtranclp_induct)
  case (step y z)
  then show ?case using machine_event_monotone [OF assms(1) step.hyps(2)] by (metis has_vm_def)
qed (simp add: assms(3))

text \<open>
  C8. Over every history of a machine (passes with any answers of the services, lost and
  partial patches, edits and deletions by users): a machine with a virtual machine or
  reported ready that is not being deleted holds the finalizer, so that it cannot vanish
  with its virtual machine left behind; the provider id is written once and never changes;
  and a ready machine stays ready.
\<close>

theorem machine_history_invariant:
  assumes "finalizers_lawful (envLib E)" and "machine_stored E req m" and "(machine_event E req)\<^sup>*\<^sup>* m m'"
  shows "((has_vm m' \<or> mtReady (tmStatus m')) \<and> tm_live (envLib E) m' \<longrightarrow> tm_finalized m') \<and>
    (has_vm m \<longrightarrow> msProviderID (tmSpec m') = msProviderID (tmSpec m)) \<and>
    (mtReady (tmStatus m) \<longrightarrow> mtReady (tmStatus m'))"
proof -
  have "guarded (envLib E) m" using machine_stored_inv [OF assms(1,2)] by blast
  from machine_history_monotone [OF assms(1,3) this] show ?thesis by (simp add: guarded_def)
qed

lemma internal_ip_typed:
  assumes "\<forall>a \<in> set as. addressType a = ''InternalIP''"
  shows "internal_ip as = (if as = [] then '''' else addressAddress (last as))"
proof -
  have "foldl (\<lambda>ip a. if addressType a = ''InternalIP'' then addressAddress a else ip) x as =
      (if as = [] then x else addressAddress (last as))" for x
    using assms by (induction as arbitrary: x) auto
  then show ?thesis unfolding internal_ip_def .
qed

text \<open>
  C24. The fields the controller owns are well formed in every stored machine: the provider
  id is empty or the scheme of the provider followed by an identifier, every address is an
  internal one, and so the address the load balancer is given is the last one recorded.
\<close>

theorem stored_machine_typed:
  assumes "finalizers_lawful (envLib E)" and "machine_stored E req m"
  shows "(msProviderID (tmSpec m) = '''' \<or> (\<exists>i. msProviderID (tmSpec m) = ''vmware-cloud-director://'' @ i)) \<and>
    (\<forall>a \<in> set (mtAddresses (tmStatus m)). addressType a = ''InternalIP'') \<and>
    internal_ip (mtAddresses (tmStatus m)) =
      (if mtAddresses (tmStatus m) = [] then '''' else addressAddress (last (mtAddresses (tmStatus m))))"
proof -
  have t: "machine_typed m" using machine_stored_inv [OF assms] by blast
  then have "\<forall>a \<in> set (mtAddresses (tmStatus m)). addressType a = ''InternalIP''" by (simp add: machine_typed_def)
  from internal_ip_typed [OF this] t show ?thesis by (simp add: machine_typed_def provider_id_def)
qed

text \<open>
  C9. Every pass refines a step of the life cycle: on any machine a history can lead to, the
  machine that the pass leaves, also when its patch is lost in part, is in the same state, or
  claimed (finalizer stored), or provisioned or joined after it was claimed, or dropped after
  it was claimed. No provisioned machine is provisioned again or falls back, and a dropped
  one stays dropped.
\<close>

theorem machine_pass_refines_lifecycle:
  assumes "finalizers_lawful (envLib E)" and "machine_stored E req m" and "machine_pass E req m m'"
  shows "machine_lifecycle (machine_phase_of (envLib E) m) (machine_phase_of (envLib E) m')"
  using machine_pass_step(1) [OF assms(1,3)] machine_stored_inv [OF assms(1,2)]
  by (auto simp: machine_step_def machine_phase_of_def guarded_def has_vm_def machine_status_eq split: if_splits)

subsection \<open>A history\<close>

text \<open>The sample machine, taken over, and the pass that makes it ready.\<close>

definition sample_joined :: CloudDirectorTenantMachine where
  "sample_joined = obj (snd (finish (m_Reconcile (sample_env sample_booting)
     \<lparr>nnName = ''prod-cp-0'', nnNamespace = ''default''\<rparr>) (sample_state sample_machine)))"

lemma sample_gates:
  "gates_open (envLib (sample_env sample_booting)) sample_owner_machine sample_owner_cluster"
  "clusterInfrastructureRef sample_owner_cluster \<noteq> None" "cluster_serves sample_ready_cluster"
  "TimeIsZero (envLib (sample_env sample_booting)) (metaDeletionTimestamp (tmMeta (smMachine sample_booting)))"
  "CloudDirectorTenantMachineFinalizer \<in> set (metaFinalizers (tmMeta (smMachine sample_booting)))"
  "msProviderID (tmSpec (smMachine sample_booting)) \<noteq> '''' \<longrightarrow>
     internal_ip (mtAddresses (tmStatus (smMachine sample_booting))) \<noteq> ''''"
  by (simp_all add: gates_open_def cluster_serves_def sample_booting_eval sample_lib_def)

lemma sample_joined_run:
  "last (trace (snd (finish (m_Reconcile (sample_env sample_booting)
     \<lparr>nnName = ''prod-cp-0'', nnNamespace = ''default''\<rparr>) (sample_state sample_machine)))) = (KPatch, None)"
  "mtReady (tmStatus sample_joined)" "has_vm sample_joined"
proof -
  let ?run = "finish (m_Reconcile (sample_env sample_booting) \<lparr>nnName = ''prod-cp-0'', nnNamespace = ''default''\<rparr>) (sample_state sample_machine)"
  have "fst ?run = Return (done_result, None) \<and> mtReady (tmStatus (obj (snd ?run))) \<and>
      msProviderID (tmSpec (obj (snd ?run))) \<noteq> '''' \<and> last (trace (snd ?run)) = (KPatch, None)"
    by (intro m_Reconcile_ready [OF sample_booting_services _ _ sample_get_machine _ _ _ _ _ _ prod.collapse [symmetric]] sample_gates)
      (simp_all add: sample_lib_lawful)
  then show "last (trace (snd ?run)) = (KPatch, None)" "mtReady (tmStatus sample_joined)" "has_vm sample_joined"
    by (simp_all add: sample_joined_def has_vm_def)
qed

lemma sample_machine_history:
  "machine_stored (sample_env sample_booting) \<lparr>nnName = ''prod-cp-0'', nnNamespace = ''default''\<rparr> (smMachine sample_booting)"
  "machine_pass (sample_env sample_booting) \<lparr>nnName = ''prod-cp-0'', nnNamespace = ''default''\<rparr> (smMachine sample_booting) sample_joined"
proof -
  show "machine_stored (sample_env sample_booting) \<lparr>nnName = ''prod-cp-0'', nnNamespace = ''default''\<rparr> (smMachine sample_booting)"
    by (rule machine_stored.created) (simp add: machine_new_def tm_live_def has_vm_def sample_booting_eval sample_lib_def)
  show "machine_pass (sample_env sample_booting) \<lparr>nnName = ''prod-cp-0'', nnNamespace = ''default''\<rparr> (smMachine sample_booting) sample_joined"
    unfolding machine_pass_def
    by (rule exI [of _ "sample_state sample_machine"])
      (simp add: sample_joined_run(1) sample_joined_def machine_writes_def patch_outcome_complete)
qed

lemma sample_booting_lawful: "finalizers_lawful (envLib (sample_env sample_booting))"
  by (simp add: sample_lib_lawful)

lemma sample_joined_stored:
  "machine_stored (sample_env sample_booting) \<lparr>nnName = ''prod-cp-0'', nnNamespace = ''default''\<rparr> sample_joined"
  by (rule machine_stored.happened [OF sample_machine_history(1)]) (simp add: machine_event_def sample_machine_history(2))

lemma sample_joined_live: "tm_live sample_lib sample_joined"
  using machine_pass_step(1) [OF sample_booting_lawful sample_machine_history(2)]
  by (simp add: machine_step_def tm_live_def sample_booting_eval sample_lib_def)

theorem machine_history_invariant_witness: "tm_finalized sample_joined \<and> mtReady (tmStatus sample_joined)"
  using machine_history_invariant [OF sample_booting_lawful sample_joined_stored rtranclp.rtrancl_refl]
    sample_joined_run(2) sample_joined_live by simp

theorem stored_machine_typed_witness: "\<exists>i. msProviderID (tmSpec sample_joined) = ''vmware-cloud-director://'' @ i"
  using stored_machine_typed [OF sample_booting_lawful sample_joined_stored] sample_joined_run(3) by (simp add: has_vm_def)

theorem machine_pass_refines_lifecycle_witness:
  "machine_lifecycle (machine_phase_of sample_lib (smMachine sample_booting)) (machine_phase_of sample_lib sample_joined) \<and>
   machine_phase_of sample_lib (smMachine sample_booting) = Claimed"
proof
  show "machine_lifecycle (machine_phase_of sample_lib (smMachine sample_booting)) (machine_phase_of sample_lib sample_joined)"
    using machine_pass_refines_lifecycle [OF sample_booting_lawful sample_machine_history] by simp
  show "machine_phase_of sample_lib (smMachine sample_booting) = Claimed"
    by (simp add: machine_phase_of_def tm_finalized_def has_vm_def sample_booting_eval)
qed

end
