(* ===== verification/Machine_Progress.thy ===== *)
theory Machine_Progress
  imports Machine_Lifecycle
begin

section \<open>Progress of the machine controller\<close>

text \<open>
  The counterpart of \<open>Cluster_Progress\<close>: with services that answer the passes over a machine
  converge in at most two steps, and one pass completes a deletion; with services that do
  anything no machine is forgotten. A machine whose status was lost is the exception: it is
  looked at for ever, and never becomes ready.
\<close>

subsection \<open>Convergence\<close>

definition machine_remaining :: "CloudDirectorTenantMachine \<Rightarrow> nat" where
  \<comment> \<open>the passes that are left: the finalizer, the virtual machine\<close>
  "machine_remaining m = (if tm_finalized m then 0 else 1) + (if mtReady (tmStatus m) \<and> vm_known m then 0 else 1)"

definition addressed :: "CloudDirectorTenantMachine \<Rightarrow> bool" where
  "addressed m \<longleftrightarrow> (has_vm m \<longrightarrow> vm_known m)"

definition machine_advances :: "CloudDirectorTenantMachine \<Rightarrow> reconcile_result \<Rightarrow> CloudDirectorTenantMachine \<Rightarrow> bool" where
  "machine_advances m r c \<longleftrightarrow> r = (done_result, None) \<and> machine_remaining c = machine_remaining m - 1 \<and>
     metaDeletionTimestamp (tmMeta c) = metaDeletionTimestamp (tmMeta m) \<and> addressed c"

lemma machine_advances_SetConditions [simp]: "machine_advances m r (tm_SetConditions cs c) = machine_advances m r c"
  by (simp add: machine_advances_def machine_remaining_def tm_finalized_def addressed_def has_vm_def)

definition machine_served :: "lib \<Rightarrow> ('w, 'h) env \<Rightarrow> bool" where
  \<comment> \<open>the services answer, the gates are open and the cluster is ready\<close>
  "machine_served L E \<longleftrightarrow> envLib E = L \<and> (\<exists>tc om oc. machine_services E tc om oc \<and> gates_open L om oc \<and>
     clusterInfrastructureRef oc \<noteq> None \<and> cluster_serves tc)"

lemma m_Reconcile_advances:
  fixes E :: "('w, 'h) env"
  assumes "machine_served L E" and "not_found_lawful L" and "finalizers_lawful L"
    and "k_GetTenantMachine (envKube E) req (world s) = (Inr m, w)" and "tm_live L m" and "addressed m"
    and "finish (m_Reconcile E req) s = (e, s')"
  shows "\<exists>r. e = Return r \<and> machine_advances m r (obj s') \<and> last (trace s') = (KPatch, None)"
proof -
  obtain tc om oc where S: "machine_services E tc om oc" "gates_open L om oc" "clusterInfrastructureRef oc \<noteq> None" "cluster_serves tc"
      and L: "envLib E = L"
    using assms(1) unfolding machine_served_def by blast
  show ?thesis
  proof (rule m_Reconcile_attended [OF machine_services_attended [OF S(1)] assms(4) _ _ assms(7)])
    fix t :: "('w, CloudDirectorTenantMachine) cstate" assume t: "obj t = m"
    show "wp (m_Reconcile_body E om (Some oc)) (\<lambda>r u. machine_advances m r (obj u)) (\<lambda>e u. \<exists>r. e = Return r \<and> machine_advances m r (obj u)) t"
    proof (cases "tm_finalized m")
      case False
      then obtain fs where fs: "AddFinalizer L (metaFinalizers (tmMeta m)) CloudDirectorTenantMachineFinalizer = (fs, True)"
          "CloudDirectorTenantMachineFinalizer \<in> set fs"
        using assms(3) unfolding finalizers_lawful_def tm_finalized_def by (metis prod.collapse)
      have "machine_advances m (done_result, None) (tm_set_finalizers fs m)"
        using False fs(2) assms(6)
        by (simp add: machine_advances_def machine_remaining_def tm_finalized_def tm_set_finalizers_def vm_known_def addressed_def has_vm_def)
      then show ?thesis
        unfolding m_Reconcile_body_def using assms(5)
        by (simp add: wp_bind wp_get_obj wp_if wp_case_prod wp_modify_obj wp_exit fs(1) tm_live_def t L)
    next
      case True
      have meta: "wp (m_reconcileNormal E om (Some oc)) (\<lambda>_ u. tmMeta (obj u) = tmMeta m) (\<lambda>_ u. tmMeta (obj u) = tmMeta m) t"
        by (rule keepsD [OF m_reconcileNormal_keeps_meta]) (simp add: t)
      have ready: "wp (m_reconcileNormal E om (Some oc)) (\<lambda>r u. r = (done_result, None) \<and> mtReady (tmStatus (obj u)) \<and> vm_known (obj u)) (\<lambda>_ _. False) t"
        by (rule m_reconcileNormal_ready [OF S(1) _ _ S(3,4)])
          (use assms(2,6) S(2) in \<open>simp_all add: t L addressed_def has_vm_def vm_known_def\<close>)
      have "machine_advances m r (obj u)" if "r = (done_result, None) \<and> mtReady (tmStatus (obj u)) \<and> vm_known (obj u)"
        "tmMeta (obj u) = tmMeta m" for r and u :: "('w, CloudDirectorTenantMachine) cstate"
        using that True by (simp add: machine_advances_def machine_remaining_def tm_finalized_def addressed_def)
      then have "wp (m_reconcileNormal E om (Some oc)) (\<lambda>r u. machine_advances m r (obj u)) (\<lambda>e u. \<exists>r. e = Return r \<and> machine_advances m r (obj u)) t"
        by (intro wp_mono [OF wp_conj [OF ready meta]]) blast+
      with True assms(3,5) show ?thesis
        by (intro m_Reconcile_body_normal) (simp_all add: t L tm_live_def tm_finalized_def)
    qed
  qed simp
qed

definition machine_course :: "(nat \<Rightarrow> ('w, 'h) env) \<Rightarrow> NamespacedName \<Rightarrow> (nat \<Rightarrow> ('w, CloudDirectorTenantMachine) cstate) \<Rightarrow>
    (nat \<Rightarrow> CloudDirectorTenantMachine) \<Rightarrow> bool" where
  \<comment> \<open>pass \<open>i\<close> reads the object \<open>x i\<close> and leaves \<open>x (i + 1)\<close>\<close>
  "machine_course E req s x \<longleftrightarrow> (\<forall>i. fst (k_GetTenantMachine (envKube (E i)) req (world (s i))) = Inr (x i) \<and>
     x (Suc i) = obj (snd (finish (m_Reconcile (E i) req) (s i))))"

text \<open>
  C10. With services that answer and open gates, a machine converges: each pass returns
  without error and without requeue and does exactly one of the steps that are left (store
  the finalizer, provision the virtual machine), so that after at most two passes the machine
  holds the finalizer and is ready with its provider id and an address; and every later pass
  leaves it so. The virtual machine may be there or not: when its lookup reports not-found,
  the template is found, the order is accepted and the lookup after the order finds it. The
  machine the passes start from either has no provider id yet, like every new machine, or
  its addresses are recorded with it; one that lost them does not converge.
\<close>

theorem machine_converges:
  assumes "not_found_lawful L" and "finalizers_lawful L" and "\<forall>i. machine_served L (E i)"
    and "machine_course E req s x" and "tm_live L (x 0)" and "has_vm (x 0) \<longrightarrow> vm_known (x 0)"
  shows "fst (finish (m_Reconcile (E i) req) (s i)) = Return (done_result, None) \<and>
    machine_remaining (x i) = machine_remaining (x 0) - i \<and> machine_remaining (x 0) \<le> 2 \<and>
    (machine_remaining (x 0) \<le> i \<longrightarrow> tm_finalized (x i) \<and> mtReady (tmStatus (x i)) \<and> vm_known (x i))"
proof -
  let ?D = "\<lambda>i. fst (finish (m_Reconcile (E i) req) (s i)) = Return (done_result, None)"
  have "?D i \<and> (tm_live L (x (Suc i)) \<and> addressed (x (Suc i))) \<and> machine_remaining (x (Suc i)) = machine_remaining (x i) - 1"
    if "tm_live L (x i) \<and> addressed (x i)" for i
  proof -
    let ?run = "finish (m_Reconcile (E i) req) (s i)"
    have "k_GetTenantMachine (envKube (E i)) req (world (s i)) = (Inr (x i), snd (k_GetTenantMachine (envKube (E i)) req (world (s i))))"
      using assms(4) unfolding machine_course_def by (metis prod.collapse)
    from m_Reconcile_advances [OF assms(3) [rule_format] assms(1,2) this conjunct1 [OF that] conjunct2 [OF that] prod.collapse [symmetric]]
    have "\<exists>r. fst ?run = Return r \<and> machine_advances (x i) r (obj (snd ?run)) \<and> last (trace (snd ?run)) = (KPatch, None)" .
    with that show ?thesis using assms(4) by (auto simp: machine_advances_def machine_course_def tm_live_def)
  qed
  from countdown [where P = "\<lambda>m. tm_live L m \<and> addressed m" and D = ?D and m = machine_remaining, OF this, of i]
  have run: "?D i" "machine_remaining (x i) = machine_remaining (x 0) - i"
    using assms(5,6) by (simp_all add: addressed_def)
  then have "machine_remaining (x 0) \<le> i \<Longrightarrow> tm_finalized (x i) \<and> mtReady (tmStatus (x i)) \<and> vm_known (x i)"
    by (simp add: machine_remaining_def split: if_splits)
  moreover have "machine_remaining (x 0) \<le> 2" by (simp add: machine_remaining_def)
  ultimately show ?thesis using run by blast
qed

definition sample_ordering_env :: "CloudDirectorTenantMachine \<Rightarrow> (sample_world, unit) env" where
  \<comment> \<open>the virtual machine of the machine has to be made\<close>
  "sample_ordering_env m = (sample_env (sample_booting\<lparr>smMachine := m\<rparr>))\<lparr>envVm := sample_vms False\<rparr>"

primrec sample_machine_course :: "nat \<Rightarrow> CloudDirectorTenantMachine" where
  "sample_machine_course 0 = sample_machine"
| "sample_machine_course (Suc i) = obj (snd (finish (m_Reconcile (sample_ordering_env (sample_machine_course i))
     \<lparr>nnName = ''prod-cp-0'', nnNamespace = ''default''\<rparr>) (sample_state (sample_machine_course i))))"

lemma sample_machine_served: "machine_served sample_lib (sample_ordering_env m)"
  using sample_machine_services [where m = m and vms = False] sample_gates(1-3)
  unfolding machine_served_def sample_ordering_env_def by (auto simp: sample_env_lib)

theorem machine_converges_witness:
  "(\<forall>m va n b. m_GetVMByName (envVm (sample_ordering_env m)) va n b 0 = ((None, Some not_found_error), 0)) \<and>
   machine_remaining sample_machine = 2 \<and> mtReady (tmStatus (sample_machine_course 2)) \<and> vm_known (sample_machine_course 2)"
proof -
  let ?E = "\<lambda>i. sample_ordering_env (sample_machine_course i)"
  have two: "machine_remaining sample_machine = 2"
    by (simp add: machine_remaining_def tm_finalized_def sample_objects)
  have "machine_course ?E \<lparr>nnName = ''prod-cp-0'', nnNamespace = ''default''\<rparr> (\<lambda>i. sample_state (sample_machine_course i)) sample_machine_course"
    by (simp add: machine_course_def sample_ordering_env_def)
  from machine_converges [OF sample_lib_lawful(1,2) allI [OF sample_machine_served] this, of 2]
  show ?thesis using two
    by (simp add: tm_live_def has_vm_def sample_objects sample_lib_def sample_ordering_env_def sample_vms_def answer_def)
qed

subsection \<open>Deletion completes\<close>



lemma m_remove_finalizer_completes:
  "finalizers_lawful (envLib E) \<Longrightarrow> wp (m_remove_finalizer E) (\<lambda>r t. r = (done_result, None) \<and> \<not> tm_finalized (obj t)) (\<lambda>_ _. False) s"
  unfolding m_remove_finalizer_def by (simp add: wp finalizers_lawful_def tm_finalized_def tm_set_finalizers_def)





subsection \<open>No machine is forgotten\<close>

definition worker_waits :: "lib \<Rightarrow> Machine \<Rightarrow> Cluster option \<Rightarrow> bool" where
  "worker_waits L om oc \<longleftrightarrow> (\<exists>c. oc = Some c \<and> \<not> IsControlPlaneMachine L om \<and> \<not> IsTrue L (clusterConditions c) ''ControlPlaneInitialized'')"

definition identity_missing :: "('w, 'h) env \<Rightarrow> bool" where
  "identity_missing E \<longleftrightarrow> (\<exists>key tc w w'. k_GetTenantCluster (envKube E) key w = (Inr tc, w') \<and> csIdentityRef (tcSpec tc) = None)"

definition machine_pass_ends :: "('w, 'h) env \<Rightarrow> CloudDirectorTenantMachine \<Rightarrow> CloudDirectorTenantMachine \<Rightarrow> bool" where
  \<comment> \<open>why a pass from \<open>m\<close> to \<open>c\<close> may end without an error and without asking for another one\<close>
  "machine_pass_ends E m c \<longleftrightarrow> (\<exists>w w'. k_GetOwnerMachine (envKube E) (tmMeta m) w = ((None, None), w')) \<or>
     (if tm_live (envLib E) m then \<not> tm_finalized m \<and> tm_finalized c \<or>
        (\<exists>om oc. owners E m om oc \<and> worker_waits (envLib E) om oc) \<or> identity_missing E \<or> mtReady (tmStatus c)
      else \<not> tm_finalized c)"

lemma machine_pass_ends_SetConditions [simp]: "machine_pass_ends E m (tm_SetConditions cs c) = machine_pass_ends E m c"
  by (simp add: machine_pass_ends_def tm_finalized_def)

lemma machine_requeue_neq [simp]: "CloudDirectorTenantMachineRequeue \<noteq> done_result"
  by (simp add: CloudDirectorTenantMachineRequeue_def done_result_def time_Second_def)

lemma m_stages_unfinished:
  "unfinished (m_catalog E org)" "unfinished (m_create_vm E tc cat va)" "unfinished (m_bootstrap E om tc va vm)" "unfinished (m_customize E vm)"
  "unfinished (m_product E vm value doc)" "unfinished (m_update_spec E vm)" "unfinished (m_power_on E vm sec)"
  "unfinished (m_load_balancer E om tc vdc)" "unfinished (m_delete_member E om tc vdc)"
  unfolding unfinished_def m_catalog_def m_create_vm_def m_bootstrap_def m_customize_def m_product_def m_update_spec_def m_power_on_def
    m_load_balancer_def m_delete_member_def
  by (auto simp: wp Let_def split: option.splits sum.splits)

lemma unfinished_basic: "unfinished (go_return x)" "unfinished get_obj" "unfinished (call c f)" "unfinished (deref p)"
  by (auto simp: unfinished_def wp split: option.splits)

lemma m_provision_unfinished: "unfinished (m_provision E om tc org va)"
  unfolding m_provision_def m_ensure_vm_def
  by (auto intro!: unfinished_bind unfinished_basic m_stages_unfinished split: prod.split if_split)

lemma m_gates_done:
  "wp (m_gates E om oc) (\<lambda>_ _. True) (\<lambda>e _. e = Return (done_result, None) \<longrightarrow> worker_waits (envLib E) om oc) s"
  unfolding m_gates_def worker_waits_def by (auto simp: wp split: option.splits)

lemma m_infrastructure_done:
  "wp (m_infrastructure E oc) (\<lambda>_ _. True) (\<lambda>e _. e = Return (done_result, None) \<longrightarrow> identity_missing E) s"
  unfolding m_infrastructure_def identity_missing_def
  by (auto simp: wp Let_def split: option.splits sum.splits)

lemma m_reconcileNormal_done:
  "wp (m_reconcileNormal E om oc) (\<lambda>_ t. mtReady (tmStatus (obj t)))
     (\<lambda>e _. e = Return (done_result, None) \<longrightarrow> worker_waits (envLib E) om oc \<or> identity_missing E) s"
proof -
  let ?F = "\<lambda>e _. e = Return (done_result, None) \<longrightarrow> worker_waits (envLib E) om oc \<or> identity_missing E"
  have provision: "unfinished (if msProviderID (tmSpec tm) = '''' then m_provision E om tc org va else go_return ())" for tm tc org va
    by (simp add: m_provision_unfinished unfinished_basic)
  have finish: "wp (m_finish E) (\<lambda>_ t. mtReady (tmStatus (obj t))) ?F t" for t :: "('a, CloudDirectorTenantMachine) cstate"
    by (simp add: m_finish_def wp)
  have rest: "wp (go_bind get_obj (\<lambda>tm. go_bind (if msProviderID (tmSpec tm) = '''' then m_provision E om tc org va else go_return ()) (\<lambda>_.
     go_bind (m_load_balancer E om tc vdc) (\<lambda>_. m_finish E)))) (\<lambda>_ t. mtReady (tmStatus (obj t))) ?F t" for tc org va vdc t
    unfolding wp_bind wp_get_obj
    by (rule wp_mono [OF unfinishedD [OF provision]], rule wp_mono [OF unfinishedD [OF m_stages_unfinished(8)]], rule finish) simp_all
  show ?thesis
    unfolding m_reconcileNormal_def wp_bind [of "m_gates _ _ _"] wp_bind [of "m_infrastructure _ _"]
    by (rule wp_mono [OF m_gates_done], rule wp_mono [OF m_infrastructure_done]) (auto intro!: rest)
qed

lemma m_reconcileDelete_done:
  assumes "finalizers_lawful (envLib E)"
  shows "wp (m_reconcileDelete E om oc) (\<lambda>_ t. \<not> tm_finalized (obj t)) (\<lambda>e _. e \<noteq> Return (done_result, None)) s"
proof -
  have remove: "wp (m_remove_finalizer E) (\<lambda>_ t. \<not> tm_finalized (obj t)) (\<lambda>e _. e \<noteq> Return (done_result, None)) t" for t
    by (rule wp_mono [OF m_remove_finalizer_completes [OF assms]]) simp_all
  have vm: "wp (m_delete_vm E tc vdc) (\<lambda>_ t. \<not> tm_finalized (obj t)) (\<lambda>e _. e \<noteq> Return (done_result, None)) t" for tc vdc t
    unfolding m_delete_vm_def by (auto simp: wp remove split: option.splits)
  have member: "wp (go_bind (m_delete_member E om tc vdc) (\<lambda>_. m_delete_vm E tc vdc)) (\<lambda>_ t. \<not> tm_finalized (obj t))
      (\<lambda>e _. e \<noteq> Return (done_result, None)) t" for tc vdc t
    unfolding wp_bind by (rule wp_mono [OF unfinishedD [OF m_stages_unfinished(9)]]) (simp_all add: vm)
  show ?thesis
    unfolding m_reconcileDelete_def
    by (auto simp: wp_deref wp_bind [of "call_get _ _"] wp_bind [of "deref _"] wp_bind [of "call_panic _ _"] wp_bind [of "call _ _"]
        wp_case_sum wp_case_prod wp_if wp_call wp_call_get wp_call_panic wp_exit Let_def remove member split: option.splits sum.splits)
qed

text \<open>
  C16. No machine is forgotten: whatever the services answer, a pass that returns without an
  error and without asking for another pass has stored the finalizer, or the machine waits for
  its owner, for the identity of its cluster or (a worker) for the control plane, or it is
  ready; and of a machine that is being deleted it has given up the finalizer. In all other
  cases the caller is told.
\<close>

theorem machine_pass_progress:
  assumes "finalizers_lawful (envLib E)" and "aggregate_lawful (envLib E)"
    and "k_GetTenantMachine (envKube E) req (world s) = (Inr m, w)"
    and "finish (m_Reconcile E req) s = (Return (done_result, None), s')"
  shows "machine_pass_ends E m (obj s')"
proof -
  let ?Q = "\<lambda>e t. e = Return (done_result, None) \<longrightarrow> machine_pass_ends E m (obj t)"
  let ?P = "\<lambda>r t. r = (done_result, None) \<longrightarrow> machine_pass_ends E m (obj t)"
  have body: "wp (m_Reconcile_body E om oc) ?P ?Q t" if t: "obj t = m" and o: "owners E m om oc" for om oc and t :: "('a, CloudDirectorTenantMachine) cstate"
  proof (cases "tm_live (envLib E) m")
    case True
    have normal: "wp (m_reconcileNormal E om oc) ?P ?Q u" for u
      by (rule wp_mono [OF m_reconcileNormal_done])
        (use True o in \<open>auto simp: machine_pass_ends_def\<close>)
    obtain fs added where add: "AddFinalizer (envLib E) (metaFinalizers (tmMeta m)) CloudDirectorTenantMachineFinalizer = (fs, added)"
      by (metis prod.collapse)
    then have fs: "if tm_finalized m then \<not> added else added \<and> CloudDirectorTenantMachineFinalizer \<in> set fs"
      using assms(1) unfolding finalizers_lawful_def tm_finalized_def by (metis fst_conv snd_conv)
    then have "\<not> tm_finalized m \<Longrightarrow> machine_pass_ends E m (tm_set_finalizers fs m)"
      using True by (simp add: tm_set_finalizers_def machine_pass_ends_def tm_finalized_def)
    with fs True show ?thesis
      unfolding m_Reconcile_body_def
      by (cases "tm_finalized m") (auto simp: wp_bind wp_get_obj wp_if wp_case_prod wp_exit wp_modify_obj add t tm_live_def intro!: normal)
  next
    case False
    have "wp (m_reconcileDelete E om oc) ?P ?Q t"
      by (rule wp_mono [OF m_reconcileDelete_done [OF assms(1)]]) (use False in \<open>simp_all add: machine_pass_ends_def\<close>)
    with False show ?thesis
      unfolding m_Reconcile_body_def by (simp add: wp_bind wp_get_obj wp_if t tm_live_def)
  qed
  have "wp (m_Reconcile E req) ?P ?Q s"
    unfolding m_Reconcile_def wp_bind wp_call_get wp_call
    by (auto simp: assms(3) wp split: option.splits intro!: tmp.deferred_patch_done [OF assms(2)] body)
      (auto simp: owners_def machine_pass_ends_def)
  then have "wp (m_Reconcile E req) (\<lambda>r. ?Q (Return r)) ?Q s" by (rule wp_mono) simp_all
  from wp_finish [OF this assms(4)] show ?thesis by simp
qed

theorem machine_pass_progress_witness:
  "machine_pass_ends (sample_env sample_booting) (smMachine sample_booting) sample_joined \<and> mtReady (tmStatus sample_joined)"
proof -
  let ?run = "finish (m_Reconcile (sample_env sample_booting) \<lparr>nnName = ''prod-cp-0'', nnNamespace = ''default''\<rparr>) (sample_state sample_machine)"
  have "fst ?run = Return (done_result, None) \<and> mtReady (tmStatus (obj (snd ?run))) \<and>
      msProviderID (tmSpec (obj (snd ?run))) \<noteq> '''' \<and> last (trace (snd ?run)) = (KPatch, None)"
    by (intro m_Reconcile_ready [OF sample_booting_services _ _ sample_get_machine _ _ _ _ _ _ prod.collapse [symmetric]] sample_gates)
      (simp_all add: sample_lib_lawful)
  then have "?run = (Return (done_result, None), snd ?run)" by (simp add: prod_eq_iff)
  from machine_pass_progress [OF _ _ sample_get_machine this] sample_lib_lawful(2) sample_lib_aggregate sample_joined_run(2)
  show ?thesis by (simp add: sample_joined_def)
qed


subsection \<open>A cluster that refers to no infrastructure\<close>

lemma m_reconcileDelete_unreferenced:
  "clusterInfrastructureRef oc = None \<Longrightarrow> m_reconcileDelete E om (Some oc) = m_remove_finalizer E"
  by (simp add: m_reconcileDelete_def deref_def go_return_def go_bind_def)

text \<open>
  C40. A machine that is being deleted is given up without a single Cloud Director call when
  its \<^verbatim>\<open>Cluster\<close> has no \<^verbatim>\<open>infrastructureRef\<close>, also when it has a virtual machine: the pass ends
  without error and without requeue, the finalizer is removed in the object that is written,
  and nothing that the provider id leads to is looked up or deleted. In the witness the
  virtual machine is still found in Cloud Director after the pass.
\<close>

theorem unreferenced_cluster_orphans_vm:
  fixes E :: "('w, 'h) env"
  assumes "finalizers_lawful (envLib E)" and "machine_attended E om oc" and "clusterInfrastructureRef oc = None"
    and "k_GetTenantMachine (envKube E) req (world s) = (Inr m, w)" and "\<not> tm_live (envLib E) m"
    and "finish (m_Reconcile E req) s = (e, s')"
  shows "e = Return (done_result, None) \<and> \<not> tm_finalized (obj s') \<and> msProviderID (tmSpec (obj s')) = msProviderID (tmSpec m) \<and>
    last (trace s') = (KPatch, None) \<and> extends (\<lambda>c. \<not> vcd_call c) s s'"
proof -
  have dead: "\<not> TimeIsZero (envLib E) (metaDeletionTimestamp (tmMeta m))" using assms(5) by (simp add: tm_live_def)
  let ?R = "\<lambda>r c. r = (done_result, None) \<and> \<not> tm_finalized c \<and> msProviderID (tmSpec c) = msProviderID (tmSpec m)"
  have "\<exists>r. e = Return r \<and> ?R r (obj s') \<and> last (trace s') = (KPatch, None)"
  proof (rule m_Reconcile_attended [OF assms(2,4) _ _ assms(6)])
    fix t :: "('w, CloudDirectorTenantMachine) cstate" assume "obj t = m"
    then show "wp (m_Reconcile_body E om (Some oc)) (\<lambda>r u. ?R r (obj u)) (\<lambda>e u. \<exists>r. e = Return r \<and> ?R r (obj u)) t"
      using dead assms(1) unfolding m_Reconcile_body_def
      by (simp add: wp_bind wp_get_obj wp_if m_reconcileDelete_unreferenced [OF assms(3)] m_remove_finalizer_def wp_modify_obj wp_return
          tm_set_finalizers_def tm_finalized_def finalizers_lawful_def)
  qed (simp add: tm_finalized_def)
  moreover have "extends (\<lambda>c. \<not> vcd_call c) s (snd (finish (m_Reconcile E req) s))"
  proof (rule m_Reconcile_lift [OF assms(4)])
    fix om' oc' evs and t :: "('w, CloudDirectorTenantMachine) cstate"
    assume t: "obj t = m" "trace t = trace s @ evs" "list_all (\<lambda>ev. \<not> vcd_call (fst ev)) evs" "owners E m om' oc'"
    then have "oc' = Some oc"
      using assms(2) unfolding owners_def machine_attended_def by (metis fst_conv prod.inject)
    with t dead show "wp (m_Reconcile_body E om' oc') (\<lambda>_. extends (\<lambda>c. \<not> vcd_call c) s) (\<lambda>_. extends (\<lambda>c. \<not> vcd_call c) s) t"
      unfolding m_Reconcile_body_def
      by (simp add: wp_bind wp_get_obj wp_if m_reconcileDelete_unreferenced [OF assms(3)] m_remove_finalizer_def wp_modify_obj wp_return
          extends_def list_all_iff)
  qed (auto simp: extends_def list_all_iff call_classes)
  ultimately show ?thesis using assms(6) by auto
qed

definition sample_unreferenced :: sample where
  \<comment> \<open>the sample machine is being deleted, its virtual machine is there, the reference of the cluster was cleared\<close>
  "sample_unreferenced = sample_deleting\<lparr>smOwnerCluster := sample_owner_cluster\<lparr>clusterInfrastructureRef := None\<rparr>\<rparr>"

theorem unreferenced_cluster_orphans_vm_witness:
  "let run = finish (m_Reconcile (sample_env sample_unreferenced) \<lparr>nnName = ''prod-cp-0'', nnNamespace = ''default''\<rparr>)
       (sample_state sample_machine)
   in fst run = Return (done_result, None) \<and> tm_finalized (smMachine sample_unreferenced) \<and> \<not> tm_finalized (obj (snd run)) \<and>
      has_vm (obj (snd run)) \<and>
      (\<forall>va n b. fst (m_GetVMByName (envVm (sample_env sample_unreferenced)) va n b (world (snd run))) = (Some sample_vm, None))"
proof -
  let ?run = "finish (m_Reconcile (sample_env sample_unreferenced) \<lparr>nnName = ''prod-cp-0'', nnNamespace = ''default''\<rparr>)
       (sample_state sample_machine)"
  let ?oc = "sample_owner_cluster\<lparr>clusterInfrastructureRef := None\<rparr>"
  have attended: "machine_attended (sample_env sample_unreferenced) sample_owner_machine ?oc"
    by (simp add: machine_attended_def answers_def sample_services sample_unreferenced_def sample_deleting_def) (simp add: sample_def)
  have dead: "\<not> tm_live (envLib (sample_env sample_unreferenced)) (smMachine sample_unreferenced)"
    by (simp add: tm_live_def sample_unreferenced_def sample_deleting_def sample_lib_def)
  have lawful: "finalizers_lawful (envLib (sample_env sample_unreferenced))" by (simp add: sample_lib_lawful)
  have none: "clusterInfrastructureRef ?oc = None" by simp
  have "fst ?run = Return (done_result, None) \<and> \<not> tm_finalized (obj (snd ?run)) \<and>
      msProviderID (tmSpec (obj (snd ?run))) = msProviderID (tmSpec (smMachine sample_unreferenced))"
    using unreferenced_cluster_orphans_vm [OF lawful attended none sample_get_machine dead prod.collapse [symmetric]] by blast
  moreover have "tm_finalized (smMachine sample_unreferenced)" "msProviderID (tmSpec (smMachine sample_unreferenced)) \<noteq> ''''"
    by (simp_all add: tm_finalized_def sample_unreferenced_def sample_deleting_eval)
  moreover have "fst (m_GetVMByName (envVm (sample_env sample_unreferenced)) va n b u) = (Some sample_vm, None)" for va n b u
    by (simp add: sample_services sample_unreferenced_def sample_deleting_def)
  ultimately show ?thesis by (simp add: Let_def has_vm_def)
qed

subsection \<open>A status that is lost\<close>

text \<open>
  The patch writes the provider id and the addresses in different requests, and a pass reads
  the addresses of the virtual machine only while there is no provider id. \<open>stranded\<close> is what
  is stored when the first request was carried out and the second one was not.
\<close>

definition stranded :: "CloudDirectorTenantMachine \<Rightarrow> bool" where
  "stranded m \<longleftrightarrow> has_vm m \<and> mtAddresses (tmStatus m) = [] \<and> \<not> mtReady (tmStatus m)"

lemma stranded_SetConditions [simp]: "stranded (tm_SetConditions cs m) = stranded m"
  by (simp add: stranded_def has_vm_def tm_SetConditions_def)

lemma stranded_finalizers [simp]: "stranded (tm_set_finalizers fs m) = stranded m"
  by (simp add: stranded_def has_vm_def tm_set_finalizers_def)

lemma quiet_stranded: "quiet tm_SetConditions C n \<Longrightarrow> keeps stranded n"
  by (erule quiet_keeps) simp

lemma m_load_balancer_stranded:
  assumes "IsControlPlaneMachine (envLib E) om" and "stranded (obj s)"
  shows "wp (m_load_balancer E om tc vdc) (\<lambda>_ _. False) (\<lambda>_ t. stranded (obj t)) s"
  using assms unfolding m_load_balancer_def
  by (auto simp: wp Let_def tm_MarkFalse_def internal_ip_def stranded_def has_vm_def split: option.splits)

lemma m_reconcileNormal_stranded:
  assumes "IsControlPlaneMachine (envLib E) om" and "stranded (obj s)"
  shows "wp (m_reconcileNormal E om oc) (\<lambda>_ _. False) (\<lambda>_ t. stranded (obj t)) s"
proof -
  have rest: "wp (go_bind get_obj (\<lambda>tm. go_bind (if msProviderID (tmSpec tm) = '''' then m_provision E om tc org va else go_return ()) (\<lambda>_.
     go_bind (m_load_balancer E om tc vdc) (\<lambda>_. m_finish E)))) (\<lambda>_ _. False) (\<lambda>_ t. stranded (obj t)) t"
    if "stranded (obj t)" for tc org va vdc and t :: "('a, CloudDirectorTenantMachine) cstate"
  proof -
    have "msProviderID (tmSpec (obj t)) \<noteq> ''''" using that by (simp add: stranded_def has_vm_def)
    then show ?thesis
      using wp_mono [OF m_load_balancer_stranded [OF assms(1) that]] by (simp add: wp_bind wp_get_obj wp_return)
  qed
  show ?thesis
    unfolding m_reconcileNormal_def wp_bind [of "m_gates _ _ _"] wp_bind [of "m_infrastructure _ _"]
    by (rule wp_mono [OF keepsD [OF quiet_stranded [OF m_gates_quiet] assms(2)]],
        rule wp_mono [OF keepsD [OF quiet_stranded [OF m_infrastructure_quiet]]]) (auto intro!: rest)
qed

definition of_control_plane :: "('w, 'h) env \<Rightarrow> bool" where
  \<comment> \<open>the machine belongs to the control plane\<close>
  "of_control_plane E \<longleftrightarrow> (\<forall>m om oc. owners E m om oc \<longrightarrow> IsControlPlaneMachine (envLib E) om)"

lemma m_Reconcile_stranded:
  fixes E :: "('w, 'h) env"
  assumes "of_control_plane E" and "k_GetTenantMachine (envKube E) req (world s) = (Inr m, w)" and "stranded m"
  shows "stranded (obj (snd (finish (m_Reconcile E req) s)))"
proof (rule m_Reconcile_lift [OF assms(2), where Q = "\<lambda>t. stranded (obj t)"])
  fix om oc evs and t :: "('w, CloudDirectorTenantMachine) cstate"
  assume t: "obj t = m" "owners E m om oc"
  have cp: "IsControlPlaneMachine (envLib E) om" using assms(1) t(2) unfolding of_control_plane_def by blast
  have normal: "wp (m_reconcileNormal E om oc) (\<lambda>_ t. stranded (obj t)) (\<lambda>_ t. stranded (obj t)) u" if "stranded (obj u)" for u
    by (rule wp_mono [OF m_reconcileNormal_stranded [OF cp that]]) simp_all
  have "keeps stranded (m_reconcileDelete E om oc)"
    by (rule m_reconcileDelete_keeps) simp_all
  then have delete: "wp (m_reconcileDelete E om oc) (\<lambda>_ t. stranded (obj t)) (\<lambda>_ t. stranded (obj t)) t"
    by (rule keepsD) (simp add: t assms(3))
  show "wp (m_Reconcile_body E om oc) (\<lambda>_ t. stranded (obj t)) (\<lambda>_ t. stranded (obj t)) t"
    unfolding m_Reconcile_body_def using delete assms(3)
    by (auto simp: wp_bind [of get_obj] wp_bind [of "modify_obj _"] wp_get_obj wp_modify_obj wp_if wp_case_prod wp_exit t(1)
        split: prod.split intro!: normal)
qed (simp_all add: assms(3))

lemma machine_event_stranded:
  assumes "of_control_plane E" and "machine_event E req m m'" and "stranded m"
  shows "stranded m'"
  using assms(2) unfolding machine_event_def
proof
  assume "machine_pass E req m m'"
  then obtain s w err where s: "k_GetTenantMachine (envKube E) req (world s) = (Inr m, w)"
      "machine_writes m (obj (snd (finish (m_Reconcile E req) s))) err m'"
    unfolding machine_pass_def by blast
  from m_Reconcile_stranded [OF assms(1) s(1) assms(3)] machine_writes_parts [OF s(2)] assms(3) show ?thesis
    unfolding stranded_def has_vm_def machine_status_eq by (elim disjE) simp_all
next
  assume "machine_edit (envLib E) m m'"
  with assms(3) show ?thesis by (simp add: machine_edit_def stranded_def has_vm_def)
qed

text \<open>
  C36. When the patch of the pass that started a control plane machine stores the provider id
  and loses the status, the addresses are never read again: over every further history,
  whatever the services answer, the machine keeps its provider id, has no address and never
  becomes ready, since every pass stops at the missing address.
\<close>

theorem lost_addresses_never_recovered:
  assumes "of_control_plane E" and "has_vm m" and "mtAddresses (tmStatus m) = []" and "\<not> mtReady (tmStatus m)"
    and "(machine_event E req)\<^sup>*\<^sup>* m m'"
  shows "has_vm m' \<and> mtAddresses (tmStatus m') = [] \<and> \<not> mtReady (tmStatus m')"
proof -
  have "stranded m'"
    using assms(5)
  proof (induction rule: rtranclp_induct)
    case base
    show ?case using assms(2-4) by (simp add: stranded_def)
  next
    case (step y z)
    then show ?case using machine_event_stranded [OF assms(1)] by blast
  qed
  then show ?thesis by (simp add: stranded_def)
qed

definition losing_env :: "(sample_world, unit) env" where
  \<comment> \<open>the environment in which the sample machine becomes ready, but the patch reports an error\<close>
  "losing_env = (sample_env sample_booting)\<lparr>envKube := (sample_kube sample_booting)\<lparr>
     k_PatchMachine := (\<lambda>_ _ _ w. (Some (ExternalError 409 ''conflict''), w))\<rparr>\<rparr>"

definition sample_lost :: CloudDirectorTenantMachine where
  \<comment> \<open>the provider id is stored, the status is not\<close>
  "sample_lost = (obj (snd (finish (m_Reconcile losing_env \<lparr>nnName = ''prod-cp-0'', nnNamespace = ''default''\<rparr>)
     (sample_state sample_machine))))\<lparr>tmStatus := tmStatus (smMachine sample_booting)\<rparr>"

lemma sample_lost_run:
  "last (trace (snd (finish (m_Reconcile losing_env \<lparr>nnName = ''prod-cp-0'', nnNamespace = ''default''\<rparr>) (sample_state sample_machine)))) =
     (KPatch, Some (ExternalError 409 ''conflict'')) \<and> has_vm sample_lost"
proof -
  obtain doc where "ExecuteCloudInitTemplate (Some sample_vm) (Some sample_network) (Some sample_connection) = Inr (doc, None)"
    using sample_cloud_init by blast
  then show ?thesis
    by (simp add: sample_lost_def losing_env_def has_vm_def run_eval m_run_eval m_provision_eval sample_booting_eval sample_vm_sel
        sample_connection_addresses Let_def slices_ContainsFunc_def sample_group_def)
qed

theorem lost_addresses_never_recovered_witness:
  "\<exists>m. machine_stored losing_env \<lparr>nnName = ''prod-cp-0'', nnNamespace = ''default''\<rparr> m \<and>
    (\<forall>m'. (machine_event losing_env \<lparr>nnName = ''prod-cp-0'', nnNamespace = ''default''\<rparr>)\<^sup>*\<^sup>* m m' \<longrightarrow> \<not> mtReady (tmStatus m'))"
proof -
  let ?req = "\<lparr>nnName = ''prod-cp-0'', nnNamespace = ''default''\<rparr>"
  have get: "k_GetTenantMachine (envKube losing_env) ?req 0 = (Inr (smMachine sample_booting), 0)"
    by (simp add: losing_env_def sample_kube_def)
  have "machine_stored losing_env ?req (smMachine sample_booting)"
    by (rule machine_stored.created) (simp add: machine_new_def tm_live_def has_vm_def losing_env_def sample_booting_eval sample_lib_def)
  moreover have "machine_pass losing_env ?req (smMachine sample_booting) sample_lost"
    unfolding machine_pass_def
    by (rule exI [of _ "sample_state sample_machine"], intro exI [of _ 0] exI [of _ "Some (ExternalError 409 ''conflict'')"])
      (simp add: get sample_lost_run machine_writes_def patch_outcome_def sample_lost_def tm_GetConditions_def)
  ultimately have stored: "machine_stored losing_env ?req sample_lost"
    using machine_stored.happened unfolding machine_event_def by blast
  have cp: "of_control_plane losing_env"
    by (simp add: of_control_plane_def owners_def losing_env_def sample_services sample_booting_def sample_def sample_lib_def sample_owner_machine_def)
  have "mtAddresses (tmStatus sample_lost) = []" "\<not> mtReady (tmStatus sample_lost)"
    by (simp_all add: sample_lost_def sample_booting_eval)
  then show ?thesis
    using stored lost_addresses_never_recovered [OF cp conjunct2 [OF sample_lost_run]] by blast
qed

end
