(* ===== verification/Provider_System.thy ===== *)
theory Provider_System
  imports Cluster_Progress Machine_Progress
begin

section \<open>The two controllers together\<close>

text \<open>
  The controllers share the API server: the machine controller reads the cluster object that
  the cluster controller writes, and the cluster controller waits for the machines. A
  \<open>system\<close> is one tenant cluster with its tenant machines and, as a ghost, the virtual
  machines that were ordered for them; its steps are the passes of both controllers, each
  over an environment that sees the store as it is, and what users and the Cluster API core
  do. The property that needs both controllers: no virtual machine outlives the objects that
  lead to its deletion, but for one way out, which a second ghost records: a pass over a
  machine that is being deleted gives up the finalizer when the \<^verbatim>\<open>Cluster\<close> it read has no
  \<^verbatim>\<open>infrastructureRef\<close>.
\<close>

record system =
  sysCluster :: "CloudDirectorTenantCluster option"
  sysMachines :: "string \<Rightarrow> CloudDirectorTenantMachine option" \<comment> \<open>by name\<close>
  sysVms :: "string set" \<comment> \<open>names ordered in Cloud Director and not seen gone since\<close>
  sysLost :: "string set" \<comment> \<open>names whose machine was given up because its cluster referred to no infrastructure\<close>

definition adds_vm :: "string \<Rightarrow> call \<times> goerror option \<Rightarrow> bool" where
  "adds_vm n ev \<longleftrightarrow> (case fst ev of AddNewVM _ k _ _ \<Rightarrow> k = n | _ \<Rightarrow> False)"

definition vm_gone :: "lib \<Rightarrow> string \<Rightarrow> (call \<times> goerror option) list \<Rightarrow> bool" where
  "vm_gone L n evs \<longleftrightarrow> (\<exists>va. gone L (GetVMByName va n) DeleteVM evs)"

definition vms_after :: "lib \<Rightarrow> string \<Rightarrow> (call \<times> goerror option) list \<Rightarrow> string set \<Rightarrow> string set" where
  "vms_after L n evs V = (if list_ex (adds_vm n) evs then insert n V else if vm_gone L n evs then V - {n} else V)"

definition unreferenced :: "('w, 'h) env \<Rightarrow> bool" where
  \<comment> \<open>the API server may answer a \<^verbatim>\<open>Cluster\<close> without \<^verbatim>\<open>infrastructureRef\<close>\<close>
  "unreferenced E \<longleftrightarrow> (\<exists>meta w oc w'. k_GetClusterFromMetadata (envKube E) meta w = ((Some oc, None), w') \<and>
     clusterInfrastructureRef oc = None)"

definition lost_after :: "lib \<Rightarrow> ('w, 'h) env \<Rightarrow> string \<Rightarrow> (call \<times> goerror option) list \<Rightarrow> CloudDirectorTenantMachine
    \<Rightarrow> CloudDirectorTenantMachine \<Rightarrow> string set \<Rightarrow> string set" where
  \<comment> \<open>a pass from \<open>m\<close> to \<open>m'\<close> with these calls: an order takes the name up again, a deletion settles it\<close>
  "lost_after L E n evs m m' X =
     (if list_ex (adds_vm n) evs \<or> vm_gone L n evs then X - {n}
      else if tm_finalized m \<and> \<not> tm_finalized m' \<and> unreferenced E then insert n X else X)"

definition sees :: "lib \<Rightarrow> ('w, 'h) env \<Rightarrow> system \<Rightarrow> bool" where
  \<comment> \<open>the answers of the API server are those of the store, and the core keeps a machine as long as its tenant machine
    is there\<close>
  "sees L E S \<longleftrightarrow> envLib E = L \<and>
     (\<forall>key w tc w'. k_GetTenantCluster (envKube E) key w = (Inr tc, w') \<longrightarrow> sysCluster S = Some tc) \<and>
     (\<forall>oc w w'. k_GetFilteredMachinesForCluster (envKube E) oc w = (([], None), w') \<longrightarrow> (\<forall>n. sysMachines S n = None))"

inductive system_step :: "lib \<Rightarrow> ('w, 'h) env set \<Rightarrow> system \<Rightarrow> system \<Rightarrow> bool" for L and Es :: "('w, 'h) env set" where
  cluster_created: "sysCluster S = None \<Longrightarrow> \<not> recorded tc \<Longrightarrow> live L tc \<Longrightarrow> system_step L Es S (S\<lparr>sysCluster := Some tc\<rparr>)"
| cluster_edited: "sysCluster S = Some tc \<Longrightarrow> user_edit L tc tc' \<Longrightarrow> system_step L Es S (S\<lparr>sysCluster := Some tc'\<rparr>)"
| cluster_passed: "sysCluster S = Some tc \<Longrightarrow> E \<in> Es \<Longrightarrow> sees L E S \<Longrightarrow> cluster_pass E req tc tc' \<Longrightarrow>
    system_step L Es S (S\<lparr>sysCluster := Some tc'\<rparr>)"
| cluster_removed: "sysCluster S = Some tc \<Longrightarrow> \<not> live L tc \<Longrightarrow> metaFinalizers (tcMeta tc) = [] \<Longrightarrow>
    system_step L Es S (S\<lparr>sysCluster := None\<rparr>)"
| machine_created: "sysCluster S = Some tc \<Longrightarrow> live L tc \<Longrightarrow> sysMachines S n = None \<Longrightarrow> machine_new L m \<Longrightarrow>
    metaName (tmMeta m) = n \<Longrightarrow> system_step L Es S (S\<lparr>sysMachines := (sysMachines S)(n \<mapsto> m)\<rparr>)"
| machine_edited: "sysMachines S n = Some m \<Longrightarrow> machine_edit L m m' \<Longrightarrow> metaName (tmMeta m') = n \<Longrightarrow>
    system_step L Es S (S\<lparr>sysMachines := (sysMachines S)(n \<mapsto> m')\<rparr>)"
| machine_passed: "sysMachines S n = Some m \<Longrightarrow> E \<in> Es \<Longrightarrow> sees L E S \<Longrightarrow> trace s = [] \<Longrightarrow>
    k_GetTenantMachine (envKube E) req (world s) = (Inr m, w) \<Longrightarrow>
    t = snd (finish (m_Reconcile E req) s) \<Longrightarrow> last (trace t) = (KPatch, err) \<Longrightarrow> machine_writes m (obj t) err m' \<Longrightarrow>
    system_step L Es S (S\<lparr>sysMachines := (sysMachines S)(n \<mapsto> m'), sysVms := vms_after L n (trace t) (sysVms S),
      sysLost := lost_after L E n (trace t) m m' (sysLost S)\<rparr>)"
| machine_removed: "sysMachines S n = Some m \<Longrightarrow> \<not> tm_live L m \<Longrightarrow> metaFinalizers (tmMeta m) = [] \<Longrightarrow>
    system_step L Es S (S\<lparr>sysMachines := (sysMachines S)(n := None)\<rparr>)"

definition system_start :: system where
  "system_start = \<lparr>sysCluster = None, sysMachines = (\<lambda>_. None), sysVms = {}, sysLost = {}\<rparr>"

definition system_reachable :: "lib \<Rightarrow> ('w, 'h) env set \<Rightarrow> system \<Rightarrow> bool" where
  "system_reachable L Es S \<longleftrightarrow> (system_step L Es)\<^sup>*\<^sup>* system_start S"

subsection \<open>What the passes contribute\<close>

text \<open>A virtual machine is ordered only for a machine with finalizer, in the vApp the stored cluster records.\<close>

definition vapp_recorded :: "('w, 'h) env \<Rightarrow> bool" where
  "vapp_recorded E \<longleftrightarrow> (\<exists>key tc w w'. k_GetTenantCluster (envKube E) key w = (Inr tc, w') \<and> ctVApp (tcStatus tc) \<noteq> None)"

definition orders_in_vapp :: "('w, 'h) env \<Rightarrow> (call \<times> goerror option) list \<Rightarrow> bool" where
  "orders_in_vapp E evs \<longleftrightarrow> (list_ex (\<lambda>ev. creates (fst ev)) evs \<longrightarrow> vapp_recorded E)"

lemma orders_in_vapp_append [simp]: "orders_in_vapp E (xs @ ys) \<longleftrightarrow> orders_in_vapp E xs \<and> orders_in_vapp E ys"
  by (auto simp: orders_in_vapp_def)

lemma orders_nothing: "list_all (\<lambda>ev. \<not> creates (fst ev)) evs \<Longrightarrow> orders_in_vapp E evs"
  by (auto simp: orders_in_vapp_def list_all_iff list_ex_iff)

lemma m_infrastructure_vapp: "wp (m_infrastructure E oc) (\<lambda>_ _. vapp_recorded E) (\<lambda>_ _. True) s"
  unfolding m_infrastructure_def vapp_recorded_def by (auto simp: wp Let_def split: option.splits sum.splits) 

lemma m_reconcileNormal_orders: "emits (orders_in_vapp E) (m_reconcileNormal E om oc)"
proof -
  let ?none = "list_all (\<lambda>ev. \<not> creates (fst ev))"
  have prov: "emits (\<lambda>_. True) (m_provision E om tc org va)" for tc org va
    by (rule emits_mono [OF m_provision_guarded]) simp
  have rest: "emits (orders_in_vapp E) (go_bind get_obj (\<lambda>tm.
     go_bind (if msProviderID (tmSpec tm) = '''' then m_provision E om tc org va else go_return ()) (\<lambda>_.
     go_bind (m_load_balancer E om tc vdc) (\<lambda>_. m_finish E))))" if "vapp_recorded E" for tc org va vdc
  proof -
    have "emits (\<lambda>_. True) (go_bind get_obj (\<lambda>tm.
     go_bind (if msProviderID (tmSpec tm) = '''' then m_provision E om tc org va else go_return ()) (\<lambda>_.
     go_bind (m_load_balancer E om tc vdc) (\<lambda>_. m_finish E))))"
      unfolding m_finish_def
      by (intro emits_bind [where T = "\<lambda>_. True" and U = "\<lambda>_. True"] emits_rules prov quiet_emits [OF m_member_quiet(1)]) simp_all
    then show ?thesis by (rule emits_mono) (simp add: orders_in_vapp_def that)
  qed
  have infra: "emits (orders_in_vapp E) (go_bind (m_infrastructure E c) (\<lambda>(tc, org, vdc, va). go_bind get_obj (\<lambda>tm.
     go_bind (if msProviderID (tmSpec tm) = '''' then m_provision E om tc org va else go_return ()) (\<lambda>_.
     go_bind (m_load_balancer E om tc vdc) (\<lambda>_. m_finish E)))))" for c
    by (rule emits_bind_fact [where T = ?none, OF quiet_emits_all [OF m_infrastructure_quiet] m_infrastructure_vapp])
      (auto simp: call_classes rest orders_nothing split: prod.split)
  show ?thesis
    unfolding m_reconcileNormal_def
    by (rule emits_bind [where T = ?none, OF quiet_emits_all [OF m_gates_quiet] infra]) (simp_all add: orders_nothing)
qed

lemma m_Reconcile_orders:
  fixes E :: "('w, 'h) env"
  assumes "finalizers_lawful (envLib E)" and "k_GetTenantMachine (envKube E) req (world s) = (Inr m, w)" and "trace s = []"
    and "list_ex (\<lambda>ev. creates (fst ev)) (trace (snd (finish (m_Reconcile E req) s)))"
  shows "tm_live (envLib E) m \<and> tm_finalized m \<and> vapp_recorded E"
proof -
  let ?ok = "tm_live (envLib E) m \<and> tm_finalized m \<and> vapp_recorded E"
  define Q where "Q t \<longleftrightarrow> (list_ex (\<lambda>ev. creates (fst ev)) (trace t) \<longrightarrow> ?ok)" for t :: "('w, CloudDirectorTenantMachine) cstate"
  have kube: "list_all (\<lambda>ev. \<not> vcd_call (fst ev)) evs \<Longrightarrow> \<not> list_ex (\<lambda>ev. creates (fst ev)) evs" for evs :: "(call \<times> goerror option) list"
    using not_vcd_call_creates by (fastforce simp: list_all_iff list_ex_iff mutates_def)
  have none_iff: "list_all (\<lambda>ev. \<not> creates (fst ev)) evs \<longleftrightarrow> \<not> list_ex (\<lambda>ev. creates (fst ev)) evs" for evs :: "(call \<times> goerror option) list"
    by (auto simp: list_all_iff list_ex_iff)
  have "Q (snd (finish (m_Reconcile E req) s))"
  proof (rule m_Reconcile_lift [OF assms(2), where Q = Q])
    fix om oc evs and t :: "('w, CloudDirectorTenantMachine) cstate"
    assume t: "obj t = m" "trace t = trace s @ evs" "list_all (\<lambda>ev. \<not> vcd_call (fst ev)) evs"
    then have none: "\<not> list_ex (\<lambda>ev. creates (fst ev)) (trace t)" using kube assms(3) by simp
    have normal: "wp (m_reconcileNormal E om oc) (\<lambda>_. Q) (\<lambda>_. Q) u" if "trace u = trace t" "tm_live (envLib E) m" "tm_finalized m" for u
      by (rule wp_mono [OF emitsD [OF m_reconcileNormal_orders]]) (use none that in \<open>auto simp: orders_in_vapp_def Q_def\<close>)
    have "emits (list_all (\<lambda>ev. \<not> creates (fst ev))) (m_reconcileDelete E om oc)"
      by (rule emits_all_mono [OF m_reconcileDelete_no_creates]) simp
    from emitsD [OF this, of t] have delete: "wp (m_reconcileDelete E om oc) (\<lambda>_. Q) (\<lambda>_. Q) t"
      by (rule wp_mono) (use none in \<open>auto simp: none_iff Q_def\<close>)
    obtain fs added where add: "AddFinalizer (envLib E) (metaFinalizers (tmMeta m)) CloudDirectorTenantMachineFinalizer = (fs, added)"
      by (metis prod.collapse)
    then have "\<not> added \<Longrightarrow> tm_finalized m"
      using assms(1) unfolding finalizers_lawful_def tm_finalized_def by (metis snd_conv)
    then show "wp (m_Reconcile_body E om oc) (\<lambda>_. Q) (\<lambda>_. Q) t"
      unfolding m_Reconcile_body_def using delete none Q_def
      by (auto simp: wp_bind [of get_obj] wp_bind [of "modify_obj _"] wp_get_obj wp_modify_obj wp_if wp_case_prod wp_exit t(1) add
          tm_live_def intro!: normal)
  next
    fix t t' :: "('w, CloudDirectorTenantMachine) cstate" and cs err
    assume "Q t" "trace t' = trace t @ [(KPatch, err)]"
    then show "Q t'" by (simp add: creates_def Q_def)
  qed (use kube assms(3) in \<open>simp add: Q_def\<close>)
  with assms(4) show ?thesis by (simp add: Q_def)
qed

lemma c_Reconcile_body_keeps_vapp: "keeps (\<lambda>c. ctVApp (tcStatus c) \<noteq> None) (c_Reconcile_body E)"
proof -
  have q: "quiet tc_SetConditions C n \<Longrightarrow> keeps (\<lambda>c. ctVApp (tcStatus c) \<noteq> None) n" for C n
    by (erule quiet_keeps) simp
  show ?thesis
    unfolding c_Reconcile_body_def c_reconcileNormal_def c_resources_def c_endpoint_def c_publish_def c_reconcileDelete_def
    by (intro keeps_rules c_stages_quiet [THEN q] keeps_modify)
      (simp_all add: tc_MarkTrue_def tc_MarkFalse_def tc_set_status_def tc_set_finalizers_def)
qed

lemma cluster_pass_vapp:
  assumes "cluster_pass E req tc tc'" and "ctVApp (tcStatus tc) \<noteq> None"
  shows "ctVApp (tcStatus tc') \<noteq> None"
proof -
  obtain s w err where s: "k_GetTenantCluster (envKube E) req (world s) = (Inr tc, w)"
      "patch_writes tc (obj (snd (finish (c_Reconcile E req) s))) err tc'"
    using assms(1) unfolding cluster_pass_def by blast
  have "ctVApp (tcStatus (obj (snd (finish (c_Reconcile E req) s)))) \<noteq> None"
    by (rule c_Reconcile_keeps [OF c_Reconcile_body_keeps_vapp _ s(1) assms(2) prod.collapse [symmetric]]) simp
  moreover have "resources a = resources b \<Longrightarrow> ctVApp a = ctVApp b" for a b :: CloudDirectorTenantClusterStatus
    by (cases a; cases b) (simp add: resources_def)
  ultimately show ?thesis using patch_writes_parts(2) [OF s(2)] assms(2) by metis
qed

lemma cluster_pass_release:
  assumes "finalizers_lawful (envLib E)" and "cluster_pass E req tc tc'" and "finalized tc" and "\<not> finalized tc'"
  shows "\<exists>oc w w'. k_GetFilteredMachinesForCluster (envKube E) oc w = (([], None), w')"
proof -
  obtain s w err where s: "k_GetTenantCluster (envKube E) req (world s) = (Inr tc, w)"
      "patch_writes tc (obj (snd (finish (c_Reconcile E req) s))) err tc'"
    using assms(2) unfolding cluster_pass_def by blast
  then have "\<not> finalized (obj (snd (finish (c_Reconcile E req) s)))"
    using patch_writes_parts(1) assms(3,4) by (metis finalized_def)
  from c_Reconcile_finalizer [OF assms(1) s(1) _ prod.collapse [symmetric]] this assms(3) show ?thesis
    unfolding finalized_def deletion_complete_def by blast
qed

lemma machine_pass_release:
  assumes "finalizers_lawful (envLib E)" and "sees L E S" and "k_GetTenantMachine (envKube E) req (world s) = (Inr m, w)"
    and "trace s = []" and "tm_finalized m" and "\<not> tm_finalized (obj (snd (finish (m_Reconcile E req) s)))"
  shows "\<not> tm_live L m \<and> (vm_gone L (metaName (tmMeta m)) (trace (snd (finish (m_Reconcile E req) s))) \<or>
    (\<exists>tc. sysCluster S = Some tc \<and> ctVApp (tcStatus tc) = None) \<or> unreferenced E)"
proof -
  have "\<not> tm_live L m \<and> (\<exists>om oc evs. owners E m om oc \<and> trace (snd (finish (m_Reconcile E req) s)) = trace s @ evs \<and>
      vm_released E (metaName (tmMeta m)) oc evs)"
    using m_Reconcile_finalizer [OF assms(1,3) _ prod.collapse [symmetric]] assms(2,5,6)
    unfolding tm_finalized_def tm_live_def sees_def by blast
  then show ?thesis
    using assms(2,4) unfolding vm_released_def owners_def sees_def vm_gone_def unreferenced_def by fastforce
qed

subsection \<open>The invariant\<close>

definition cluster_guarded :: "lib \<Rightarrow> system \<Rightarrow> bool" where
  \<comment> \<open>a cluster with something recorded that is live or has machines holds the finalizer\<close>
  "cluster_guarded L S \<longleftrightarrow> (\<forall>tc. sysCluster S = Some tc \<and> recorded tc \<and> (live L tc \<or> (\<exists>n. sysMachines S n \<noteq> None)) \<longrightarrow> finalized tc)"

definition vms_guarded :: "system \<Rightarrow> bool" where
  "vms_guarded S \<longleftrightarrow> (\<forall>n \<in> sysVms S. n \<notin> sysLost S \<longrightarrow> (\<exists>m tc. sysMachines S n = Some m \<and> tm_finalized m \<and>
     sysCluster S = Some tc \<and> finalized tc \<and> ctVApp (tcStatus tc) \<noteq> None))"

definition losses_explained :: "('w, 'h) env set \<Rightarrow> system \<Rightarrow> bool" where
  "losses_explained Es S \<longleftrightarrow> (sysLost S \<noteq> {} \<longrightarrow> (\<exists>E \<in> Es. unreferenced E))"

definition names_match :: "system \<Rightarrow> bool" where
  "names_match S \<longleftrightarrow> (\<forall>n m. sysMachines S n = Some m \<longrightarrow> metaName (tmMeta m) = n)"

lemma machine_passed_step:
  assumes "finalizers_lawful (envLib E)" and "k_GetTenantMachine (envKube E) req (world s) = (Inr m, w)"
    and "machine_writes m (obj (snd (finish (m_Reconcile E req) s))) err m'"
  shows "machine_step (envLib E) m m'"
  by (rule machine_writes_step [OF assms(3)]) (use m_Reconcile_step [OF assms(1,2)] in blast)

lemma system_step_names:
  assumes "finalizers_lawful L" and "system_step L Es S S'" and "names_match S"
  shows "names_match S'"
  using assms(2)
proof cases
  case (machine_passed n m E s req w t err m')
  then have "machine_step L m m'" using machine_passed_step assms(1) by (metis sees_def)
  with machine_passed assms(3) show ?thesis by (simp add: names_match_def machine_step_def)
qed (use assms(3) in \<open>auto simp: names_match_def\<close>)

lemma system_step_cluster:
  assumes "finalizers_lawful L" and "system_step L Es S S'" and "cluster_guarded L S"
  shows "cluster_guarded L S'"
  using assms(2)
proof cases
  case (cluster_passed tc E req tc')
  have "envLib E = L" using cluster_passed(4) by (simp add: sees_def)
  then have lawful: "finalizers_lawful (envLib E)" and step: "cluster_step L tc tc'"
    using cluster_pass_step [of E req tc tc'] cluster_passed(5) assms(1) by auto
  show ?thesis
    unfolding cluster_guarded_def
  proof (intro allI impI)
    fix c assume *: "sysCluster S' = Some c \<and> recorded c \<and> (live L c \<or> (\<exists>n. sysMachines S' n \<noteq> None))"
    then have c: "c = tc'" using cluster_passed(1) by simp
    show "finalized c"
    proof (cases "live L tc")
      case True
      then show ?thesis
        using step * c assms(3) cluster_passed(2) recorded_resources [of tc' tc] unfolding cluster_guarded_def cluster_step_def by metis
    next
      case False
      then have "resources (tcStatus tc') = resources (tcStatus tc)" "\<not> live L tc'" using step by (simp_all add: cluster_step_def)
      then have "finalized tc" "\<exists>n. sysMachines S n \<noteq> None"
        using * c assms(3) cluster_passed(1,2) recorded_resources [of tc' tc] by (auto simp: cluster_guarded_def)
      then show ?thesis
        using cluster_pass_release [OF lawful cluster_passed(5)] cluster_passed(4) c unfolding sees_def by metis
    qed
  qed
next
  case (cluster_edited tc tc')
  with assms(3) show ?thesis by (auto simp: cluster_guarded_def user_edit_def recorded_def finalized_def)
next
  case (machine_created tc n m)
  with assms(3) show ?thesis by (auto simp: cluster_guarded_def)
qed (use assms(3) in \<open>auto simp: cluster_guarded_def split: if_splits\<close>)

lemma adds_vm_creates: "list_ex (adds_vm n) evs \<Longrightarrow> list_ex (\<lambda>ev. creates (fst ev)) evs"
  by (auto simp: list_ex_iff adds_vm_def creates_def split: call.splits)

text \<open>A pass leaves the machine it ran on with its finalizer, unless its virtual machine is gone.\<close>

lemma machine_passed_guarded:
  assumes "finalizers_lawful L" and "sees L E S" and "cluster_guarded L S" and "vms_guarded S" and "names_match S"
    and "sysMachines S n = Some m" and "trace s = []" and "k_GetTenantMachine (envKube E) req (world s) = (Inr m, w)"
    and "machine_writes m (obj (snd (finish (m_Reconcile E req) s))) err m'"
    and "n \<in> vms_after L n (trace (snd (finish (m_Reconcile E req) s))) (sysVms S)"
    and "n \<notin> lost_after L E n (trace (snd (finish (m_Reconcile E req) s))) m m' (sysLost S)"
  shows "tm_finalized m' \<and> (\<exists>tc. sysCluster S = Some tc \<and> finalized tc \<and> ctVApp (tcStatus tc) \<noteq> None)"
proof -
  let ?t = "snd (finish (m_Reconcile E req) s)"
  have L: "envLib E = L" using assms(2) by (simp add: sees_def)
  then have lawful: "finalizers_lawful (envLib E)" using assms(1) by simp
  show ?thesis
  proof (cases "list_ex (adds_vm n) (trace ?t)")
    case True
    then have m: "tm_live L m" "tm_finalized m" and "vapp_recorded E"
      using m_Reconcile_orders [OF lawful assms(8,7)] adds_vm_creates L by auto
    then obtain tc where tc: "sysCluster S = Some tc" "ctVApp (tcStatus tc) \<noteq> None"
      using assms(2) unfolding vapp_recorded_def sees_def by metis
    then have "finalized tc"
      using assms(3,6) unfolding cluster_guarded_def recorded_def by blast
    moreover have "tm_finalized m'"
      using machine_passed_step [OF lawful assms(8,9)] m L by (simp add: machine_step_def)
    ultimately show ?thesis using tc by blast
  next
    case False
    with assms(10) have n: "n \<in> sysVms S" "\<not> vm_gone L n (trace ?t)"
      by (auto simp: vms_after_def split: if_splits)
    with assms(11) False have kept: "n \<notin> sysLost S" "tm_finalized m \<Longrightarrow> \<not> tm_finalized m' \<Longrightarrow> \<not> unreferenced E"
      by (auto simp: lost_after_def split: if_splits)
    with n obtain tc where tc: "tm_finalized m" "sysCluster S = Some tc" "finalized tc" "ctVApp (tcStatus tc) \<noteq> None"
      using assms(4,6) unfolding vms_guarded_def by fastforce
    have "metaName (tmMeta m) = n" using assms(5,6) by (simp add: names_match_def)
    then have "tm_finalized (obj ?t) \<or> unreferenced E"
      using machine_pass_release [OF lawful assms(2,8,7) tc(1)] n(2) tc(2,4) by auto
    moreover have "tm_finalized (obj ?t) \<Longrightarrow> tm_finalized m'"
      using machine_writes_parts(1) [OF assms(9)] tc(1) by (auto simp: tm_finalized_def)
    ultimately have "tm_finalized m'" using kept(2) tc(1) by blast
    with tc show ?thesis by blast
  qed
qed

lemma system_step_vms:
  assumes "finalizers_lawful L" and "system_step L Es S S'" and "cluster_guarded L S" and "vms_guarded S" and "names_match S"
  shows "vms_guarded S'"
  using assms(2)
proof cases
  case (cluster_created tc)
  with assms(4) show ?thesis by (auto simp: vms_guarded_def)
next
  case (cluster_edited tc tc')
  with assms(4) show ?thesis by (fastforce simp: vms_guarded_def user_edit_def finalized_def)
next
  case (cluster_passed tc E req tc')
  have lawful: "finalizers_lawful (envLib E)" using cluster_passed(4) assms(1) by (simp add: sees_def)
  have "finalized tc'" if "finalized tc" "sysMachines S n = Some m" for n m
    using cluster_pass_release [OF lawful cluster_passed(5) that(1)] cluster_passed(4) that(2) unfolding sees_def by fastforce
  with assms(4) cluster_passed(1,2) cluster_pass_vapp [OF cluster_passed(5)] show ?thesis
    by (fastforce simp: vms_guarded_def)
next
  case (cluster_removed tc)
  with assms(4) show ?thesis by (fastforce simp: vms_guarded_def finalized_def)
next
  case (machine_created tc n m)
  with assms(4) show ?thesis by (fastforce simp: vms_guarded_def)
next
  case (machine_edited n m m')
  with assms(4) show ?thesis by (fastforce simp: vms_guarded_def machine_edit_def tm_finalized_def)
next
  case (machine_passed n m E s req w t err m')
  have other: "k \<in> sysVms S" "k \<notin> sysLost S"
    if "k \<in> vms_after L n (trace t) (sysVms S)" "k \<notin> lost_after L E n (trace t) m m' (sysLost S)" "k \<noteq> n" for k
    using that by (auto simp: vms_after_def lost_after_def split: if_splits)
  note mine = machine_passed_guarded [OF assms(1) machine_passed(4) assms(3-5) machine_passed(2) machine_passed(5,6)
      machine_passed(9) [unfolded machine_passed(7)], folded machine_passed(7)]
  show ?thesis
    unfolding vms_guarded_def
  proof (intro ballI impI)
    fix k assume "k \<in> sysVms S'" "k \<notin> sysLost S'"
    then have k: "k \<in> vms_after L n (trace t) (sysVms S)" "k \<notin> lost_after L E n (trace t) m m' (sysLost S)"
      using machine_passed(1) by simp_all
    show "\<exists>m tc. sysMachines S' k = Some m \<and> tm_finalized m \<and> sysCluster S' = Some tc \<and> finalized tc \<and> ctVApp (tcStatus tc) \<noteq> None"
    proof (cases "k = n")
      case True
      with mine k machine_passed(1) show ?thesis by auto
    next
      case False
      with other [OF k] assms(4) machine_passed(1) show ?thesis by (fastforce simp: vms_guarded_def)
    qed
  qed
next
  case (machine_removed n m)
  with assms(4) show ?thesis by (fastforce simp: vms_guarded_def tm_finalized_def)
qed

lemma system_step_losses:
  assumes "system_step L Es S S'" and "losses_explained Es S"
  shows "losses_explained Es S'"
  using assms(1)
proof cases
  case (machine_passed n m E s req w t err m')
  have "unreferenced E" if "sysLost S = {}" "sysLost S' \<noteq> {}"
    using that machine_passed(1) by (auto simp: lost_after_def split: if_splits)
  with assms(2) machine_passed(3) show ?thesis by (auto simp: losses_explained_def)
qed (use assms(2) in \<open>auto simp: losses_explained_def\<close>)

lemma system_reachable_inv:
  assumes "finalizers_lawful L" and "system_reachable L Es S"
  shows "cluster_guarded L S \<and> vms_guarded S \<and> names_match S \<and> losses_explained Es S"
  using assms(2) unfolding system_reachable_def
proof (induction rule: rtranclp_induct)
  case base
  show ?case by (simp add: system_start_def cluster_guarded_def vms_guarded_def names_match_def losses_explained_def)
next
  case (step S S')
  with system_step_cluster [OF assms(1)] system_step_vms [OF assms(1)] system_step_names [OF assms(1)] system_step_losses
  show ?case by blast
qed

text \<open>
  C1. No virtual machine is orphaned but in one way. In every state that the passes of both
  controllers, users and the Cluster API core can reach, whatever Cloud Director answers and
  whichever patches are lost, a virtual machine that was ordered and not seen gone since
  belongs to a stored machine that holds its finalizer, and the stored cluster holds its
  finalizer and records the vApp, so that the objects that lead to its deletion cannot vanish
  before it; or its machine was given up by a pass while the \<^verbatim>\<open>Cluster\<close> had no
  \<^verbatim>\<open>infrastructureRef\<close>, which needs an environment that answers such a \<^verbatim>\<open>Cluster\<close>. The passes
  read the tenant cluster as it is stored, and the list of machines is empty only when no
  tenant machine is left.
\<close>

theorem system_no_orphans:
  assumes "finalizers_lawful L" and "system_reachable L Es S" and "n \<in> sysVms S"
  shows "(\<exists>m tc. sysMachines S n = Some m \<and> metaName (tmMeta m) = n \<and> tm_finalized m \<and>
      sysCluster S = Some tc \<and> finalized tc \<and> ctVApp (tcStatus tc) \<noteq> None) \<or>
    n \<in> sysLost S \<and> (\<exists>E \<in> Es. unreferenced E)"
proof (cases "n \<in> sysLost S")
  case False
  with system_reachable_inv [OF assms(1,2)] assms(3) show ?thesis
    unfolding vms_guarded_def names_match_def by blast
next
  case True
  with system_reachable_inv [OF assms(1,2)] show ?thesis unfolding losses_explained_def by blast
qed

subsection \<open>A run of the system\<close>

text \<open>
  A cluster is made ready, a machine is created, and the pass over it orders the virtual
  machine but does not find it afterwards: the machine has no provider id yet, and still the
  objects that lead to its deletion are guarded.
\<close>

definition sample_ordering :: sample where
  "sample_ordering = sample\<lparr>smCluster := sample_served, smMachine := smMachine sample_booting, smMachines := [sample_owner_machine]\<rparr>"

definition sample_lagging :: "(sample_world, unit) env" where
  \<comment> \<open>the virtual machine that was ordered cannot be looked up yet\<close>
  "sample_lagging = (sample_env sample_ordering)\<lparr>envVm := (sample_vms False)\<lparr>m_GetVMByName := (\<lambda>_ _ _. answer False sample_vm)\<rparr>\<rparr>"

lemma sample_lagging_get: "k_GetTenantMachine (envKube sample_lagging) req w = (Inr (smMachine sample_booting), w)"
  by (simp add: sample_lagging_def sample_ordering_def)

definition sample_ordered :: "(sample_world, CloudDirectorTenantMachine) cstate" where
  "sample_ordered = snd (finish (m_Reconcile sample_lagging \<lparr>nnName = ''prod-cp-0'', nnNamespace = ''default''\<rparr>)
     (sample_state (smMachine sample_booting)))"

definition sample_system :: system where
  "sample_system = \<lparr>sysCluster = Some sample_served, sysMachines = [''prod-cp-0'' \<mapsto> obj sample_ordered], sysVms = {''prod-cp-0''}, sysLost = {}\<rparr>"

lemma sample_served_known:
  "tcSpec sample_served = tcSpec sample_live" "live sample_lib sample_served" "\<exists>r. ctVApp (tcStatus sample_served) = Some r"
proof -
  let ?E = "sample_env (sample\<lparr>smCluster := sample_live\<rparr>)"
  have frame: "tc_spec_frame ?E sample_live sample_served"
    unfolding sample_served_def
    by (rule c_Reconcile_keeps [OF c_Reconcile_body_keeps_frame _ sample_get_cluster _ prod.collapse [symmetric]])
      (simp_all add: tc_spec_frame_refl)
  then show "tcSpec sample_served = tcSpec sample_live"
    by (auto simp: tc_spec_frame_def sample_live_def sample_objects)
  show "live sample_lib sample_served"
    using cluster_pass_step [OF _ sample_history(2)] sample_lib_lawful(2)
    by (simp add: cluster_step_def live_def sample_live_def sample_objects sample_lib_def split: if_splits)
  have "tc_ready_inv sample_served"
    by (rule cluster_pass_ready [OF sample_history(2)]) (simp add: tc_ready_inv_def sample_live_def sample_objects)
  then show "\<exists>r. ctVApp (tcStatus sample_served) = Some r"
    using sample_history_run(2) by (simp add: tc_ready_inv_def)
qed

lemma sample_orders:
  "list_ex (adds_vm ''prod-cp-0'') (trace sample_ordered) \<and> last (trace sample_ordered) = (KPatch, None)"
proof -
  obtain r where r: "ctVApp (tcStatus sample_served) = Some r" using sample_served_known(3) by blast
  have identity: "csIdentityRef (tcSpec sample_served) = Some \<lparr>identityKind = ''Secret'', identityName = ''vcd''\<rparr>"
    by (simp add: sample_served_known(1) sample_live_def sample_objects)
  show ?thesis
    by (simp add: sample_ordered_def sample_lagging_def sample_ordering_def sample_booting_def run_eval m_run_eval m_provision_def m_ensure_vm_def
        m_catalog_def m_create_vm_def r identity not_found_error_def adds_vm_def Let_def)
qed

lemma four_steps: "r a b \<Longrightarrow> r b c \<Longrightarrow> r c d \<Longrightarrow> r d e \<Longrightarrow> r\<^sup>*\<^sup>* a e"
  by (rule converse_rtranclp_into_rtranclp [of r a b], assumption, rule converse_rtranclp_into_rtranclp [of r b c], assumption,
      rule converse_rtranclp_into_rtranclp [of r c d], assumption, rule r_into_rtranclp)

lemma sample_system_reachable: "system_reachable sample_lib (UNIV :: (sample_world, unit) env set) sample_system"
proof -
  let ?S1 = "system_start\<lparr>sysCluster := Some sample_live\<rparr>" and ?S2 = "system_start\<lparr>sysCluster := Some sample_served\<rparr>"
  let ?S3 = "?S2\<lparr>sysMachines := (sysMachines ?S2)(''prod-cp-0'' \<mapsto> smMachine sample_booting)\<rparr>"
  let ?step = "system_step sample_lib (UNIV :: (sample_world, unit) env set)"
  have s1: "?step system_start ?S1"
    by (rule system_step.cluster_created) (simp_all add: system_start_def recorded_def live_def sample_live_def sample_objects sample_lib_def)
  have "?step ?S1 (?S1\<lparr>sysCluster := Some sample_served\<rparr>)"
    by (rule system_step.cluster_passed [OF _ _ _ sample_history(2)])
      (simp_all add: sees_def system_start_def)
  then have s2: "?step ?S1 ?S2" by (simp add: system_start_def)
  have s3: "?step ?S2 ?S3"
    by (rule system_step.machine_created [OF _ sample_served_known(2)])
      (simp_all add: system_start_def machine_new_def tm_live_def has_vm_def sample_booting_eval sample_lib_def)
  have step4: "?step ?S3 (?S3\<lparr>sysMachines := (sysMachines ?S3)(''prod-cp-0'' \<mapsto> obj sample_ordered),
      sysVms := vms_after sample_lib ''prod-cp-0'' (trace sample_ordered) (sysVms ?S3),
      sysLost := lost_after sample_lib sample_lagging ''prod-cp-0'' (trace sample_ordered) (smMachine sample_booting)
        (obj sample_ordered) (sysLost ?S3)\<rparr>)"
  proof (rule system_step.machine_passed [OF _ _ _ _ sample_lagging_get sample_ordered_def conjunct2 [OF sample_orders]])
    show "machine_writes (smMachine sample_booting) (obj sample_ordered) None (obj sample_ordered)"
      unfolding machine_writes_def by (rule patch_outcome_complete)
    show "sees sample_lib sample_lagging ?S3"
      by (simp add: sees_def system_start_def sample_lagging_def sample_ordering_def) (simp add: sample_services sample_objects)
  qed (simp_all add: system_start_def sample_ordering_def)
  have ordered: "vms_after sample_lib ''prod-cp-0'' (trace sample_ordered) {} = {''prod-cp-0''}"
    by (simp only: vms_after_def conjunct1 [OF sample_orders] if_True)
  have none: "lost_after sample_lib sample_lagging ''prod-cp-0'' (trace sample_ordered) m m' {} = {}" for m m'
    by (simp add: lost_after_def conjunct1 [OF sample_orders])
  have eq4: "?S3\<lparr>sysMachines := (sysMachines ?S3)(''prod-cp-0'' \<mapsto> obj sample_ordered),
      sysVms := vms_after sample_lib ''prod-cp-0'' (trace sample_ordered) (sysVms ?S3),
      sysLost := lost_after sample_lib sample_lagging ''prod-cp-0'' (trace sample_ordered) (smMachine sample_booting)
        (obj sample_ordered) (sysLost ?S3)\<rparr> = sample_system"
    by (simp add: sample_system_def system_start_def ordered none)
  have s4: "?step ?S3 sample_system" using step4 unfolding eq4 .
  show ?thesis
    unfolding system_reachable_def
    by (rule four_steps [of ?step, OF s1 s2 s3 s4])
qed

theorem system_no_orphans_witness:
  "tm_finalized (obj sample_ordered) \<and> finalized sample_served"
  using system_no_orphans [OF sample_lib_lawful(2) sample_system_reachable, of "''prod-cp-0''"]
  by (simp add: sample_system_def)

end
