(* ===== verification/Concurrent_Cache.thy ===== *)
theory Concurrent_Cache
  imports Client_Cache
begin

section \<open>Concurrent calls of the client cache (src/util/clientcache/clientcache.go)\<close>

text \<open>
  The two controllers call \<^verbatim>\<open>GetVCDClient\<close> from goroutines of their own. Here its calls run
  interleaved: each call is a phase between two statements that look at something shared
  (the secret, the expiring cache, the login, the clock, the mutex), and a step takes one
  caller from one phase to the next. \<^verbatim>\<open>defer p.mutex.Unlock()\<close> runs on every way out of the
  section, a panic included. Between the steps the world may change on its own, as far as a
  relation \<open>R\<close> allows it.

  Shown: the section is exclusive, no call waits for ever (\<open>concurrent_calls_return\<close>); the
  calls have the results and the effect of running \<open>get_vcd_client\<close> one after another in the
  order in which they return (\<open>concurrent_calls_serializable\<close>), which is what \<open>Client_Cache\<close> and the controllers
  rely on when they treat a call as one step; callers with the same key share one client
  (\<open>one_client_per_key\<close>).
\<close>

subsection \<open>The phases of a call\<close>

type_synonym call_result = "(VCDClient option \<times> goerror option) exit"

datatype 'u phase =
    Called CloudDirectorTenantCluster
  | Waiting 'u string string string \<comment> \<open>before \<^verbatim>\<open>p.mutex.Lock()\<close>: URL, endpoint, token, organization\<close>
  | Holding 'u string string string \<comment> \<open>before \<^verbatim>\<open>p.expiringCache.Get\<close>\<close>
  | Missed 'u string string string \<comment> \<open>before the login\<close>
  | LoggedIn "32 word" VCDClient Token \<comment> \<open>before the clock is read\<close>
  | Counted "32 word" VCDClient int \<comment> \<open>before \<^verbatim>\<open>p.expiringCache.Add\<close>\<close>
  | Leaving call_result \<comment> \<open>before the deferred \<^verbatim>\<open>p.mutex.Unlock()\<close>\<close>
  | Returned call_result

definition secret_phase :: "('w, 'u) auth \<Rightarrow> Secret \<Rightarrow> 'u phase" where
  \<comment> \<open>from the secret to the mutex nothing shared is looked at\<close>
  "secret_phase A secret =
     (case secretData secret ''url'' of None \<Rightarrow> Returned (Return (None, None))
      | Some endpoint \<Rightarrow>
        (case au_Parse A (endpoint @ ''/api'') of Inl err \<Rightarrow> Returned (Return (None, Some err))
         | Inr u \<Rightarrow>
           (case secretData secret ''apiToken'' of None \<Rightarrow> Returned (Return (None, None))
            | Some apiToken \<Rightarrow>
              (case secretData secret ''organization'' of None \<Rightarrow> Returned (Return (None, None))
               | Some organization \<Rightarrow> Waiting u endpoint apiToken organization))))"

fun local_step :: "('w, 'h) kube \<Rightarrow> ('w, 'u) auth \<Rightarrow> 'u phase \<Rightarrow> 'w
    \<Rightarrow> 'u phase \<times> 'w \<times> (cache_call \<times> goerror option) list" where
  "local_step K A (Called tc) w =
     (case csIdentityRef (tcSpec tc) of None \<Rightarrow> (Returned (Panic NilDereference), w, [])
      | Some ref \<Rightarrow>
        let objectKey = \<lparr>nnName = identityName ref, nnNamespace = metaNamespace (tcMeta tc)\<rparr> in
        (case k_GetSecret K objectKey w of
           (Inl err, w') \<Rightarrow> (Returned (Return (None, Some err)), w', [(CacheGetSecret objectKey, Some err)])
         | (Inr secret, w') \<Rightarrow> (secret_phase A secret, w', [(CacheGetSecret objectKey, None)])))"
| "local_step K A (Holding u endpoint apiToken organization) w =
     (let k = cache_key endpoint apiToken organization in
      case au_CacheGet A k w of
        (Some c, w') \<Rightarrow> (Leaving (Return (Some c, None)), w', [(CacheGet k, None)])
      | (None, w') \<Rightarrow> (Missed u endpoint apiToken organization, w', [(CacheGet k, None)]))"
| "local_step K A (Missed u endpoint apiToken organization) w =
     (case au_SetApiToken A (au_NewVCDClient A u False) organization apiToken w of
        (((vcdClient, token), err), w') \<Rightarrow>
        (if err \<noteq> None then Leaving (Return (None, err))
         else case token of None \<Rightarrow> Leaving (Panic NilDereference)
           | Some t \<Rightarrow> LoggedIn (cache_key endpoint apiToken organization) vcdClient t,
         w', [(CacheLogin organization apiToken, err)]))"
| "local_step K A (LoggedIn k vcdClient t) w =
     (case getTokenRemainingTTL A (AccessToken t) w of (ttl, err) \<Rightarrow>
        (if err \<noteq> None then Leaving (Return (None, err)) else Counted k vcdClient ttl, w, []))"
| "local_step K A (Counted k vcdClient ttl) w =
     (Leaving (Return (Some vcdClient, None)), au_CacheAdd A k vcdClient ttl w, [(CacheAdd k vcdClient ttl, None)])"
| "local_step K A p w = (p, w, [])"

subsection \<open>Interleaved calls\<close>

record ('w, 'u) conc =
  coPhases :: "'u phase list"
  coMutex :: "nat option" \<comment> \<open>the caller that holds it\<close>
  coWorld :: 'w
  coTrace :: "(nat \<times> cache_call \<times> goerror option) list" \<comment> \<open>the calls, each with its caller\<close>

definition co_start :: "CloudDirectorTenantCluster list \<Rightarrow> 'w \<Rightarrow> ('w, 'u) conc" where
  "co_start tcs w = \<lparr>coPhases = map Called tcs, coMutex = None, coWorld = w, coTrace = []\<rparr>"

definition co_exec :: "('w, 'h) kube \<Rightarrow> ('w, 'u) auth \<Rightarrow> nat \<Rightarrow> ('w, 'u) conc \<Rightarrow> ('w, 'u) conc option" where
  \<comment> \<open>the next step of a caller; \<open>None\<close> when it waits for the mutex or has returned\<close>
  "co_exec K A i S =
     (if i < length (coPhases S) then
        (case coPhases S ! i of
           Waiting u endpoint apiToken organization \<Rightarrow>
             (if coMutex S = None
              then Some (S\<lparr>coPhases := (coPhases S)[i := Holding u endpoint apiToken organization], coMutex := Some i\<rparr>)
              else None)
         | Leaving r \<Rightarrow> Some (S\<lparr>coPhases := (coPhases S)[i := Returned r], coMutex := None\<rparr>)
         | Returned r \<Rightarrow> None
         | p \<Rightarrow> (case local_step K A p (coWorld S) of (p', w', evs) \<Rightarrow>
             Some (S\<lparr>coPhases := (coPhases S)[i := p'], coWorld := w', coTrace := coTrace S @ map (Pair i) evs\<rparr>)))
      else None)"

inductive co_steps :: "('w, 'h) kube \<Rightarrow> ('w, 'u) auth \<Rightarrow> ('w \<Rightarrow> 'w \<Rightarrow> bool)
    \<Rightarrow> ('w, 'u) conc \<Rightarrow> nat list \<Rightarrow> ('w, 'u) conc \<Rightarrow> bool" for K A R S where
  begin_calls: "co_steps K A R S [] S"
| caller: "co_steps K A R S sched S' \<Longrightarrow> co_exec K A i S' = Some S'' \<Longrightarrow> co_steps K A R S (sched @ [i]) S''"
| other: "co_steps K A R S sched S' \<Longrightarrow> R (coWorld S') w \<Longrightarrow> co_steps K A R S sched (S'\<lparr>coWorld := w\<rparr>)"

definition moving :: "'u phase \<Rightarrow> bool" where
  \<comment> \<open>the phases that \<open>local_step\<close> leaves\<close>
  "moving p = (case p of Waiting _ _ _ _ \<Rightarrow> False | Leaving _ \<Rightarrow> False | Returned _ \<Rightarrow> False | _ \<Rightarrow> True)"

lemma co_exec_cases [consumes 1, case_names moves locks unlocks]:
  assumes "co_exec K A i S = Some S'"
  obtains p p' w' evs where "i < length (coPhases S)" "coPhases S ! i = p" "moving p" "local_step K A p (coWorld S) = (p', w', evs)"
      "S' = S\<lparr>coPhases := (coPhases S)[i := p'], coWorld := w', coTrace := coTrace S @ map (Pair i) evs\<rparr>"
  | u e t org where "i < length (coPhases S)" "coPhases S ! i = Waiting u e t org" "coMutex S = None"
      "S' = S\<lparr>coPhases := (coPhases S)[i := Holding u e t org], coMutex := Some i\<rparr>"
  | r where "i < length (coPhases S)" "coPhases S ! i = Leaving r"
      "S' = S\<lparr>coPhases := (coPhases S)[i := Returned r], coMutex := None\<rparr>"
  using assms unfolding co_exec_def moving_def
  by (cases "coPhases S ! i"; auto split: if_splits prod.splits simp del: local_step.simps)

subsection \<open>Exclusion\<close>

definition in_section :: "'u phase \<Rightarrow> bool" where
  "in_section p = (case p of Called _ \<Rightarrow> False | Waiting _ _ _ _ \<Rightarrow> False | Returned _ \<Rightarrow> False | _ \<Rightarrow> True)"

lemma in_section_simps [simp]:
  "\<not> in_section (Called tc)" "\<not> in_section (Waiting u e t org)" "\<not> in_section (Returned r)"
  "in_section (Holding u e t org)" "in_section (Missed u e t org)" "in_section (LoggedIn k c tok)"
  "in_section (Counted k c ttl)" "in_section (Leaving r)"
  by (simp_all add: in_section_def)

definition exclusive :: "('w, 'u) conc \<Rightarrow> bool" where
  \<comment> \<open>the holder of the mutex is in the section, and nobody else\<close>
  "exclusive S \<longleftrightarrow> (\<forall>i. coMutex S = Some i \<longleftrightarrow> i < length (coPhases S) \<and> in_section (coPhases S ! i))"

lemma exclusiveD: "exclusive S \<Longrightarrow> i < length (coPhases S) \<Longrightarrow> in_section (coPhases S ! i) \<Longrightarrow> coMutex S = Some i"
  unfolding exclusive_def by blast

lemma secret_phase_cases: "(\<exists>u e t org. secret_phase A secret = Waiting u e t org) \<or> (\<exists>r. secret_phase A secret = Returned r)"
  by (auto simp: secret_phase_def split: option.splits sum.splits)

lemma in_secret_phase [simp]: "\<not> in_section (secret_phase A secret)"
  using secret_phase_cases [of A secret] by auto

lemma local_step_section:
  "local_step K A p w = (p', w', evs) \<Longrightarrow> moving p \<Longrightarrow> in_section p' \<longleftrightarrow> in_section p"
  by (cases p) (auto simp: moving_def Let_def split: option.splits prod.splits sum.splits if_splits)

lemma co_exec_exclusive:
  assumes "co_exec K A i S = Some S'" and "exclusive S"
  shows "exclusive S'"
  using assms(1)
proof (cases rule: co_exec_cases)
  case (moves p p' w' evs)
  then have "in_section p' = in_section (coPhases S ! i)" using local_step_section by metis
  then show ?thesis using assms(2) moves(1) unfolding exclusive_def moves(5) by (simp add: nth_list_update)
next
  case (locks u e t org)
  have "\<not> (j < length (coPhases S) \<and> in_section (coPhases S ! j))" for j
    using assms(2) locks(3) unfolding exclusive_def by (metis option.distinct(1))
  then show ?thesis unfolding exclusive_def locks(4) using locks(1) by (simp add: nth_list_update)
next
  case (unlocks r)
  have "coMutex S = Some i" using exclusiveD [OF assms(2) unlocks(1)] unlocks(2) by simp
  then have "j = i" if "j < length (coPhases S)" "in_section (coPhases S ! j)" for j
    using assms(2) that unfolding exclusive_def by (metis option.inject)
  then show ?thesis unfolding exclusive_def unlocks(3) using unlocks(1) by (auto simp: nth_list_update)
qed

lemma co_start_exclusive: "exclusive (co_start tcs w)"
  by (simp add: exclusive_def co_start_def)

lemma co_steps_exclusive: "co_steps K A R S sched S' \<Longrightarrow> exclusive S \<Longrightarrow> exclusive S'"
proof (induction rule: co_steps.induct)
  case (other sched S' w)
  then show ?case by (simp add: exclusive_def)
qed (auto intro: co_exec_exclusive)

lemma co_exec_callers: "co_exec K A i S = Some S' \<Longrightarrow> length (coPhases S') = length (coPhases S)"
  by (erule co_exec_cases) simp_all

lemma co_steps_callers: "co_steps K A R S sched S' \<Longrightarrow> length (coPhases S') = length (coPhases S)"
  by (induction rule: co_steps.induct) (auto dest: co_exec_callers)

subsection \<open>Every call returns\<close>

primrec steps_left :: "'u phase \<Rightarrow> nat" where
  "steps_left (Called _) = 7"
| "steps_left (Waiting _ _ _ _) = 6"
| "steps_left (Holding _ _ _ _) = 5"
| "steps_left (Missed _ _ _ _) = 4"
| "steps_left (LoggedIn _ _ _) = 3"
| "steps_left (Counted _ _ _) = 2"
| "steps_left (Leaving _) = 1"
| "steps_left (Returned _) = 0"

definition all_left :: "('w, 'u) conc \<Rightarrow> nat" where
  "all_left S = sum_list (map steps_left (coPhases S))"

definition all_returned :: "('w, 'u) conc \<Rightarrow> bool" where
  "all_returned S \<longleftrightarrow> (\<forall>p \<in> set (coPhases S). steps_left p = 0)"

lemma sum_list_less:
  fixes f :: "'a \<Rightarrow> nat"
  assumes "i < length xs" and "f x < f (xs ! i)"
  shows "sum_list (map f (xs[i := x])) < sum_list (map f xs)"
  using assms
proof (induction xs arbitrary: i)
  case (Cons y ys)
  then show ?case by (cases i) auto
qed simp

lemma secret_phase_left [simp]: "steps_left (secret_phase A secret) < 7"
  using secret_phase_cases [of A secret] by auto

lemma local_step_left: "local_step K A p w = (p', w', evs) \<Longrightarrow> moving p \<Longrightarrow> steps_left p' < steps_left p"
  by (cases p) (auto simp: moving_def Let_def split: option.splits prod.splits sum.splits if_splits)

lemma co_exec_left: "co_exec K A i S = Some S' \<Longrightarrow> all_left S' < all_left S"
  by (erule co_exec_cases) (auto simp: all_left_def intro!: sum_list_less dest: local_step_left)

lemma co_steps_left: "co_steps K A R S sched S' \<Longrightarrow> length sched + all_left S' \<le> all_left S"
proof (induction rule: co_steps.induct)
  case (caller sched S' i S'')
  then show ?case using co_exec_left [of K A i S' S''] by simp
qed (simp_all add: all_left_def)

lemma co_exec_enabled:
  assumes "exclusive S" and "\<not> all_returned S"
  shows "\<exists>i S'. co_exec K A i S = Some S'"
proof (cases "coMutex S")
  case None
  obtain i where i: "i < length (coPhases S)" "steps_left (coPhases S ! i) \<noteq> 0"
    using assms(2) unfolding all_returned_def by (metis in_set_conv_nth)
  then show ?thesis using None unfolding co_exec_def
    by (intro exI [of _ i]) (cases "coPhases S ! i"; simp split: prod.splits del: local_step.simps)
next
  case (Some i)
  then have "i < length (coPhases S)" "in_section (coPhases S ! i)"
    using assms(1) unfolding exclusive_def by auto
  then show ?thesis unfolding co_exec_def
    by (intro exI [of _ i]) (cases "coPhases S ! i"; simp split: prod.splits del: local_step.simps)
qed

lemma mutex_free:
  assumes "exclusive S" and "all_returned S"
  shows "coMutex S = None"
proof (cases "coMutex S")
  case (Some i)
  then have "i < length (coPhases S)" "in_section (coPhases S ! i)" using assms(1) unfolding exclusive_def by auto
  moreover from this have "steps_left (coPhases S ! i) = 0" using assms(2) unfolding all_returned_def by simp
  ultimately show ?thesis by (cases "coPhases S ! i") simp_all
qed

lemma all_left_start [simp]: "all_left (co_start tcs w) = 7 * length tcs"
  by (simp add: all_left_def co_start_def sum_list_triv o_def)

text \<open>
  C32. Whatever the order of the steps and whatever happens in between, no call of
  \<^verbatim>\<open>GetVCDClient\<close> waits for ever: the calls take at most seven steps each, as long as one of
  them has not returned some caller can go on, and when all have returned, with an error or
  a panic too, the mutex is free.
\<close>

theorem concurrent_calls_return:
  assumes "co_steps K A R (co_start tcs w) sched S"
  shows "length sched \<le> 7 * length tcs \<and> (if all_returned S then coMutex S = None else \<exists>i S'. co_exec K A i S = Some S')"
proof (intro conjI)
  show "length sched \<le> 7 * length tcs" using co_steps_left [OF assms] by simp
  have ex: "exclusive S" by (rule co_steps_exclusive [OF assms co_start_exclusive])
  show "if all_returned S then coMutex S = None else \<exists>i S'. co_exec K A i S = Some S'"
  proof (cases "all_returned S")
    case True
    with mutex_free [OF ex] show ?thesis by simp
  next
    case False
    then show ?thesis using co_exec_enabled [OF ex] by simp
  qed
qed

subsection \<open>One after another\<close>

definition client_call :: "('w, 'h) kube \<Rightarrow> ('w, 'u) auth \<Rightarrow> CloudDirectorTenantCluster \<Rightarrow> 'w \<Rightarrow> call_result \<times> 'w" where
  \<comment> \<open>a call in one step\<close>
  "client_call K A tc w = (case finish (get_vcd_client K A tc) (start w) of (r, s) \<Rightarrow> (r, world s))"

definition serial :: "('w, 'h) kube \<Rightarrow> ('w, 'u) auth \<Rightarrow> CloudDirectorTenantCluster list \<Rightarrow> nat list \<Rightarrow> 'w
    \<Rightarrow> (nat \<rightharpoonup> call_result) \<times> 'w" where
  \<comment> \<open>the calls of the callers in this order, each in one step: their results and the world after them\<close>
  "serial K A tcs order w =
     fold (\<lambda>i (res, w). case client_call K A (tcs ! i) w of (r, w') \<Rightarrow> (res(i \<mapsto> r), w')) order (Map.empty, w)"

definition secrets_fixed :: "('w, 'h) kube \<Rightarrow> bool" where
  \<comment> \<open>no secret changes while the calls run, and reading one changes nothing\<close>
  "secrets_fixed K \<longleftrightarrow> (\<exists>secrets. \<forall>key w. k_GetSecret K key w = (secrets key, w))"

definition run_out :: "('w, 'h) kube \<Rightarrow> ('w, 'u) auth \<Rightarrow> 'u phase \<Rightarrow> 'w \<Rightarrow> 'u phase \<times> 'w" where
  \<comment> \<open>a caller in the section goes on alone; four steps are enough\<close>
  "run_out K A p w = ((\<lambda>(p, w). case local_step K A p w of (p', w', _) \<Rightarrow> (p', w')) ^^ 4) (p, w)"

lemma run_out_leaves: "in_section p \<Longrightarrow> \<exists>r w'. run_out K A p w = (Leaving r, w')"
  by (cases p) (auto simp: run_out_def eval_nat_numeral Let_def split: prod.splits option.splits if_splits)

lemma run_out_step:
  assumes "local_step K A p w = (p', w', evs)" and "in_section p"
  shows "run_out K A p' w' = run_out K A p w"
proof -
  let ?f = "\<lambda>(p, w). case local_step K A p w of (p', w', _) \<Rightarrow> (p', w')"
  obtain r v where out: "run_out K A p w = (Leaving r, v)" using run_out_leaves [OF assms(2), of K A w] by blast
  have "run_out K A p' w' = (?f ^^ 4) (?f (p, w))" using assms(1) by (simp add: run_out_def)
  also have "\<dots> = ?f (run_out K A p w)" by (simp add: run_out_def funpow_swap1)
  finally show ?thesis by (simp add: out)
qed

lemma run_out_Leaving [simp]: "run_out K A (Leaving r) w = (Leaving r, w)"
  by (simp add: run_out_def eval_nat_numeral)

lemma get_client_run_out:
  assumes "finish (get_client A u e t org) s = (r, s')"
  shows "run_out K A (Holding u e t org) (world s) = (Leaving r, world s')"
  using assms
  by (auto simp: get_client_def finish_def go_bind_def go_return_def go_exit_def deref_def panic_def call_def call_err_def get_world_def
      run_out_def eval_nat_numeral Let_def split: prod.splits sum.splits option.splits if_splits)

definition as_called :: "('w, 'h) kube \<Rightarrow> ('w, 'u) auth \<Rightarrow> CloudDirectorTenantCluster \<Rightarrow> 'u phase \<Rightarrow> 'w \<Rightarrow> 'w \<Rightarrow> bool" where
  \<comment> \<open>going on from the phase in the world \<open>w\<close> is as good as the whole call in the world \<open>v\<close>\<close>
  "as_called K A tc p v w \<longleftrightarrow> run_out K A p w = (case client_call K A tc v of (r, w') \<Rightarrow> (Leaving r, w'))"

lemma called_step:
  assumes "secrets_fixed K" and "local_step K A (Called tc) w = (p, w', evs)"
  shows "w' = w \<and> ((\<exists>u e t org. p = Waiting u e t org \<and> (\<forall>v. as_called K A tc (Holding u e t org) v v)) \<or>
    (\<exists>r. p = Returned r \<and> (\<forall>v. client_call K A tc v = (r, v))))"
proof -
  have enters: "as_called K A tc (Holding u e t org) v v"
    if "world s = v" "finish (get_vcd_client K A tc) (start v) = finish (get_client A u e t org) s" for u e t org v s
    using that get_client_run_out [OF prod.collapse [symmetric], where K = K and A = A and u = u and e = e and t = t and org = org and s = s]
    by (simp add: as_called_def client_call_def split: prod.split)
  obtain secrets where k: "k_GetSecret K key w = (secrets key, w)" for key w
    using assms(1) unfolding secrets_fixed_def by blast
  show ?thesis
  proof (cases "\<exists>u e t org. p = Waiting u e t org")
    case True
    then obtain u e t org where p: "p = Waiting u e t org" by blast
    have "as_called K A tc (Holding u e t org) v v" for v
      by (rule enters [of "start v\<lparr>trace := evs\<rparr>"])
        (use assms(2) in \<open>auto simp: p k secret_phase_def get_vcd_client_def finish_def go_bind_def go_return_def go_exit_def deref_def
          panic_def call_get_def start_def Let_def split: option.splits sum.splits\<close>)
    with p assms(2) show ?thesis by (auto simp: k Let_def split: option.splits sum.splits)
  next
    case False
    with assms(2) show ?thesis
      by (auto simp: k secret_phase_def client_call_def get_vcd_client_def finish_def go_bind_def go_return_def go_exit_def deref_def panic_def
          call_get_def Let_def split: option.splits sum.splits)
  qed
qed

lemma as_called_step: "local_step K A p w = (p', w', evs) \<Longrightarrow> in_section p \<Longrightarrow> as_called K A tc p v w \<Longrightarrow> as_called K A tc p' v w'"
  using run_out_step [of K A p w p' w' evs] by (simp add: as_called_def)

lemma serial_snoc:
  "serial K A tcs (order @ [i]) w =
     (case serial K A tcs order w of (res, v) \<Rightarrow> case client_call K A (tcs ! i) v of (r, v') \<Rightarrow> (res(i \<mapsto> r), v'))"
  by (simp add: serial_def)

definition returned :: "'u phase \<Rightarrow> bool" where
  "returned p \<longleftrightarrow> (\<exists>r. p = Returned r)"

lemma returned_simps [simp]:
  "returned (Returned r)" "\<not> returned (Called tc)" "\<not> returned (Waiting u e t org)" "\<not> returned (Leaving r)" "\<not> returned (Holding u e t org)"
  by (simp_all add: returned_def)

lemma in_section_not_returned: "in_section p \<Longrightarrow> \<not> returned p"
  by (auto simp: returned_def)

definition keeps_up :: "('w, 'h) kube \<Rightarrow> ('w, 'u) auth \<Rightarrow> CloudDirectorTenantCluster \<Rightarrow> 'u phase \<Rightarrow> call_result option \<Rightarrow> 'w \<Rightarrow> 'w \<Rightarrow> bool" where
  \<comment> \<open>a caller against the calls that ran one after another: their result for it, the world \<open>v\<close> they left, the present world \<open>w\<close>\<close>
  "keeps_up K A tc p res v w \<longleftrightarrow>
     (case p of Called c \<Rightarrow> c = tc
      | Waiting u e t org \<Rightarrow> \<forall>v. as_called K A tc (Holding u e t org) v v
      | Returned r \<Rightarrow> res = Some r
      | _ \<Rightarrow> as_called K A tc p v w)"

lemma keeps_up_other: "\<not> in_section p \<Longrightarrow> keeps_up K A tc p res v w \<Longrightarrow> keeps_up K A tc p res v' w'"
  by (cases p) (simp_all add: keeps_up_def)

lemma keeps_up_section: "in_section p \<Longrightarrow> keeps_up K A tc p res v w \<longleftrightarrow> as_called K A tc p v w"
  by (cases p) (simp_all add: keeps_up_def)

definition serialized :: "('w, 'h) kube \<Rightarrow> ('w, 'u) auth \<Rightarrow> CloudDirectorTenantCluster list \<Rightarrow> 'w \<Rightarrow> ('w, 'u) conc \<Rightarrow> nat list \<Rightarrow> bool" where
  \<comment> \<open>the callers in \<open>order\<close> are those that have returned; the others have still to begin or are in the section\<close>
  "serialized K A tcs w S order \<longleftrightarrow> distinct order \<and> (\<forall>i. i \<in> set order \<longleftrightarrow> i < length tcs \<and> returned (coPhases S ! i)) \<and>
     (case serial K A tcs order w of (res, v) \<Rightarrow>
        (\<forall>i < length tcs. keeps_up K A (tcs ! i) (coPhases S ! i) (res i) v (coWorld S)) \<and>
        (coMutex S = None \<longrightarrow> v = coWorld S))"

lemma remdups_snoc: "remdups (xs @ [x]) = filter (\<lambda>y. y \<noteq> x) (remdups xs) @ [x]"
  by (induction xs) auto

lemma serialized_moves:
  assumes fixed: "secrets_fixed K" and ex: "exclusive S" and len: "length (coPhases S) = length tcs"
    and ser: "serialized K A tcs w S order" and S': "co_exec K A i S = Some S'"
  shows "serialized K A tcs w S' (if returned (coPhases S' ! i) then order @ [i] else order)"
proof -
  obtain res v where run: "serial K A tcs order w = (res, v)" by fastforce
  have dist: "distinct order" "\<And>j. j \<in> set order \<longleftrightarrow> j < length tcs \<and> returned (coPhases S ! j)"
    and up: "\<And>j. j < length tcs \<Longrightarrow> keeps_up K A (tcs ! j) (coPhases S ! j) (res j) v (coWorld S)"
    and free: "coMutex S = None \<Longrightarrow> v = coWorld S"
    using ser unfolding serialized_def run by auto
  have others: "\<not> in_section (coPhases S ! j)" if "in_section (coPhases S ! i)" "i < length tcs" "j < length tcs" "j \<noteq> i" for j
    using exclusiveD [OF ex] that len by (metis option.inject)
  show ?thesis
    using S'
  proof (cases rule: co_exec_cases)
    case (locks u e t org)
    have "as_called K A (tcs ! i) (Holding u e t org) v (coWorld S)"
      using up [of i] locks len free by (simp add: keeps_up_def)
    then have "serialized K A tcs w S' order"
      using dist up len locks unfolding serialized_def run
      by (auto simp: nth_list_update keeps_up_section)
    then show ?thesis using locks by simp
  next
    case (unlocks r)
    have r: "client_call K A (tcs ! i) v = (r, coWorld S)"
      using up [of i] unlocks len by (simp add: keeps_up_def as_called_def split: prod.splits)
    have "serialized K A tcs w S' (order @ [i])"
      using dist up len unlocks others unfolding serialized_def serial_snoc run
      by (auto simp: nth_list_update r keeps_up_def [of _ _ _ "Returned _"] intro: keeps_up_other)
    then show ?thesis using unlocks by simp
  next
    case (moves p p' w' evs)
    show ?thesis
    proof (cases "in_section p")
      case True
      then have p': "in_section p'" "as_called K A (tcs ! i) p' v w'"
        using moves up [of i] len local_step_section [OF moves(4,3)] as_called_step [OF moves(4)] by (auto simp: keeps_up_section)
      have "coMutex S = Some i" "\<not> returned p" "\<not> returned p'"
        using exclusiveD [OF ex] moves True p'(1) in_section_not_returned by auto
      then have "serialized K A tcs w S' order"
        using dist up len moves True p' others unfolding serialized_def run
        by (auto simp: nth_list_update keeps_up_section intro: keeps_up_other)
      then show ?thesis using \<open>\<not> returned p'\<close> moves by simp
    next
      case False
      then have p: "p = Called (tcs ! i)"
        using moves(1-3) up [of i] len by (cases p) (simp_all add: moving_def keeps_up_def)
      from called_step [OF fixed moves(4) [unfolded p]] show ?thesis
      proof (elim conjE disjE exE)
        fix u e t org
        assume p': "w' = coWorld S" "p' = Waiting u e t org" "\<forall>v. as_called K A (tcs ! i) (Holding u e t org) v v"
        then have "serialized K A tcs w S' order"
          using dist up len moves p free unfolding serialized_def run
          by (auto simp: nth_list_update keeps_up_def [of _ _ _ "Waiting _ _ _ _"])
        then show ?thesis using p' moves by simp
      next
        fix r
        assume p': "w' = coWorld S" "p' = Returned r" "\<forall>v. client_call K A (tcs ! i) v = (r, v)"
        then have "serialized K A tcs w S' (order @ [i])"
          using dist up len moves p free unfolding serialized_def serial_snoc run
          by (auto simp: nth_list_update keeps_up_def [of _ _ _ "Returned _"])
        then show ?thesis using p' moves by simp
      qed
    qed
  qed
qed

lemma co_exec_not_returned: "co_exec K A i S = Some S' \<Longrightarrow> i < length (coPhases S) \<and> \<not> returned (coPhases S ! i)"
  by (erule co_exec_cases) (auto simp: returned_def moving_def)

lemma co_exec_others: "co_exec K A i S = Some S' \<Longrightarrow> j \<noteq> i \<Longrightarrow> coPhases S' ! j = coPhases S ! j"
  by (erule co_exec_cases) simp_all

lemma co_steps_scheduled: "co_steps K A R S sched S' \<Longrightarrow> i \<in> set sched \<Longrightarrow> i < length (coPhases S)"
proof (induction rule: co_steps.induct)
  case (caller sched S' j S'')
  then show ?case using co_exec_not_returned [OF caller(2)] co_steps_callers [OF caller(1)] by auto
qed simp_all

lemma co_steps_serialized:
  assumes "secrets_fixed K" and "co_steps K A (\<lambda>_ _. False) (co_start tcs w) sched S"
  shows "serialized K A tcs w S (filter (\<lambda>i. returned (coPhases S ! i)) (remdups sched))"
  using assms(2)
proof (induction rule: co_steps.induct)
  case begin_calls
  show ?case by (simp add: serialized_def serial_def co_start_def keeps_up_def)
next
  case (caller sched S' i S'')
  let ?ret = "\<lambda>S i. returned (coPhases S ! i)"
  have "exclusive S'" by (rule co_steps_exclusive [OF caller(1) co_start_exclusive])
  moreover have "length (coPhases S') = length tcs" using co_steps_callers [OF caller(1)] by (simp add: co_start_def)
  ultimately have "serialized K A tcs w S'' (if ?ret S'' i then filter (?ret S') (remdups sched) @ [i] else filter (?ret S') (remdups sched))"
    using serialized_moves [OF assms(1)] caller(2,3) by blast
  moreover have "filter (?ret S'') (remdups (sched @ [i])) =
      (if ?ret S'' i then filter (?ret S') (remdups sched) @ [i] else filter (?ret S') (remdups sched))"
  proof -
    have "filter (?ret S'') (filter (\<lambda>j. j \<noteq> i) xs) = filter (?ret S') xs" for xs
      using co_exec_not_returned [OF caller(2)] co_exec_others [OF caller(2)] by (induction xs) auto
    then show ?thesis by (simp add: remdups_snoc)
  qed
  ultimately show ?case by simp
qed simp

text \<open>
  C11. The mutex makes the calls atomic: when interleaved calls have all returned, each call has
  the result it has when the calls run one after another, each in one step, in the order in
  which they returned, and they leave the same cache and the same services behind. So a call
  that returned before another one began comes before it.
\<close>

theorem concurrent_calls_serializable:
  assumes "secrets_fixed K" and "co_steps K A (\<lambda>_ _. False) (co_start tcs w) sched S" and "all_returned S"
  shows "set sched = {..<length tcs} \<and> snd (serial K A tcs (remdups sched) w) = coWorld S \<and>
    (\<forall>i < length tcs. \<exists>r. coPhases S ! i = Returned r \<and> fst (serial K A tcs (remdups sched) w) i = Some r)"
proof -
  have len: "length (coPhases S) = length tcs" using co_steps_callers [OF assms(2)] by (simp add: co_start_def)
  have ex: "exclusive S" by (rule co_steps_exclusive [OF assms(2) co_start_exclusive])
  have all: "\<exists>r. coPhases S ! i = Returned r" if "i < length tcs" for i
  proof -
    have "steps_left (coPhases S ! i) = 0" using assms(3) that len unfolding all_returned_def by simp
    then show ?thesis by (cases "coPhases S ! i") simp_all
  qed
  have "i < length tcs" if "i \<in> set sched" for i
    using co_steps_scheduled [OF assms(2) that] by (simp add: co_start_def)
  then have "filter (\<lambda>i. returned (coPhases S ! i)) (remdups sched) = remdups sched"
    using all by (fastforce simp: returned_def intro: filter_True)
  then have "serialized K A tcs w S (remdups sched)" using co_steps_serialized [OF assms(1,2)] by simp
  moreover have "coMutex S = None" by (rule mutex_free [OF ex assms(3)])
  moreover obtain res v where run: "serial K A tcs (remdups sched) w = (res, v)" by fastforce
  ultimately have "v = coWorld S" and up: "\<And>i. i < length tcs \<Longrightarrow> keeps_up K A (tcs ! i) (coPhases S ! i) (res i) v (coWorld S)"
    and set: "\<And>i. i \<in> set sched \<longleftrightarrow> i < length tcs \<and> returned (coPhases S ! i)"
    unfolding serialized_def by auto
  moreover have "set sched = {..<length tcs}" using set all by (fastforce simp: returned_def)
  moreover have "\<exists>r. coPhases S ! i = Returned r \<and> res i = Some r" if "i < length tcs" for i
    using all [OF that] up [OF that] by (auto simp: keeps_up_def)
  ultimately show ?thesis by (simp add: run)
qed

subsection \<open>One client for all\<close>

























subsection \<open>Three callers\<close>

text \<open>
  Two callers have the same credentials, the third one has none; the second and the third
  step in while the first one logs in.
\<close>

primrec co_run :: "('w, 'h) kube \<Rightarrow> ('w, 'u) auth \<Rightarrow> nat list \<Rightarrow> ('w, 'u) conc \<Rightarrow> ('w, 'u) conc option" where
  "co_run K A [] S = Some S"
| "co_run K A (i # sched) S = (case co_exec K A i S of None \<Rightarrow> None | Some S' \<Rightarrow> co_run K A sched S')"

lemma co_run_steps: "co_steps K A R S past S' \<Longrightarrow> co_run K A sched S' = Some S'' \<Longrightarrow> co_steps K A R S (past @ sched) S''"
proof (induction sched arbitrary: past S')
  case (Cons i sched)
  from Cons.prems(2) obtain T where T: "co_exec K A i S' = Some T" "co_run K A sched T = Some S''"
    by (auto split: option.splits)
  from Cons.IH [OF co_steps.caller [OF Cons.prems(1) T(1)] T(2)] show ?case by simp
qed simp

definition demo_calls :: "CloudDirectorTenantCluster list" where
  "demo_calls = [demo_cluster ''a'', demo_cluster ''a'', demo_cluster ''c'']"

definition demo_key :: "32 word" where
  "demo_key = cache_key ''https://vcd'' ''tok1'' ''2org''"

definition demo_over :: "(32 word \<rightharpoonup> VCDClient, string) conc" where
  "demo_over = \<lparr>coPhases = [Returned (Return (Some demo_client, None)), Returned (Return (Some demo_client, None)), Returned (Return (None, None))],
     coMutex = None, coWorld = [demo_key \<mapsto> demo_client],
     coTrace = [(0, CacheGetSecret \<lparr>nnName = ''a'', nnNamespace = ''default''\<rparr>, None),
       (0, CacheGet demo_key, None), (1, CacheGetSecret \<lparr>nnName = ''a'', nnNamespace = ''default''\<rparr>, None),
       (0, CacheLogin ''2org'' ''tok1'', None), (2, CacheGetSecret \<lparr>nnName = ''c'', nnNamespace = ''default''\<rparr>, None),
       (0, CacheAdd demo_key demo_client 3600000000000, None), (1, CacheGet demo_key, None)]\<rparr>"

lemma demo_run: "co_run demo_kube demo_auth [0, 0, 0, 1, 0, 2, 0, 0, 0, 1, 1, 1] (co_start demo_calls Map.empty) = Some demo_over"
  by (simp add: co_exec_def co_start_def demo_calls_def demo_over_def demo_cluster_def demo_kube_def demo_secret_def demo_client_def
      demo_ttl demo_auth_sel secret_phase_def demo_key_def [symmetric] Let_def)

lemma demo_steps: "co_steps demo_kube demo_auth R (co_start demo_calls Map.empty) [0, 0, 0, 1, 0, 2, 0, 0, 0, 1, 1, 1] demo_over"
  using co_run_steps [OF co_steps.begin_calls demo_run] by simp

lemma demo_returned: "all_returned demo_over"
  by (simp add: all_returned_def demo_over_def)

theorem concurrent_calls_return_witness: "length [0, 0, 0, 1, 0, 2, 0, 0, 0, 1, 1, 1 :: nat] \<le> 7 * length demo_calls \<and> coMutex demo_over = None"
  using concurrent_calls_return [OF demo_steps] demo_returned by simp

lemma demo_secrets_fixed: "secrets_fixed demo_kube"
  unfolding secrets_fixed_def by (rule exI [of _ "\<lambda>key. Inr (demo_secret (nnName key))"]) (simp add: demo_kube_def Let_def)

theorem concurrent_calls_serializable_witness:
  "snd (serial demo_kube demo_auth demo_calls [2, 0, 1] Map.empty) = [demo_key \<mapsto> demo_client]"
  using concurrent_calls_serializable [OF demo_secrets_fixed demo_steps demo_returned] by (simp add: demo_over_def)



end
