(* ===== verification/Client_Metrics.thy ===== *)
theory Client_Metrics
  imports Client_Cache
begin

section \<open>Metrics of the cached clients (src/util/clientcache/metrics.go)\<close>

text \<open>
  \<^verbatim>\<open>NewPrometheusMetrics\<close> applies its options and registers the collectors; \<^verbatim>\<open>CollectMetrics\<close>
  replaces the values of the gauge by the remaining life times of the tokens of the cached
  clients. The gauge is the object of the handler: a map from label values to the duration
  whose seconds are shown. Parameters (\<open>metric_services\<close>): the keys of the expiring cache,
  the session of a client, the registry and the build information.

  Shown: after a collection every entry of the gauge was computed in this collection from a
  client that was in the cache, and a collection that reports no error has an entry for
  every cached client it found.
\<close>

record Labels =
  labelKey :: string
  labelURL :: string
  labelOrganization :: string

type_synonym gauge = "Labels \<rightharpoonup> int"

datatype collector =
    AccessKeyTTL
  | BuildInfoCounter string string nat

record Session =
  sessionOrg :: OpenApiReference

record ('w, 'r) metric_services =
  me_Keys :: "'w \<Rightarrow> 32 word list \<times> 'w"
  me_GetSessionInfo :: "VCDClient \<Rightarrow> (Session option, 'w) reply"
  me_MustRegister :: "'r \<Rightarrow> collector \<Rightarrow> 'w \<Rightarrow> (go_panic + unit \<times> goerror option) \<times> 'w"
  me_ReadBuildInfo :: "(string \<times> (string \<times> string) list) option"

datatype metric_call =
    MRegister collector
  | MKeys
  | MGet "32 word"
  | MSession VCDClient
  | MSet Labels int

subsection \<open>NewPrometheusMetrics\<close>

record ('l, 'r, 'k, 'c) PrometheusMetrics =
  pmLogger :: "'l option"
  pmRegistry :: "'r option"
  pmControllerClient :: "'k option"
  pmCache :: "'c option"

type_synonym ('l, 'r, 'k, 'c) PrometheusMetricsOption = "('l, 'r, 'k, 'c) PrometheusMetrics \<Rightarrow> ('l, 'r, 'k, 'c) PrometheusMetrics"

definition WithLogger :: "'l \<Rightarrow> ('l, 'r, 'k, 'c) PrometheusMetricsOption" where
  "WithLogger logger m = m\<lparr>pmLogger := Some logger\<rparr>"

definition WithPrometheusRegistry :: "'r \<Rightarrow> ('l, 'r, 'k, 'c) PrometheusMetricsOption" where
  "WithPrometheusRegistry registry m = m\<lparr>pmRegistry := Some registry\<rparr>"

definition WithClientCache :: "'c \<Rightarrow> ('l, 'r, 'k, 'c) PrometheusMetricsOption" where
  "WithClientCache cache m = m\<lparr>pmCache := Some cache\<rparr>"

definition WithManager :: "'k \<Rightarrow> ('l, 'r, 'k, 'c) PrometheusMetricsOption" where
  \<comment> \<open>of the manager only its client is kept\<close>
  "WithManager controllerClient m = m\<lparr>pmControllerClient := Some controllerClient\<rparr>"

definition vcs_revision :: "(string \<times> string) list \<Rightarrow> string" where
  \<comment> \<open>the loop keeps the last setting\<close>
  "vcs_revision settings = foldl (\<lambda>r (k, v). if k = ''vcs.revision'' then v else r) ''(unknown)'' settings"

definition NewPrometheusMetrics :: "('w, 'r) metric_services
    \<Rightarrow> ('l, 'r, 'k, 'c) PrometheusMetricsOption list
    \<Rightarrow> (('w, gauge, metric_call) rst, ('l, 'r, 'k, 'c) PrometheusMetrics \<times> goerror option,
        ('l, 'r, 'k, 'c) PrometheusMetrics \<times> goerror option) go" where
  "NewPrometheusMetrics M options =
     (let m = foldl (\<lambda>m option. option m) \<lparr>pmLogger = None, pmRegistry = None, pmControllerClient = None, pmCache = None\<rparr> options in
     go_bind (deref (pmRegistry m)) (\<lambda>registry.
     go_bind (call_panic (MRegister AccessKeyTTL) (me_MustRegister M registry AccessKeyTTL)) (\<lambda>_.
     case me_ReadBuildInfo M of None \<Rightarrow> go_return (m, None)
     | Some (goVersion, settings) \<Rightarrow>
       (let buildMetric = BuildInfoCounter goVersion (vcs_revision settings) 1 in
        go_bind (call_panic (MRegister buildMetric) (me_MustRegister M registry buildMetric)) (\<lambda>_.
        go_return (m, None))))))"

subsection \<open>CollectMetrics\<close>

definition client_labels :: "32 word \<Rightarrow> VCDClient \<Rightarrow> Session \<Rightarrow> Labels" where
  "client_labels key c s = \<lparr>labelKey = dec (unat key), labelURL = vcdHREF c, labelOrganization = oaName (sessionOrg s)\<rparr>"

definition collect_client :: "('w, 'r) metric_services \<Rightarrow> ('w, 'u) auth \<Rightarrow> 32 word
    \<Rightarrow> (('w, gauge, metric_call) rst, goerror option, unit) go" where
  \<comment> \<open>the body of the loop\<close>
  "collect_client M A key =
     go_bind (call (MGet key) (\<lambda>w. case au_CacheGet A key w of (i, w') \<Rightarrow> ((i, None), w'))) (\<lambda>(i, _).
     case i of None \<Rightarrow> go_return ()
     | Some c \<Rightarrow>
     go_bind (call (MSession c) (me_GetSessionInfo M c)) (\<lambda>(session, err).
     if err \<noteq> None then go_exit err else
     go_bind (deref session) (\<lambda>s.
     let labels = client_labels key c s in
     go_bind get_world (\<lambda>w.
     (case getTokenRemainingTTL A (vcdToken c) w of (remainingTTL, err) \<Rightarrow>
        if err \<noteq> None then go_exit err else
        go_bind (call_err (MSet labels remainingTTL) (\<lambda>w. (None, w))) (\<lambda>_.
        modify_obj (\<lambda>g. g(labels \<mapsto> remainingTTL))))))))"

primrec collect_clients :: "('w, 'r) metric_services \<Rightarrow> ('w, 'u) auth \<Rightarrow> 32 word list
    \<Rightarrow> (('w, gauge, metric_call) rst, goerror option, unit) go" where
  "collect_clients M A [] = go_return ()"
| "collect_clients M A (key # keys) = go_bind (collect_client M A key) (\<lambda>_. collect_clients M A keys)"

definition CollectMetrics :: "('w, 'r) metric_services \<Rightarrow> ('w, 'u) auth \<Rightarrow> ('l, 'r, 'k, 'c) PrometheusMetrics
    \<Rightarrow> (('w, gauge, metric_call) rst, goerror option, goerror option) go" where
  \<comment> \<open>a nil logger panics in \<^verbatim>\<open>Log\<close>; \<^verbatim>\<open>getCache\<close> reads the cache of its receiver and returns no error\<close>
  "CollectMetrics M A m =
     go_bind (deref (pmLogger m)) (\<lambda>_.
     go_bind (deref (pmCache m)) (\<lambda>_.
     go_bind (modify_obj (\<lambda>_. Map.empty)) (\<lambda>_.
     go_bind (call MKeys (\<lambda>w. case me_Keys M w of (ks, w') \<Rightarrow> ((ks, None), w'))) (\<lambda>(cacheKeys, _).
     go_bind (collect_clients M A cacheKeys) (\<lambda>_.
     go_return None)))))"

subsection \<open>What the gauge shows\<close>

definition measured :: "('w, 'r) metric_services \<Rightarrow> ('w, 'u) auth \<Rightarrow> 32 word \<Rightarrow> Labels \<Rightarrow> int \<Rightarrow> bool" where
  \<comment> \<open>the value was computed for a client that the cache returned for the key\<close>
  "measured M A key l v \<longleftrightarrow> (\<exists>c sess w0 w1 w2. fst (au_CacheGet A key w0) = Some c \<and>
     fst (me_GetSessionInfo M c w1) = (Some sess, None) \<and>
     l = client_labels key c sess \<and> getTokenRemainingTTL A (vcdToken c) w2 = (v, None))"

lemma measuredI:
  "au_CacheGet A key w0 = (Some c, w0') \<Longrightarrow> me_GetSessionInfo M c w1 = ((Some sess, None), w1') \<Longrightarrow>
    getTokenRemainingTTL A (vcdToken c) w2 = (v, None) \<Longrightarrow> measured M A key (client_labels key c sess) v"
  unfolding measured_def by (metis fst_conv)

lemma client_labels_url [simp]: "labelURL (client_labels key c sess) = vcdHREF c"
  by (simp add: client_labels_def)

definition keys_read :: "(metric_call \<times> goerror option) list \<Rightarrow> 32 word list" where
  "keys_read evs = List.map_filter (\<lambda>ev. case fst ev of MGet k \<Rightarrow> Some k | _ \<Rightarrow> None) evs"

lemma keys_read_simps [simp]:
  "keys_read [] = []" "keys_read (ev # evs) = (case fst ev of MGet k \<Rightarrow> k # keys_read evs | _ \<Rightarrow> keys_read evs)"
  "keys_read (xs @ ys) = keys_read xs @ keys_read ys"
  by (auto simp: keys_read_def List.map_filter_def split: metric_call.splits)

definition after_client :: "('w, 'r) metric_services \<Rightarrow> ('w, 'u) auth \<Rightarrow> 32 word \<Rightarrow> 'w \<Rightarrow> 'w" where
  \<comment> \<open>the world after one key was dealt with without an error\<close>
  "after_client M A key w = (case au_CacheGet A key w of (None, w') \<Rightarrow> w' | (Some c, w') \<Rightarrow> snd (me_GetSessionInfo M c w'))"

primrec lookups :: "('w, 'r) metric_services \<Rightarrow> ('w, 'u) auth \<Rightarrow> 32 word list \<Rightarrow> 'w \<Rightarrow> (32 word \<times> 'w) list" where
  \<comment> \<open>the keys in order, each with the world in which it is looked up\<close>
  "lookups M A [] w = []"
| "lookups M A (key # keys) w = (key, w) # lookups M A keys (after_client M A key w)"

lemma lookups_keys: "map fst (lookups M A keys w) = keys"
  by (induction keys arbitrary: w) simp_all

definition client_shown :: "('w, 'r) metric_services \<Rightarrow> ('w, 'u) auth \<Rightarrow> gauge \<Rightarrow> 32 word \<times> 'w \<Rightarrow> bool" where
  \<comment> \<open>when the cache has a client for the key in this world, its entry is in the gauge\<close>
  "client_shown M A g = (\<lambda>(key, w). case au_CacheGet A key w of (None, _) \<Rightarrow> True
     | (Some c, w') \<Rightarrow> (\<exists>sess. fst (me_GetSessionInfo M c w') = (Some sess, None) \<and> client_labels key c sess \<in> dom g))"

definition shown :: "('w, 'r) metric_services \<Rightarrow> ('w, 'u) auth \<Rightarrow> 32 word list \<Rightarrow> 'w \<Rightarrow> gauge \<Rightarrow> bool" where
  \<comment> \<open>every client that is found under one of the keys has its entry\<close>
  "shown M A keys w g \<longleftrightarrow> list_all (client_shown M A g) (lookups M A keys w)"

lemma client_shown_mono: "client_shown M A g kw \<Longrightarrow> dom g \<subseteq> dom h \<Longrightarrow> client_shown M A h kw"
  unfolding client_shown_def by (auto split: prod.splits option.splits) (metis domD domI subsetD)

lemma collect_client_spec:
  "wp (collect_client M A key)
     (\<lambda>_ s'. \<exists>evs. trace s' = trace s @ evs \<and> keys_read evs = [key] \<and> world s' = after_client M A key (world s) \<and>
        client_shown M A (obj s') (key, world s) \<and> dom (obj s) \<subseteq> dom (obj s') \<and>
        (\<forall>l v. obj s' l = Some v \<longrightarrow> obj s l = Some v \<or> measured M A key l v))
     (\<lambda>e s'. e \<noteq> Return None \<and> obj s' = obj s) s"
  unfolding collect_client_def
  by (auto simp: wp Let_def client_shown_def after_client_def split: option.splits prod.splits if_splits intro: measuredI)

lemma collect_clients_spec:
  fixes s :: "('w, gauge, metric_call) rst"
  shows "wp (collect_clients M A keys)
     (\<lambda>_ s'. \<exists>evs. trace s' = trace s @ evs \<and> keys_read evs = keys \<and> shown M A keys (world s) (obj s') \<and> dom (obj s) \<subseteq> dom (obj s') \<and>
        (\<forall>l v. obj s' l = Some v \<longrightarrow> obj s l = Some v \<or> (\<exists>key \<in> set keys. measured M A key l v)))
     (\<lambda>e s'. e \<noteq> Return None \<and> (\<forall>l v. obj s' l = Some v \<longrightarrow> obj s l = Some v \<or> (\<exists>key \<in> set keys. measured M A key l v))) s"
proof (induction keys arbitrary: s)
  case Nil
  then show ?case by (simp add: wp shown_def)
next
  case (Cons key keys)
  show ?case
    unfolding collect_clients.simps wp_bind
  proof (rule wp_mono [OF collect_client_spec])
    fix x and t :: "('w, gauge, metric_call) rst"
    assume "\<exists>evs. trace t = trace s @ evs \<and> keys_read evs = [key] \<and> world t = after_client M A key (world s) \<and>
        client_shown M A (obj t) (key, world s) \<and> dom (obj s) \<subseteq> dom (obj t) \<and>
        (\<forall>l v. obj t l = Some v \<longrightarrow> obj s l = Some v \<or> measured M A key l v)"
    then obtain xs where xs: "trace t = trace s @ xs" "keys_read xs = [key]" "world t = after_client M A key (world s)"
        "client_shown M A (obj t) (key, world s)" "dom (obj s) \<subseteq> dom (obj t)"
        "\<And>l v. obj t l = Some v \<Longrightarrow> obj s l = Some v \<or> measured M A key l v" by blast
    show "wp (collect_clients M A keys)
       (\<lambda>_ s'. \<exists>evs. trace s' = trace s @ evs \<and> keys_read evs = key # keys \<and> shown M A (key # keys) (world s) (obj s') \<and> dom (obj s) \<subseteq> dom (obj s') \<and>
          (\<forall>l v. obj s' l = Some v \<longrightarrow> obj s l = Some v \<or> (\<exists>k \<in> set (key # keys). measured M A k l v)))
       (\<lambda>e s'. e \<noteq> Return None \<and> (\<forall>l v. obj s' l = Some v \<longrightarrow> obj s l = Some v \<or> (\<exists>k \<in> set (key # keys). measured M A k l v))) t"
    proof (rule wp_mono [OF Cons.IH], goal_cases)
      case (1 y u)
      then obtain ys where ys: "trace u = trace t @ ys" "keys_read ys = keys" "shown M A keys (world t) (obj u)" "dom (obj t) \<subseteq> dom (obj u)"
          "\<And>l v. obj u l = Some v \<Longrightarrow> obj t l = Some v \<or> (\<exists>k \<in> set keys. measured M A k l v)" by blast
      have "shown M A (key # keys) (world s) (obj u)"
        using ys(3) client_shown_mono [OF xs(4) ys(4)] by (simp add: shown_def xs(3))
      then show ?case
        using xs(1,2,5,6) ys(1,2,4,5) by (intro exI [of _ "xs @ ys"]) (auto; blast)
    next
      case (2 e u)
      then show ?case using xs(6) by fastforce
    qed
  qed auto
qed

text \<open>
  C38. A collection shows nothing stale: whatever it returns, every entry of the gauge
  afterwards was computed in this collection, for a key the cache listed, from a client the
  cache returned for it and the life time of its token, so that the entries of expired and
  evicted clients disappear. And when it returns no error it shows every client it found: the
  listed keys were looked up in order, and for each key under which the cache had a client
  at that moment the gauge has the entry with the key, the URL of the client and the
  organization of its session.
\<close>

theorem metrics_show_cached_clients:
  assumes "pmLogger m = Some logger" and "pmCache m = Some cache" and "me_Keys M (world s) = (keys, w)"
    and "finish (CollectMetrics M A m) s = (e, s')"
  shows "(\<forall>l v. obj s' l = Some v \<longrightarrow> (\<exists>key \<in> set keys. measured M A key l v)) \<and>
    (e = Return None \<longrightarrow> (\<exists>evs. trace s' = trace s @ evs \<and> keys_read evs = keys) \<and> shown M A keys w (obj s'))"
proof -
  let ?Q = "\<lambda>e s'. (\<forall>l v. obj s' l = Some v \<longrightarrow> (\<exists>key \<in> set keys. measured M A key l v)) \<and>
    (e = Return None \<longrightarrow> (\<exists>evs. trace s' = trace s @ evs \<and> keys_read evs = keys) \<and> shown M A keys w (obj s'))"
  have "wp (CollectMetrics M A m) (\<lambda>r. ?Q (Return r)) ?Q s"
    unfolding CollectMetrics_def
    by (auto simp: wp_bind wp_deref wp_modify_obj wp_call wp_return assms(1-3) intro!: wp_mono [OF collect_clients_spec])
  from wp_finish [OF this assms(4)] show ?thesis .
qed

definition demo_metrics :: "(32 word \<rightharpoonup> VCDClient, unit) metric_services" where
  \<comment> \<open>the cache of the concrete environment, with one known key\<close>
  "demo_metrics = \<lparr>me_Keys = (\<lambda>w. ([7], w)),
     me_GetSessionInfo = (\<lambda>c w. ((Some \<lparr>sessionOrg = \<lparr>oaName = ''org'', oaID = ''urn:org:1''\<rparr>\<rparr>, None), w)),
     me_MustRegister = (\<lambda>_ _ w. (Inr ((), None), w)), me_ReadBuildInfo = None\<rparr>"

definition demo_prometheus :: "(unit, unit, unit, unit) PrometheusMetrics" where
  "demo_prometheus = WithLogger () (WithClientCache () \<lparr>pmLogger = None, pmRegistry = None, pmControllerClient = None, pmCache = None\<rparr>)"

definition demo_start :: "(32 word \<rightharpoonup> VCDClient, gauge, metric_call) rst" where
  "demo_start = \<lparr>obj = Map.empty, world = [7 \<mapsto> demo_client], trace = []\<rparr>"

lemma demo_collection:
  "fst (finish (CollectMetrics demo_metrics demo_auth demo_prometheus) demo_start) = Return None"
proof -
  have ttl: "getTokenRemainingTTL demo_auth tok w = (3600000000000, None)" for tok w
    by (simp add: getTokenRemainingTTL_def demo_auth_def duration_def time_Second_def)
  show ?thesis
    by (simp add: demo_prometheus_def demo_start_def CollectMetrics_def collect_client_def demo_metrics_def WithClientCache_def WithLogger_def
        demo_auth_sel ttl Let_def finish_def go_bind_def deref_def go_return_def go_exit_def call_def call_err_def get_world_def modify_obj_def)
qed

theorem metrics_show_cached_clients_witness:
  "\<lparr>labelKey = ''7'', labelURL = ''https://vcd/api'', labelOrganization = ''org''\<rparr> \<in>
     dom (obj (snd (finish (CollectMetrics demo_metrics demo_auth demo_prometheus) demo_start)))"
proof -
  have "pmLogger demo_prometheus = Some ()" "pmCache demo_prometheus = Some ()" "me_Keys demo_metrics (world demo_start) = ([7], [7 \<mapsto> demo_client])"
    by (simp_all add: demo_prometheus_def demo_start_def WithClientCache_def WithLogger_def demo_metrics_def)
  from metrics_show_cached_clients [OF this prod.collapse [symmetric], of demo_auth] demo_collection
  have "shown demo_metrics demo_auth [7] [7 \<mapsto> demo_client]
      (obj (snd (finish (CollectMetrics demo_metrics demo_auth demo_prometheus) demo_start)))" by blast
  moreover have "dec 7 = ''7''" by code_simp
  ultimately show ?thesis
    by (simp add: shown_def client_shown_def demo_auth_sel demo_metrics_def client_labels_def demo_client_def)
qed

subsection \<open>The options of the program\<close>

lemma main_metrics:
  assumes "\<And>c w. \<exists>w'. me_MustRegister M registry c w = (Inr ((), None), w')"
  shows "\<exists>m s'. finish (NewPrometheusMetrics M
      [WithLogger logger, WithPrometheusRegistry registry, WithManager client, WithClientCache cache]) s = (Return (m, None), s') \<and>
    pmCache m = Some cache \<and> (MRegister AccessKeyTTL, None) \<in> set (trace s')"
proof -
  let ?Q = "\<lambda>e s'. \<exists>m. e = Return (m, None) \<and> pmCache m = Some cache \<and> (MRegister AccessKeyTTL, None) \<in> set (trace s')"
  have r: "me_MustRegister M registry c w = (v, w') \<Longrightarrow> v = Inr ((), None)" for c w v w'
    using assms [of c w] by auto
  have "wp (NewPrometheusMetrics M [WithLogger logger, WithPrometheusRegistry registry, WithManager client, WithClientCache cache])
      (\<lambda>x. ?Q (Return x)) ?Q s"
    unfolding NewPrometheusMetrics_def
    by (auto simp: wp Let_def WithLogger_def WithPrometheusRegistry_def WithManager_def WithClientCache_def
        split: option.splits prod.splits dest: r)
  from wp_finish [OF this prod.collapse [symmetric]] show ?thesis by (metis prod.collapse)
qed

end
