(* ===== verification/Scheme_Registration.thy ===== *)
theory Scheme_Registration
  imports Go_Prelude
begin

section \<open>The types of the API group (src/api/v1alpha1/groupversion_info.go and the functions init)\<close>

text \<open>
  The package registers its types with a builder of controller-runtime when it is
  initialised; the controllers add them to the scheme of their manager with
  \<^verbatim>\<open>AddToScheme\<close>, the method of that builder. The builder is a parameter; a Go type is given
  by its name, which is its kind. \<open>builder_lawful\<close> states its documented behaviour with
  respect to the types (\<open>adds\<close>) that a builder adds to a scheme.
\<close>

record GroupVersion =
  gvGroup :: string
  gvVersion :: string

definition tenantv1_GroupVersion :: GroupVersion where
  "tenantv1_GroupVersion = \<lparr>gvGroup = ''infrastructure.cluster.x-k8s.io'', gvVersion = ''v1alpha1''\<rparr>"

definition CloudDirectorTenantClusterKind :: string where
  "CloudDirectorTenantClusterKind = ''CloudDirectorTenantCluster''"

definition CloudDirectorTenantMachineKind :: string where
  "CloudDirectorTenantMachineKind = ''CloudDirectorTenantMachine''"

definition CloudDirectorTenantMachineTemplateKind :: string where
  "CloudDirectorTenantMachineTemplateKind = ''CloudDirectorTenantMachineTemplate''"

record 'b builder_lib =
  bl_Builder :: "GroupVersion \<Rightarrow> 'b" \<comment> \<open>\<^verbatim>\<open>scheme.Builder{GroupVersion: gv}\<close>\<close>
  bl_Register :: "'b \<Rightarrow> string list \<Rightarrow> 'b"

subsection \<open>The initialisation of the package\<close>

definition SchemeBuilder :: "'b builder_lib \<Rightarrow> 'b" where
  "SchemeBuilder B = bl_Builder B tenantv1_GroupVersion"

definition cluster_init :: "'b builder_lib \<Rightarrow> 'b \<Rightarrow> 'b" where
  "cluster_init B b = bl_Register B b [''CloudDirectorTenantCluster'', ''CloudDirectorTenantClusterList'']"

definition machine_init :: "'b builder_lib \<Rightarrow> 'b \<Rightarrow> 'b" where
  "machine_init B b = bl_Register B b [''CloudDirectorTenantMachine'', ''CloudDirectorTenantMachineList'']"

definition template_init :: "'b builder_lib \<Rightarrow> 'b \<Rightarrow> 'b" where
  "template_init B b = bl_Register B b [''CloudDirectorTenantMachineTemplate'', ''CloudDirectorTenantMachineTemplateList'']"

datatype 'b scheme_adder =
    BuilderAddToScheme 'b \<comment> \<open>the method of a builder\<close>
  | ClusterV1AddToScheme

definition tenantv1_AddToScheme :: "'b builder_lib \<Rightarrow> 'b scheme_adder" where
  \<comment> \<open>the method value holds a pointer to the builder, so it sees what the functions \<^verbatim>\<open>init\<close>, run in the order of
    their files, register\<close>
  "tenantv1_AddToScheme B = BuilderAddToScheme (template_init B (machine_init B (cluster_init B (SchemeBuilder B))))"

subsection \<open>What is registered\<close>

definition builder_lawful :: "'b builder_lib \<Rightarrow> ('b \<Rightarrow> (GroupVersion \<times> string) set) \<Rightarrow> bool" where
  \<comment> \<open>a builder adds the types that were registered with it, under its group and version\<close>
  "builder_lawful B adds \<longleftrightarrow>
     (\<forall>gv objs. adds (foldl (bl_Register B) (bl_Builder B gv) objs) = Pair gv ` set (concat objs))"

fun added_types :: "('b \<Rightarrow> (GroupVersion \<times> string) set) \<Rightarrow> 'b scheme_adder \<Rightarrow> (GroupVersion \<times> string) set" where
  \<comment> \<open>the tenant types among those that are added\<close>
  "added_types adds (BuilderAddToScheme b) = adds b"
| "added_types adds ClusterV1AddToScheme = {}"

lemma registered_types:
  assumes "builder_lawful B adds"
  shows "added_types adds (tenantv1_AddToScheme B) = Pair tenantv1_GroupVersion `
    (\<Union>k \<in> {CloudDirectorTenantClusterKind, CloudDirectorTenantMachineKind, CloudDirectorTenantMachineTemplateKind}. {k, k @ ''List''})"
proof -
  let ?objs = "[[''CloudDirectorTenantCluster'', ''CloudDirectorTenantClusterList''], [''CloudDirectorTenantMachine'', ''CloudDirectorTenantMachineList''],
    [''CloudDirectorTenantMachineTemplate'', ''CloudDirectorTenantMachineTemplateList'']]"
  have "adds (foldl (bl_Register B) (bl_Builder B tenantv1_GroupVersion) ?objs) = Pair tenantv1_GroupVersion ` set (concat ?objs)"
    using assms unfolding builder_lawful_def by blast
  then have "added_types adds (tenantv1_AddToScheme B) = Pair tenantv1_GroupVersion ` set (concat ?objs)"
    unfolding tenantv1_AddToScheme_def template_init_def machine_init_def cluster_init_def SchemeBuilder_def by simp
  moreover have "set (concat ?objs) =
      (\<Union>k \<in> {CloudDirectorTenantClusterKind, CloudDirectorTenantMachineKind, CloudDirectorTenantMachineTemplateKind}. {k, k @ ''List''})"
    by (auto simp: CloudDirectorTenantClusterKind_def CloudDirectorTenantMachineKind_def CloudDirectorTenantMachineTemplateKind_def)
  ultimately show ?thesis by (simp only:)
qed

end
