(* ===== verification/Deep_Copy.thy ===== *)
theory Deep_Copy
  imports Api_V1alpha1
begin

section \<open>Deep copies of the API objects (src/api/v1alpha1/zz\_generated.deepcopy.go)\<close>

text \<open>
  The API machinery and the patch helper keep a copy of an object while the controller
  changes the original, so the copy must share no memory with it. Here memory is explicit:
  a \<open>heap\<close> has one array or struct per location, one field per Go type, and the objects
  are structs with pointers (\<open>loc option\<close>) and slices. \<open>view\<close> functions read the value of
  an object (the records of \<open>Api_V1alpha1\<close>), \<open>reach\<close> functions the locations behind it.

  The contract of a \<^verbatim>\<open>DeepCopyInto\<close> is the locale \<open>deep_copier\<close>; it is closed under the ways
  the generated code puts fields together (\<open>deep_copier_pair\<close>, \<open>deep_copier_field\<close>,
  \<open>deep_copier_items\<close>). The copies of third-party structs (\<^verbatim>\<open>ObjectMeta\<close>, \<^verbatim>\<open>ListMeta\<close>,
  \<^verbatim>\<open>Condition\<close>) are parameters with this contract as the hypothesis; \<^verbatim>\<open>TypeMeta\<close>, two strings,
  is copied with the metadata beside it. The out argument of a
  \<^verbatim>\<open>DeepCopyInto\<close> is overwritten as a whole, so it is the result here.
\<close>

type_synonym loc = nat

record slice =
  slArray :: loc
  slOffset :: nat
  slLength :: nat

definition slice_of :: "slice \<Rightarrow> 'a list \<Rightarrow> 'a list" where
  "slice_of sl xs = take (slLength sl) (drop (slOffset sl) xs)"

subsection \<open>The objects in memory\<close>

record HClusterSpec =
  hcsControlPlaneEndpoint :: APIEndpoint
  hcsOrganization :: string
  hcsVirtualDataCenter :: string
  hcsEdgeGateway :: string
  hcsNetwork :: string
  hcsServiceEngineGroup :: string
  hcsIdentityRef :: "loc option"
  hcsUseUIDForNames :: bool

record HClusterStatus =
  hctReady :: bool
  hctVirtualService :: "loc option"
  hctVApp :: "loc option"
  hctIPSet :: "loc option"
  hctPool :: "loc option"
  hctConditions :: "slice option"

record 'm HCluster =
  hcMeta :: 'm
  hcSpec :: HClusterSpec
  hcStatus :: HClusterStatus

record HMachineSpec =
  hmsProviderID :: string
  hmsCatalog :: string
  hmsTemplate :: string
  hmsNetworkAdapterType :: string
  hmsMemoryResourceMiB :: int64
  hmsNumCPUs :: int64
  hmsDiskResourceMiB :: int64
  hmsAdditionalDisks :: "slice option"

record HMachineStatus =
  hmtReady :: bool
  hmtAddresses :: "slice option"
  hmtConditions :: "slice option"

record 'm HMachine =
  hmMeta :: 'm
  hmSpec :: HMachineSpec
  hmStatus :: HMachineStatus

record 'n HTemplateResource =
  hrMeta :: 'n
  hrSpec :: HMachineSpec

record 'n HTemplateSpec =
  htsTemplate :: "'n HTemplateResource"

record ('m, 'n) HTemplate =
  htMeta :: 'm
  htSpec :: "'n HTemplateSpec"

text \<open>
  The lists of the three kinds differ in their items only: metadata and a slice.
\<close>

record 'k HList =
  hlMeta :: 'k
  hlItems :: "slice option"

type_synonym 'k HClusterList = "'k HList"
type_synonym 'k HMachineList = "'k HList"

record ('m, 'n, 'c, 'x) heap =
  hNext :: loc
  hRef :: "loc \<Rightarrow> CloudDirectorReference"
  hIdentity :: "loc \<Rightarrow> CloudDirectorTenantIdentityRef"
  hDisks :: "loc \<Rightarrow> AdditionalDisk list"
  hAddresses :: "loc \<Rightarrow> MachineAddress list"
  hConditions :: "loc \<Rightarrow> 'c list"
  hClusters :: "loc \<Rightarrow> 'm HCluster list"
  hMachines :: "loc \<Rightarrow> 'm HMachine list"
  hTemplates :: "loc \<Rightarrow> ('m, 'n) HTemplate list"
  hLib :: "loc \<Rightarrow> 'x"

definition agree :: "loc set \<Rightarrow> ('m, 'n, 'c, 'x) heap \<Rightarrow> ('m, 'n, 'c, 'x) heap \<Rightarrow> bool" where
  \<comment> \<open>the two memories are the same at these locations\<close>
  "agree A h h' \<longleftrightarrow> (\<forall>l \<in> A. hRef h l = hRef h' l \<and> hIdentity h l = hIdentity h' l \<and> hDisks h l = hDisks h' l \<and>
     hAddresses h l = hAddresses h' l \<and> hConditions h l = hConditions h' l \<and> hClusters h l = hClusters h' l \<and>
     hMachines h l = hMachines h' l \<and> hTemplates h l = hTemplates h' l \<and> hLib h l = hLib h' l)"

lemma agree_refl [simp]: "agree A h h"
  by (simp add: agree_def)

lemma agree_mono: "agree A h h' \<Longrightarrow> B \<subseteq> A \<Longrightarrow> agree B h h'"
  by (auto simp: agree_def)

lemma agree_trans: "agree A h h' \<Longrightarrow> agree A h' h'' \<Longrightarrow> agree A h h''"
  by (auto simp: agree_def)

lemma agree_Un: "agree (A \<union> B) h h' \<longleftrightarrow> agree A h h' \<and> agree B h h'"
  by (auto simp: agree_def)

lemma agree_sym: "agree A h h' \<Longrightarrow> agree A h' h"
  by (auto simp: agree_def)

subsection \<open>Copying pointers and slices\<close>

definition copy_value :: "'a \<Rightarrow> ('m, 'n, 'c, 'x) heap \<Rightarrow> 'a \<times> ('m, 'n, 'c, 'x) heap" where
  \<comment> \<open>\<^verbatim>\<open>*out = *in\<close> of a struct without pointers\<close>
  "copy_value x h = (x, h)"

definition copy_pointer :: "(('m, 'n, 'c, 'x) heap \<Rightarrow> loc \<Rightarrow> 'a) \<Rightarrow> (loc \<Rightarrow> 'a \<Rightarrow> ('m, 'n, 'c, 'x) heap \<Rightarrow> ('m, 'n, 'c, 'x) heap)
    \<Rightarrow> loc option \<Rightarrow> ('m, 'n, 'c, 'x) heap \<Rightarrow> loc option \<times> ('m, 'n, 'c, 'x) heap" where
  \<comment> \<open>\<^verbatim>\<open>if in != nil { *out = new(T); **out = **in }\<close>\<close>
  "copy_pointer get store p h = (case p of None \<Rightarrow> (None, h)
     | Some l \<Rightarrow> (Some (hNext h), store (hNext h) (get h l) (h\<lparr>hNext := Suc (hNext h)\<rparr>)))"

primrec copy_all :: "('a \<Rightarrow> ('m, 'n, 'c, 'x) heap \<Rightarrow> 'a \<times> ('m, 'n, 'c, 'x) heap)
    \<Rightarrow> 'a list \<Rightarrow> ('m, 'n, 'c, 'x) heap \<Rightarrow> 'a list \<times> ('m, 'n, 'c, 'x) heap" where
  \<comment> \<open>\<^verbatim>\<open>for i := range *in { (*in)[i].DeepCopyInto(&(*out)[i]) }\<close>\<close>
  "copy_all copy [] h = ([], h)"
| "copy_all copy (x # xs) h = (case copy x h of (y, h1) \<Rightarrow> case copy_all copy xs h1 of (ys, h2) \<Rightarrow> (y # ys, h2))"

definition copy_items :: "('a \<Rightarrow> ('m, 'n, 'c, 'x) heap \<Rightarrow> 'a \<times> ('m, 'n, 'c, 'x) heap)
    \<Rightarrow> (('m, 'n, 'c, 'x) heap \<Rightarrow> loc \<Rightarrow> 'a list) \<Rightarrow> (loc \<Rightarrow> 'a list \<Rightarrow> ('m, 'n, 'c, 'x) heap \<Rightarrow> ('m, 'n, 'c, 'x) heap)
    \<Rightarrow> slice option \<Rightarrow> ('m, 'n, 'c, 'x) heap \<Rightarrow> slice option \<times> ('m, 'n, 'c, 'x) heap" where
  \<comment> \<open>\<^verbatim>\<open>if in != nil { *out = make([]T, len(*in)); ... }\<close>: the new array is filled by the loop\<close>
  "copy_items copy get store p h = (case p of None \<Rightarrow> (None, h)
     | Some sl \<Rightarrow> (case copy_all copy (slice_of sl (get h (slArray sl))) (h\<lparr>hNext := Suc (hNext h)\<rparr>) of (ys, h') \<Rightarrow>
         (Some \<lparr>slArray = hNext h, slOffset = 0, slLength = slLength sl\<rparr>, store (hNext h) ys h')))"

text \<open>A field of the memory, with how it is read and written.\<close>

locale memory_field =
  fixes get :: "('m, 'n, 'c, 'x) heap \<Rightarrow> loc \<Rightarrow> 'a"
    and store :: "loc \<Rightarrow> 'a \<Rightarrow> ('m, 'n, 'c, 'x) heap \<Rightarrow> ('m, 'n, 'c, 'x) heap"
  assumes get_store: "get (store l v h) l = v"
    and store_other: "agree (- {l}) h (store l v h)"
    and store_next: "hNext (store l v h) = hNext h"
    and get_agree: "agree {l} h h' \<Longrightarrow> get h' l = get h l"
begin

lemma store_agree: "l \<notin> A \<Longrightarrow> agree A h (store l v h)"
  by (rule agree_mono [OF store_other]) auto

end

definition store_ref where "store_ref l v h = h\<lparr>hRef := (hRef h)(l := v)\<rparr>"
definition store_identity where "store_identity l v h = h\<lparr>hIdentity := (hIdentity h)(l := v)\<rparr>"
definition store_disks where "store_disks l v h = h\<lparr>hDisks := (hDisks h)(l := v)\<rparr>"
definition store_addresses where "store_addresses l v h = h\<lparr>hAddresses := (hAddresses h)(l := v)\<rparr>"
definition store_conditions where "store_conditions l v h = h\<lparr>hConditions := (hConditions h)(l := v)\<rparr>"
definition store_clusters where "store_clusters l v h = h\<lparr>hClusters := (hClusters h)(l := v)\<rparr>"
definition store_machines where "store_machines l v h = h\<lparr>hMachines := (hMachines h)(l := v)\<rparr>"
definition store_templates where "store_templates l v h = h\<lparr>hTemplates := (hTemplates h)(l := v)\<rparr>"

interpretation refs: memory_field hRef store_ref
  by unfold_locales (auto simp: store_ref_def agree_def)
interpretation identities: memory_field hIdentity store_identity
  by unfold_locales (auto simp: store_identity_def agree_def)
interpretation disks: memory_field hDisks store_disks
  by unfold_locales (auto simp: store_disks_def agree_def)
interpretation addresses: memory_field hAddresses store_addresses
  by unfold_locales (auto simp: store_addresses_def agree_def)
interpretation conds: memory_field hConditions store_conditions
  by unfold_locales (auto simp: store_conditions_def agree_def)
interpretation clusters: memory_field hClusters store_clusters
  by unfold_locales (auto simp: store_clusters_def agree_def)
interpretation machines: memory_field hMachines store_machines
  by unfold_locales (auto simp: store_machines_def agree_def)
interpretation templates: memory_field hTemplates store_templates
  by unfold_locales (auto simp: store_templates_def agree_def)

subsection \<open>The contract of a deep copy\<close>

locale deep_copier =
  fixes copy :: "'a \<Rightarrow> ('m, 'n, 'c, 'x) heap \<Rightarrow> 'a \<times> ('m, 'n, 'c, 'x) heap"
    and view :: "('m, 'n, 'c, 'x) heap \<Rightarrow> 'a \<Rightarrow> 'v"
    and reach :: "('m, 'n, 'c, 'x) heap \<Rightarrow> 'a \<Rightarrow> loc set"
  assumes local: "agree (reach h x) h h' \<Longrightarrow> view h' x = view h x \<and> reach h' x = reach h x"
    and copy_correct: "reach h x \<subseteq> {..<hNext h} \<Longrightarrow> copy x h = (y, h') \<Longrightarrow>
      hNext h \<le> hNext h' \<and> agree {..<hNext h} h h' \<and> view h' y = view h x \<and> reach h' y \<subseteq> {hNext h..<hNext h'}"
begin

text \<open>The copy is equal and separate: later writes to one of the two do not show in the other.\<close>

lemma independent:
  assumes "reach h x \<subseteq> {..<hNext h}" and "copy x h = (y, h')"
  shows "view h' y = view h x" and "view h' x = view h x" and "reach h' x \<inter> reach h' y = {}"
    and "agree (reach h' x) h' k \<Longrightarrow> view k x = view h x" and "agree (reach h' y) h' k \<Longrightarrow> view k y = view h x"
proof -
  note c = copy_correct [OF assms]
  then have x: "view h' x = view h x \<and> reach h' x = reach h x"
    using local agree_mono [OF _ assms(1)] by blast
  from c show "view h' y = view h x" by blast
  from x show "view h' x = view h x" by blast
  from c x assms(1) show "reach h' x \<inter> reach h' y = {}" by (fastforce simp: subset_eq)
  show "agree (reach h' x) h' k \<Longrightarrow> view k x = view h x" using local [of h' x k] x by simp
  show "agree (reach h' y) h' k \<Longrightarrow> view k y = view h x" using local [of h' y k] c by simp
qed

lemma reach_below:
  "reach h x \<subseteq> {..<hNext h} \<Longrightarrow> hNext h \<le> hNext h' \<Longrightarrow> agree {..<hNext h} h h' \<Longrightarrow>
    view h' x = view h x \<and> reach h' x = reach h x \<and> reach h' x \<subseteq> {..<hNext h'}"
  using local agree_mono by (metis (no_types, lifting) lessThan_subset_iff order_trans)

lemma copy_all_correct:
  assumes "\<Union> (reach h ` set xs) \<subseteq> {..<hNext h}" and "copy_all copy xs h = (ys, h')"
  shows "hNext h \<le> hNext h' \<and> agree {..<hNext h} h h' \<and> map (view h') ys = map (view h) xs \<and>
    \<Union> (reach h' ` set ys) \<subseteq> {hNext h..<hNext h'}"
  using assms
proof (induction xs arbitrary: h ys)
  case (Cons x xs)
  from Cons.prems(2) obtain y h1 zs where y: "copy x h = (y, h1)" and zs: "copy_all copy xs h1 = (zs, h')" "ys = y # zs"
    by (auto split: prod.splits)
  have c: "hNext h \<le> hNext h1" "agree {..<hNext h} h h1" "view h1 y = view h x" "reach h1 y \<subseteq> {hNext h..<hNext h1}"
    using copy_correct [OF _ y] Cons.prems(1) by auto
  have below: "view h1 z = view h z \<and> reach h1 z = reach h z \<and> reach h1 z \<subseteq> {..<hNext h1}" if "z \<in> set xs" for z
    using reach_below [OF _ c(1,2), of z] Cons.prems(1) that by auto
  then have "\<Union> (reach h1 ` set xs) \<subseteq> {..<hNext h1}" by blast
  note ih = Cons.IH [OF this zs(1)]
  then have "view h' y = view h1 y \<and> reach h' y = reach h1 y"
    using local agree_mono c(4) by (metis (no_types, lifting) atLeastLessThan_iff lessThan_iff subset_eq)
  moreover have "agree {..<hNext h} h h'"
    using c(1,2) ih by (metis agree_trans agree_mono lessThan_subset_iff)
  moreover have "map (view h1) xs = map (view h) xs" using below by simp
  ultimately show ?case using ih c zs(2) by fastforce
qed auto

end

subsection \<open>What the contract is closed under\<close>

lemma deep_copier_value: "deep_copier copy_value (\<lambda>_ x. x) (\<lambda>_ _. {})"
  by unfold_locales (auto simp: copy_value_def)

definition pointer_reach :: "('m, 'n, 'c, 'x) heap \<Rightarrow> loc option \<Rightarrow> loc set" where
  "pointer_reach h p = set_option p"

definition slice_view :: "(('m, 'n, 'c, 'x) heap \<Rightarrow> 'a \<Rightarrow> 'v) \<Rightarrow> (('m, 'n, 'c, 'x) heap \<Rightarrow> loc \<Rightarrow> 'a list)
    \<Rightarrow> ('m, 'n, 'c, 'x) heap \<Rightarrow> slice option \<Rightarrow> 'v list option" where
  "slice_view view get h p = map_option (\<lambda>sl. map (view h) (slice_of sl (get h (slArray sl)))) p"

definition slice_reach :: "(('m, 'n, 'c, 'x) heap \<Rightarrow> 'a \<Rightarrow> loc set) \<Rightarrow> (('m, 'n, 'c, 'x) heap \<Rightarrow> loc \<Rightarrow> 'a list)
    \<Rightarrow> ('m, 'n, 'c, 'x) heap \<Rightarrow> slice option \<Rightarrow> loc set" where
  "slice_reach reach get h p = (case p of None \<Rightarrow> {}
     | Some sl \<Rightarrow> insert (slArray sl) (\<Union> (reach h ` set (slice_of sl (get h (slArray sl))))))"

context memory_field
begin

lemma deep_copier_pointer: "deep_copier (copy_pointer get store) (\<lambda>h. map_option (get h)) pointer_reach"
proof
  show "map_option (get h') x = map_option (get h) x \<and> pointer_reach h' x = pointer_reach h x"
    if "agree (pointer_reach h x) h h'" for h h' :: "('m, 'n, 'c, 'x) heap" and x
    using that get_agree by (cases x) (auto simp: pointer_reach_def)
next
  fix h h' :: "('m, 'n, 'c, 'x) heap" and x y
  assume "pointer_reach h x \<subseteq> {..<hNext h}" "copy_pointer get store x h = (y, h')"
  moreover have "agree {..<hNext h} h (store (hNext h) v (h\<lparr>hNext := Suc (hNext h)\<rparr>))" for v
    using store_agree [of "hNext h" "{..<hNext h}" "h\<lparr>hNext := Suc (hNext h)\<rparr>" v] by (simp add: agree_def)
  ultimately show "hNext h \<le> hNext h' \<and> agree {..<hNext h} h h' \<and> map_option (get h') y = map_option (get h) x \<and>
      pointer_reach h' y \<subseteq> {hNext h..<hNext h'}"
    by (cases x) (auto simp: copy_pointer_def pointer_reach_def store_next get_store)
qed

end

lemma deep_copier_items:
  fixes get :: "('m, 'n, 'c, 'x) heap \<Rightarrow> loc \<Rightarrow> 'a list"
  assumes "memory_field get store" and "deep_copier copy view reach"
  shows "deep_copier (copy_items copy get store) (slice_view view get) (slice_reach reach get)"
proof
  note field = memory_field.get_store [OF assms(1)] memory_field.store_next [OF assms(1)]
    memory_field.store_agree [OF assms(1)] memory_field.get_agree [OF assms(1)]
  note item = deep_copier.local [OF assms(2)] deep_copier.copy_all_correct [OF assms(2)]
  show "slice_view view get h' p = slice_view view get h p \<and> slice_reach reach get h' p = slice_reach reach get h p"
    if "agree (slice_reach reach get h p) h h'" for h h' p
  proof (cases p)
    case (Some sl)
    let ?items = "slice_of sl (get h (slArray sl))"
    from that Some have "agree {slArray sl} h h'" and "\<And>x. x \<in> set ?items \<Longrightarrow> agree (reach h x) h h'"
      by (auto simp: slice_reach_def elim: agree_mono)
    then have "get h' (slArray sl) = get h (slArray sl)"
      and "\<And>x. x \<in> set ?items \<Longrightarrow> view h' x = view h x \<and> reach h' x = reach h x"
      using field(4) item(1) by blast+
    with Some show ?thesis by (simp add: slice_view_def slice_reach_def cong: SUP_cong)
  qed (simp add: slice_view_def slice_reach_def)
  fix h h' :: "('m, 'n, 'c, 'x) heap" and p q
  assume p: "slice_reach reach get h p \<subseteq> {..<hNext h}" and copy: "copy_items copy get store p h = (q, h')"
  show "hNext h \<le> hNext h' \<and> agree {..<hNext h} h h' \<and> slice_view view get h' q = slice_view view get h p \<and>
      slice_reach reach get h' q \<subseteq> {hNext h..<hNext h'}"
  proof (cases p)
    case None
    with copy show ?thesis by (simp add: copy_items_def slice_view_def slice_reach_def)
  next
    case (Some sl)
    let ?n = "hNext h" and ?h1 = "h\<lparr>hNext := Suc (hNext h)\<rparr>" and ?items = "slice_of sl (get h (slArray sl))"
    obtain ys h2 where ys: "copy_all copy ?items ?h1 = (ys, h2)" and h': "h' = store ?n ys h2"
        and q: "q = Some \<lparr>slArray = ?n, slOffset = 0, slLength = slLength sl\<rparr>"
      using copy Some by (auto simp: copy_items_def split: prod.splits)
    have same: "view ?h1 x = view h x \<and> reach ?h1 x = reach h x" for x
      by (rule item(1)) (simp add: agree_def)
    have "\<Union> (reach ?h1 ` set ?items) \<subseteq> {..<hNext ?h1}"
      using p Some by (auto simp: same slice_reach_def less_Suc_eq)
    note c = item(2) [OF this ys]
    then have fresh: "\<And>y. y \<in> set ys \<Longrightarrow> ?n \<notin> reach h2 y" by fastforce
    then have kept: "\<And>y. y \<in> set ys \<Longrightarrow> view h' y = view h2 y \<and> reach h' y = reach h2 y"
      unfolding h' using item(1) field(3) by blast
    have "map (view h') ys = map (view h2) ys" using kept by simp
    also have "... = map (view ?h1) ?items" using c by blast
    also have "... = map (view h) ?items" using same by simp
    finally have views: "map (view h') ys = map (view h) ?items" .
    then have "length ys \<le> slLength sl" by (metis length_map length_take min.cobounded2 slice_of_def)
    then have "slice_of \<lparr>slArray = ?n, slOffset = 0, slLength = slLength sl\<rparr> (get h' ?n) = ys"
      by (simp add: h' field(1) slice_of_def)
    moreover have "agree {..<?n} h h'"
    proof -
      have "agree {..<?n} h ?h1" by (simp add: agree_def)
      moreover have "agree {..<?n} ?h1 h2" using c by (auto elim: agree_mono)
      moreover have "agree {..<?n} h2 h'" unfolding h' by (rule field(3)) simp
      ultimately show ?thesis by (blast intro: agree_trans)
    qed
    moreover have "hNext h' = hNext h2" "Suc ?n \<le> hNext h2" using c by (simp_all add: h' field(2))
    moreover have "\<Union> (reach h' ` set ys) \<subseteq> {Suc ?n..<hNext h2}" using c kept by auto
    ultimately show ?thesis using views by (auto simp: q Some slice_view_def slice_reach_def)
  qed
qed

text \<open>Fields of a struct are copied one after the other.\<close>

definition copy_pair :: "('a \<Rightarrow> ('m, 'n, 'c, 'x) heap \<Rightarrow> 'a \<times> ('m, 'n, 'c, 'x) heap) \<Rightarrow> ('b \<Rightarrow> ('m, 'n, 'c, 'x) heap \<Rightarrow> 'b \<times> ('m, 'n, 'c, 'x) heap)
    \<Rightarrow> 'a \<times> 'b \<Rightarrow> ('m, 'n, 'c, 'x) heap \<Rightarrow> ('a \<times> 'b) \<times> ('m, 'n, 'c, 'x) heap" where
  "copy_pair c d p h = (case c (fst p) h of (x, h1) \<Rightarrow> case d (snd p) h1 of (y, h2) \<Rightarrow> ((x, y), h2))"

lemma deep_copier_pair:
  assumes "deep_copier c v r" and "deep_copier d w t"
  shows "deep_copier (copy_pair c d) (\<lambda>h p. (v h (fst p), w h (snd p))) (\<lambda>h p. r h (fst p) \<union> t h (snd p))"
proof
  fix h h' p
  assume "agree (r h (fst p) \<union> t h (snd p)) h h'"
  then show "(v h' (fst p), w h' (snd p)) = (v h (fst p), w h (snd p)) \<and>
      r h' (fst p) \<union> t h' (snd p) = r h (fst p) \<union> t h (snd p)"
    using deep_copier.local [OF assms(1), of h "fst p" h'] deep_copier.local [OF assms(2), of h "snd p" h']
    by (simp add: agree_Un)
next
  fix h h' p q
  assume p: "r h (fst p) \<union> t h (snd p) \<subseteq> {..<hNext h}" and "copy_pair c d p h = (q, h')"
  then obtain x h1 y where x: "c (fst p) h = (x, h1)" and y: "d (snd p) h1 = (y, h')" and q: "q = (x, y)"
    by (auto simp: copy_pair_def split: prod.splits)
  have cx: "hNext h \<le> hNext h1 \<and> agree {..<hNext h} h h1 \<and> v h1 x = v h (fst p) \<and> r h1 x \<subseteq> {hNext h..<hNext h1}"
    using deep_copier.copy_correct [OF assms(1) _ x] p by simp
  then have b: "w h1 (snd p) = w h (snd p) \<and> t h1 (snd p) = t h (snd p) \<and> t h1 (snd p) \<subseteq> {..<hNext h1}"
    using deep_copier.reach_below [OF assms(2), of h "snd p" h1] p by auto
  have cy: "hNext h1 \<le> hNext h' \<and> agree {..<hNext h1} h1 h' \<and> w h' y = w h1 (snd p) \<and> t h' y \<subseteq> {hNext h1..<hNext h'}"
    using deep_copier.copy_correct [OF assms(2) _ y] b by metis
  then have "v h' x = v h1 x \<and> r h' x = r h1 x"
    using deep_copier.local [OF assms(1), of h1 x h'] cx agree_mono [of "{..<hNext h1}" h1 h' "r h1 x"] by (auto simp: subset_eq)
  moreover have "agree {..<hNext h} h h'"
    using cx cy agree_mono [of "{..<hNext h1}" h1 h' "{..<hNext h}"] by (auto intro: agree_trans)
  ultimately show "hNext h \<le> hNext h' \<and> agree {..<hNext h} h h' \<and> (v h' (fst q), w h' (snd q)) = (v h (fst p), w h (snd p)) \<and>
      r h' (fst q) \<union> t h' (snd q) \<subseteq> {hNext h..<hNext h'}"
    using cx cy b by (auto simp: q subset_eq)
qed

text \<open>A struct whose pointers are in one part of it: \<open>build\<close> makes its value from the rest and the view of that part.\<close>

lemma deep_copier_field:
  assumes "deep_copier c v r" and "\<And>x y. get (put y x) = y" and "\<And>x y. build (put y x) = build x"
  shows "deep_copier (\<lambda>x h. case c (get x) h of (y, h') \<Rightarrow> (put y x, h')) (\<lambda>h x. build x (v h (get x))) (\<lambda>h x. r h (get x))"
proof
  show "build x (v h' (get x)) = build x (v h (get x)) \<and> r h' (get x) = r h (get x)" if "agree (r h (get x)) h h'" for h h' x
    using deep_copier.local [OF assms(1) that] by simp
  show "hNext h \<le> hNext h' \<and> agree {..<hNext h} h h' \<and> build y (v h' (get y)) = build x (v h (get x)) \<and> r h' (get y) \<subseteq> {hNext h..<hNext h'}"
    if "r h (get x) \<subseteq> {..<hNext h}" "(case c (get x) h of (y, h') \<Rightarrow> (put y x, h')) = (y, h')" for h h' x y
    using deep_copier.copy_correct [OF assms(1) that(1)] that(2) by (auto simp: assms(2,3) split: prod.splits)
qed

subsection \<open>The generated functions\<close>

definition ClusterSpec_DeepCopyInto :: "HClusterSpec \<Rightarrow> ('m, 'n, 'c, 'x) heap \<Rightarrow> HClusterSpec \<times> ('m, 'n, 'c, 'x) heap" where
  "ClusterSpec_DeepCopyInto x h = (case copy_pointer hIdentity store_identity (hcsIdentityRef x) h of
     (p, h1) \<Rightarrow> (x\<lparr>hcsIdentityRef := p\<rparr>, h1))"

definition ClusterStatus_DeepCopyInto :: "('c \<Rightarrow> ('m, 'n, 'c, 'x) heap \<Rightarrow> 'c \<times> ('m, 'n, 'c, 'x) heap)
    \<Rightarrow> HClusterStatus \<Rightarrow> ('m, 'n, 'c, 'x) heap \<Rightarrow> HClusterStatus \<times> ('m, 'n, 'c, 'x) heap" where
  "ClusterStatus_DeepCopyInto copyCondition x h =
     (case copy_pointer hRef store_ref (hctVirtualService x) h of (vs, h1) \<Rightarrow>
      case copy_pointer hRef store_ref (hctVApp x) h1 of (va, h2) \<Rightarrow>
      case copy_pointer hRef store_ref (hctIPSet x) h2 of (ip, h3) \<Rightarrow>
      case copy_pointer hRef store_ref (hctPool x) h3 of (pool, h4) \<Rightarrow>
      case copy_items copyCondition hConditions store_conditions (hctConditions x) h4 of (cs, h5) \<Rightarrow>
        (x\<lparr>hctVirtualService := vs, hctVApp := va, hctIPSet := ip, hctPool := pool, hctConditions := cs\<rparr>, h5))"

definition Cluster_DeepCopyInto :: "('m \<Rightarrow> ('m, 'n, 'c, 'x) heap \<Rightarrow> 'm \<times> ('m, 'n, 'c, 'x) heap)
    \<Rightarrow> ('c \<Rightarrow> ('m, 'n, 'c, 'x) heap \<Rightarrow> 'c \<times> ('m, 'n, 'c, 'x) heap)
    \<Rightarrow> 'm HCluster \<Rightarrow> ('m, 'n, 'c, 'x) heap \<Rightarrow> 'm HCluster \<times> ('m, 'n, 'c, 'x) heap" where
  "Cluster_DeepCopyInto copyMeta copyCondition x h =
     (case copyMeta (hcMeta x) h of (m, h1) \<Rightarrow>
      case ClusterSpec_DeepCopyInto (hcSpec x) h1 of (sp, h2) \<Rightarrow>
      case ClusterStatus_DeepCopyInto copyCondition (hcStatus x) h2 of (st, h3) \<Rightarrow>
        (x\<lparr>hcMeta := m, hcSpec := sp, hcStatus := st\<rparr>, h3))"

definition MachineSpec_DeepCopyInto :: "HMachineSpec \<Rightarrow> ('m, 'n, 'c, 'x) heap \<Rightarrow> HMachineSpec \<times> ('m, 'n, 'c, 'x) heap" where
  "MachineSpec_DeepCopyInto x h = (case copy_items copy_value hDisks store_disks (hmsAdditionalDisks x) h of
     (ds, h1) \<Rightarrow> (x\<lparr>hmsAdditionalDisks := ds\<rparr>, h1))"

definition MachineStatus_DeepCopyInto :: "('c \<Rightarrow> ('m, 'n, 'c, 'x) heap \<Rightarrow> 'c \<times> ('m, 'n, 'c, 'x) heap)
    \<Rightarrow> HMachineStatus \<Rightarrow> ('m, 'n, 'c, 'x) heap \<Rightarrow> HMachineStatus \<times> ('m, 'n, 'c, 'x) heap" where
  "MachineStatus_DeepCopyInto copyCondition x h =
     (case copy_items copy_value hAddresses store_addresses (hmtAddresses x) h of (as, h1) \<Rightarrow>
      case copy_items copyCondition hConditions store_conditions (hmtConditions x) h1 of (cs, h2) \<Rightarrow>
        (x\<lparr>hmtAddresses := as, hmtConditions := cs\<rparr>, h2))"

definition Machine_DeepCopyInto :: "('m \<Rightarrow> ('m, 'n, 'c, 'x) heap \<Rightarrow> 'm \<times> ('m, 'n, 'c, 'x) heap)
    \<Rightarrow> ('c \<Rightarrow> ('m, 'n, 'c, 'x) heap \<Rightarrow> 'c \<times> ('m, 'n, 'c, 'x) heap)
    \<Rightarrow> 'm HMachine \<Rightarrow> ('m, 'n, 'c, 'x) heap \<Rightarrow> 'm HMachine \<times> ('m, 'n, 'c, 'x) heap" where
  "Machine_DeepCopyInto copyMeta copyCondition x h =
     (case copyMeta (hmMeta x) h of (m, h1) \<Rightarrow>
      case MachineSpec_DeepCopyInto (hmSpec x) h1 of (sp, h2) \<Rightarrow>
      case MachineStatus_DeepCopyInto copyCondition (hmStatus x) h2 of (st, h3) \<Rightarrow>
        (x\<lparr>hmMeta := m, hmSpec := sp, hmStatus := st\<rparr>, h3))"

definition TemplateResource_DeepCopyInto :: "('n \<Rightarrow> ('m, 'n, 'c, 'x) heap \<Rightarrow> 'n \<times> ('m, 'n, 'c, 'x) heap)
    \<Rightarrow> 'n HTemplateResource \<Rightarrow> ('m, 'n, 'c, 'x) heap \<Rightarrow> 'n HTemplateResource \<times> ('m, 'n, 'c, 'x) heap" where
  "TemplateResource_DeepCopyInto copyMetaV1beta1 x h =
     (case copyMetaV1beta1 (hrMeta x) h of (m, h1) \<Rightarrow>
      case MachineSpec_DeepCopyInto (hrSpec x) h1 of (sp, h2) \<Rightarrow> (x\<lparr>hrMeta := m, hrSpec := sp\<rparr>, h2))"

definition TemplateSpec_DeepCopyInto :: "('n \<Rightarrow> ('m, 'n, 'c, 'x) heap \<Rightarrow> 'n \<times> ('m, 'n, 'c, 'x) heap)
    \<Rightarrow> 'n HTemplateSpec \<Rightarrow> ('m, 'n, 'c, 'x) heap \<Rightarrow> 'n HTemplateSpec \<times> ('m, 'n, 'c, 'x) heap" where
  "TemplateSpec_DeepCopyInto copyMetaV1beta1 x h =
     (case TemplateResource_DeepCopyInto copyMetaV1beta1 (htsTemplate x) h of (t, h1) \<Rightarrow> (x\<lparr>htsTemplate := t\<rparr>, h1))"

definition Template_DeepCopyInto :: "('m \<Rightarrow> ('m, 'n, 'c, 'x) heap \<Rightarrow> 'm \<times> ('m, 'n, 'c, 'x) heap)
    \<Rightarrow> ('n \<Rightarrow> ('m, 'n, 'c, 'x) heap \<Rightarrow> 'n \<times> ('m, 'n, 'c, 'x) heap)
    \<Rightarrow> ('m, 'n) HTemplate \<Rightarrow> ('m, 'n, 'c, 'x) heap \<Rightarrow> ('m, 'n) HTemplate \<times> ('m, 'n, 'c, 'x) heap" where
  "Template_DeepCopyInto copyMeta copyMetaV1beta1 x h =
     (case copyMeta (htMeta x) h of (m, h1) \<Rightarrow>
      case TemplateSpec_DeepCopyInto copyMetaV1beta1 (htSpec x) h1 of (sp, h2) \<Rightarrow> (x\<lparr>htMeta := m, htSpec := sp\<rparr>, h2))"

definition List_DeepCopyInto :: "('k \<Rightarrow> ('m, 'n, 'c, 'x) heap \<Rightarrow> 'k \<times> ('m, 'n, 'c, 'x) heap)
    \<Rightarrow> (slice option \<Rightarrow> ('m, 'n, 'c, 'x) heap \<Rightarrow> slice option \<times> ('m, 'n, 'c, 'x) heap)
    \<Rightarrow> 'k HList \<Rightarrow> ('m, 'n, 'c, 'x) heap \<Rightarrow> 'k HList \<times> ('m, 'n, 'c, 'x) heap" where
  "List_DeepCopyInto copyListMeta copyItems x h =
     (case copyListMeta (hlMeta x) h of (m, h1) \<Rightarrow> case copyItems (hlItems x) h1 of (is, h2) \<Rightarrow> (x\<lparr>hlMeta := m, hlItems := is\<rparr>, h2))"

definition ClusterList_DeepCopyInto where
  "ClusterList_DeepCopyInto copyListMeta copyMeta copyCondition =
     List_DeepCopyInto copyListMeta (copy_items (Cluster_DeepCopyInto copyMeta copyCondition) hClusters store_clusters)"

definition MachineList_DeepCopyInto where
  "MachineList_DeepCopyInto copyListMeta copyMeta copyCondition =
     List_DeepCopyInto copyListMeta (copy_items (Machine_DeepCopyInto copyMeta copyCondition) hMachines store_machines)"

definition TemplateList_DeepCopyInto where
  "TemplateList_DeepCopyInto copyListMeta copyMeta copyMetaV1beta1 =
     List_DeepCopyInto copyListMeta (copy_items (Template_DeepCopyInto copyMeta copyMetaV1beta1) hTemplates store_templates)"

text \<open>
  \<^verbatim>\<open>DeepCopy\<close> of every type makes a new variable and copies into it, nil for nil;
  \<^verbatim>\<open>DeepCopyObject\<close> returns the same as an interface.
\<close>

definition DeepCopy :: "('a \<Rightarrow> ('m, 'n, 'c, 'x) heap \<Rightarrow> 'a \<times> ('m, 'n, 'c, 'x) heap)
    \<Rightarrow> 'a option \<Rightarrow> ('m, 'n, 'c, 'x) heap \<Rightarrow> 'a option \<times> ('m, 'n, 'c, 'x) heap" where
  "DeepCopy into p h = (case p of None \<Rightarrow> (None, h) | Some x \<Rightarrow> (case into x h of (y, h1) \<Rightarrow> (Some y, h1)))"

definition DeepCopyObject :: "('a option \<Rightarrow> ('m, 'n, 'c, 'x) heap \<Rightarrow> 'a option \<times> ('m, 'n, 'c, 'x) heap)
    \<Rightarrow> 'a option \<Rightarrow> ('m, 'n, 'c, 'x) heap \<Rightarrow> 'a option \<times> ('m, 'n, 'c, 'x) heap" where
  "DeepCopyObject deepCopy p h = (case deepCopy p h of (c, h1) \<Rightarrow> (if c \<noteq> None then c else None, h1))"

definition Cluster_DeepCopy where "Cluster_DeepCopy copyMeta copyCondition = DeepCopy (Cluster_DeepCopyInto copyMeta copyCondition)"
definition Machine_DeepCopy where "Machine_DeepCopy copyMeta copyCondition = DeepCopy (Machine_DeepCopyInto copyMeta copyCondition)"
definition Template_DeepCopy where "Template_DeepCopy copyMeta copyMetaV1beta1 = DeepCopy (Template_DeepCopyInto copyMeta copyMetaV1beta1)"
definition ClusterList_DeepCopy where
  "ClusterList_DeepCopy copyListMeta copyMeta copyCondition = DeepCopy (ClusterList_DeepCopyInto copyListMeta copyMeta copyCondition)"
definition MachineList_DeepCopy where
  "MachineList_DeepCopy copyListMeta copyMeta copyCondition = DeepCopy (MachineList_DeepCopyInto copyListMeta copyMeta copyCondition)"
definition TemplateList_DeepCopy where
  "TemplateList_DeepCopy copyListMeta copyMeta copyMetaV1beta1 = DeepCopy (TemplateList_DeepCopyInto copyListMeta copyMeta copyMetaV1beta1)"
definition AdditionalDisk_DeepCopy :: "AdditionalDisk option \<Rightarrow> ('m, 'n, 'c, 'x) heap \<Rightarrow> AdditionalDisk option \<times> ('m, 'n, 'c, 'x) heap" where
  "AdditionalDisk_DeepCopy = DeepCopy copy_value"
definition Reference_DeepCopy :: "CloudDirectorReference option \<Rightarrow> ('m, 'n, 'c, 'x) heap \<Rightarrow> CloudDirectorReference option \<times> ('m, 'n, 'c, 'x) heap" where
  "Reference_DeepCopy = DeepCopy copy_value"
definition IdentityRef_DeepCopy :: "CloudDirectorTenantIdentityRef option \<Rightarrow> ('m, 'n, 'c, 'x) heap
    \<Rightarrow> CloudDirectorTenantIdentityRef option \<times> ('m, 'n, 'c, 'x) heap" where
  "IdentityRef_DeepCopy = DeepCopy copy_value"
definition ClusterSpec_DeepCopy where "ClusterSpec_DeepCopy = DeepCopy ClusterSpec_DeepCopyInto"
definition ClusterStatus_DeepCopy where "ClusterStatus_DeepCopy copyCondition = DeepCopy (ClusterStatus_DeepCopyInto copyCondition)"
definition MachineSpec_DeepCopy where "MachineSpec_DeepCopy = DeepCopy MachineSpec_DeepCopyInto"
definition MachineStatus_DeepCopy where "MachineStatus_DeepCopy copyCondition = DeepCopy (MachineStatus_DeepCopyInto copyCondition)"
definition TemplateResource_DeepCopy where
  "TemplateResource_DeepCopy copyMetaV1beta1 = DeepCopy (TemplateResource_DeepCopyInto copyMetaV1beta1)"
definition TemplateSpec_DeepCopy where "TemplateSpec_DeepCopy copyMetaV1beta1 = DeepCopy (TemplateSpec_DeepCopyInto copyMetaV1beta1)"

definition Cluster_DeepCopyObject where
  "Cluster_DeepCopyObject copyMeta copyCondition = DeepCopyObject (Cluster_DeepCopy copyMeta copyCondition)"
definition Machine_DeepCopyObject where
  "Machine_DeepCopyObject copyMeta copyCondition = DeepCopyObject (Machine_DeepCopy copyMeta copyCondition)"
definition Template_DeepCopyObject where
  "Template_DeepCopyObject copyMeta copyMetaV1beta1 = DeepCopyObject (Template_DeepCopy copyMeta copyMetaV1beta1)"
definition ClusterList_DeepCopyObject where
  "ClusterList_DeepCopyObject copyListMeta copyMeta copyCondition = DeepCopyObject (ClusterList_DeepCopy copyListMeta copyMeta copyCondition)"
definition MachineList_DeepCopyObject where
  "MachineList_DeepCopyObject copyListMeta copyMeta copyCondition = DeepCopyObject (MachineList_DeepCopy copyListMeta copyMeta copyCondition)"
definition TemplateList_DeepCopyObject where
  "TemplateList_DeepCopyObject copyListMeta copyMeta copyMetaV1beta1 = DeepCopyObject (TemplateList_DeepCopy copyListMeta copyMeta copyMetaV1beta1)"

subsection \<open>The generated functions satisfy the contract\<close>

lemma deep_copier_eq:
  "deep_copier c v r \<Longrightarrow> (\<And>x h. c' x h = c x h) \<Longrightarrow> (\<And>h x. v' h x = v h x) \<Longrightarrow> (\<And>h x. r' h x = r h x) \<Longrightarrow> deep_copier c' v' r'"
  by (metis ext)

text \<open>The contract of a struct from that of its parts, with the struct's own functions.\<close>

lemma deep_copier_struct:
  assumes "deep_copier c v r" and "\<And>x y. get (put y x) = y" and "\<And>x y. build (put y x) = build x"
    and "\<And>x h. copy x h = (case c (get x) h of (y, h') \<Rightarrow> (put y x, h'))"
    and "\<And>h x. view h x = build x (v h (get x))" and "\<And>h x. reach h x = r h (get x)"
  shows "deep_copier copy view reach"
  by (rule deep_copier_eq [OF deep_copier_field [OF assms(1-3)]]) (simp_all add: assms(4-6))

text \<open>
  For each struct: its value from the struct and the values of its parts (\<open>_value\<close>), its
  value in a memory (\<open>_view\<close>) and the locations behind it (\<open>_reach\<close>). A nil list has the
  value of an empty one, as in the records of the model.
\<close>

definition list_value :: "'a list option \<Rightarrow> 'a list" where
  "list_value p = (case p of None \<Rightarrow> [] | Some xs \<Rightarrow> xs)"

definition ClusterSpec_value :: "HClusterSpec \<Rightarrow> CloudDirectorTenantIdentityRef option \<Rightarrow> CloudDirectorTenantClusterSpec" where
  "ClusterSpec_value x i = \<lparr>csControlPlaneEndpoint = hcsControlPlaneEndpoint x, csOrganization = hcsOrganization x,
     csVirtualDataCenter = hcsVirtualDataCenter x, csEdgeGateway = hcsEdgeGateway x, csNetwork = hcsNetwork x,
     csServiceEngineGroup = hcsServiceEngineGroup x, csIdentityRef = i, csUseUIDForNames = hcsUseUIDForNames x\<rparr>"

definition ClusterSpec_view :: "('m, 'n, 'c, 'x) heap \<Rightarrow> HClusterSpec \<Rightarrow> CloudDirectorTenantClusterSpec" where
  "ClusterSpec_view h x = ClusterSpec_value x (map_option (hIdentity h) (hcsIdentityRef x))"

definition ClusterSpec_reach :: "('m, 'n, 'c, 'x) heap \<Rightarrow> HClusterSpec \<Rightarrow> loc set" where
  "ClusterSpec_reach h x = pointer_reach h (hcsIdentityRef x)"

interpretation cluster_spec: deep_copier ClusterSpec_DeepCopyInto ClusterSpec_view ClusterSpec_reach
  by (rule deep_copier_struct [OF identities.deep_copier_pointer, where get = hcsIdentityRef
        and put = "\<lambda>p x. x\<lparr>hcsIdentityRef := p\<rparr>" and build = ClusterSpec_value])
    (auto simp: ClusterSpec_DeepCopyInto_def ClusterSpec_view_def ClusterSpec_reach_def ClusterSpec_value_def)

definition ClusterStatus_view :: "(('m, 'n, 'c, 'x) heap \<Rightarrow> 'c \<Rightarrow> Condition) \<Rightarrow> ('m, 'n, 'c, 'x) heap \<Rightarrow> HClusterStatus
    \<Rightarrow> CloudDirectorTenantClusterStatus" where
  "ClusterStatus_view v h x = \<lparr>ctReady = hctReady x, ctVirtualService = map_option (hRef h) (hctVirtualService x),
     ctVApp = map_option (hRef h) (hctVApp x), ctIPSet = map_option (hRef h) (hctIPSet x),
     ctPool = map_option (hRef h) (hctPool x), ctConditions = list_value (slice_view v hConditions h (hctConditions x))\<rparr>"

definition ClusterStatus_reach :: "(('m, 'n, 'c, 'x) heap \<Rightarrow> 'c \<Rightarrow> loc set) \<Rightarrow> ('m, 'n, 'c, 'x) heap \<Rightarrow> HClusterStatus \<Rightarrow> loc set" where
  "ClusterStatus_reach r h x = pointer_reach h (hctVirtualService x) \<union> pointer_reach h (hctVApp x) \<union> pointer_reach h (hctIPSet x) \<union>
     pointer_reach h (hctPool x) \<union> slice_reach r hConditions h (hctConditions x)"

lemma ClusterStatus_copier:
  assumes "deep_copier copyCondition v r"
  shows "deep_copier (ClusterStatus_DeepCopyInto copyCondition) (ClusterStatus_view v) (ClusterStatus_reach r)"
proof -
  note parts = deep_copier_pair [OF refs.deep_copier_pointer deep_copier_pair [OF refs.deep_copier_pointer
      deep_copier_pair [OF refs.deep_copier_pointer deep_copier_pair [OF refs.deep_copier_pointer
        deep_copier_items [OF conds.memory_field_axioms assms]]]]]
  show ?thesis
    by (rule deep_copier_struct [OF parts, where get = "\<lambda>x. (hctVirtualService x, hctVApp x, hctIPSet x, hctPool x, hctConditions x)"
          and put = "\<lambda>(vs, va, ip, pool, cs) x. x\<lparr>hctVirtualService := vs, hctVApp := va, hctIPSet := ip, hctPool := pool, hctConditions := cs\<rparr>"
          and build = "\<lambda>x (vs, va, ip, pool, cs). \<lparr>ctReady = hctReady x, ctVirtualService = vs, ctVApp = va, ctIPSet = ip, ctPool = pool,
            ctConditions = list_value cs\<rparr>"])
      (auto simp: ClusterStatus_DeepCopyInto_def ClusterStatus_view_def ClusterStatus_reach_def copy_pair_def split: prod.splits)
qed

definition Cluster_view :: "(('m, 'n, 'c, 'x) heap \<Rightarrow> 'm \<Rightarrow> ObjectMeta) \<Rightarrow> (('m, 'n, 'c, 'x) heap \<Rightarrow> 'c \<Rightarrow> Condition)
    \<Rightarrow> ('m, 'n, 'c, 'x) heap \<Rightarrow> 'm HCluster \<Rightarrow> CloudDirectorTenantCluster" where
  "Cluster_view vm vc h x = \<lparr>tcMeta = vm h (hcMeta x), tcSpec = ClusterSpec_view h (hcSpec x), tcStatus = ClusterStatus_view vc h (hcStatus x)\<rparr>"

definition Cluster_reach :: "(('m, 'n, 'c, 'x) heap \<Rightarrow> 'm \<Rightarrow> loc set) \<Rightarrow> (('m, 'n, 'c, 'x) heap \<Rightarrow> 'c \<Rightarrow> loc set)
    \<Rightarrow> ('m, 'n, 'c, 'x) heap \<Rightarrow> 'm HCluster \<Rightarrow> loc set" where
  "Cluster_reach rm rc h x = rm h (hcMeta x) \<union> ClusterSpec_reach h (hcSpec x) \<union> ClusterStatus_reach rc h (hcStatus x)"

lemma Cluster_copier:
  assumes "deep_copier copyMeta vm rm" and "deep_copier copyCondition vc rc"
  shows "deep_copier (Cluster_DeepCopyInto copyMeta copyCondition) (Cluster_view vm vc) (Cluster_reach rm rc)"
  by (rule deep_copier_struct [OF deep_copier_pair [OF assms(1) deep_copier_pair [OF cluster_spec.deep_copier_axioms ClusterStatus_copier [OF assms(2)]]],
        where get = "\<lambda>x. (hcMeta x, hcSpec x, hcStatus x)" and put = "\<lambda>(m, sp, st) x. x\<lparr>hcMeta := m, hcSpec := sp, hcStatus := st\<rparr>"
        and build = "\<lambda>x (m, sp, st). \<lparr>tcMeta = m, tcSpec = sp, tcStatus = st\<rparr>"])
    (auto simp: Cluster_DeepCopyInto_def Cluster_view_def Cluster_reach_def copy_pair_def split: prod.splits)

definition MachineSpec_value :: "HMachineSpec \<Rightarrow> AdditionalDisk list option \<Rightarrow> CloudDirectorTenantMachineSpec" where
  "MachineSpec_value x ds = \<lparr>msProviderID = hmsProviderID x, msCatalog = hmsCatalog x, msTemplate = hmsTemplate x,
     msNetworkAdapterType = hmsNetworkAdapterType x, msMemoryResourceMiB = hmsMemoryResourceMiB x, msNumCPUs = hmsNumCPUs x,
     msDiskResourceMiB = hmsDiskResourceMiB x, msAdditionalDisks = list_value ds\<rparr>"

definition MachineSpec_view :: "('m, 'n, 'c, 'x) heap \<Rightarrow> HMachineSpec \<Rightarrow> CloudDirectorTenantMachineSpec" where
  "MachineSpec_view h x = MachineSpec_value x (slice_view (\<lambda>_ d. d) hDisks h (hmsAdditionalDisks x))"

definition MachineSpec_reach :: "('m, 'n, 'c, 'x) heap \<Rightarrow> HMachineSpec \<Rightarrow> loc set" where
  "MachineSpec_reach h x = slice_reach (\<lambda>_ _. {}) hDisks h (hmsAdditionalDisks x)"

interpretation machine_spec: deep_copier MachineSpec_DeepCopyInto MachineSpec_view MachineSpec_reach
  by (rule deep_copier_struct [OF deep_copier_items [OF disks.memory_field_axioms deep_copier_value], where get = hmsAdditionalDisks
        and put = "\<lambda>ds x. x\<lparr>hmsAdditionalDisks := ds\<rparr>" and build = MachineSpec_value])
    (auto simp: MachineSpec_DeepCopyInto_def MachineSpec_view_def MachineSpec_reach_def MachineSpec_value_def)

definition MachineStatus_view :: "(('m, 'n, 'c, 'x) heap \<Rightarrow> 'c \<Rightarrow> Condition) \<Rightarrow> ('m, 'n, 'c, 'x) heap \<Rightarrow> HMachineStatus
    \<Rightarrow> CloudDirectorTenantMachineStatus" where
  "MachineStatus_view v h x = \<lparr>mtReady = hmtReady x, mtAddresses = list_value (slice_view (\<lambda>_ a. a) hAddresses h (hmtAddresses x)),
     mtConditions = list_value (slice_view v hConditions h (hmtConditions x))\<rparr>"

definition MachineStatus_reach :: "(('m, 'n, 'c, 'x) heap \<Rightarrow> 'c \<Rightarrow> loc set) \<Rightarrow> ('m, 'n, 'c, 'x) heap \<Rightarrow> HMachineStatus \<Rightarrow> loc set" where
  "MachineStatus_reach r h x = slice_reach (\<lambda>_ _. {}) hAddresses h (hmtAddresses x) \<union> slice_reach r hConditions h (hmtConditions x)"

lemma MachineStatus_copier:
  assumes "deep_copier copyCondition v r"
  shows "deep_copier (MachineStatus_DeepCopyInto copyCondition) (MachineStatus_view v) (MachineStatus_reach r)"
  by (rule deep_copier_struct [OF deep_copier_pair [OF deep_copier_items [OF addresses.memory_field_axioms deep_copier_value]
          deep_copier_items [OF conds.memory_field_axioms assms]],
        where get = "\<lambda>x. (hmtAddresses x, hmtConditions x)" and put = "\<lambda>(as, cs) x. x\<lparr>hmtAddresses := as, hmtConditions := cs\<rparr>"
        and build = "\<lambda>x (as, cs). \<lparr>mtReady = hmtReady x, mtAddresses = list_value as, mtConditions = list_value cs\<rparr>"])
    (auto simp: MachineStatus_DeepCopyInto_def MachineStatus_view_def MachineStatus_reach_def copy_pair_def split: prod.splits)

definition Machine_view :: "(('m, 'n, 'c, 'x) heap \<Rightarrow> 'm \<Rightarrow> ObjectMeta) \<Rightarrow> (('m, 'n, 'c, 'x) heap \<Rightarrow> 'c \<Rightarrow> Condition)
    \<Rightarrow> ('m, 'n, 'c, 'x) heap \<Rightarrow> 'm HMachine \<Rightarrow> CloudDirectorTenantMachine" where
  "Machine_view vm vc h x = \<lparr>tmMeta = vm h (hmMeta x), tmSpec = MachineSpec_view h (hmSpec x), tmStatus = MachineStatus_view vc h (hmStatus x)\<rparr>"

definition Machine_reach :: "(('m, 'n, 'c, 'x) heap \<Rightarrow> 'm \<Rightarrow> loc set) \<Rightarrow> (('m, 'n, 'c, 'x) heap \<Rightarrow> 'c \<Rightarrow> loc set)
    \<Rightarrow> ('m, 'n, 'c, 'x) heap \<Rightarrow> 'm HMachine \<Rightarrow> loc set" where
  "Machine_reach rm rc h x = rm h (hmMeta x) \<union> MachineSpec_reach h (hmSpec x) \<union> MachineStatus_reach rc h (hmStatus x)"

lemma Machine_copier:
  assumes "deep_copier copyMeta vm rm" and "deep_copier copyCondition vc rc"
  shows "deep_copier (Machine_DeepCopyInto copyMeta copyCondition) (Machine_view vm vc) (Machine_reach rm rc)"
  by (rule deep_copier_struct [OF deep_copier_pair [OF assms(1) deep_copier_pair [OF machine_spec.deep_copier_axioms MachineStatus_copier [OF assms(2)]]],
        where get = "\<lambda>x. (hmMeta x, hmSpec x, hmStatus x)" and put = "\<lambda>(m, sp, st) x. x\<lparr>hmMeta := m, hmSpec := sp, hmStatus := st\<rparr>"
        and build = "\<lambda>x (m, sp, st). \<lparr>tmMeta = m, tmSpec = sp, tmStatus = st\<rparr>"])
    (auto simp: Machine_DeepCopyInto_def Machine_view_def Machine_reach_def copy_pair_def split: prod.splits)

text \<open>Of a template, the metadata of the template and of its resource and the spec.\<close>

definition Template_view :: "(('m, 'n, 'c, 'x) heap \<Rightarrow> 'm \<Rightarrow> 'v) \<Rightarrow> (('m, 'n, 'c, 'x) heap \<Rightarrow> 'n \<Rightarrow> 'w)
    \<Rightarrow> ('m, 'n, 'c, 'x) heap \<Rightarrow> ('m, 'n) HTemplate \<Rightarrow> 'v \<times> 'w \<times> CloudDirectorTenantMachineSpec" where
  "Template_view vm vn h x = (vm h (htMeta x), vn h (hrMeta (htsTemplate (htSpec x))), MachineSpec_view h (hrSpec (htsTemplate (htSpec x))))"

definition Template_reach :: "(('m, 'n, 'c, 'x) heap \<Rightarrow> 'm \<Rightarrow> loc set) \<Rightarrow> (('m, 'n, 'c, 'x) heap \<Rightarrow> 'n \<Rightarrow> loc set)
    \<Rightarrow> ('m, 'n, 'c, 'x) heap \<Rightarrow> ('m, 'n) HTemplate \<Rightarrow> loc set" where
  "Template_reach rm rn h x = rm h (htMeta x) \<union> rn h (hrMeta (htsTemplate (htSpec x))) \<union> MachineSpec_reach h (hrSpec (htsTemplate (htSpec x)))"

lemma Template_copier:
  assumes "deep_copier copyMeta vm rm" and "deep_copier copyMetaV1beta1 vn rn"
  shows "deep_copier (Template_DeepCopyInto copyMeta copyMetaV1beta1) (Template_view vm vn) (Template_reach rm rn)"
  by (rule deep_copier_struct [OF deep_copier_pair [OF assms(1) deep_copier_pair [OF assms(2) machine_spec.deep_copier_axioms]],
        where get = "\<lambda>x. (htMeta x, hrMeta (htsTemplate (htSpec x)), hrSpec (htsTemplate (htSpec x)))"
        and put = "\<lambda>(m, n, sp) x. x\<lparr>htMeta := m, htSpec := (htSpec x)\<lparr>htsTemplate := (htsTemplate (htSpec x))\<lparr>hrMeta := n, hrSpec := sp\<rparr>\<rparr>\<rparr>"
        and build = "\<lambda>x y. y"])
    (auto simp: Template_DeepCopyInto_def TemplateSpec_DeepCopyInto_def TemplateResource_DeepCopyInto_def Template_view_def
      Template_reach_def copy_pair_def split: prod.splits)

lemma List_copier:
  assumes "deep_copier copyListMeta vk rk" and "deep_copier copyItems vi ri"
  shows "deep_copier (List_DeepCopyInto copyListMeta copyItems) (\<lambda>h x. (vk h (hlMeta x), vi h (hlItems x)))
    (\<lambda>h x. rk h (hlMeta x) \<union> ri h (hlItems x))"
  by (rule deep_copier_struct [OF deep_copier_pair [OF assms], where get = "\<lambda>x. (hlMeta x, hlItems x)"
        and put = "\<lambda>(m, is) x. x\<lparr>hlMeta := m, hlItems := is\<rparr>" and build = "\<lambda>x y. y"])
    (auto simp: List_DeepCopyInto_def copy_pair_def split: prod.splits)

lemmas ClusterList_copier = List_copier [OF _ deep_copier_items [OF clusters.memory_field_axioms Cluster_copier], folded ClusterList_DeepCopyInto_def]
lemmas MachineList_copier = List_copier [OF _ deep_copier_items [OF machines.memory_field_axioms Machine_copier], folded MachineList_DeepCopyInto_def]
lemmas TemplateList_copier = List_copier [OF _ deep_copier_items [OF templates.memory_field_axioms Template_copier], folded TemplateList_DeepCopyInto_def]

subsection \<open>Copies are independent\<close>

definition independent_copy :: "(('m, 'n, 'c, 'x) heap \<Rightarrow> 'a \<Rightarrow> 'v) \<Rightarrow> (('m, 'n, 'c, 'x) heap \<Rightarrow> 'a \<Rightarrow> loc set)
    \<Rightarrow> ('m, 'n, 'c, 'x) heap \<Rightarrow> 'a \<Rightarrow> 'a \<Rightarrow> ('m, 'n, 'c, 'x) heap \<Rightarrow> bool" where
  \<comment> \<open>\<open>y\<close>, made in memory \<open>h'\<close>, has the value \<open>x\<close> has in \<open>h\<close>; writes behind one of the two
    and to memory allocated later do not show in the other\<close>
  "independent_copy view reach h x y h' \<longleftrightarrow> view h' y = view h x \<and> view h' x = view h x \<and>
     (\<forall>k. agree ({..<hNext h'} - reach h' y) h' k \<longrightarrow> view k x = view h x) \<and>
     (\<forall>k. agree ({..<hNext h'} - reach h' x) h' k \<longrightarrow> view k y = view h x)"

context deep_copier
begin

lemma DeepCopyObject_independent:
  assumes "reach h x \<subseteq> {..<hNext h}"
  shows "\<exists>y h'. DeepCopyObject (DeepCopy copy) (Some x) h = (Some y, h') \<and> independent_copy view reach h x y h'"
proof -
  obtain y h' where y: "copy x h = (y, h')" by fastforce
  note c = copy_correct [OF assms y] and i = independent [OF assms y]
  have "reach h' x \<subseteq> {..<hNext h'}" using reach_below [OF assms] c by blast
  moreover have "reach h' y \<subseteq> {..<hNext h'}" using c by auto
  ultimately have "reach h' x \<subseteq> {..<hNext h'} - reach h' y" "reach h' y \<subseteq> {..<hNext h'} - reach h' x"
    using i(3) by auto
  then have "independent_copy view reach h x y h'"
    unfolding independent_copy_def using i by (blast intro: agree_mono)
  with y show ?thesis by (simp add: DeepCopyObject_def DeepCopy_def)
qed

end

text \<open>
  C39. \<^verbatim>\<open>DeepCopyObject\<close> of a cluster, a machine and a machine template returns an object with
  the value of the original that shares no memory with it: whatever is later written behind
  the copy does not change the original and the other way round. So the object that
  the patch helper keeps at the beginning of a pass is the one the pass began with.
\<close>

theorem deep_copies_independent:
  assumes "deep_copier copyMeta vm rm" and "deep_copier copyCondition vc rc" and "deep_copier copyMetaV1beta1 vn rn"
  shows "(Cluster_reach rm rc h c \<subseteq> {..<hNext h} \<longrightarrow> (\<exists>c' h'. Cluster_DeepCopyObject copyMeta copyCondition (Some c) h = (Some c', h') \<and>
      independent_copy (Cluster_view vm vc) (Cluster_reach rm rc) h c c' h')) \<and>
    (Machine_reach rm rc h m \<subseteq> {..<hNext h} \<longrightarrow> (\<exists>m' h'. Machine_DeepCopyObject copyMeta copyCondition (Some m) h = (Some m', h') \<and>
      independent_copy (Machine_view vm vc) (Machine_reach rm rc) h m m' h')) \<and>
    (Template_reach rm rn h t \<subseteq> {..<hNext h} \<longrightarrow> (\<exists>t' h'. Template_DeepCopyObject copyMeta copyMetaV1beta1 (Some t) h = (Some t', h') \<and>
      independent_copy (Template_view vm vn) (Template_reach rm rn) h t t' h'))"
  using deep_copier.DeepCopyObject_independent [OF Cluster_copier [OF assms(1,2)], of h c]
    deep_copier.DeepCopyObject_independent [OF Machine_copier [OF assms(1,2)], of h m]
    deep_copier.DeepCopyObject_independent [OF Template_copier [OF assms(1,3)], of h t]
  by (simp add: Cluster_DeepCopyObject_def Cluster_DeepCopy_def Machine_DeepCopyObject_def Machine_DeepCopy_def
      Template_DeepCopyObject_def Template_DeepCopy_def)

definition sample_memory :: "(ObjectMeta, unit, Condition, unit) heap" where
  \<comment> \<open>location 0 holds the identity, 1 a reference, 2 an array of two conditions\<close>
  "sample_memory = \<lparr>hNext = 3, hRef = (\<lambda>_. \<lparr>cdrID = ''urn:1'', cdrName = ''capi''\<rparr>),
     hIdentity = (\<lambda>_. \<lparr>identityKind = ''Secret'', identityName = ''credentials''\<rparr>), hDisks = (\<lambda>_. []), hAddresses = (\<lambda>_. []),
     hConditions = (\<lambda>_. [\<lparr>condType = PoolReadyCondition, condStatus = ''True'', condSeverity = '''', condReason = '''', condMessage = ''''\<rparr>,
       \<lparr>condType = IPSetReadyCondition, condStatus = ''True'', condSeverity = '''', condReason = '''', condMessage = ''''\<rparr>]),
     hClusters = (\<lambda>_. []), hMachines = (\<lambda>_. []), hTemplates = (\<lambda>_. []), hLib = (\<lambda>_. ())\<rparr>"

definition sample_object :: "ObjectMeta HCluster" where
  "sample_object = \<lparr>hcMeta = \<lparr>metaName = ''prod'', metaNamespace = ''default'', metaUID = ''u'', metaLabels = [],
       metaFinalizers = [], metaDeletionTimestamp = None\<rparr>,
     hcSpec = \<lparr>hcsControlPlaneEndpoint = \<lparr>endpointHost = '''', endpointPort = 0\<rparr>, hcsOrganization = ''org'', hcsVirtualDataCenter = ''vdc'',
       hcsEdgeGateway = ''edge'', hcsNetwork = ''net'', hcsServiceEngineGroup = '''', hcsIdentityRef = Some 0, hcsUseUIDForNames = False\<rparr>,
     hcStatus = \<lparr>hctReady = True, hctVirtualService = Some 1, hctVApp = Some 1, hctIPSet = None, hctPool = None,
       hctConditions = Some \<lparr>slArray = 2, slOffset = 0, slLength = 2\<rparr>\<rparr>\<rparr>"

theorem deep_copies_independent_witness:
  "\<exists>c' h'. Cluster_DeepCopyObject copy_value copy_value (Some sample_object) sample_memory = (Some c', h') \<and>
     independent_copy (Cluster_view (\<lambda>_ m. m) (\<lambda>_ c. c)) (Cluster_reach (\<lambda>_ _. {}) (\<lambda>_ _. {})) sample_memory sample_object c' h'"
proof -
  have "Cluster_reach (\<lambda>_ _. {}) (\<lambda>_ _. {}) sample_memory sample_object \<subseteq> {..<hNext sample_memory}"
    by (simp add: Cluster_reach_def ClusterSpec_reach_def ClusterStatus_reach_def pointer_reach_def slice_reach_def
        sample_object_def sample_memory_def)
  with deep_copies_independent [OF deep_copier_value deep_copier_value deep_copier_value] show ?thesis by blast
qed

end
