(* ===== verification/Spec2Isabelle.thy ===== *)
theory Spec2Isabelle
  imports Provider_System Concurrent_Cache Program_Start Deep_Copy
begin

text \<open>
  A verification development for the Cluster API infrastructure provider for VMware Cloud
  Director tenants (Go, the directory \<^verbatim>\<open>src/\<close>).

  \<^bold>\<open>The program.\<close> Two Kubernetes controllers keep Cloud Director in line with two custom
  resources. The cluster controller (\<^verbatim>\<open>controllers/clouddirectortenantcluster_controller.go\<close>)
  gives a cluster an external address, an IP set, a load-balancer pool, a virtual service and
  a vApp, records them in the status and deletes them with the cluster. The machine
  controller (\<^verbatim>\<open>controllers/clouddirectortenantmachine_controller.go\<close>) waits for the cluster and
  for the bootstrap data, makes a virtual machine in the vApp, hands it the data and a
  cloud-init document (\<^verbatim>\<open>util/cloudinit\<close>), sizes it and powers it on, and adds a control plane
  machine to the IP set. Both get their Cloud Director client from a cache of logged-in
  clients (\<^verbatim>\<open>util/clientcache\<close>), name resources with \<^verbatim>\<open>util/nameutil\<close> and test lookups with
  \<^verbatim>\<open>util/vcdutil\<close>. They interact through the stored objects only: the machine controller reads
  the vApp and the IP set from the status the cluster controller has written, and the cluster
  controller waits with the deletion until no machine is left.

  \<^bold>\<open>Theories and what they model.\<close>

  \<^item> \<open>Go_Prelude\<close>: programs with early returns, panics, a world and a record of their calls; the
    calculus of weakest preconditions (\<open>wp\<close>) and the frame predicates the proofs are built from.
  \<^item> \<open>Go_Std\<close>: the functions of Go's standard library the code uses, executable (decimal
    printing, base64, FNV-1, \<^verbatim>\<open>net/netip\<close>, the one regular expression, \<^verbatim>\<open>slices\<close>), with their
    round trips and the order on addresses as a \<open>linorder\<close> instance.
  \<^item> \<open>Api_V1alpha1\<close>: \<^verbatim>\<open>api/v1alpha1/*_types.go\<close> and \<^verbatim>\<open>condition_consts.go\<close>; the interface of objects
    with conditions is the locale \<open>conditions_object\<close>, interpreted for both resources.
  \<^item> \<open>Deep_Copy\<close>: \<^verbatim>\<open>api/v1alpha1/zz_generated.deepcopy.go\<close> and the template types, over an explicit
    memory; the contract of a deep copy is the locale \<open>deep_copier\<close>.
  \<^item> \<open>External_Deps\<close>, \<open>Sample_Env\<close>: the services and libraries as parameters, their documented laws
    by name, and one concrete instance on which the theorems are applied; it runs
    \<open>GetVCDClient\<close> of \<open>Client_Cache\<close>.
  \<^item> \<open>Name_Util\<close>, \<open>Vcd_Util\<close>: the packages \<^verbatim>\<open>nameutil\<close> and \<^verbatim>\<open>vcdutil\<close>.
  \<^item> \<open>Reconcile_Common\<close>: what the reconcilers share, first of all the deferred patch; the locale
    \<open>patch_function\<close> extends \<open>conditions_object\<close> and is interpreted for both patch functions.
  \<^item> \<open>Tenant_Cluster\<close>, \<open>Cluster_Correct\<close>, \<open>Cluster_Lifecycle\<close>, \<open>Cluster_Progress\<close>: the cluster
    controller, its properties for one pass, over all histories of passes, failed patches and
    edits, with a refinement of the abstract life cycle, and what the passes achieve.
  \<^item> \<open>Cloud_Init\<close>: the package \<^verbatim>\<open>cloudinit\<close>.
  \<^item> \<open>Tenant_Machine\<close>, \<open>Machine_Correct\<close>, \<open>Machine_Provisioning\<close>, \<open>Machine_Lifecycle\<close>,
    \<open>Machine_Progress\<close>: the machine controller, its safety properties and invariants, what a
    virtual machine is given before it runs, the histories of a machine with their abstract
    life cycle, and what the passes achieve.
  \<^item> \<open>Provider_System\<close>: one cluster with its machines under both controllers, users and the
    Cluster API core, as a step relation.
  \<^item> \<open>Client_Cache\<close>, \<open>Client_Metrics\<close>: the package \<^verbatim>\<open>clientcache\<close>; the interface \<^verbatim>\<open>ClientCache\<close> is the
    locale \<open>client_cache\<close>, interpreted for the provider.
  \<^item> \<open>Concurrent_Cache\<close>: interleaved calls of the client cache around its mutex, as executable
    steps between phases.
  \<^item> \<open>Scheme_Registration\<close>: \<^verbatim>\<open>groupversion_info.go\<close> and the functions \<^verbatim>\<open>init\<close> of \<^verbatim>\<open>*_types.go\<close>.
  \<^item> \<open>Program_Start\<close>: \<^verbatim>\<open>main.go\<close> and the methods \<^verbatim>\<open>SetupWithManager\<close>.
  \<^item> this theory: the controllers run with the provider of the client cache.

  \<^bold>\<open>How the model corresponds to the code.\<close> A handler is a function on a state with the API
  object it changes (\<open>obj\<close>), the world and the calls made so far with their errors
  (\<open>trace\<close>, a record for the theorems, which no definition reads). \<open>c_Reconcile\<close> and
  \<open>m_Reconcile\<close> are the methods \<^verbatim>\<open>Reconcile\<close>; the definitions they are composed of, with the
  prefix \<open>c_\<close> or \<open>m_\<close>, are stretches of the source in its order. A result \<^verbatim>\<open>(*T, error)\<close> is the Go
  pair, pointer and error both optional. A pointer is dereferenced by \<open>deref\<close> where the code
  does so, and a nil pointer there is a panic; a method on a pointer of a library gets the
  option, since what it does with nil is not the code's. Machine integers are words. Every
  definition is total, by structural recursion over lists or digits: no fuel is used, and a
  pass of a controller always ends in a result or a panic.

  \<^bold>\<open>What is shown.\<close>

  \<^item> One pass of either controller, whatever the services answer: what it may create and delete
    and after which answers (\<open>cluster_creates_only_missing\<close>, \<open>machine_creates_only_missing\<close>,
    \<open>cluster_deletion_order\<close>, \<open>machine_leaves_load_balancer_first\<close>), when the finalizer is
    stored and given up, that the object is patched once and last, and what of the object
    it may change.
  \<^item> Over histories: a stored cluster or machine with anything made for it is guarded by its
    finalizer (\<open>cluster_history_invariant\<close>, \<open>machine_history_invariant\<close>), the fields the
    controller owns are well formed (\<open>stored_machine_typed\<close>), and each pass, also with a patch
    lost in part, is a step of the life cycle (\<open>cluster_pass_refines_lifecycle\<close>,
    \<open>machine_pass_refines_lifecycle\<close>).
  \<^item> Both controllers together: no virtual machine outlives the objects that lead to its deletion
    (\<open>system_no_orphans\<close>), with the one exception of a machine that is given up while its
    \<^verbatim>\<open>Cluster\<close> has no \<^verbatim>\<open>infrastructureRef\<close>, which the ghost \<open>sysLost\<close> records.
  \<^item> Termination and liveness: with services that answer, a cluster converges in at most three
    passes and a machine in at most two, one step each, and stays there (\<open>cluster_converges\<close>,
    \<open>machine_converges\<close>); one pass completes a deletion (\<open>cluster_deletion_completes\<close>,
    \<open>machine_deletion_completes\<close>), but for a cluster whose IP set still has addresses; and whatever the services answer, a pass that stops without
    an error and without asking for another one did so for one of the reasons listed
    (\<open>cluster_pass_progress\<close>, \<open>machine_pass_progress\<close>).
  \<^item> Data: the bootstrap data and the document arrive unharmed, the disks and sizes are those of
    the spec, and the document shows the scopes that hold the addresses.
  \<^item> The client cache: only logged-in clients are cached, under the credentials they logged in
    with, and they are reused; with complete secrets every cluster with an identity is served
    (\<open>every_identity_served\<close>); the gauge shows the cached clients; deep copies share no memory. Interleaved calls all return, after at most
    seven steps each (\<open>concurrent_calls_return\<close>), have the results and the effect of
    single steps in the order in which they return (\<open>concurrent_calls_serializable\<close>), and make one client for a key
    (\<open>one_client_per_key\<close>).
  \<^item> The program runs its manager only with both controllers on one client cache and for types
    that were registered (\<open>program_wiring\<close>), and errors do not end the collection of metrics
    (\<open>metrics_loop_runs\<close>).
  \<^item> Errors, also where the code does not do what it means to: lookups whose errors lead to nil
    pointers, credentials that share a cache entry, incomplete secrets, the deletion of a
    cluster without identity, of a machine whose \<^verbatim>\<open>Cluster\<close> refers to no infrastructure
    (\<open>unreferenced_cluster_orphans_vm\<close>), and what an interrupted pass leaves behind: resources that are
    not recorded and so never deleted (\<open>unrecorded_resources_leak\<close>), a vApp that is never
    connected (\<open>interrupted_vapp_unconnected\<close>), addresses that are never read again
    (\<open>lost_addresses_never_recovered\<close>).

  \<^bold>\<open>Parameters.\<close> govcd, the Kubernetes client, the Cluster API helpers, the expiring cache, the
  JWT parser, \<^verbatim>\<open>url.Parse\<close>, the Prometheus registry and the copies of third-party structs are
  not part of the repository. Nothing is assumed of the services but where a theorem says that
  they answer: \<open>cluster_answered\<close>, \<open>cluster_attended\<close>, \<open>vcd_healthy\<close>, \<open>vapp_healthy\<close> and
  \<open>cluster_released\<close> for clusters, \<open>machine_services\<close> with \<open>vm_healthy\<close> (a virtual machine is
  there or can be made) and \<open>machine_released\<close> for machines. Of the libraries, the
  theorems that need it assume \<open>not_found_lawful\<close>, \<open>finalizers_lawful\<close>, \<open>conditions_lawful\<close>,
  \<open>aggregate_lawful\<close>, \<open>cache_lawful\<close>, \<open>builder_lawful\<close> or \<open>deep_copier\<close>, which \<open>Sample_Env\<close> and the witnesses
  show to be satisfiable. A patch of \<^verbatim>\<open>patch.Helper\<close> is three requests (conditions, object,
  status), each carried out or lost when it reports an error (\<open>patch_outcome\<close>). In
  \<open>Provider_System\<close> a pass sees the store as it is (\<open>sees\<close>), machines are created while the
  cluster is not being deleted, and the Cluster API core keeps a machine as long as its
  tenant machine is stored.

  \<^bold>\<open>Bounds.\<close> The unit numbers of the disks are distinct as long as there are fewer than
  \<^verbatim>\<open>2^64 - 1\<close> additional disks; the remaining life time of a token saturates at the ends of
  \<^verbatim>\<open>time.Duration\<close>.

  \<^bold>\<open>Simplifications.\<close> Log lines and the times of conditions are left out. Only the fields the
  code reads or writes are kept of third-party structs; a struct that a library keeps behind
  two pointers is one record; elements of pointer slices decoded from XML are not nil. A nil
  list of the API records is an empty one, except in \<open>Deep_Copy\<close>. The message of a failed
  template carries no position. In a handler a call of the client cache is one step, which
  \<open>Concurrent_Cache\<close> justifies for secrets that do not change meanwhile; two controllers and
  two passes interleave only between handlers, and every theorem on a pass holds for whatever
  the world answers in it. In
  \<open>Provider_System\<close> a pass with its patch is one step of the system.

  \<^bold>\<open>Not modelled.\<close> What controller-runtime does with the controllers (its work queue, its
  leader election), the logger and the signal handling of \<^verbatim>\<open>main.go\<close>: they are calls of libraries without state of the program.
  \<^verbatim>\<open>generate.go\<close> has no code.
\<close>

section \<open>The controllers with the client cache\<close>

text \<open>
  The reconcilers are parametric in the implementation of the interface \<^verbatim>\<open>ClientCache\<close>. Here
  they run with the provider of \<open>Client_Cache\<close>, through the lemmas of the contract
  \<open>client_cache\<close> that it was proved to satisfy.
\<close>

lemma c_reconcileDelete_without_identity:
  assumes "envGetVCDClient E = GetVCDClient K A" and "csIdentityRef (tcSpec (obj s)) = None"
    and "\<And>w. fst (k_GetFilteredMachinesForCluster (envKube E) oc w) = ([], None)"
  shows "wp (c_reconcileDelete E oc) (\<lambda>_ _. False) (\<lambda>e t. e = Panic NilDereference \<and> obj t = obj s) s"
proof -
  have "k_GetFilteredMachinesForCluster (envKube E) oc w = ((ms, err), w') \<Longrightarrow> ms = [] \<and> err = None" for w ms err w'
    using assms(3) [of w] by simp
  then show ?thesis
    unfolding c_reconcileDelete_def
    by (auto simp: wp_bind wp_call wp_case_prod wp_if wp_get_obj assms(1) provider.call_without_identity assms(2))
qed

text \<open>
  C34. \<^verbatim>\<open>reconcileDelete\<close> asks the client cache without the test for an identity reference that
  the other path makes first: with the provider's \<^verbatim>\<open>GetVCDClient\<close>, a cluster without identity
  that is being deleted makes every pass panic, after its last machine is gone, and keeps
  its finalizer, so that it can never be deleted. The finalizer is stored before the
  identity is tested, so every such cluster has it.
\<close>

theorem deletion_without_identity_panics:
  assumes "envGetVCDClient E = GetVCDClient K A"
    and "k_GetTenantCluster (envKube E) req (world s) = (Inr tc, w)"
    and "csIdentityRef (tcSpec tc) = None" and "\<not> TimeIsZero (envLib E) (metaDeletionTimestamp (tcMeta tc))"
    and "\<forall>x. answers (k_NewHelperCluster (envKube E) x)" and "\<forall>m. succeeds (k_GetOwnerCluster (envKube E) m)"
    and "\<forall>oc w. fst (k_GetFilteredMachinesForCluster (envKube E) oc w) = ([], None)"
    and "finish (c_Reconcile E req) s = (e, s')"
  shows "e = Panic NilDereference \<and> metaFinalizers (tcMeta (obj s')) = metaFinalizers (tcMeta tc)"
proof -
  let ?Q = "\<lambda>e t. e = Panic NilDereference \<and> metaFinalizers (tcMeta (obj t)) = metaFinalizers (tcMeta tc)"
  have body: "wp (c_Reconcile_body E) (\<lambda>_ _. False) (\<lambda>e t. e = Panic NilDereference \<and> obj t = tc) t" if "obj t = tc" for t
    unfolding c_Reconcile_body_def
    using assms(3,4,6,7) that
    by (auto simp: wp_healthy intro!: wp_mono [OF c_reconcileDelete_without_identity [OF assms(1)]])
  have "wp (c_Reconcile E req) (\<lambda>r. ?Q (Return r)) ?Q s"
    unfolding c_Reconcile_def
    using assms(2,5)
    by (auto simp: wp_healthy wp_call_get wp_case_sum wp_deferred_patch intro!: wp_mono [OF body]
        dest!: tcp.patch_obj)
  then show ?thesis by (rule wp_finish) (rule assms(8))
qed

definition sample_anonymous :: CloudDirectorTenantCluster where
  \<comment> \<open>a cluster without identity that is being deleted\<close>
  "sample_anonymous = sample_doomed\<lparr>tcSpec := (tcSpec sample_doomed)\<lparr>csIdentityRef := None\<rparr>\<rparr>"

theorem deletion_without_identity_panics_witness:
  "let S = sample\<lparr>smCluster := sample_anonymous\<rparr>;
       run = finish (c_Reconcile (sample_env S)
         \<lparr>nnName = ''prod'', nnNamespace = ''default''\<rparr>) (sample_state sample_anonymous)
   in fst run = Panic NilDereference \<and>
      metaFinalizers (tcMeta (obj (snd run))) = [CloudDirectorTenantClusterFinalizer]"
proof -
  let ?S = "sample\<lparr>smCluster := sample_anonymous\<rparr>"
  let ?E = "sample_env ?S"
  have client: "envGetVCDClient ?E = GetVCDClient (sample_kube ?S) sample_auth" by (rule sample_env_client)
  have "k_GetTenantCluster (envKube ?E) \<lparr>nnName = ''prod'', nnNamespace = ''default''\<rparr> (world (sample_state sample_anonymous)) =
       (Inr sample_anonymous, 0)"
    "csIdentityRef (tcSpec sample_anonymous) = None"
    "\<not> TimeIsZero (envLib ?E) (metaDeletionTimestamp (tcMeta sample_anonymous))"
    "\<forall>x. answers (k_NewHelperCluster (envKube ?E) x)" "\<forall>m. succeeds (k_GetOwnerCluster (envKube ?E) m)"
    "\<forall>oc w. fst (k_GetFilteredMachinesForCluster (envKube ?E) oc w) = ([], None)"
    by (simp_all add: sample_anonymous_def sample_doomed_def answers_def succeeds_def sample_services sample_objects sample_lib_def)
  from deletion_without_identity_panics [OF client this prod.collapse [symmetric]] show ?thesis
    by (simp add: Let_def sample_anonymous_def sample_doomed_def)
qed

end
